(* ===== verification/Tracer_Prelude.thy ===== *)
theory Tracer_Prelude
  imports Main "HOL-Library.Word"
begin

text \<open>
  The prelude of the development: the machine types of the arm64 build, the errors a
  traced operation can end with, the formatting of numbers (what the sources use of
  \<^verbatim>\<open>fmt::format\<close>), \<^verbatim>\<open>std::lower_bound\<close> as the halving loop that
  the standard library runs, and the list lemmas that several components share.
\<close>

unbundle bit_operations_syntax

section \<open>Types and errors\<close>

type_synonym addr = "64 word"
type_synonym byte = "8 word"

text \<open>
  Memory of the process as the tracer reads it: no value where a read would fault.
\<close>

type_synonym memory = "addr \<Rightarrow> byte option"

text \<open>
  How an operation can fail to return normally: a read outside the mapped memory (with the
  faulting address), a null pointer that is dereferenced, the exception that formatting a null C string
  throws, a call of a closure whose captured frame is gone, an access by
  \<^verbatim>\<open>std::vector::at\<close> out of range, the exceptions of the logging library when a logger
  is created under a name that is registered or on a file that does not open, and the abort of
  the Java virtual machine on an invalid reference.
\<close>

datatype tracer_error =
    SegFault nat
  | NullDeref
  | FormatError
  | DanglingCapture
  | OutOfRange
  | LoggerExists
  | OpenFailed
  | JniAbort

type_synonym 'a result = "tracer_error + 'a"

definition bind_result :: "'a result \<Rightarrow> ('a \<Rightarrow> 'b result) \<Rightarrow> 'b result" where
  "bind_result m f = (case m of Inl e \<Rightarrow> Inl e | Inr x \<Rightarrow> f x)"

definition map_result :: "('a \<Rightarrow> 'b) \<Rightarrow> 'a result \<Rightarrow> 'b result" where
  "map_result f m = (case m of Inl e \<Rightarrow> Inl e | Inr x \<Rightarrow> Inr (f x))"

text \<open>A sequence of statements that each may fail: the first failure ends it.\<close>

fun fold_result :: "('x \<Rightarrow> 's \<Rightarrow> 's result) \<Rightarrow> 'x list \<Rightarrow> 's \<Rightarrow> 's result" where
  "fold_result f [] s = Inr s"
| "fold_result f (x # xs) s = bind_result (f x s) (fold_result f xs)"

section \<open>Printing numbers\<close>

definition hex_digit :: "nat \<Rightarrow> char" where
  "hex_digit n = ''0123456789abcdef'' ! n"

fun hex_digits :: "nat \<Rightarrow> string" where
  "hex_digits n = (if n < 16 then [hex_digit n] else hex_digits (n div 16) @ [hex_digit (n mod 16)])"

fun dec_digits :: "nat \<Rightarrow> string" where
  "dec_digits n = (if n < 10 then [hex_digit n] else dec_digits (n div 10) @ [hex_digit (n mod 10)])"

declare hex_digits.simps [simp del] dec_digits.simps [simp del]

text \<open>The replacement fields \<open>{:#x}\<close>, \<open>{:x}\<close> and \<open>{}\<close> on an unsigned value.\<close>

definition fmt_hex :: "'a::len word \<Rightarrow> string" where
  "fmt_hex w = ''0x'' @ hex_digits (unat w)"

definition fmt_dec :: "'a::len word \<Rightarrow> string" where
  "fmt_dec w = dec_digits (unat w)"

text \<open>Reading hexadecimal digits back, as a reader of the trace does.\<close>

definition hex_value :: "char \<Rightarrow> nat option" where
  "hex_value c =
     (if 48 \<le> (of_char c :: nat) \<and> (of_char c :: nat) \<le> 57 then Some (of_char c - 48)
      else if 97 \<le> (of_char c :: nat) \<and> (of_char c :: nat) \<le> 102 then Some (of_char c - 87)
      else None)"

definition read_hex :: "string \<Rightarrow> nat" where
  "read_hex = foldl (\<lambda>acc c. 16 * acc + (case hex_value c of Some v \<Rightarrow> v | None \<Rightarrow> 0)) 0"

section \<open>Substrings\<close>

text \<open>\<^verbatim>\<open>std::string::find\<close>: the position of the first occurrence.\<close>

fun find_sub :: "string \<Rightarrow> string \<Rightarrow> nat option" where
  "find_sub d [] = (if d = [] then Some 0 else None)"
| "find_sub d (c # s) =
     (if take (length d) (c # s) = d then Some 0 else map_option Suc (find_sub d s))"

section \<open>The binary search of the standard library\<close>

text \<open>
  \<^verbatim>\<open>std::lower_bound(first, last, value, comp)\<close>: \<open>p\<close> is \<open>comp(_, value)\<close>,
  \<open>i\<close> the index of the iterator \<open>first\<close>, \<open>len\<close> the distance that is left.
\<close>

function lower_bound_loop :: "('a \<Rightarrow> bool) \<Rightarrow> 'a list \<Rightarrow> nat \<Rightarrow> nat \<Rightarrow> nat" where
  "lower_bound_loop p xs i len =
     (if len = 0 then i
      else let half = len div 2; m = i + half in
        if p (xs ! m) then lower_bound_loop p xs (Suc m) (len - Suc half)
        else lower_bound_loop p xs i half)"
  by pat_completeness auto
termination
  by (relation "measure (\<lambda>(p, xs, i, len). len)") auto

declare lower_bound_loop.simps [simp del]

definition lower_bound :: "('a \<Rightarrow> bool) \<Rightarrow> 'a list \<Rightarrow> nat" where
  "lower_bound p xs = lower_bound_loop p xs 0 (length xs)"

text \<open>The standard's precondition: the range is partitioned by the comparison.\<close>

definition partitioned :: "('a \<Rightarrow> bool) \<Rightarrow> 'a list \<Rightarrow> bool" where
  "partitioned p xs \<longleftrightarrow> sorted_wrt (\<lambda>a b. p b \<longrightarrow> p a) xs"

section \<open>Shared lemmas\<close>

subsection \<open>Results\<close>

named_theorems result_simps \<open>unfolding of the result combinators\<close>

lemma bind_result_simps [simp, result_simps]:
  "bind_result (Inl e) f = Inl e"
  "bind_result (Inr x) f = f x"
  by (simp_all add: bind_result_def)

lemma map_result_simps [simp, result_simps]:
  "map_result f (Inl e) = Inl e"
  "map_result f (Inr x) = Inr (f x)"
  by (simp_all add: map_result_def)

lemma bind_result_eq_Inr:
  "bind_result m f = Inr y \<longleftrightarrow> (\<exists>x. m = Inr x \<and> f x = Inr y)"
  by (cases m) simp_all

lemma map_result_eq_Inr:
  "map_result f m = Inr y \<longleftrightarrow> (\<exists>x. m = Inr x \<and> f x = y)"
  by (cases m) simp_all

lemma fold_result_append:
  "fold_result f (xs @ ys) s = bind_result (fold_result f xs s) (fold_result f ys)"
proof (induction xs arbitrary: s)
  case (Cons x xs)
  then show ?case by (cases "f x s") simp_all
qed simp

lemma fold_result_Inr:
  assumes "\<And>x s. x \<in> set xs \<Longrightarrow> f x s = Inr (g x s)"
  shows "fold_result f xs s = Inr (fold g xs s)"
  using assms by (induction xs arbitrary: s) simp_all

lemma fold_result_first_error:
  assumes "fold_result f xs s = Inr s'" and "f x s' = Inl e"
  shows "fold_result f (xs @ x # ys) s = Inl e"
  using assms by (simp add: fold_result_append)

lemma fold_result_total:
  assumes "\<And>x s. P s \<Longrightarrow> \<exists>s'. f x s = Inr s' \<and> P s'" and "P s"
  shows "\<exists>s'. fold_result f xs s = Inr s' \<and> P s'"
  using assms(2)
proof (induction xs arbitrary: s)
  case (Cons x xs)
  obtain s1 where "f x s = Inr s1" "P s1" using assms(1) Cons.prems by blast
  with Cons.IH show ?case by simp
qed simp

lemma fold_result_invariant:
  assumes "fold_result f xs s = Inr s'" and "P s"
    and "\<And>x s s'. x \<in> set xs \<Longrightarrow> P s \<Longrightarrow> f x s = Inr s' \<Longrightarrow> P s'"
  shows "P s'"
  using assms
proof (induction xs arbitrary: s)
  case (Cons x xs)
  then show ?case by (auto simp: bind_result_eq_Inr)
qed simp

subsection \<open>Words\<close>

lemma unat_of_nat_small: "n < 2 ^ LENGTH('a) \<Longrightarrow> unat (of_nat n :: 'a::len word) = n"
  by (simp add: unat_of_nat take_bit_nat_eq_self)

subsection \<open>Prefixes\<close>

lemma takeWhile_shorter: "\<exists>x \<in> set xs. \<not> P x \<Longrightarrow> length (takeWhile P xs) < length xs"
  by (induction xs) auto

lemma find_SomeD: "find P xs = Some x \<Longrightarrow> x \<in> set xs \<and> P x"
  by (auto simp: find_Some_iff)

lemma find_append: "find P (xs @ ys) = (case find P xs of None \<Rightarrow> find P ys | Some x \<Rightarrow> Some x)"
  by (induction xs) simp_all

lemma find_sub_none: "CHR '':'' \<notin> set s \<Longrightarrow> find_sub '':'' s = None"
  by (induction s) auto

subsection \<open>Hexadecimal digits round trip\<close>

lemma hex_digit_cases:
  assumes "n < 16"
  shows "hex_value (hex_digit n) = Some n"
proof -
  from assms have "n \<in> set [0..<16]" by simp
  moreover have "list_all (\<lambda>n. hex_value (hex_digit n) = Some n) [0..<16]"
    by code_simp
  ultimately show ?thesis by (simp only: list_all_iff)
qed

lemma read_hex_append:
  "read_hex (s @ [c]) = 16 * read_hex s + (case hex_value c of Some v \<Rightarrow> v | None \<Rightarrow> 0)"
  by (simp add: read_hex_def)

lemma read_hex_digits: "read_hex (hex_digits n) = n"
proof (induction n rule: hex_digits.induct)
  case (1 n)
  show ?case
  proof (cases "n < 16")
    case True
    then show ?thesis
      by (simp add: hex_digits.simps [of n] read_hex_def hex_digit_cases)
  next
    case False
    then have "read_hex (hex_digits n) = 16 * (n div 16) + n mod 16"
      using 1 by (simp add: hex_digits.simps [of n] read_hex_append hex_digit_cases)
    then show ?thesis by simp
  qed
qed

lemma hex_digits_inj: "hex_digits m = hex_digits n \<longleftrightarrow> m = n"
  by (metis read_hex_digits)

lemma hex_digits_nonempty [simp]: "hex_digits n \<noteq> []"
  by (subst hex_digits.simps) simp

lemma fmt_hex_inj: "fmt_hex v = fmt_hex w \<longleftrightarrow> v = w"
  by (simp add: fmt_hex_def hex_digits_inj word_unat_eq_iff)

subsection \<open>Lower bound\<close>

lemma partitioned_nth:
  assumes "partitioned p xs" and "i \<le> j" and "j < length xs" and "p (xs ! j)"
  shows "p (xs ! i)"
proof (cases "i = j")
  case True
  with assms(4) show ?thesis by simp
next
  case False
  with assms show ?thesis
    unfolding partitioned_def sorted_wrt_iff_nth_less by (meson le_neq_implies_less)
qed

lemma lower_bound_loop_done: "lower_bound_loop p xs i 0 = i"
  by (subst lower_bound_loop.simps) simp

lemma lower_bound_loop_right:
  "len \<noteq> 0 \<Longrightarrow> p (xs ! (i + len div 2)) \<Longrightarrow>
   lower_bound_loop p xs i len = lower_bound_loop p xs (Suc (i + len div 2)) (len - Suc (len div 2))"
  by (subst lower_bound_loop.simps) (simp add: Let_def)

lemma lower_bound_loop_left:
  "len \<noteq> 0 \<Longrightarrow> \<not> p (xs ! (i + len div 2)) \<Longrightarrow>
   lower_bound_loop p xs i len = lower_bound_loop p xs i (len div 2)"
  by (subst lower_bound_loop.simps) (simp add: Let_def)

text \<open>
  What the loop keeps: everything before \<open>i\<close> satisfies \<open>p\<close>, nothing from
  \<open>i + len\<close> on does.
\<close>

definition lower_bound_inv :: "('a \<Rightarrow> bool) \<Rightarrow> 'a list \<Rightarrow> nat \<Rightarrow> nat \<Rightarrow> bool" where
  "lower_bound_inv p xs i len \<longleftrightarrow> i + len \<le> length xs \<and> (\<forall>k < i. p (xs ! k))
     \<and> (\<forall>k. i + len \<le> k \<longrightarrow> k < length xs \<longrightarrow> \<not> p (xs ! k))"

lemma lower_bound_loop_correct:
  "partitioned p xs \<Longrightarrow> lower_bound_inv p xs i len \<Longrightarrow>
   lower_bound_inv p xs (lower_bound_loop p xs i len) 0"
proof (induction len arbitrary: i rule: less_induct)
  case (less len)
  let ?m = "i + len div 2"
  show ?case
  proof (cases "len = 0")
    case True
    with less.prems(2) show ?thesis by (simp add: lower_bound_loop_done)
  next
    case False
    with less.prems(2) have m: "?m < length xs" and sum: "i + len \<le> length xs"
      by (auto simp: lower_bound_inv_def)
    show ?thesis
    proof (cases "p (xs ! ?m)")
      case True
      have "p (xs ! k)" if "k < Suc ?m" for k
        using partitioned_nth [OF less.prems(1) _ m True] that by simp
      then have "lower_bound_inv p xs (Suc ?m) (len - Suc (len div 2))"
        using less.prems(2) False unfolding lower_bound_inv_def by auto
      then show ?thesis
        using less.IH [OF _ less.prems(1)] False True by (simp add: lower_bound_loop_right)
    next
      case no: False
      have "\<not> p (xs ! k)" if "?m \<le> k" "k < length xs" for k
        using partitioned_nth [OF less.prems(1) that] no by blast
      then have "lower_bound_inv p xs i (len div 2)"
        using less.prems(2) m unfolding lower_bound_inv_def by auto
      then show ?thesis
        using less.IH [OF _ less.prems(1)] False no by (simp add: lower_bound_loop_left)
    qed
  qed
qed

lemma lower_bound_takeWhile:
  assumes "partitioned p xs"
  shows "lower_bound p xs = length (takeWhile p xs)"
proof -
  let ?i = "lower_bound p xs"
  have i: "?i \<le> length xs" "\<And>k. k < ?i \<Longrightarrow> p (xs ! k)"
    "\<And>k. ?i \<le> k \<Longrightarrow> k < length xs \<Longrightarrow> \<not> p (xs ! k)"
    using lower_bound_loop_correct [OF assms, of 0 "length xs"]
    by (auto simp: lower_bound_def lower_bound_inv_def)
  have "takeWhile p xs = take ?i xs"
    by (rule takeWhile_eq_take_P_nth) (use i in auto)
  then show ?thesis using i(1) by simp
qed

end
