(* ===== verification/Range_Set.thy ===== *)
theory Range_Set
  imports Tracer_Prelude
begin

text \<open>
  \<^verbatim>\<open>core/range.h\<close>: the half-open \<open>Range\<close> and the \<open>RangeSet\<close>, a vector of
  ranges that every operation keeps sorted, non-empty and non-touching. The template
  parameter is a linearly ordered type; the sizes are taken on machine words, the type
  the library instantiates it with. The denotation of a range set is the set of its
  points; the lemmas show that each operation computes the set operation it is named
  after, on every branch, and keeps the canonical form.
\<close>

section \<open>Range\<close>

record 'a Range =
  r_start :: 'a
  r_end :: 'a

definition Range_new :: "'a::linorder \<Rightarrow> 'a \<Rightarrow> 'a Range" where
  "Range_new s e = (if s < e then \<lparr>r_start = s, r_end = e\<rparr> else \<lparr>r_start = s, r_end = s\<rparr>)"

definition Range_setStart :: "'a::linorder Range \<Rightarrow> 'a \<Rightarrow> 'a Range" where
  "Range_setStart r s =
     (let r' = r\<lparr>r_start := s\<rparr> in if r_end r' < r_start r' then r'\<lparr>r_end := r_start r'\<rparr> else r')"

definition Range_setEnd :: "'a::linorder Range \<Rightarrow> 'a \<Rightarrow> 'a Range" where
  "Range_setEnd r e =
     (let r' = r\<lparr>r_end := e\<rparr> in if r_end r' < r_start r' then r'\<lparr>r_start := r_end r'\<rparr> else r')"

definition Range_size :: "'a::minus Range \<Rightarrow> 'a" where
  "Range_size r = r_end r - r_start r"

definition Range_eq :: "'a Range \<Rightarrow> 'a Range \<Rightarrow> bool" where
  "Range_eq this r \<longleftrightarrow> r_start r = r_start this \<and> r_end r = r_end this"

definition Range_contains :: "'a::linorder Range \<Rightarrow> 'a \<Rightarrow> bool" where
  "Range_contains r t \<longleftrightarrow> r_start r \<le> t \<and> t < r_end r"

definition Range_contains_range :: "'a::linorder Range \<Rightarrow> 'a Range \<Rightarrow> bool" where
  "Range_contains_range this r \<longleftrightarrow> r_start this \<le> r_start r \<and> r_end r \<le> r_end this"

definition Range_overlaps :: "'a::linorder Range \<Rightarrow> 'a Range \<Rightarrow> bool" where
  "Range_overlaps this r \<longleftrightarrow> r_start this < r_end r \<and> r_start r < r_end this"

definition Range_intersect :: "'a::linorder Range \<Rightarrow> 'a Range \<Rightarrow> 'a Range" where
  "Range_intersect this r =
     Range_new (if r_start this > r_start r then r_start this else r_start r)
               (if r_end this < r_end r then r_end this else r_end r)"

definition Range_display :: "'a::len word Range \<Rightarrow> string" where
  "Range_display r = ''(0x'' @ hex_digits (unat (r_start r)) @ '', 0x'' @ hex_digits (unat (r_end r)) @ '')''"

section \<open>RangeSet\<close>

type_synonym 'a RangeSet = "'a Range list"

definition RangeSet_new :: "'a RangeSet" where
  "RangeSet_new = []"

definition RangeSet_size :: "'a::len word RangeSet \<Rightarrow> 'a word" where
  "RangeSet_size ranges = foldl (\<lambda>sum r. sum + Range_size r) 0 ranges"

definition getElementRange :: "'a::linorder RangeSet \<Rightarrow> 'a \<Rightarrow> 'a Range option" where
  "getElementRange ranges t =
     (let lower = lower_bound (\<lambda>r. r_end r \<le> t) ranges in
      if lower = length ranges \<or> \<not> Range_contains (ranges ! lower) t then None
      else Some (ranges ! lower))"

definition RangeSet_contains :: "'a::linorder RangeSet \<Rightarrow> 'a \<Rightarrow> bool" where
  "RangeSet_contains ranges t \<longleftrightarrow> getElementRange ranges t \<noteq> None"

definition RangeSet_contains_range :: "'a::linorder RangeSet \<Rightarrow> 'a Range \<Rightarrow> bool" where
  "RangeSet_contains_range ranges t =
     (if r_end t \<le> r_start t then True
      else let lower = lower_bound (\<lambda>r. r_end r \<le> r_start t) ranges in
        if lower = length ranges then False else Range_contains_range (ranges ! lower) t)"

definition RangeSet_overlaps :: "'a::linorder RangeSet \<Rightarrow> 'a Range \<Rightarrow> bool" where
  "RangeSet_overlaps ranges t =
     (if r_end t \<le> r_start t then True
      else let lower = lower_bound (\<lambda>r. r_end r \<le> r_start t) ranges in
        if lower = length ranges then False else Range_overlaps (ranges ! lower) t)"

text \<open>
  The loop of \<open>add\<close> that looks for the end of the erase list: the ranges that the
  extended \<open>lower\<close> reaches are swallowed, and \<open>lower\<close> grows with them.
\<close>

fun absorb :: "'a::linorder Range \<Rightarrow> 'a Range list \<Rightarrow> 'a Range \<times> 'a Range list" where
  "absorb lower [] = (lower, [])"
| "absorb lower (r # rs) =
     (if r_end lower < r_start r then (lower, r # rs)
      else absorb (if r_end lower < r_end r then Range_setEnd lower (r_end r) else lower) rs)"

text \<open>Extend the start, then the end, of \<open>lower\<close> to those of \<open>t\<close>.\<close>

definition extend_lower :: "'a::linorder Range \<Rightarrow> 'a Range \<Rightarrow> 'a Range" where
  "extend_lower lower t =
     (let lower = (if r_start t < r_start lower then Range_setStart lower (r_start t) else lower)
      in if r_end lower < r_end t then Range_setEnd lower (r_end t) else lower)"

definition RangeSet_add :: "'a::linorder RangeSet \<Rightarrow> 'a Range \<Rightarrow> 'a RangeSet" where
  "RangeSet_add ranges t =
     (if r_end t \<le> r_start t then ranges
      else let i = lower_bound (\<lambda>r. r_end r < r_start t) ranges in
        if i = length ranges then ranges @ [t]
        else if r_end t < r_start (ranges ! i) then take i ranges @ t # drop i ranges
        else let (lower, rest) = absorb (extend_lower (ranges ! i) t) (drop (Suc i) ranges)
             in take i ranges @ lower # rest)"

definition RangeSet_add_all :: "'a::linorder RangeSet \<Rightarrow> 'a RangeSet \<Rightarrow> 'a RangeSet" where
  "RangeSet_add_all ranges t = foldl RangeSet_add ranges t"

text \<open>The loop of \<open>remove\<close>: ranges inside \<open>t\<close> are erased, one that \<open>t\<close> cuts keeps its end.\<close>

fun erase_covered :: "'a::linorder Range \<Rightarrow> 'a Range list \<Rightarrow> 'a Range list" where
  "erase_covered t [] = []"
| "erase_covered t (lower # rs) =
     (if r_end t \<le> r_start lower then lower # rs
      else if r_end t < r_end lower then Range_setStart lower (r_end t) # rs
      else erase_covered t rs)"

definition RangeSet_remove :: "'a::linorder RangeSet \<Rightarrow> 'a Range \<Rightarrow> 'a RangeSet" where
  "RangeSet_remove ranges t =
     (if r_end t \<le> r_start t then ranges
      else let i = lower_bound (\<lambda>r. r_end r \<le> r_start t) ranges in
        if i = length ranges then ranges
        else let lower = ranges ! i in
          if r_end t \<le> r_start lower then ranges
          else if r_start lower < r_start t then
            if r_end t < r_end lower then
              take i ranges @ Range_new (r_start lower) (r_start t)
                # Range_setStart lower (r_end t) # drop (Suc i) ranges
            else take i ranges @ Range_setEnd lower (r_start t) # erase_covered t (drop (Suc i) ranges)
          else take i ranges @ erase_covered t (drop i ranges))"

definition RangeSet_remove_all :: "'a::linorder RangeSet \<Rightarrow> 'a RangeSet \<Rightarrow> 'a RangeSet" where
  "RangeSet_remove_all ranges t = foldl RangeSet_remove ranges t"

fun intersect_loop :: "'a::linorder Range list \<Rightarrow> 'a Range list \<Rightarrow> 'a RangeSet \<Rightarrow> 'a RangeSet" where
  "intersect_loop [] others intersected = intersected"
| "intersect_loop (x # xs) [] intersected = intersected"
| "intersect_loop (x # xs) (y # ys) intersected =
     (let intersected = (if Range_overlaps x y then RangeSet_add intersected (Range_intersect x y)
                         else intersected) in
      if r_end x < r_end y then intersect_loop xs (y # ys) intersected
      else if r_end x = r_end y then intersect_loop xs ys intersected
      else intersect_loop (x # xs) ys intersected)"

definition RangeSet_intersect :: "'a::linorder RangeSet \<Rightarrow> 'a RangeSet \<Rightarrow> 'a RangeSet" where
  "RangeSet_intersect ranges t = intersect_loop ranges t RangeSet_new"

fun intersect_range_loop :: "'a::linorder Range \<Rightarrow> 'a Range list \<Rightarrow> 'a RangeSet \<Rightarrow> 'a RangeSet" where
  "intersect_range_loop t [] intersected = intersected"
| "intersect_range_loop t (lower # rs) intersected =
     (if Range_overlaps t lower
      then intersect_range_loop t rs (RangeSet_add intersected (Range_intersect t lower))
      else intersected)"

definition RangeSet_clear :: "'a RangeSet \<Rightarrow> 'a RangeSet" where
  "RangeSet_clear ranges = []"

definition RangeSet_intersect_range :: "'a::linorder RangeSet \<Rightarrow> 'a Range \<Rightarrow> 'a RangeSet" where
  "RangeSet_intersect_range ranges t =
     (let i = lower_bound (\<lambda>r. r_end r \<le> r_start t) ranges in
      if i = length ranges then RangeSet_clear ranges
      else intersect_range_loop t (drop i ranges) RangeSet_new)"

definition RangeSet_display :: "'a::len word RangeSet \<Rightarrow> string" where
  "RangeSet_display ranges = ''['' @ concat (map (\<lambda>r. Range_display r @ '', '') ranges) @ '']''"

definition RangeSet_eq :: "'a RangeSet \<Rightarrow> 'a RangeSet \<Rightarrow> bool" where
  "RangeSet_eq this r =
     (if length this \<noteq> length r then False
      else list_all (\<lambda>i. Range_eq (this ! i) (r ! i)) [0..<length r])"

section \<open>Denotation and canonical form\<close>

definition range_points :: "'a::linorder Range \<Rightarrow> 'a set" where
  "range_points r = {r_start r ..< r_end r}"

definition points :: "'a::linorder RangeSet \<Rightarrow> 'a set" where
  "points ranges = (\<Union>r \<in> set ranges. range_points r)"

definition canonical :: "'a::linorder RangeSet \<Rightarrow> bool" where
  "canonical ranges \<longleftrightarrow> sorted_wrt (\<lambda>a b. r_end a < r_start b) ranges
     \<and> (\<forall>r \<in> set ranges. r_start r < r_end r)"

named_theorems range_defs \<open>definitions of the operations on one range\<close>

lemmas range_op_defs [range_defs] =
  Range_new_def Range_setStart_def Range_setEnd_def Range_contains_def
  Range_contains_range_def Range_overlaps_def Range_intersect_def range_points_def

lemma points_simps [simp]:
  "points [] = {}"
  "points (r # rs) = range_points r \<union> points rs"
  "points (xs @ ys) = points xs \<union> points ys"
  by (auto simp: points_def)

lemma canonical_simps [simp]:
  "canonical []"
  "canonical (r # rs) \<longleftrightarrow> r_start r < r_end r \<and> (\<forall>b \<in> set rs. r_end r < r_start b) \<and> canonical rs"
  "canonical (xs @ ys) \<longleftrightarrow> canonical xs \<and> canonical ys
     \<and> (\<forall>a \<in> set xs. \<forall>b \<in> set ys. r_end a < r_start b)"
  by (auto simp: canonical_def sorted_wrt_append)

lemma range_size_simps [simp]:
  "s < e \<Longrightarrow> r_start (Range_new s e) = s"
  "s < e \<Longrightarrow> r_end (Range_new s e) = e"
  "s \<le> r_end r \<Longrightarrow> Range_setStart r s = r\<lparr>r_start := s\<rparr>"
  "r_start r \<le> e \<Longrightarrow> Range_setEnd r e = r\<lparr>r_end := e\<rparr>"
  by (auto simp: range_defs Let_def)

lemma canonical_partitioned:
  assumes "canonical rs"
  shows "partitioned (\<lambda>r. r_end r < v) rs" and "partitioned (\<lambda>r. r_end r \<le> v) rs"
  using assms unfolding partitioned_def canonical_def
  by (auto elim!: sorted_wrt_mono_rel [rotated] dest: less_trans order.strict_trans2)

lemma points_ge: "x \<in> points rs \<Longrightarrow> (\<And>b. b \<in> set rs \<Longrightarrow> c < r_start b) \<Longrightarrow> c < x"
  by (force simp: points_def range_points_def)

text \<open>
  Every search of the class splits the vector at the first range that reaches the
  value; the two forms differ in whether touching counts.
\<close>

lemma lower_bound_split:
  assumes "canonical rs" and p: "p = (\<lambda>r. r_end r < v) \<or> p = (\<lambda>r. r_end r \<le> v)"
  obtains us vs where "rs = us @ vs" "lower_bound p rs = length us" "\<forall>r \<in> set us. p r"
    "vs \<noteq> [] \<Longrightarrow> \<not> p (hd vs)"
proof
  show "rs = takeWhile p rs @ dropWhile p rs" by simp
  show "lower_bound p rs = length (takeWhile p rs)"
    using p canonical_partitioned [OF assms(1)] by (auto intro: lower_bound_takeWhile)
  show "\<forall>r \<in> set (takeWhile p rs). p r" by (auto dest: set_takeWhileD)
  show "dropWhile p rs \<noteq> [] \<Longrightarrow> \<not> p (hd (dropWhile p rs))" by (rule hd_dropWhile)
qed

section \<open>Queries\<close>

lemma getElementRange_eq:
  assumes "canonical rs"
  shows "getElementRange rs t = Some r \<longleftrightarrow> r \<in> set rs \<and> t \<in> range_points r"
proof -
  obtain us vs where s: "rs = us @ vs" "lower_bound (\<lambda>r. r_end r \<le> t) rs = length us"
    "\<forall>r \<in> set us. r_end r \<le> t" "vs \<noteq> [] \<Longrightarrow> \<not> r_end (hd vs) \<le> t"
    using lower_bound_split [OF assms, of "\<lambda>r. r_end r \<le> t" t] by metis
  show ?thesis
  proof (cases vs)
    case Nil
    with s show ?thesis by (force simp: getElementRange_def range_points_def)
  next
    case (Cons v vs')
    with s assms show ?thesis
      by (force simp: getElementRange_def range_defs nth_append)
  qed
qed

lemma RangeSet_contains_iff:
  assumes "canonical rs"
  shows "RangeSet_contains rs t \<longleftrightarrow> t \<in> points rs"
  using getElementRange_eq [OF assms, of t]
  by (auto simp: RangeSet_contains_def points_def)


lemma RangeSet_contains_range_iff:
  assumes "canonical rs" and "r_start t < r_end t"
  shows "RangeSet_contains_range rs t \<longleftrightarrow> range_points t \<subseteq> points rs"
proof -
  obtain us vs where s: "rs = us @ vs" "lower_bound (\<lambda>r. r_end r \<le> r_start t) rs = length us"
    "\<forall>r \<in> set us. r_end r \<le> r_start t" "vs \<noteq> [] \<Longrightarrow> \<not> r_end (hd vs) \<le> r_start t"
    using lower_bound_split [OF assms(1), of "\<lambda>r. r_end r \<le> r_start t" "r_start t"] by metis
  have us: "x \<notin> points us" if "x \<in> range_points t" for x
    using s(3) that by (fastforce simp: points_def range_points_def)
  show ?thesis
  proof (cases vs)
    case Nil
    with s us assms(2) show ?thesis
      by (auto simp: RangeSet_contains_range_def range_points_def)
  next
    case (Cons v vs')
    have v: "r_start v < r_end v" "\<And>b. b \<in> set vs' \<Longrightarrow> r_end v < r_start b"
      using assms(1) s(1) Cons by auto
    have first: "x \<in> range_points v" if "x \<in> points rs" "x \<in> range_points t" "x \<le> r_end v" for x
      using that us points_ge [of x vs' "r_end v"] v(2) s(1) Cons by force
    have "range_points t \<subseteq> points rs \<longleftrightarrow> Range_contains_range v t"
    proof
      assume sub: "range_points t \<subseteq> points rs"
      have "r_start t \<in> range_points v"
        using first [of "r_start t"] sub assms(2) s(4) Cons by (force simp: range_points_def)
      moreover have "r_end t \<le> r_end v"
      proof (rule ccontr)
        assume "\<not> r_end t \<le> r_end v"
        then have "r_end v \<in> range_points t" using s(4) Cons by (auto simp: range_points_def)
        then have "r_end v \<in> range_points v" using first [of "r_end v"] sub by blast
        then show False by (simp add: range_points_def)
      qed
      ultimately show "Range_contains_range v t" by (simp add: range_defs)
    next
      assume "Range_contains_range v t"
      then show "range_points t \<subseteq> points rs" using s(1) Cons by (auto simp: range_defs)
    qed
    then show ?thesis
      using s assms(2) Cons by (simp add: RangeSet_contains_range_def nth_append not_le [symmetric])
  qed
qed

lemma RangeSet_overlaps_iff:
  assumes "canonical rs" and "r_start t < r_end t"
  shows "RangeSet_overlaps rs t \<longleftrightarrow> points rs \<inter> range_points t \<noteq> {}"
proof -
  obtain us vs where s: "rs = us @ vs" "lower_bound (\<lambda>r. r_end r \<le> r_start t) rs = length us"
    "\<forall>r \<in> set us. r_end r \<le> r_start t" "vs \<noteq> [] \<Longrightarrow> \<not> r_end (hd vs) \<le> r_start t"
    using lower_bound_split [OF assms(1), of "\<lambda>r. r_end r \<le> r_start t" "r_start t"] by metis
  have us: "points us \<inter> range_points t = {}"
    using s(3) by (fastforce simp: points_def range_points_def)
  show ?thesis
  proof (cases vs)
    case Nil
    with s us assms(2) show ?thesis by (auto simp: RangeSet_overlaps_def)
  next
    case (Cons v vs')
    have v: "r_start v < r_end v" "\<And>b. b \<in> set vs' \<Longrightarrow> r_end v < r_start b"
      using assms(1) s(1) Cons by auto
    have "Range_overlaps v t" if "x \<in> points rs" "x \<in> range_points t" for x
      using that us points_ge [of x vs' "r_end v"] v s Cons by (force simp: range_defs)
    moreover have "max (r_start v) (r_start t) \<in> points rs \<inter> range_points t" if "Range_overlaps v t"
      using that s(1,4) Cons assms(2) v(1) by (auto simp: range_defs)
    ultimately have "Range_overlaps v t \<longleftrightarrow> points rs \<inter> range_points t \<noteq> {}" by blast
    then show ?thesis
      using s assms(2) Cons by (simp add: RangeSet_overlaps_def nth_append not_le [symmetric])
  qed
qed

section \<open>Insertion\<close>

lemma absorb_correct:
  assumes "absorb l rs = (l', rest)" and "r_start l < r_end l" and "canonical rs"
    and "\<forall>b \<in> set rs. r_start l \<le> r_start b"
  shows "r_start l' = r_start l \<and> canonical (l' # rest)
    \<and> points (l' # rest) = range_points l \<union> points rs"
  using assms
proof (induction l rs rule: absorb.induct)
  case (1 l)
  then show ?case by auto
next
  case (2 l r rs)
  show ?case
  proof (cases "r_end l < r_start r")
    case True
    with "2.prems" show ?thesis by force
  next
    case False
    let ?l = "if r_end l < r_end r then Range_setEnd l (r_end r) else l"
    have l: "r_start ?l = r_start l" "r_start ?l < r_end ?l"
      "range_points ?l = range_points l \<union> range_points r"
      using "2.prems" False by (auto simp: range_points_def)
    have "r_start l' = r_start ?l \<and> canonical (l' # rest)
      \<and> points (l' # rest) = range_points ?l \<union> points rs"
      by (rule "2.IH" [OF False]) (use "2.prems" False l in auto)
    with l show ?thesis by auto
  qed
qed

lemma RangeSet_add_correct:
  assumes "canonical rs"
  shows "canonical (RangeSet_add rs t) \<and> points (RangeSet_add rs t) = points rs \<union> range_points t"
proof (cases "r_end t \<le> r_start t")
  case True
  with assms show ?thesis by (simp add: RangeSet_add_def range_points_def)
next
  case False
  then have t: "r_start t < r_end t" by simp
  obtain us vs where s: "rs = us @ vs" "lower_bound (\<lambda>r. r_end r < r_start t) rs = length us"
    "\<forall>r \<in> set us. r_end r < r_start t" "vs \<noteq> [] \<Longrightarrow> \<not> r_end (hd vs) < r_start t"
    using lower_bound_split [OF assms, of "\<lambda>r. r_end r < r_start t" "r_start t"] by metis
  show ?thesis
  proof (cases vs)
    case Nil
    with s t assms show ?thesis by (auto simp: RangeSet_add_def)
  next
    case (Cons v vs')
    show ?thesis
    proof (cases "r_end t < r_start v")
      case True
      then have "RangeSet_add rs t = us @ t # vs"
        using s(1,2) t Cons by (simp add: RangeSet_add_def not_le [symmetric])
      moreover have "\<forall>b \<in> set vs. r_end t < r_start b"
        using True assms s(1) Cons by force
      ultimately show ?thesis using s(1,3) t assms by auto
    next
      case meet: False
      define l2 where "l2 = extend_lower v t"
      obtain l' rest where ab: "absorb l2 vs' = (l', rest)" by fastforce
      have add: "RangeSet_add rs t = us @ l' # rest"
        using s(1,2) False Cons meet ab by (simp add: RangeSet_add_def l2_def nth_append)
      have v: "r_start v < r_end v" "\<forall>b \<in> set vs'. r_end v < r_start b" "canonical vs'"
        "\<forall>a \<in> set us. r_end a < r_start v" "canonical us" "r_start t \<le> r_end v"
        using assms s Cons by auto
      have l2: "r_start l2 = min (r_start t) (r_start v)" "r_start l2 < r_end l2"
        "range_points l2 = range_points v \<union> range_points t"
        using v t meet by (auto simp: l2_def extend_lower_def Let_def range_points_def)
      have "r_start l' = r_start l2 \<and> canonical (l' # rest)
        \<and> points (l' # rest) = range_points l2 \<union> points vs'"
        by (rule absorb_correct [OF ab l2(2) v(3)])
          (metis l2(1) v(1,2) min.coboundedI2 less_imp_le less_trans)
      moreover have "\<forall>a \<in> set us. \<forall>b \<in> set (l' # rest). r_end a < r_start b"
      proof (intro ballI)
        fix a b assume ab: "a \<in> set us" "b \<in> set (l' # rest)"
        have "r_end a < r_start l2" using ab(1) s(3) v(4) l2(1) by simp
        moreover have "r_start l2 \<le> r_start b"
          using calculation ab(2) \<open>r_start l' = r_start l2 \<and> _ \<and> _\<close> by fastforce
        ultimately show "r_end a < r_start b" by simp
      qed
      ultimately show ?thesis
        using add v(5) s(1) Cons l2(3) by auto
    qed
  qed
qed


section \<open>Removal\<close>

lemma erase_covered_lower:
  "r_start t < r_end t \<Longrightarrow> b \<in> set (erase_covered t rs) \<Longrightarrow>
   \<exists>b' \<in> set rs. r_start b' \<le> r_start b"
proof (induction t rs rule: erase_covered.induct)
  case (2 t l rs)
  then show ?case by (fastforce split: if_splits)
qed simp

lemma erase_covered_correct:
  assumes "canonical rs" and "\<forall>b \<in> set rs. r_start t \<le> r_start b" and "r_start t < r_end t"
  shows "canonical (erase_covered t rs) \<and> points (erase_covered t rs) = points rs - range_points t"
  using assms
proof (induction t rs rule: erase_covered.induct)
  case (1 t)
  then show ?case by simp
next
  case (2 t l rs)
  have after: "r_end l < x" if "x \<in> points rs" for x
    using points_ge [OF that, of "r_end l"] "2.prems"(1) by simp
  consider (beyond) "r_end t \<le> r_start l" | (cut) "r_start l < r_end t" "r_end t < r_end l"
    | (inside) "r_start l < r_end t" "r_end l \<le> r_end t"
    by fastforce
  then show ?case
  proof cases
    case beyond
    then have "points (l # rs) \<inter> range_points t = {}"
      using after "2.prems"(1) by (force simp: range_points_def)
    with beyond "2.prems"(1) show ?thesis by auto
  next
    case cut
    then have "erase_covered t (l # rs) = l\<lparr>r_start := r_end t\<rparr> # rs" by (simp add: not_le)
    moreover have "range_points (l\<lparr>r_start := r_end t\<rparr>) = range_points l - range_points t"
      using cut "2.prems"(2) by (auto simp: range_points_def)
    moreover have "points rs \<inter> range_points t = {}"
      using after cut by (force simp: range_points_def)
    ultimately show ?thesis using cut "2.prems"(1) by auto
  next
    case inside
    then have "erase_covered t (l # rs) = erase_covered t rs" by auto
    moreover have "range_points l \<subseteq> range_points t"
      using inside "2.prems"(2) by (auto simp: range_points_def)
    ultimately show ?thesis using "2.IH" "2.prems" inside by (auto simp: not_le not_less)
  qed
qed

lemma erase_covered_after:
  assumes "r_start t < r_end t" and "\<forall>b \<in> set rs. c < r_start b"
  shows "\<forall>b \<in> set (erase_covered t rs). c < r_start b"
  using erase_covered_lower [OF assms(1)] assms(2) by (meson less_le_trans)

lemma RangeSet_remove_correct:
  assumes "canonical rs"
  shows "canonical (RangeSet_remove rs t)
    \<and> points (RangeSet_remove rs t) = points rs - range_points t"
proof (cases "r_end t \<le> r_start t")
  case True
  with assms show ?thesis by (simp add: RangeSet_remove_def range_points_def)
next
  case False
  then have t: "r_start t < r_end t" by simp
  obtain us vs where s: "rs = us @ vs" "lower_bound (\<lambda>r. r_end r \<le> r_start t) rs = length us"
    "\<forall>r \<in> set us. r_end r \<le> r_start t" "vs \<noteq> [] \<Longrightarrow> \<not> r_end (hd vs) \<le> r_start t"
    using lower_bound_split [OF assms, of "\<lambda>r. r_end r \<le> r_start t" "r_start t"] by metis
  have us: "points us \<inter> range_points t = {}"
    using s(3) by (fastforce simp: points_def range_points_def)
  show ?thesis
  proof (cases vs)
    case Nil
    with s us assms show ?thesis by (auto simp: RangeSet_remove_def)
  next
    case (Cons v vs')
    have v: "r_start v < r_end v" "\<forall>b \<in> set vs'. r_end v < r_start b" "canonical vs'"
      "\<forall>a \<in> set us. r_end a < r_start v" "\<forall>a \<in> set us. \<forall>b \<in> set vs'. r_end a < r_start b"
      "canonical us" "r_start t < r_end v"
      using assms s Cons by auto
    have after: "r_end v < x" if "x \<in> points vs'" for x
      using points_ge [OF that, of "r_end v"] v(2) by simp
    have disj: "points vs' \<inter> range_points t = {}" if "r_end t \<le> r_end v"
      using after that by (force simp: range_points_def)
    consider (before) "r_end t \<le> r_start v"
      | (split) "r_start v < r_start t" "r_end t < r_end v"
      | (reduce) "r_start v < r_start t" "r_end v \<le> r_end t"
      | (erase) "r_start t \<le> r_start v" "r_start v < r_end t"
      using v(7) by fastforce
    then show ?thesis
    proof cases
      case before
      then have "RangeSet_remove rs t = rs"
        using s(1,2) Cons by (simp add: RangeSet_remove_def nth_append)
      moreover have "range_points v \<inter> range_points t = {}"
        using before by (auto simp: range_points_def)
      moreover have "r_end t \<le> r_end v" using before v(1) by simp
      ultimately show ?thesis using disj us assms s(1) Cons by auto
    next
      case split
      then have "RangeSet_remove rs t = us @ Range_new (r_start v) (r_start t)
          # v\<lparr>r_start := r_end t\<rparr> # vs'"
        using s(1,2) Cons t False less_trans [OF split(1) t] by (auto simp: RangeSet_remove_def nth_append Let_def)
      moreover have "range_points (Range_new (r_start v) (r_start t))
          \<union> range_points (v\<lparr>r_start := r_end t\<rparr>) = range_points v - range_points t"
        using split t by (auto simp: range_points_def)
      ultimately show ?thesis
        using split v t us disj s(1) Cons by (auto simp: less_imp_le)
    next
      case reduce
      have rem: "RangeSet_remove rs t = us @ v\<lparr>r_end := r_start t\<rparr> # erase_covered t vs'"
        using reduce s(1,2) Cons t v(7) by (auto simp: RangeSet_remove_def nth_append Let_def)
      have ge: "\<forall>b \<in> set vs'. r_start t \<le> r_start b" "\<forall>b \<in> set vs'. r_start t < r_start b"
        using v(2,7) by (auto intro: less_imp_le less_trans)
      have pts: "range_points (v\<lparr>r_end := r_start t\<rparr>) = range_points v - range_points t"
        using reduce v(7) by (auto simp: range_points_def)
      show ?thesis
        using rem erase_covered_correct [OF v(3) ge(1) t] erase_covered_after [OF t ge(2)]
          erase_covered_after [OF t] v reduce us pts s(1) Cons
        by auto
    next
      case erase
      have rem: "RangeSet_remove rs t = us @ erase_covered t vs"
        using erase s(1,2) Cons t by (auto simp: RangeSet_remove_def nth_append Let_def)
      have vs: "canonical vs" "\<forall>b \<in> set vs. r_start t \<le> r_start b"
        "\<forall>a \<in> set us. \<forall>b \<in> set vs. r_end a < r_start b"
        using assms s(1) Cons erase v by (auto intro: less_imp_le less_trans)
      show ?thesis
        using rem erase_covered_correct [OF vs(1,2) t] erase_covered_after [OF t, of vs] vs(3)
          v(6) us s(1) by auto
    qed
  qed
qed


section \<open>Intersection\<close>

lemma Range_intersect_points:
  "range_points (Range_intersect x y) = range_points x \<inter> range_points y"
  by (auto simp: range_defs)

lemma Range_overlaps_disjoint:
  "\<not> Range_overlaps x y \<Longrightarrow> range_points x \<inter> range_points y = {}"
  by (auto simp: range_defs)

lemma add_overlap_correct:
  assumes "canonical acc"
    and "acc' = (if Range_overlaps x y then RangeSet_add acc (Range_intersect x y) else acc)"
  shows "canonical acc'" and "points acc' = points acc \<union> (range_points x \<inter> range_points y)"
  using assms RangeSet_add_correct [OF assms(1), of "Range_intersect x y"]
    Range_overlaps_disjoint [of x y]
  by (auto simp: Range_intersect_points)

text \<open>A range that ends no later than \<open>y\<close> does meets nothing that follows \<open>y\<close>.\<close>

lemma points_after_disjoint:
  assumes "canonical (y # ys)" and "r_end x \<le> r_end y"
  shows "range_points x \<inter> points ys = {}"
  using assms points_ge [of _ ys "r_end y"] by (fastforce simp: range_points_def)

lemma intersect_loop_correct:
  "canonical xs \<Longrightarrow> canonical ys \<Longrightarrow> canonical acc \<Longrightarrow>
   canonical (intersect_loop xs ys acc)
   \<and> points (intersect_loop xs ys acc) = points acc \<union> (points xs \<inter> points ys)"
proof (induction xs ys acc rule: intersect_loop.induct)
  case (3 x xs y ys acc)
  define acc' where
    "acc' = (if Range_overlaps x y then RangeSet_add acc (Range_intersect x y) else acc)"
  note acc' = add_overlap_correct [OF "3.prems"(3) acc'_def]
  have IH: "r_end x < r_end y \<Longrightarrow> canonical (intersect_loop xs (y # ys) acc')
        \<and> points (intersect_loop xs (y # ys) acc') = points acc' \<union> (points xs \<inter> points (y # ys))"
    "r_end x = r_end y \<Longrightarrow> canonical (intersect_loop xs ys acc')
        \<and> points (intersect_loop xs ys acc') = points acc' \<union> (points xs \<inter> points ys)"
    "r_end y < r_end x \<Longrightarrow> canonical (intersect_loop (x # xs) ys acc')
        \<and> points (intersect_loop (x # xs) ys acc') = points acc' \<union> (points (x # xs) \<inter> points ys)"
    using "3.IH" "3.prems" acc'(1) by (auto simp: acc'_def)
  have drop_x: "range_points x \<inter> points ys = {}" if "r_end x \<le> r_end y"
    using points_after_disjoint [OF "3.prems"(2) that] .
  have drop_y: "range_points y \<inter> points xs = {}" if "r_end y \<le> r_end x"
    using points_after_disjoint [OF "3.prems"(1) that] .
  have unfold: "intersect_loop (x # xs) (y # ys) acc =
      (if r_end x < r_end y then intersect_loop xs (y # ys) acc'
       else if r_end x = r_end y then intersect_loop xs ys acc'
       else intersect_loop (x # xs) ys acc')"
    by (simp add: acc'_def Let_def)
  consider "r_end x < r_end y" | "r_end x = r_end y" | "r_end y < r_end x" by fastforce
  then show ?case
  proof cases
    case 1
    then show ?thesis using IH(1) drop_x [OF less_imp_le [OF 1]] acc'(2) unfolding unfold by auto
  next
    case 2
    then show ?thesis using IH(2) drop_x drop_y acc'(2) unfolding unfold by auto
  next
    case 3
    then show ?thesis using IH(3) drop_y [OF less_imp_le [OF 3]] acc'(2) unfolding unfold by auto
  qed
qed auto

lemma RangeSet_intersect_correct:
  assumes "canonical xs" and "canonical ys"
  shows "canonical (RangeSet_intersect xs ys)
    \<and> points (RangeSet_intersect xs ys) = points xs \<inter> points ys"
  using intersect_loop_correct [OF assms, of "[]"]
  by (simp add: RangeSet_intersect_def RangeSet_new_def)

lemma intersect_range_loop_correct:
  "canonical rs \<Longrightarrow> canonical acc \<Longrightarrow> (\<forall>r \<in> set rs. r_start t < r_end r) \<Longrightarrow>
   canonical (intersect_range_loop t rs acc)
   \<and> points (intersect_range_loop t rs acc) = points acc \<union> (points rs \<inter> range_points t)"
proof (induction t rs acc rule: intersect_range_loop.induct)
  case (2 t l rs acc)
  show ?case
  proof (cases "Range_overlaps t l")
    case True
    with 2 RangeSet_add_correct [OF "2.prems"(2), of "Range_intersect t l"] show ?thesis
      by (auto simp: Range_intersect_points)
  next
    case False
    have "x \<notin> range_points t" if "x \<in> points rs" for x
      using False that points_ge [of x rs "r_end l"] "2.prems"(1,3) by (force simp: range_defs)
    with False 2 Range_overlaps_disjoint [OF False] show ?thesis by auto
  qed
qed auto

lemma RangeSet_intersect_range_correct:
  assumes "canonical rs"
  shows "canonical (RangeSet_intersect_range rs t)
    \<and> points (RangeSet_intersect_range rs t) = points rs \<inter> range_points t"
proof -
  obtain us vs where s: "rs = us @ vs" "lower_bound (\<lambda>r. r_end r \<le> r_start t) rs = length us"
    "\<forall>r \<in> set us. r_end r \<le> r_start t" "vs \<noteq> [] \<Longrightarrow> \<not> r_end (hd vs) \<le> r_start t"
    using lower_bound_split [OF assms, of "\<lambda>r. r_end r \<le> r_start t" "r_start t"] by metis
  have us: "points us \<inter> range_points t = {}"
    using s(3) by (fastforce simp: points_def range_points_def)
  have "r_start t < r_end r" if r: "r \<in> set vs" for r
  proof -
    obtain v vs' where vs: "vs = v # vs'" using r by (cases vs) auto
    then have "r_start t < r_end v" using s(4) by simp
    moreover have "r_end v < r_start b" if "b \<in> set vs'" for b
      using that vs s(1) assms by simp
    moreover have "r_start b < r_end b" if "b \<in> set rs" for b
      using that assms by (simp add: canonical_def)
    ultimately show ?thesis using r vs s(1) by (metis Un_iff less_trans set_ConsD set_append)
  qed
  then show ?thesis
    using s(1,2) us assms intersect_range_loop_correct [of vs "[]" t]
    by (auto simp: RangeSet_intersect_range_def RangeSet_clear_def RangeSet_new_def Let_def)
qed

section \<open>Size and equality\<close>

lemma RangeSet_size_sum:
  "foldl (\<lambda>sum r. sum + Range_size r) c rs = c + sum_list (map Range_size rs)"
  for c :: "'a::len word"
  by (induction rs arbitrary: c) (simp_all add: add.assoc)

lemma unat_Range_size:
  "r_start r < r_end r \<Longrightarrow> unat (Range_size r) = unat (r_end r) - unat (r_start r)"
  for r :: "'a::len word Range"
  by (simp add: Range_size_def unat_sub order.strict_implies_order)

lemma card_range_points: "card (range_points r) = unat (r_end r) - unat (r_start r)"
  for r :: "'a::len word Range"
proof -
  have "unat ` {r_start r ..< r_end r} = {unat (r_start r) ..< unat (r_end r)}"
  proof (intro equalityI subsetI)
    fix k assume k: "k \<in> {unat (r_start r) ..< unat (r_end r)}"
    moreover have "unat (r_end r) < 2 ^ LENGTH('a)" by (rule unsigned_less)
    ultimately have "k < 2 ^ LENGTH('a)" by (auto intro: less_trans)
    then have "unat (of_nat k :: 'a word) = k" by (simp add: unat_of_nat take_bit_nat_eq_self)
    with k show "k \<in> unat ` {r_start r ..< r_end r}"
      by (intro image_eqI [of _ _ "of_nat k"]) (auto simp: word_le_nat_alt word_less_nat_alt)
  qed (auto simp: word_le_nat_alt word_less_nat_alt)
  moreover have "inj_on unat {r_start r ..< r_end r}" by (simp add: inj_on_def word_unat_eq_iff)
  ultimately show ?thesis
    unfolding range_points_def by (metis card_atLeastLessThan card_image)
qed

text \<open>
  The ranges lie one after the other below the largest word, so the sum of their sizes
  cannot wrap around.
\<close>

lemma canonical_size:
  fixes rs :: "'a::len word RangeSet"
  assumes "canonical rs" and "\<forall>r \<in> set rs. c \<le> r_start r"
  shows "unat c + card (points rs) < 2 ^ LENGTH('a)
    \<and> unat (sum_list (map Range_size rs)) = card (points rs)"
  using assms
proof (induction rs arbitrary: c)
  case Nil
  then show ?case by simp
next
  case (Cons r rs)
  have r: "r_start r < r_end r" "c \<le> r_start r" using Cons.prems by auto
  have IH: "unat (r_end r) + card (points rs) < 2 ^ LENGTH('a)"
    "unat (sum_list (map Range_size rs)) = card (points rs)"
    using Cons.IH [of "r_end r"] Cons.prems by (auto intro: less_imp_le)
  have "range_points r \<inter> points rs = {}"
    using points_after_disjoint [of r rs r] Cons.prems(1) by simp
  then have card: "card (points (r # rs)) = (unat (r_end r) - unat (r_start r)) + card (points rs)"
    by (simp add: card_Un_disjoint card_range_points)
  have le: "unat c \<le> unat (r_start r)" "unat (r_start r) < unat (r_end r)"
    using r by (auto simp: word_le_nat_alt word_less_nat_alt)
  then have "unat c + card (points (r # rs)) < 2 ^ LENGTH('a)" using card IH(1) by linarith
  moreover have "unat (sum_list (map Range_size (r # rs))) = card (points (r # rs))"
    using card IH le unat_Range_size [OF r(1)] by (simp add: unat_word_ariths)
  ultimately show ?case by blast
qed

lemma points_start_le:
  assumes "canonical (a # xs)" and "x \<in> points (a # xs)"
  shows "r_start a \<le> x"
proof (cases "x \<in> range_points a")
  case True
  then show ?thesis by (simp add: range_points_def)
next
  case False
  then have "r_end a < x" using assms points_ge [of x xs "r_end a"] by auto
  then show ?thesis using assms(1) by (auto intro: less_imp_le less_trans)
qed

lemma end_not_in_points:
  assumes "canonical (a # xs)"
  shows "r_end a \<notin> points (a # xs)"
  using assms points_ge [of "r_end a" xs "r_end a"] by (auto simp: range_points_def)

lemma canonical_unique:
  "canonical xs \<Longrightarrow> canonical ys \<Longrightarrow> points xs = points ys \<Longrightarrow> xs = ys"
proof (induction xs arbitrary: ys)
  case Nil
  then show ?case by (cases ys) (auto simp: range_points_def)
next
  case (Cons a xs)
  have a: "r_start a \<in> points ys" "r_start a < r_end a"
    using Cons.prems by (auto simp: range_points_def)
  then obtain b zs where ys: "ys = b # zs" by (cases ys) auto
  have b: "r_start b \<in> points (a # xs)" "r_start b < r_end b"
    using Cons.prems ys by (auto simp: range_points_def)
  have start: "r_start a = r_start b"
    using points_start_le [OF Cons.prems(1) b(1)] points_start_le [of b zs "r_start a"]
      a(1) Cons.prems(2) ys by simp
  have "r_end a = r_end b"
  proof (rule ccontr)
    assume "r_end a \<noteq> r_end b"
    then consider "r_end a < r_end b" | "r_end b < r_end a" by fastforce
    then show False
    proof cases
      case 1
      then have "r_end a \<in> points ys" using ys a(2) start by (auto simp: range_points_def)
      then show False using end_not_in_points [OF Cons.prems(1)] Cons.prems(3) by blast
    next
      case 2
      then have "r_end b \<in> points (a # xs)" using b(2) start by (auto simp: range_points_def)
      then show False using end_not_in_points [of b zs] Cons.prems(2,3) ys by blast
    qed
  qed
  then have "a = b" using start by simp
  have "points xs = points (a # xs) - range_points a" "points zs = points (b # zs) - range_points b"
    using points_after_disjoint [of a xs a] points_after_disjoint [of b zs b] Cons.prems(1,2) ys by auto
  then have "points xs = points zs" using Cons.prems(3) ys \<open>a = b\<close> by simp
  then show ?case using Cons.IH [of zs] Cons.prems ys \<open>a = b\<close> by simp
qed

lemma RangeSet_eq_iff: "RangeSet_eq xs ys \<longleftrightarrow> xs = ys"
proof -
  have "Range_eq a b \<longleftrightarrow> a = b" for a b :: "'a Range"
    by (auto simp: Range_eq_def)
  then show ?thesis
    unfolding RangeSet_eq_def list_all_iff list_eq_iff_nth_eq by auto
qed


section \<open>The interface\<close>

text \<open>
  What a client of a range set relies on: an abstract set of points, and operations on
  it that take a range. The clients' facts are proved once, from these laws: adding or
  removing a whole vector of ranges, and any sequence of operations.
\<close>

datatype 'r set_op = OpAdd 'r | OpRemove 'r

locale interval_set =
  fixes empty :: 's
    and add :: "'s \<Rightarrow> 'r \<Rightarrow> 's"
    and remove :: "'s \<Rightarrow> 'r \<Rightarrow> 's"
    and member :: "'s \<Rightarrow> 'p \<Rightarrow> bool"
    and denote :: "'s \<Rightarrow> 'p set"
    and extent :: "'r \<Rightarrow> 'p set"
    and invar :: "'s \<Rightarrow> bool"
  assumes invar_empty: "invar empty"
    and denote_empty: "denote empty = {}"
    and invar_add: "invar s \<Longrightarrow> invar (add s r)"
    and denote_add: "invar s \<Longrightarrow> denote (add s r) = denote s \<union> extent r"
    and invar_remove: "invar s \<Longrightarrow> invar (remove s r)"
    and denote_remove: "invar s \<Longrightarrow> denote (remove s r) = denote s - extent r"
    and member_iff: "invar s \<Longrightarrow> member s x \<longleftrightarrow> x \<in> denote s"
begin

lemma foldl_add:
  "invar s \<Longrightarrow> invar (foldl add s rs) \<and> denote (foldl add s rs) = denote s \<union> (\<Union>r \<in> set rs. extent r)"
  by (induction rs arbitrary: s) (auto simp: invar_add denote_add)

lemma foldl_remove:
  "invar s \<Longrightarrow> invar (foldl remove s rs) \<and> denote (foldl remove s rs) = denote s - (\<Union>r \<in> set rs. extent r)"
  by (induction rs arbitrary: s) (auto simp: invar_remove denote_remove)

definition apply_op :: "'s \<Rightarrow> 'r set_op \<Rightarrow> 's" where
  "apply_op s op = (case op of OpAdd r \<Rightarrow> add s r | OpRemove r \<Rightarrow> remove s r)"

lemma apply_op_invar: "invar s \<Longrightarrow> invar (apply_op s op)"
  by (cases op) (simp_all add: apply_op_def invar_add invar_remove)

lemma apply_op_member:
  "invar s \<Longrightarrow> member (apply_op s op) x \<longleftrightarrow>
     (case op of OpAdd r \<Rightarrow> member s x \<or> x \<in> extent r | OpRemove r \<Rightarrow> member s x \<and> x \<notin> extent r)"
  by (cases op)
    (simp_all add: apply_op_def member_iff invar_add invar_remove denote_add denote_remove)

lemma run_member:
  "invar s \<Longrightarrow> invar (foldl apply_op s ops) \<and> (member (foldl apply_op s ops) x \<longleftrightarrow>
     foldl (\<lambda>b op. case op of OpAdd r \<Rightarrow> b \<or> x \<in> extent r | OpRemove r \<Rightarrow> b \<and> x \<notin> extent r)
       (member s x) ops)"
proof (induction ops arbitrary: s)
  case (Cons op ops)
  then show ?case
    using Cons.IH [OF apply_op_invar [OF Cons.prems, of op]] apply_op_member [OF Cons.prems, of op x]
    by simp
qed simp

end

interpretation rset: interval_set RangeSet_new RangeSet_add RangeSet_remove RangeSet_contains
  points range_points "canonical :: 'a::linorder RangeSet \<Rightarrow> bool"
  by unfold_locales
    (simp_all add: RangeSet_new_def RangeSet_add_correct RangeSet_remove_correct RangeSet_contains_iff)

text \<open>The operations that take a whole range set, from the facts of the interface.\<close>

lemma RangeSet_add_all_correct:
  "canonical rs \<Longrightarrow> canonical (RangeSet_add_all rs ts)
   \<and> points (RangeSet_add_all rs ts) = points rs \<union> points ts"
  using rset.foldl_add [of rs ts] by (simp add: RangeSet_add_all_def points_def)

lemma RangeSet_remove_all_correct:
  "canonical rs \<Longrightarrow> canonical (RangeSet_remove_all rs ts)
   \<and> points (RangeSet_remove_all rs ts) = points rs - points ts"
  using rset.foldl_remove [of rs ts] by (simp add: RangeSet_remove_all_def points_def)


section \<open>Any sequence of operations\<close>

definition op_range :: "'r set_op \<Rightarrow> 'r" where
  "op_range op = (case op of OpAdd r \<Rightarrow> r | OpRemove r \<Rightarrow> r)"

definition is_add :: "'r set_op \<Rightarrow> bool" where
  "is_add op = (case op of OpAdd r \<Rightarrow> True | OpRemove r \<Rightarrow> False)"

definition RangeSet_run :: "'a::linorder Range set_op list \<Rightarrow> 'a RangeSet" where
  "RangeSet_run ops =
     foldl (\<lambda>s op. case op of OpAdd r \<Rightarrow> RangeSet_add s r | OpRemove r \<Rightarrow> RangeSet_remove s r)
       RangeSet_new ops"

text \<open>The abstract answer: the last operation whose range holds \<open>x\<close> is an \<open>add\<close>.\<close>

definition last_touch_adds :: "'a::linorder Range set_op list \<Rightarrow> 'a \<Rightarrow> bool" where
  "last_touch_adds ops x =
     (let touching = filter (\<lambda>op. Range_contains (op_range op) x) ops
      in touching \<noteq> [] \<and> is_add (last touching))"

lemma last_touch_adds_fold:
  "foldl (\<lambda>b op. case op of OpAdd r \<Rightarrow> b \<or> x \<in> range_points r
      | OpRemove r \<Rightarrow> b \<and> x \<notin> range_points r) False ops = last_touch_adds ops x"
proof (induction ops rule: rev_induct)
  case (snoc op ops)
  then show ?case
    by (cases op) (auto simp: last_touch_adds_def op_range_def is_add_def Let_def
      Range_contains_def range_points_def)
qed (simp add: last_touch_adds_def)

lemma RangeSet_run_foldl: "RangeSet_run ops = foldl rset.apply_op RangeSet_new ops"
  by (simp add: RangeSet_run_def rset.apply_op_def [abs_def])

section \<open>Properties\<close>

text \<open>
  C13: after any sequence of \<open>add\<close> and \<open>remove\<close> calls on a fresh range set the vector is
  sorted, non-empty and non-touching, and \<open>contains\<close> answers true exactly for the values
  whose last touching operation was an \<open>add\<close>.
\<close>

theorem rangeset_history:
  "canonical (RangeSet_run ops) \<and> (RangeSet_contains (RangeSet_run ops) x \<longleftrightarrow> last_touch_adds ops x)"
  using rset.run_member [OF rset.invar_empty, of ops x]
    RangeSet_contains_iff [of "RangeSet_new" x]
  by (simp add: RangeSet_run_foldl last_touch_adds_fold RangeSet_new_def)

text \<open>
  C14: \<open>add\<close> on a canonical range set gives a canonical one that denotes the union, for one
  range (empty, disjoint, touching, overlapping or spanning several) and for a whole set.
\<close>

theorem rangeset_add_union:
  assumes "canonical rs"
  shows "canonical (RangeSet_add rs t) \<and> points (RangeSet_add rs t) = points rs \<union> range_points t
    \<and> canonical (RangeSet_add_all rs ts) \<and> points (RangeSet_add_all rs ts) = points rs \<union> points ts"
  using RangeSet_add_correct [OF assms, of t] RangeSet_add_all_correct [OF assms, of ts] by simp

theorem rangeset_add_union_witness:
  "RangeSet_add [Range_new 1 3, Range_new 5 6, Range_new 8 (9::nat)] (Range_new 3 7)
     = [Range_new 1 7, Range_new 8 9]
   \<and> points (RangeSet_add [Range_new 1 3, Range_new 5 6, Range_new 8 (9::nat)] (Range_new 3 7))
     = points [Range_new 1 3, Range_new 5 6, Range_new 8 9] \<union> range_points (Range_new 3 7)"
proof -
  have can: "canonical [Range_new 1 3, Range_new 5 6, Range_new 8 (9::nat)]"
    by (simp add: Range_new_def)
  have "RangeSet_add [Range_new 1 3, Range_new 5 6, Range_new 8 (9::nat)] (Range_new 3 7)
     = [Range_new 1 7, Range_new 8 9]"
    by code_simp
  then show ?thesis using rangeset_add_union [OF can, of "Range_new 3 7"] by blast
qed

text \<open>
  \<open>remove\<close> on a canonical range set gives a canonical one that denotes the difference,
  also when it splits a range or cuts it at either end.
\<close>

theorem rangeset_remove_difference:
  assumes "canonical rs"
  shows "canonical (RangeSet_remove rs t) \<and> points (RangeSet_remove rs t) = points rs - range_points t
    \<and> canonical (RangeSet_remove_all rs ts)
    \<and> points (RangeSet_remove_all rs ts) = points rs - points ts"
  using RangeSet_remove_correct [OF assms, of t] RangeSet_remove_all_correct [OF assms, of ts] by simp

theorem rangeset_remove_difference_witness:
  "RangeSet_remove [Range_new 1 9, Range_new 10 (12::nat)] (Range_new 3 5)
     = [Range_new 1 3, Range_new 5 9, Range_new 10 12]
   \<and> points (RangeSet_remove [Range_new 1 9, Range_new 10 (12::nat)] (Range_new 3 5))
     = points [Range_new 1 9, Range_new 10 12] - range_points (Range_new 3 5)"
proof -
  have can: "canonical [Range_new 1 9, Range_new 10 (12::nat)]" by (simp add: Range_new_def)
  have "RangeSet_remove [Range_new 1 9, Range_new 10 (12::nat)] (Range_new 3 5)
     = [Range_new 1 3, Range_new 5 9, Range_new 10 12]"
    by code_simp
  then show ?thesis using rangeset_remove_difference [OF can, of "Range_new 3 5"] by blast
qed

text \<open>
  C15: both \<open>intersect\<close> operations, the merge walk over two range sets and the one with a
  single range, give a canonical range set that denotes the intersection.
\<close>

theorem rangeset_intersect_meet:
  assumes "canonical rs" and "canonical ts"
  shows "canonical (RangeSet_intersect rs ts)
    \<and> points (RangeSet_intersect rs ts) = points rs \<inter> points ts
    \<and> canonical (RangeSet_intersect_range rs t)
    \<and> points (RangeSet_intersect_range rs t) = points rs \<inter> range_points t"
  using RangeSet_intersect_correct [OF assms] RangeSet_intersect_range_correct [OF assms(1), of t]
  by simp

theorem rangeset_intersect_meet_witness:
  "RangeSet_intersect [Range_new 1 5, Range_new 7 (9::nat)] [Range_new 3 8] = [Range_new 3 5, Range_new 7 8]
   \<and> points (RangeSet_intersect [Range_new 1 5, Range_new 7 (9::nat)] [Range_new 3 8])
     = points [Range_new 1 5, Range_new 7 9] \<inter> points [Range_new 3 8]"
proof -
  have can: "canonical [Range_new 1 5, Range_new 7 (9::nat)]" "canonical [Range_new 3 (8::nat)]"
    by (simp_all add: Range_new_def)
  have "RangeSet_intersect [Range_new 1 5, Range_new 7 (9::nat)] [Range_new 3 8]
     = [Range_new 3 5, Range_new 7 8]"
    by code_simp
  then show ?thesis using rangeset_intersect_meet [OF can] by blast
qed

text \<open>
  C16: the binary searches answer correctly on a canonical range set, for every query:
  \<open>getElementRange\<close> finds the one range that holds the value, \<open>contains\<close> is membership or
  inclusion in the denoted set, and \<open>overlaps\<close> is a common point, except that it answers true
  for every range without points, which has a point in common with no set.
\<close>

theorem rangeset_queries:
  assumes "canonical rs"
  shows "(getElementRange rs x = Some r \<longleftrightarrow> r \<in> set rs \<and> x \<in> range_points r)
    \<and> (RangeSet_contains rs x \<longleftrightarrow> x \<in> points rs)
    \<and> (RangeSet_contains_range rs t \<longleftrightarrow> range_points t \<subseteq> points rs)
    \<and> (RangeSet_overlaps rs t \<longleftrightarrow> points rs \<inter> range_points t \<noteq> {} \<or> range_points t = {})"
proof (cases "r_start t < r_end t")
  case True
  then have "range_points t \<noteq> {}" by (auto simp: range_points_def)
  then show ?thesis
    using getElementRange_eq [OF assms] RangeSet_contains_iff [OF assms]
      RangeSet_contains_range_iff [OF assms True] RangeSet_overlaps_iff [OF assms True]
    by blast
next
  case False
  then have "range_points t = {}" by (auto simp: range_points_def)
  moreover have "RangeSet_contains_range rs t" "RangeSet_overlaps rs t"
    using False by (simp_all add: RangeSet_contains_range_def RangeSet_overlaps_def not_less)
  ultimately show ?thesis
    using getElementRange_eq [OF assms] RangeSet_contains_iff [OF assms] by blast
qed

theorem rangeset_queries_witness:
  "points [Range_new 1 5, Range_new 7 (9::nat)] \<inter> range_points (Range_new 4 6) \<noteq> {}
   \<and> \<not> range_points (Range_new 4 8) \<subseteq> points [Range_new 1 5, Range_new 7 (9::nat)]
   \<and> RangeSet_overlaps [Range_new 1 5, Range_new 7 (9::nat)] (Range_new 6 6)"
proof -
  have can: "canonical [Range_new 1 5, Range_new 7 (9::nat)]" by (simp_all add: Range_new_def)
  have eval: "RangeSet_overlaps [Range_new 1 5, Range_new 7 (9::nat)] (Range_new 4 6)"
    "\<not> RangeSet_contains_range [Range_new 1 5, Range_new 7 (9::nat)] (Range_new 4 8)"
    by code_simp+
  have pts: "range_points (Range_new 4 (6::nat)) \<noteq> {}" "range_points (Range_new 6 (6::nat)) = {}"
    by (auto simp: range_points_def Range_new_def)
  note q = rangeset_queries [OF can]
  have "points [Range_new 1 5, Range_new 7 (9::nat)] \<inter> range_points (Range_new 4 6) \<noteq> {}"
    using eval(1) pts(1) q [of _ _ "Range_new 4 6"] by (simp only: simp_thms)
  moreover have "\<not> range_points (Range_new 4 8) \<subseteq> points [Range_new 1 5, Range_new 7 (9::nat)]"
    using eval(2) q [of _ _ "Range_new 4 8"] by (simp only: simp_thms)
  moreover have "RangeSet_overlaps [Range_new 1 5, Range_new 7 (9::nat)] (Range_new 6 6)"
    using pts(2) q [of _ _ "Range_new 6 6"] by (simp only: simp_thms)
  ultimately show ?thesis by (intro conjI)
qed

text \<open>
  C17: on machine words \<open>size\<close> is exactly the number of values in the set: the accumulated
  sum of the sizes of a canonical range set never wraps around.
\<close>

theorem rangeset_size_exact:
  fixes rs :: "64 word RangeSet"
  assumes "canonical rs"
  shows "unat (RangeSet_size rs) = card (points rs)"
  using canonical_size [OF assms, of 0] by (simp add: RangeSet_size_def RangeSet_size_sum)

theorem rangeset_size_exact_witness:
  "RangeSet_size [Range_new 0 4, Range_new 6 (16::64 word)] = 14
   \<and> card (points [Range_new 0 4, Range_new 6 (16::64 word)]) = 14"
proof -
  have can: "canonical [Range_new 0 4, Range_new 6 (16::64 word)]" by (simp add: Range_new_def)
  have "RangeSet_size [Range_new 0 4, Range_new 6 (16::64 word)] = 14"
    by (simp add: RangeSet_size_def Range_size_def Range_new_def)
  then show ?thesis using rangeset_size_exact [OF can] by simp
qed

text \<open>
  \<open>operator==\<close>, the comparison range by range, decides equality of the denoted sets on
  canonical range sets: a set of values has one canonical vector.
\<close>

theorem rangeset_equality_decides:
  assumes "canonical rs" and "canonical ts"
  shows "RangeSet_eq rs ts \<longleftrightarrow> points rs = points ts"
  using canonical_unique [OF assms] by (auto simp: RangeSet_eq_iff)

theorem rangeset_equality_decides_witness:
  "\<not> RangeSet_eq [Range_new 0 (4::nat)] [Range_new 0 5]
   \<and> points [Range_new 0 (4::nat)] \<noteq> points [Range_new 0 5]"
proof -
  have can: "canonical [Range_new 0 (4::nat)]" "canonical [Range_new 0 (5::nat)]"
    by (simp_all add: Range_new_def)
  have "\<not> RangeSet_eq [Range_new 0 (4::nat)] [Range_new 0 5]" by code_simp
  then show ?thesis using rangeset_equality_decides [OF can] by blast
qed

end
