(* ===== verification/Proc_Maps.thy ===== *)
theory Proc_Maps
  imports Range_Set
begin

text \<open>
  \<^verbatim>\<open>core/memory.cpp\<close>: reading the memory map of a process. The text of \<^verbatim>\<open>/proc/<pid>/maps\<close> is
  an argument; it is read in pieces of at most 255 characters into one buffer, whose rest
  keeps what earlier pieces left there, and every piece is taken for a line. A pointer into
  the buffer is the list of the characters from it to the end of the buffer; reading behind
  the end is an error value.
\<close>

section \<open>The C library\<close>

definition isspace :: "char \<Rightarrow> bool" where
  "isspace c \<longleftrightarrow> c \<in> {CHR '' '', CHR 0x09, CHR 0x0a, CHR 0x0b, CHR 0x0c, CHR 0x0d}"

definition c_digit :: "nat \<Rightarrow> char \<Rightarrow> nat option" where
  "c_digit base c =
     (let n = of_char c :: nat;
          v = (if 48 \<le> n \<and> n \<le> 57 then n - 48
               else if 97 \<le> n \<and> n \<le> 122 then n - 87
               else if 65 \<le> n \<and> n \<le> 90 then n - 55 else base)
      in if v < base then Some v else None)"

definition digits_value :: "nat \<Rightarrow> string \<Rightarrow> nat" where
  "digits_value base ds = foldl (\<lambda>acc c. base * acc + (case c_digit base c of Some v \<Rightarrow> v | None \<Rightarrow> 0)) 0 ds"

text \<open>
  \<^verbatim>\<open>strtoul(ptr, &ptr, base)\<close>: blanks, a sign, the prefix of base sixteen, digits. Without
  digits the pointer stays; a value that does not fit is cut to the largest one.
\<close>

definition strtoul :: "nat \<Rightarrow> string \<Rightarrow> addr \<times> string" where
  "strtoul base s =
     (let s1 = dropWhile isspace s;
          neg = (s1 \<noteq> [] \<and> hd s1 = CHR ''-'');
          s2 = (if s1 \<noteq> [] \<and> hd s1 \<in> {CHR ''-'', CHR ''+''} then tl s1 else s1);
          s3 = (if base = 16 \<and> 2 < length s2 \<and> s2 ! 0 = CHR ''0'' \<and> s2 ! 1 \<in> {CHR ''x'', CHR ''X''}
                   \<and> c_digit 16 (s2 ! 2) \<noteq> None then drop 2 s2 else s2);
          ds = takeWhile (\<lambda>c. c_digit base c \<noteq> None) s3;
          v = digits_value base ds
      in if ds = [] then (0, s)
         else (if 2 ^ 64 \<le> v then - 1 else if neg then - of_nat v else of_nat v, drop (length ds) s3))"

definition deref :: "string \<Rightarrow> char result" where
  "deref p = (case p of [] \<Rightarrow> Inl OutOfRange | c # _ \<Rightarrow> Inr c)"

definition incr :: "string \<Rightarrow> string result" where
  "incr p = (case p of [] \<Rightarrow> Inl OutOfRange | _ # p \<Rightarrow> Inr p)"

text \<open>\<^verbatim>\<open>while (isspace(*ptr)) ptr++\<close>.\<close>

fun skip_spaces :: "string \<Rightarrow> string result" where
  "skip_spaces [] = Inl OutOfRange"
| "skip_spaces (c # p) = (if isspace c then skip_spaces p else Inr (c # p))"

text \<open>The C string at a pointer, and the part of it behind its last slash.\<close>

definition c_text :: "string \<Rightarrow> string" where
  "c_text p = takeWhile (\<lambda>c. c \<noteq> CHR 0x00) p"

definition strrchr_slash :: "string \<Rightarrow> string option" where
  "strrchr_slash s =
     (if CHR ''/'' \<in> set s then Some (rev (takeWhile (\<lambda>c. c \<noteq> CHR ''/'') (rev s))) else None)"

text \<open>
  \<^verbatim>\<open>fgets\<close>: the characters up to and with the first newline, 255 at most, and a zero
  overwrite the head of the buffer. \<open>None\<close> at the end of the file.
\<close>

definition fgets :: "string \<Rightarrow> string \<Rightarrow> (string \<times> string) option" where
  "fgets content buf =
     (if content = [] then None
      else
        let upto = takeWhile (\<lambda>c. c \<noteq> CHR 0x0a) content;
            piece = take 255 (if length upto < length content then upto @ [CHR 0x0a] else upto)
        in Some (drop (length piece) content, (piece @ [CHR 0x00]) @ drop (Suc (length piece)) buf))"

section \<open>Bit masks\<close>

text \<open>
  The operators of \<^verbatim>\<open>core/common.h\<close> on an enumeration whose values are bit masks, through the
  unsigned type under it. An assignment gives the new value of its left side.
\<close>

definition operator_or :: "nat \<Rightarrow> nat \<Rightarrow> nat" where
  "operator_or lhs rhs = lhs OR rhs"

definition operator_or_assign :: "nat \<Rightarrow> nat \<Rightarrow> nat" where
  "operator_or_assign lhs rhs = lhs OR rhs"

definition operator_and :: "nat \<Rightarrow> nat \<Rightarrow> nat" where
  "operator_and lhs rhs = lhs AND rhs"

definition operator_and_assign :: "nat \<Rightarrow> nat \<Rightarrow> nat" where
  "operator_and_assign lhs rhs = lhs AND rhs"

definition operator_xor :: "nat \<Rightarrow> nat \<Rightarrow> nat" where
  "operator_xor lhs rhs = lhs XOR rhs"

definition operator_xor_assign :: "nat \<Rightarrow> nat \<Rightarrow> nat" where
  "operator_xor_assign lhs rhs = lhs XOR rhs"

lemmas mask_operators = operator_or_def operator_or_assign_def operator_and_def operator_and_assign_def
  operator_xor_def operator_xor_assign_def

text \<open>A flag that is set is seen, one that is toggled where it is set is gone, others stay.\<close>

lemma operator_or_assign_sees: "operator_and (operator_or_assign m flag) flag = flag"
  by (rule bit_eqI) (auto simp: mask_operators bit_simps)

lemma operator_or_assign_others:
  assumes "operator_and flag other = 0"
  shows "operator_and (operator_or_assign m flag) other = operator_and m other"
  using assms by (simp add: mask_operators bit.conj_disj_distrib2 and.commute bit_eq_iff bit_simps) blast

lemma operator_xor_assign_clears:
  "operator_and (operator_xor_assign (operator_or m flag) flag) flag = 0"
  by (rule bit_eqI) (auto simp: mask_operators bit_simps)

section \<open>Parsing\<close>

definition PF_NONE :: nat where "PF_NONE = 0"
definition PF_READ :: nat where "PF_READ = 1"
definition PF_WRITE :: nat where "PF_WRITE = 2"
definition PF_EXEC :: nat where "PF_EXEC = 4"

record MemoryMap =
  map_range :: "addr Range"
  map_permission :: nat
  map_name :: string

definition isRead :: "MemoryMap \<Rightarrow> bool" where
  "isRead m \<longleftrightarrow> operator_and (map_permission m) PF_READ \<noteq> 0"

definition isWrite :: "MemoryMap \<Rightarrow> bool" where
  "isWrite m \<longleftrightarrow> operator_and (map_permission m) PF_WRITE \<noteq> 0"

definition isExec :: "MemoryMap \<Rightarrow> bool" where
  "isExec m \<longleftrightarrow> operator_and (map_permission m) PF_EXEC \<noteq> 0"

text \<open>Remove the first newline of the line.\<close>

definition cut_newline :: "string \<Rightarrow> string" where
  "cut_newline buf =
     (let k = length (takeWhile (\<lambda>c. c \<noteq> CHR 0x0a) (c_text buf)) in
      if k < length (c_text buf) then buf[k := CHR 0x00] else buf)"

text \<open>The body of the loop on a line: address range, permissions, discarded fields, name.\<close>

definition read_range :: "string \<Rightarrow> (addr Range \<times> string) result" where
  "read_range p =
     (let (s, p) = strtoul 16 p; r = Range_setStart (Range_new 0 0) s in
      bind_result (incr p) (\<lambda>p.
        let (e, p) = strtoul 16 p in
        map_result (\<lambda>p. (Range_setEnd r e, p)) (skip_spaces p)))"

definition read_flag :: "char \<Rightarrow> nat \<Rightarrow> nat \<times> string \<Rightarrow> (nat \<times> string) result" where
  "read_flag c flag st =
     (let (perm, p) = st in
      bind_result (deref p) (\<lambda>x. map_result (\<lambda>p. (if x = c then operator_or_assign perm flag else perm, p)) (incr p)))"

definition read_permission :: "string \<Rightarrow> (nat \<times> string) result" where
  "read_permission p =
     bind_result (read_flag (CHR ''r'') PF_READ (PF_NONE, p)) (\<lambda>st.
     bind_result (read_flag (CHR ''w'') PF_WRITE st) (\<lambda>st.
     bind_result (read_flag (CHR ''x'') PF_EXEC st) (\<lambda>(perm, p).
     bind_result (incr p) (\<lambda>p. map_result (\<lambda>p. (perm, p)) (skip_spaces p)))))"

definition discard_fields :: "string \<Rightarrow> string result" where
  "discard_fields p =
     bind_result (skip_spaces (snd (strtoul 16 p))) (\<lambda>p.
     bind_result (incr (snd (strtoul 16 p))) (\<lambda>p.
     bind_result (skip_spaces (snd (strtoul 16 p))) (\<lambda>p.
       skip_spaces (snd (strtoul 10 p)))))"

definition read_name :: "bool \<Rightarrow> string \<Rightarrow> string" where
  "read_name full_path p =
     (if full_path then c_text p else (case strrchr_slash (c_text p) of Some s \<Rightarrow> s | None \<Rightarrow> []))"

definition parse_map_line :: "bool \<Rightarrow> string \<Rightarrow> MemoryMap result" where
  "parse_map_line full_path buf =
     bind_result (read_range buf) (\<lambda>(r, p).
     bind_result (read_permission p) (\<lambda>(perm, p).
     map_result (\<lambda>p. \<lparr>map_range = r, map_permission = perm, map_name = read_name full_path p\<rparr>)
       (discard_fields p)))"

text \<open>The loop; cutting the newline changes the buffer that the next piece overwrites.\<close>

function maps_loop :: "bool \<Rightarrow> string \<Rightarrow> string \<Rightarrow> MemoryMap list result" where
  "maps_loop full_path content buf =
     (case fgets content buf of
        None \<Rightarrow> Inr []
      | Some (content, buf) \<Rightarrow>
          let buf = cut_newline buf in
          bind_result (parse_map_line full_path buf) (\<lambda>m.
            map_result (\<lambda>ms. m # ms) (maps_loop full_path content buf)))"
  by pat_completeness auto
termination
proof (relation "measure (\<lambda>(full_path, content, buf). length content)", goal_cases)
  case (2 full_path content buf r content' buf')
  then have "content \<noteq> []" and "content' = drop (length (take 255 (let upto = takeWhile (\<lambda>c. c \<noteq> CHR 0x0a) content in
      if length upto < length content then upto @ [CHR 0x0a] else upto))) content"
    by (auto simp: fgets_def Let_def split: if_splits)
  moreover have "length (takeWhile (\<lambda>c. c \<noteq> CHR 0x0a) content) \<le> length content"
    by (rule length_takeWhile_le)
  ultimately show ?case by (cases "length (takeWhile (\<lambda>c. c \<noteq> CHR 0x0a) content) < length content") (auto simp: Let_def)
qed simp

declare maps_loop.simps [simp del]

text \<open>\<open>getMemoryMap\<close>: \<open>None\<close> is a file that does not open; \<open>path\<close> is the path in the buffer.\<close>

definition getMemoryMap :: "bool \<Rightarrow> string \<Rightarrow> string option \<Rightarrow> MemoryMap list result" where
  "getMemoryMap full_path path file =
     (case file of
        None \<Rightarrow> Inr []
      | Some content \<Rightarrow>
          maps_loop full_path content (take 255 path @ replicate (256 - min 255 (length path)) (CHR 0x00)))"

text \<open>
  On a process: its number is printed as an unsigned number of 64 bits, so that a negative one is
  extended by its sign. \<open>files\<close> has the files that open.
\<close>

definition maps_path :: "32 word \<Rightarrow> string" where
  "maps_path pid = ''/proc/'' @ fmt_dec (signed_take_bit 31 (ucast pid) :: 64 word) @ ''/maps''"

definition Memory_getMemoryMap :: "(string \<Rightarrow> string option) \<Rightarrow> 32 word \<Rightarrow> bool \<Rightarrow> MemoryMap list result" where
  "Memory_getMemoryMap files pid full_path = getMemoryMap full_path (maps_path pid) (files (maps_path pid))"

section \<open>The format of the kernel\<close>

text \<open>An entry as the kernel prints it: padded numbers, four flags, a name after blanks.\<close>

record map_entry =
  me_start :: addr
  me_end :: addr
  me_read :: bool
  me_write :: bool
  me_exec :: bool
  me_shared :: bool
  me_offset :: nat
  me_major :: nat
  me_minor :: nat
  me_inode :: nat
  me_blanks :: nat
  me_name :: string

definition padded :: "nat \<Rightarrow> string \<Rightarrow> string" where
  "padded k ds = replicate (k - length ds) CHR ''0'' @ ds"

definition entry_flags :: "map_entry \<Rightarrow> string" where
  "entry_flags e =
     [if me_read e then CHR ''r'' else CHR ''-'', if me_write e then CHR ''w'' else CHR ''-'',
      if me_exec e then CHR ''x'' else CHR ''-'', if me_shared e then CHR ''s'' else CHR ''p'']"

definition entry_text :: "map_entry \<Rightarrow> string" where
  "entry_text e =
     padded 8 (hex_digits (unat (me_start e))) @ ''-'' @ padded 8 (hex_digits (unat (me_end e))) @ '' ''
     @ entry_flags e @ '' '' @ padded 8 (hex_digits (me_offset e)) @ '' ''
     @ padded 2 (hex_digits (me_major e)) @ '':'' @ padded 2 (hex_digits (me_minor e)) @ '' ''
     @ dec_digits (me_inode e) @ replicate (Suc (me_blanks e)) CHR '' '' @ me_name e"

definition entry_ok :: "map_entry \<Rightarrow> bool" where
  "entry_ok e \<longleftrightarrow> me_start e \<le> me_end e \<and> CHR 0x0a \<notin> set (me_name e) \<and> CHR 0x00 \<notin> set (me_name e)
     \<and> (me_name e \<noteq> [] \<longrightarrow> \<not> isspace (hd (me_name e))) \<and> length (entry_text e) < 255"

definition entry_map :: "bool \<Rightarrow> map_entry \<Rightarrow> MemoryMap" where
  "entry_map full_path e =
     \<lparr>map_range = \<lparr>r_start = me_start e, r_end = me_end e\<rparr>,
      map_permission = (if me_read e then 1 else 0) + (if me_write e then 2 else 0) + (if me_exec e then 4 else 0),
      map_name = (if full_path then me_name e
        else (case strrchr_slash (me_name e) of Some s \<Rightarrow> s | None \<Rightarrow> []))\<rparr>"

section \<open>Lemmas\<close>

subsection \<open>Numbers\<close>

definition is_number :: "nat \<Rightarrow> string \<Rightarrow> bool" where
  "is_number base ds \<longleftrightarrow> ds \<noteq> [] \<and> list_all (\<lambda>c. c_digit base c \<noteq> None) ds"

lemma c_digit_hex: "n < 16 \<Longrightarrow> c_digit 16 (hex_digit n) = Some n"
proof -
  have "list_all (\<lambda>n. c_digit 16 (hex_digit n) = Some n) [0..<16]" by code_simp
  then show "n < 16 \<Longrightarrow> c_digit 16 (hex_digit n) = Some n" by (simp add: list_all_iff)
qed

lemma c_digit_dec: "n < 10 \<Longrightarrow> c_digit 10 (hex_digit n) = Some n"
proof -
  have "list_all (\<lambda>n. c_digit 10 (hex_digit n) = Some n) [0..<10]" by code_simp
  then show "n < 10 \<Longrightarrow> c_digit 10 (hex_digit n) = Some n" by (simp add: list_all_iff)
qed

lemma c_digit_plain:
  assumes "c_digit base c \<noteq> None"
  shows "\<not> isspace c" "c \<noteq> CHR ''-''" "c \<noteq> CHR ''+''" "c \<noteq> CHR 0x00" "base = 16 \<Longrightarrow> c \<notin> {CHR ''x'', CHR ''X''}"
  using assms by (auto simp: c_digit_def isspace_def Let_def split: if_splits)

lemma digits_value_append: "digits_value base (ds @ [c]) = base * digits_value base ds + (case c_digit base c of Some v \<Rightarrow> v | None \<Rightarrow> 0)"
  by (simp add: digits_value_def)

lemma hex_digits_number: "is_number 16 (hex_digits n)"
proof (induction n rule: hex_digits.induct)
  case (1 n)
  then show ?case by (cases "n < 16") (simp_all add: hex_digits.simps [of n] is_number_def c_digit_hex)
qed

lemma hex_digits_value: "digits_value 16 (hex_digits n) = n"
proof (induction n rule: hex_digits.induct)
  case (1 n)
  show ?case
  proof (cases "n < 16")
    case True
    then show ?thesis by (simp add: hex_digits.simps [of n] digits_value_def c_digit_hex)
  next
    case False
    then show ?thesis using 1 by (simp add: hex_digits.simps [of n] digits_value_append c_digit_hex)
  qed
qed

lemma dec_digits_number: "is_number 10 (dec_digits n)"
proof (induction n rule: dec_digits.induct)
  case (1 n)
  then show ?case by (cases "n < 10") (simp_all add: dec_digits.simps [of n] is_number_def c_digit_dec)
qed

lemma digits_value_zeros: "digits_value base (replicate k CHR ''0'' @ ds) = digits_value base ds"
proof -
  have "foldl (\<lambda>acc c. base * acc + (case c_digit base c of Some v \<Rightarrow> v | None \<Rightarrow> 0)) 0 (replicate k CHR ''0'') = 0"
    by (induction k) (auto simp: c_digit_def)
  then show ?thesis by (simp add: digits_value_def)
qed

lemma padded_number:
  assumes "is_number base ds"
  shows "is_number base (padded k ds)" "digits_value base (padded k ds) = digits_value base ds"
proof -
  have "0 < base" using assms by (cases ds) (auto simp: is_number_def c_digit_def Let_def split: if_splits)
  then show "is_number base (padded k ds)"
    using assms by (auto simp: is_number_def padded_def c_digit_def list_all_iff)
  show "digits_value base (padded k ds) = digits_value base ds" by (simp add: padded_def digits_value_zeros)
qed

lemma strtoul_number:
  assumes "is_number base ds" and "c_digit base c = None" and "c \<notin> {CHR ''x'', CHR ''X''}"
  shows "strtoul base (ds @ c # p) =
    (if 2 ^ 64 \<le> digits_value base ds then - 1 else of_nat (digits_value base ds), c # p)"
proof -
  let ?s = "ds @ c # p"
  obtain d ds' where ds: "ds = d # ds'" using assms(1) by (cases ds) (auto simp: is_number_def)
  have d: "c_digit base d \<noteq> None" and all: "list_all (\<lambda>c. c_digit base c \<noteq> None) ds"
    using assms(1) by (simp_all add: is_number_def ds)
  have x: "\<not> (base = 16 \<and> ?s ! 1 \<in> {CHR ''x'', CHR ''X''})"
    using all assms(3) c_digit_plain(5) by (cases ds') (auto simp: ds)
  have tw: "takeWhile (\<lambda>c. c_digit base c \<noteq> None) ?s = ds"
    using all assms(2) by (subst takeWhile_append2) (auto simp: list_all_iff)
  have dw: "dropWhile isspace ?s = ?s" using c_digit_plain(1) [OF d] by (simp add: ds)
  have hd: "hd ?s = d" and ne: "ds \<noteq> []" by (simp_all add: ds)
  have s3: "(if base = 16 \<and> 2 < length ?s \<and> ?s ! 0 = CHR ''0'' \<and> ?s ! 1 \<in> {CHR ''x'', CHR ''X''}
      \<and> c_digit 16 (?s ! 2) \<noteq> None then drop 2 ?s else ?s) = ?s" using x by meson
  have sign: "(?s \<noteq> [] \<and> d = CHR ''-'') = False" "(?s \<noteq> [] \<and> d \<in> {CHR ''-'', CHR ''+''}) = False"
    using c_digit_plain(2,3) [OF d] by auto
  show ?thesis
    unfolding strtoul_def Let_def dw hd sign if_False s3 tw using ne by simp
qed

lemma strtoul_rest:
  assumes "is_number base ds" and "c_digit base c = None" and "c \<notin> {CHR ''x'', CHR ''X''}"
  shows "snd (strtoul base (ds @ c # p)) = c # p"
  using strtoul_number [OF assms] by simp

subsection \<open>A line\<close>

lemma isspace_blank [simp]: "isspace CHR '' ''"
  by (simp add: isspace_def)

lemma skip_spaces_blanks:
  "\<not> isspace c \<Longrightarrow> skip_spaces (replicate k CHR '' '' @ c # p) = Inr (c # p)"
  by (induction k) simp_all

lemma skip_spaces_number: "is_number base ds \<Longrightarrow> skip_spaces (ds @ p) = Inr (ds @ p)"
  using c_digit_plain(1) by (cases ds) (auto simp: is_number_def)

lemma skip_spaces_name:
  assumes "name \<noteq> [] \<longrightarrow> \<not> isspace (hd name)"
  shows "skip_spaces (replicate k CHR '' '' @ name @ CHR 0x00 # p) = Inr (name @ CHR 0x00 # p)"
  using assms skip_spaces_blanks [of "CHR 0x00" k p] skip_spaces_blanks [of "hd name" k "tl name @ CHR 0x00 # p"]
  by (cases name) (auto simp: isspace_def)

lemma separators:
  "c_digit 16 CHR ''-'' = None" "c_digit 16 CHR '' '' = None" "c_digit 16 CHR '':'' = None"
  "c_digit 10 CHR '' '' = None"
  by (simp_all add: c_digit_def)

lemmas hex_numbers = padded_number(1) [OF hex_digits_number]

lemma strtoul_address:
  assumes "c \<in> {CHR ''-'', CHR '' ''}"
  shows "strtoul 16 (padded k (hex_digits (unat (a :: addr))) @ c # p) = (a, c # p)"
proof -
  have "unat a < 2 ^ LENGTH(64)" by (rule unsigned_less)
  then show ?thesis
    using assms separators
    by (subst strtoul_number [OF hex_numbers]) (auto simp: padded_number(2) [OF hex_digits_number] hex_digits_value)
qed

lemma strtoul_skip:
  "c \<in> {CHR '' '', CHR '':''} \<Longrightarrow> snd (strtoul 16 (padded k (hex_digits n) @ c # p)) = c # p"
  by (rule strtoul_rest [OF hex_numbers]) (auto simp: separators)

lemma read_range_text:
  assumes "a \<le> b" and "\<not> isspace c"
  shows "read_range (padded 8 (hex_digits (unat a)) @ CHR ''-'' # padded 8 (hex_digits (unat b)) @ CHR '' '' # c # p)
    = Inr (\<lparr>r_start = a, r_end = b\<rparr>, c # p)"
  using assms
  by (auto simp add: read_range_def strtoul_address incr_def Range_setStart_def Range_setEnd_def Range_new_def Let_def)

lemma read_permission_text:
  assumes "is_number 16 ds"
  shows "read_permission (entry_flags e @ CHR '' '' # ds @ p) =
    Inr ((if me_read e then 1 else 0) + (if me_write e then 2 else 0) + (if me_exec e then 4 else 0), ds @ p)"
  using assms
  by (cases "me_read e"; cases "me_write e"; cases "me_exec e")
    (simp_all add: read_permission_def read_flag_def entry_flags_def deref_def incr_def skip_spaces_number
      PF_NONE_def PF_READ_def PF_WRITE_def PF_EXEC_def operator_or_assign_def)

lemma discard_fields_text:
  assumes "name \<noteq> [] \<longrightarrow> \<not> isspace (hd name)"
  shows "discard_fields (padded 8 (hex_digits off) @ CHR '' '' # padded 2 (hex_digits maj) @ CHR '':''
      # padded 2 (hex_digits mnr) @ CHR '' '' # dec_digits inode @ replicate (Suc k) CHR '' '' @ name @ CHR 0x00 # p)
    = Inr (name @ CHR 0x00 # p)"
proof -
  have "snd (strtoul 10 (dec_digits inode @ CHR '' '' # q)) = CHR '' '' # q" for q
    by (rule strtoul_rest [OF dec_digits_number]) (simp_all add: separators)
  then show ?thesis
    using skip_spaces_name [OF assms, of "Suc k" p]
    by (simp add: discard_fields_def strtoul_skip skip_spaces_number [OF hex_numbers] incr_def
        skip_spaces_number [OF dec_digits_number])
qed

lemma parse_entry:
  assumes "entry_ok e"
  shows "parse_map_line full_path (entry_text e @ CHR 0x00 # p) = Inr (entry_map full_path e)"
proof -
  let ?n = "me_name e"
  have name: "?n \<noteq> [] \<longrightarrow> \<not> isspace (hd ?n)" and ne: "me_start e \<le> me_end e" and z: "CHR 0x00 \<notin> set ?n"
    using assms by (simp_all add: entry_ok_def)
  have "c_text (?n @ CHR 0x00 # p) = ?n"
    unfolding c_text_def using z by (subst takeWhile_append2) auto
  then have nm: "read_name full_path (?n @ CHR 0x00 # p) = map_name (entry_map full_path e)"
    by (simp add: read_name_def entry_map_def)
  obtain f fs where fl: "entry_flags e = f # fs" "\<not> isspace f" by (auto simp: entry_flags_def isspace_def)
  show ?thesis
    using read_range_text [OF ne fl(2)] nm discard_fields_text [OF name] read_permission_text [OF hex_numbers, of e]
    unfolding parse_map_line_def entry_text_def by (simp add: fl(1) entry_map_def)
qed

subsection \<open>The loop\<close>

lemma number_no_newline: "is_number base ds \<Longrightarrow> CHR 0x0a \<notin> set ds \<and> CHR 0x00 \<notin> set ds"
  using c_digit_plain(1,4) by (fastforce simp: is_number_def list_all_iff isspace_def)

lemma entry_text_chars:
  assumes "entry_ok e"
  shows "CHR 0x0a \<notin> set (entry_text e)" "CHR 0x00 \<notin> set (entry_text e)"
  using assms number_no_newline [OF hex_numbers] number_no_newline [OF dec_digits_number]
  by (auto simp: entry_text_def entry_ok_def entry_flags_def split: if_splits)

lemma fgets_line:
  assumes "CHR 0x0a \<notin> set line" and "length line < 255"
  shows "fgets (line @ CHR 0x0a # content) buf
    = Some (content, line @ CHR 0x0a # CHR 0x00 # drop (Suc (Suc (length line))) buf)"
proof -
  have "takeWhile (\<lambda>c. c \<noteq> CHR 0x0a) (line @ CHR 0x0a # content) = line"
    using assms(1) by (subst takeWhile_append2) auto
  with assms(2) show ?thesis by (simp add: fgets_def Let_def)
qed

lemma cut_newline_line:
  assumes "CHR 0x0a \<notin> set line" and "CHR 0x00 \<notin> set line"
  shows "cut_newline (line @ CHR 0x0a # CHR 0x00 # p) = line @ CHR 0x00 # CHR 0x00 # p"
proof -
  have "c_text (line @ CHR 0x0a # CHR 0x00 # p) = line @ [CHR 0x0a]"
    unfolding c_text_def using assms(2) by (subst takeWhile_append2) auto
  moreover have "takeWhile (\<lambda>c. c \<noteq> CHR 0x0a) (line @ [CHR 0x0a]) = line"
    using assms(1) by (subst takeWhile_append2) auto
  ultimately show ?thesis by (simp add: cut_newline_def)
qed

lemma maps_loop_entries:
  "list_all entry_ok es \<Longrightarrow>
   maps_loop full_path (concat (map (\<lambda>e. entry_text e @ [CHR 0x0a]) es)) buf = Inr (map (entry_map full_path) es)"
proof (induction es arbitrary: buf)
  case Nil
  then show ?case by (subst maps_loop.simps) (simp add: fgets_def)
next
  case (Cons e es)
  then have e: "entry_ok e" and len: "length (entry_text e) < 255" by (simp_all add: entry_ok_def)
  show ?case
    using Cons parse_entry [OF e]
    by (subst maps_loop.simps)
      (simp add: fgets_line [OF entry_text_chars(1) [OF e] len] cut_newline_line [OF entry_text_chars [OF e]])
qed

lemma permission_bits:
  fixes r w x :: bool
  defines "perm \<equiv> (if r then 1 else 0) + (if w then 2 else 0) + (if x then 4 else 0) :: nat"
  shows "(perm AND 1 \<noteq> 0) = r" "(perm AND 2 \<noteq> 0) = w" "(perm AND 4 \<noteq> 0) = x"
proof -
  have "perm = (if r then if w then if x then 7 else 3 else if x then 5 else 1
      else if w then if x then 6 else 2 else if x then 4 else 0)"
    by (auto simp: perm_def)
  then show "(perm AND 1 \<noteq> 0) = r" "(perm AND 2 \<noteq> 0) = w" "(perm AND 4 \<noteq> 0) = x"
    by simp_all
qed

lemma entry_permissions:
  "isRead (entry_map full_path e) = me_read e" "isWrite (entry_map full_path e) = me_write e"
  "isExec (entry_map full_path e) = me_exec e"
  unfolding isRead_def isWrite_def isExec_def operator_and_def entry_map_def PF_READ_def PF_WRITE_def PF_EXEC_def MemoryMap.simps
  by (rule permission_bits)+

section \<open>Properties\<close>

text \<open>
  C38: reading the memory map gives back what the kernel printed. For any entries whose lines
  fit into the buffer, in the order of the file, the answer for the process has their ranges, their
  permissions and their names: the whole path, or the part behind the last slash. Offset,
  device and inode do not matter, whatever their size.
\<close>

theorem maps_roundtrip:
  assumes "list_all entry_ok es" and "files (maps_path pid) = Some (concat (map (\<lambda>e. entry_text e @ [CHR 0x0a]) es))"
  shows "Memory_getMemoryMap files pid full_path = Inr (map (entry_map full_path) es)
    \<and> (\<forall>i < length es. isRead (entry_map full_path (es ! i)) = me_read (es ! i)
        \<and> isWrite (entry_map full_path (es ! i)) = me_write (es ! i)
        \<and> isExec (entry_map full_path (es ! i)) = me_exec (es ! i))"
  using assms by (simp add: Memory_getMemoryMap_def getMemoryMap_def maps_loop_entries entry_permissions)

definition demo_entries :: "map_entry list" where
  "demo_entries =
     [\<lparr>me_start = 0x7000, me_end = 0x9000, me_read = True, me_write = False, me_exec = True, me_shared = False,
       me_offset = 0, me_major = 8, me_minor = 1, me_inode = 77, me_blanks = 20, me_name = ''/lib/libc.so''\<rparr>,
      \<lparr>me_start = 0x12345678a, me_end = 0x12345678b, me_read = True, me_write = True, me_exec = False, me_shared = True,
       me_offset = 4096, me_major = 0, me_minor = 0, me_inode = 0, me_blanks = 0, me_name = []\<rparr>]"

definition demo_files :: "string \<Rightarrow> string option" where
  "demo_files path =
     (if path = ''/proc/1/maps'' then Some (concat (map (\<lambda>e. entry_text e @ [CHR 0x0a]) demo_entries)) else None)"

theorem maps_roundtrip_witness:
  "Memory_getMemoryMap demo_files 1 False = Inr (map (entry_map False) demo_entries)
    \<and> map (map_name \<circ> entry_map False) demo_entries = [''libc.so'', []]"
proof -
  have "list_all entry_ok demo_entries"
    by (simp add: demo_entries_def entry_ok_def entry_text_def padded_def hex_digits.simps dec_digits.simps isspace_def
        entry_flags_def)
  moreover have "maps_path 1 = ''/proc/1/maps''"
    by (simp add: maps_path_def fmt_dec_def dec_digits.simps hex_digit_def)
  ultimately show ?thesis
    using maps_roundtrip [of demo_entries demo_files 1 False]
    by (simp add: demo_files_def entry_map_def strrchr_slash_def demo_entries_def)
qed

end
