(* ===== verification/Trace_Common.thy ===== *)
theory Trace_Common
  imports Tracer_Prelude
begin

text \<open>
  \<^verbatim>\<open>trace/common.h\<close>: the records that the tracer, the dispatchers and the logger share,
  and what they read of the traced process: C strings, stack words and the registers of the
  virtual machine. The width of \<open>uintptr_t\<close> is a type parameter where the arm and the arm64
  build both use a type; \<open>addr\<close>, the 64-bit word, is the arm64 instance.
\<close>

section \<open>Records of common.h\<close>

datatype fun_data_type = kUnknown | kString | kVariadic | kPointer | kNumber | kVoid

record module_range =
  mr_base :: addr
  mr_end :: addr

text \<open>
  The registers the sources name: \<open>x0\<close> to \<open>x30\<close> by number, the stack pointer and the program
  counter. The vector registers are the bytes that the access macros of
  \<^verbatim>\<open>common.h\<close> index.
\<close>

record GPRState =
  gpr_x :: "nat \<Rightarrow> addr"
  gpr_sp :: addr
  gpr_pc :: addr

type_synonym FPRState = "nat \<Rightarrow> byte"

record trace_vm_status =
  gpr_state :: GPRState
  fpr_state :: FPRState

record 'w inst_fun_call =
  fun_address :: 'w
  memory_alloc_address :: 'w
  memory_alloc_size :: 'w
  memory_free_address :: 'w
  ret_type :: fun_data_type
  is_svc :: bool
  call_module_name :: string
  fun_name :: string
  ret_value :: string
  args :: "string list"

definition inst_fun_call_new :: "'w::zero inst_fun_call" where
  "inst_fun_call_new =
     \<lparr>fun_address = 0, memory_alloc_address = 0, memory_alloc_size = 0, memory_free_address = 0,
      ret_type = kUnknown, is_svc = False, call_module_name = [], fun_name = [], ret_value = [],
      args = []\<rparr>"

record memory_info =
  memory_index :: "64 word"
  mi_start :: addr
  mi_end :: addr

text \<open>
  What the sources read of the instruction analysis of the virtual machine. The structures of
  QBDI are declared in the headers of the archive under \<^verbatim>\<open>prebuild\<close>, of which these are the
  fields that the tracer uses.
\<close>

datatype RegisterAccessType = REGISTER_UNUSED | REGISTER_READ | REGISTER_WRITE | REGISTER_READ_WRITE

datatype OperandType = OPERAND_INVALID | OPERAND_IMM | OPERAND_GPR | OPERAND_PRED | OPERAND_FPR | OPERAND_SEG

record OperandAnalysis =
  op_type :: OperandType
  regName :: "string option"
  regCtxIdx :: int
  regAccess :: RegisterAccessType

record InstAnalysis =
  ia_address :: addr
  disassembly :: string
  isBranch :: bool
  isCall :: bool
  affectControlFlow :: bool
  operands :: "OperandAnalysis list"

text \<open>
  The record of an instruction. The source keeps the pointer to the analysis and reads through it
  in the callbacks of the next instruction; here the record has the analysis itself. The
  headers of the virtual machine guarantee the pointer until the end of the callback that got it
  only, and also that analyses are cached in the machine: the model is the case that
  the cached analysis is still there one instruction later.
\<close>

record inst_trace_info =
  info_pc :: addr
  pre_status :: trace_vm_status
  post_status :: trace_vm_status
  fun_call :: "addr inst_fun_call option"
  inst_analysis :: "InstAnalysis option"

text \<open>\<open>new inst_trace_info_t()\<close>: every member value-initialised.\<close>

definition zero_gpr :: GPRState where
  "zero_gpr = \<lparr>gpr_x = (\<lambda>_. 0), gpr_sp = 0, gpr_pc = 0\<rparr>"

definition zero_status :: trace_vm_status where
  "zero_status = \<lparr>gpr_state = zero_gpr, fpr_state = (\<lambda>_. 0)\<rparr>"

definition inst_trace_info_new :: inst_trace_info where
  "inst_trace_info_new =
     \<lparr>info_pc = 0, pre_status = zero_status, post_status = zero_status,
      fun_call = None, inst_analysis = None\<rparr>"

section \<open>Reading the traced process\<close>

text \<open>
  A C string: the bytes up to the first zero. A read of an unmapped byte faults; so does
  running over the top of the address space, since address zero is never mapped.
\<close>

function read_cstring :: "('a::len word \<Rightarrow> byte option) \<Rightarrow> 'a word \<Rightarrow> string result" where
  "read_cstring mem a =
     (case mem a of
        None \<Rightarrow> Inl (SegFault (unat a))
      | Some b \<Rightarrow>
          if b = 0 then Inr []
          else if a = - 1 then Inl (SegFault 0)
          else map_result (\<lambda>s. char_of (unat b) # s) (read_cstring mem (a + 1)))"
  by pat_completeness auto
termination
proof (relation "measure (\<lambda>(mem, a). unat (- 1 - a))", goal_cases)
  case (2 mem a b)
  then have nz: "- 1 - a \<noteq> 0" by auto
  have "unat (- 1 - (a + 1)) = unat ((- 1 - a) - 1)" by (rule arg_cong [where f = unat]) simp
  also have "\<dots> = unat (- 1 - a) - 1" using nz by (rule unat_minus_one)
  also have "\<dots> < unat (- 1 - a)" using nz by (simp add: unat_eq_0 [symmetric] del: unat_eq_0)
  finally show ?case by simp
qed simp

declare read_cstring.simps [simp del]

text \<open>A little-endian word of \<open>n\<close> bytes.\<close>

fun read_le :: "nat \<Rightarrow> ('a::len word \<Rightarrow> byte option) \<Rightarrow> 'a word \<Rightarrow> nat result" where
  "read_le 0 mem a = Inr 0"
| "read_le (Suc n) mem a =
     (case mem a of
        None \<Rightarrow> Inl (SegFault (unat a))
      | Some b \<Rightarrow> map_result (\<lambda>v. unat b + 256 * v) (read_le n mem (a + 1)))"

definition read_uintptr64 :: "memory \<Rightarrow> addr \<Rightarrow> addr result" where
  "read_uintptr64 mem a = map_result of_nat (read_le 8 mem a)"

definition read_uintptr32 :: "(32 word \<Rightarrow> byte option) \<Rightarrow> 32 word \<Rightarrow> 32 word result" where
  "read_uintptr32 mem a = map_result of_nat (read_le 4 mem a)"

text \<open>A run of bytes.\<close>

fun read_bytes :: "nat \<Rightarrow> memory \<Rightarrow> addr \<Rightarrow> byte list result" where
  "read_bytes 0 mem a = Inr []"
| "read_bytes (Suc n) mem a =
     (case mem a of
        None \<Rightarrow> Inl (SegFault (unat a))
      | Some b \<Rightarrow> map_result (\<lambda>bs. b # bs) (read_bytes n mem (a + 1)))"

section \<open>Lemmas\<close>

lemma read_bytes_length: "read_bytes n mem a = Inr bs \<Longrightarrow> length bs = n"
  by (induction n arbitrary: a bs) (auto simp: map_result_eq_Inr split: option.splits)

lemma read_bytes_add:
  "read_bytes (m + n) mem a = bind_result (read_bytes m mem a) (\<lambda>bs.
     map_result (\<lambda>cs. bs @ cs) (read_bytes n mem (a + of_nat m)))"
proof (induction m arbitrary: a)
  case 0
  show ?case by (cases "read_bytes n mem a") simp_all
next
  case (Suc m)
  show ?case
    by (simp add: Suc.IH add.assoc split: option.split)
      (cases "read_bytes m mem (a + 1)"; cases "read_bytes n mem (a + (1 + of_nat m))"; simp)
qed

lemma read_cstring_zero: "mem a = Some 0 \<Longrightarrow> read_cstring mem a = Inr []"
  by (subst read_cstring.simps) simp

lemma read_cstring_unmapped: "mem a = None \<Longrightarrow> read_cstring mem a = Inl (SegFault (unat a))"
  by (subst read_cstring.simps) simp

lemma read_cstring_step:
  "mem a = Some b \<Longrightarrow> b \<noteq> 0 \<Longrightarrow> a \<noteq> - 1 \<Longrightarrow>
   read_cstring mem a = map_result (\<lambda>s. char_of (unat b) # s) (read_cstring mem (a + 1))"
  by (subst read_cstring.simps) simp

text \<open>
  A string laid out in memory with its terminator is read back: bytes without a zero from
  \<open>a\<close> on, then a zero, below the top of the address space.
\<close>

lemma read_cstring_layout:
  assumes "\<forall>i < length bs. mem (a + of_nat i) = Some (bs ! i) \<and> bs ! i \<noteq> 0"
    and "mem (a + of_nat (length bs)) = Some 0"
    and "unat a + length bs < 2 ^ LENGTH('a)"
  shows "read_cstring mem (a :: 'a::len word) = Inr (map (\<lambda>b. char_of (unat b)) bs)"
  using assms
proof (induction bs arbitrary: a)
  case Nil
  then show ?case by (simp add: read_cstring_zero)
next
  case (Cons b bs)
  have b: "mem a = Some b" "b \<noteq> 0" using Cons.prems(1) by (auto dest: spec [of _ 0])
  have top: "a \<noteq> - 1"
  proof
    assume "a = - 1"
    then have "unat a = 2 ^ LENGTH('a) - 1" by (metis unsigned_minus_1_eq_mask mask_nat_def mask_eq_exp_minus_1)
    with Cons.prems(3) show False by simp
  qed
  have "read_cstring mem (a + 1) = Inr (map (\<lambda>b. char_of (unat b)) bs)"
  proof (rule Cons.IH)
    show "\<forall>i < length bs. mem (a + 1 + of_nat i) = Some (bs ! i) \<and> bs ! i \<noteq> 0"
      using Cons.prems(1) by (auto simp: add.assoc dest: spec [of _ "Suc _"])
    show "mem (a + 1 + of_nat (length bs)) = Some 0"
      using Cons.prems(2) by (simp add: add.assoc)
    have "unat (a + 1) \<le> unat a + 1"
      by (simp add: unat_word_ariths)
    with Cons.prems(3) show "unat (a + 1) + length bs < 2 ^ LENGTH('a)" by simp
  qed
  with b top show ?case by (simp add: read_cstring_step)
qed

end
