(* ===== verification/Memory_Scan.thy ===== *)
theory Memory_Scan
  imports Trace_Common
begin

text \<open>
  \<^verbatim>\<open>core/memory_scan.cpp\<close>: scanning memory for a byte pattern in hexadecimal with question
  marks for unknown digits and an optional mask behind a colon. The pattern is parsed into
  tokens of exact, unknown and masked bytes; a scan looks for the longest exact token and
  compares the tokens around it.
\<close>

section \<open>Patterns\<close>

datatype MatchType = MATCH_EXACT | MATCH_WILDCARD | MATCH_MASK

record MatchToken =
  tok_type :: MatchType
  tok_bytes :: "byte list"
  tok_masks :: "byte list"
  tok_offset :: nat

record MatchPattern =
  tokens :: "MatchToken list"
  pat_size :: nat
  byte_len :: nat

text \<open>\<open>string_split\<close> for a positive \<open>max_tokens\<close>: the loop runs at most \<open>max_tokens - 1\<close> times.\<close>

fun split_loop :: "nat \<Rightarrow> string \<Rightarrow> string \<Rightarrow> string list \<Rightarrow> string list \<times> string" where
  "split_loop 0 d remainder str_list = (str_list, remainder)"
| "split_loop (Suc n) d remainder str_list =
     (case find_sub d remainder of
        None \<Rightarrow> (str_list, remainder)
      | Some pos \<Rightarrow> split_loop n d (drop (pos + length d) remainder) (str_list @ [take pos remainder]))"

definition string_split :: "string \<Rightarrow> string \<Rightarrow> nat \<Rightarrow> string list" where
  "string_split str d max_tokens =
     (case find_sub d str of
        None \<Rightarrow> [str]
      | Some _ \<Rightarrow>
          let (str_list, remainder) = split_loop (max_tokens - 1) d str []
          in if length remainder \<noteq> 0 then str_list @ [remainder] else str_list)"

text \<open>
  \<open>ascii_xdigit_value\<close>, and its use on a character of a C string: behind the end is a zero,
  which is no digit. \<open>None\<close> stands for minus one.
\<close>

definition ascii_xdigit_value :: "char \<Rightarrow> nat option" where
  "ascii_xdigit_value c =
     (if 65 \<le> (of_char c :: nat) \<and> (of_char c :: nat) \<le> 70 then Some (of_char c - 65 + 10)
      else if 97 \<le> (of_char c :: nat) \<and> (of_char c :: nat) \<le> 102 then Some (of_char c - 97 + 10)
      else if 48 \<le> (of_char c :: nat) \<and> (of_char c :: nat) \<le> 57 then Some (of_char c - 48)
      else None)"

definition xdigit_at :: "string \<Rightarrow> nat \<Rightarrow> nat option" where
  "xdigit_at s k = (if k < length s then ascii_xdigit_value (s ! k) else None)"

definition match_pattern_push_token :: "MatchPattern \<Rightarrow> MatchType \<Rightarrow> MatchPattern" where
  "match_pattern_push_token self t =
     (let token = \<lparr>tok_type = t, tok_bytes = [], tok_masks = [], tok_offset = length (tokens self)\<rparr>;
          ts = tokens self @ [token]
      in self\<lparr>tokens := ts, pat_size := length ts\<rparr>)"

text \<open>The current token is the last one of the pattern; a byte of another type opens a new one.\<close>

definition modify_last :: "(MatchToken \<Rightarrow> MatchToken) \<Rightarrow> MatchPattern \<Rightarrow> MatchPattern" where
  "modify_last f p = p\<lparr>tokens := butlast (tokens p) @ [f (last (tokens p))]\<rparr>"

definition push_byte :: "MatchType \<Rightarrow> byte \<Rightarrow> byte list \<Rightarrow> MatchPattern \<Rightarrow> MatchPattern" where
  "push_byte t value masks p =
     (let p = (if tokens p = [] \<or> tok_type (last (tokens p)) \<noteq> t then match_pattern_push_token p t else p)
      in modify_last (\<lambda>token. token\<lparr>tok_bytes := tok_bytes token @ [value], tok_masks := tok_masks token @ masks\<rparr>) p)"

definition push_value :: "nat \<Rightarrow> nat \<Rightarrow> MatchPattern \<Rightarrow> MatchPattern" where
  "push_value value msk p =
     (if msk = 0xff then push_byte MATCH_EXACT (of_nat value) [] p
      else if msk = 0 then push_byte MATCH_WILDCARD 0x42 [] p
      else push_byte MATCH_MASK (of_nat value) [of_nat msk] p)"

text \<open>
  The mask of a byte, the two digits of its value, and the loop over the text. The second
  string is \<open>None\<close> without a mask. The answer is false where the source jumps to
  \<^verbatim>\<open>parse_error\<close>; the tokens pushed before remain.
\<close>

definition byte_mask :: "string option \<Rightarrow> nat option" where
  "byte_mask mh =
     (case mh of
        None \<Rightarrow> Some 0xff
      | Some m \<Rightarrow>
          (case xdigit_at m 0 of
             None \<Rightarrow> None
           | Some upper \<Rightarrow> (case xdigit_at m 1 of None \<Rightarrow> None | Some lower \<Rightarrow> Some (push_bit 4 upper OR lower))))"

definition byte_value :: "string \<Rightarrow> nat \<Rightarrow> (nat \<times> nat) option" where
  "byte_value ch msk =
     (case (if hd ch = CHR ''?'' then Some (4, msk AND 0x0f) else map_option (\<lambda>u. (u, msk)) (xdigit_at ch 0)) of
        None \<Rightarrow> None
      | Some (upper, msk) \<Rightarrow>
          (case (if 1 < length ch \<and> ch ! 1 = CHR ''?'' then Some (2, msk AND 0xf0)
                 else map_option (\<lambda>l. (l, msk)) (xdigit_at ch 1)) of
             None \<Rightarrow> None
           | Some (lower, msk) \<Rightarrow> Some (push_bit 4 upper OR lower, msk)))"

function parse_loop :: "string \<Rightarrow> string option \<Rightarrow> MatchPattern \<Rightarrow> bool \<times> MatchPattern" where
  "parse_loop ch mh p =
     (if ch = [] \<or> mh = Some [] then (True, p)
      else if hd ch = CHR '' '' then parse_loop (tl ch) (map_option tl mh) p
      else
        let mh = map_option (dropWhile (\<lambda>c. c = CHR '' '')) mh in
        (case byte_mask mh of
           None \<Rightarrow> (False, p)
         | Some msk \<Rightarrow>
             (case byte_value ch msk of
                None \<Rightarrow> (False, p)
              | Some (value, msk) \<Rightarrow>
                  parse_loop (drop 2 ch) (map_option (drop 2) mh) (push_value value msk p))))"
  by pat_completeness auto
termination by (relation "measure (\<lambda>(ch, mh, p). length ch)") auto

declare parse_loop.simps [simp del]

definition match_token_cmp :: "MatchPattern \<Rightarrow> MatchPattern" where
  "match_token_cmp p = p\<lparr>byte_len := fold (\<lambda>item n. n + length (tok_bytes item)) (tokens p) (byte_len p)\<rparr>"

text \<open>The text of a C string ends at a zero character.\<close>

definition c_string :: "string \<Rightarrow> string" where
  "c_string s = takeWhile (\<lambda>c. c \<noteq> CHR 0x00) s"

definition match_pattern_new_from_string :: "string \<Rightarrow> MatchPattern \<Rightarrow> MatchPattern" where
  "match_pattern_new_from_string str p =
     (let parts = string_split str '':'' 2;
          match_str = hd parts;
          mask_str = (if 1 < length parts then parts ! 1 else []);
          has_mask = (length mask_str \<noteq> 0);
          (ok, p) = parse_loop (c_string match_str) (if has_mask then Some (c_string mask_str) else None) p
      in if ok then match_token_cmp p else p)"

definition MemoryScan_new :: "string \<Rightarrow> MatchPattern" where
  "MemoryScan_new pattern_str =
     match_pattern_new_from_string pattern_str \<lparr>tokens = [], pat_size = 0, byte_len = 0\<rparr>"

section \<open>Matching\<close>

definition match_pattern_get_longest_token :: "MatchPattern \<Rightarrow> MatchType \<Rightarrow> MatchToken option" where
  "match_pattern_get_longest_token self t =
     fold (\<lambda>item longest.
        if tok_type item = t
           \<and> (case longest of None \<Rightarrow> True | Some l \<Rightarrow> length (tok_bytes l) < length (tok_bytes item))
        then Some item else longest) (tokens self) None"

text \<open>\<open>memcmp_mask\<close>: byte by byte, ending at the first difference; \<^verbatim>\<open>at\<close> throws out of range.\<close>

fun memcmp_mask_from :: "nat \<Rightarrow> MatchToken \<Rightarrow> memory \<Rightarrow> addr \<Rightarrow> nat \<Rightarrow> bool result" where
  "memcmp_mask_from 0 token mem a i = Inr True"
| "memcmp_mask_from (Suc n) token mem a i =
     (case mem a of
        None \<Rightarrow> Inl (SegFault (unat a))
      | Some value \<Rightarrow>
          if \<not> i < length (tok_masks token) then Inl OutOfRange
          else
            let msk = tok_masks token ! i in
            if (tok_bytes token ! i) AND msk \<noteq> value AND msk then Inr False
            else memcmp_mask_from n token mem (a + 1) (Suc i))"

definition memcmp_mask :: "MatchToken \<Rightarrow> memory \<Rightarrow> addr \<Rightarrow> bool result" where
  "memcmp_mask token mem a = memcmp_mask_from (length (tok_bytes token)) token mem a 0"

text \<open>\<^verbatim>\<open>memcmp(data, bytes, n) == 0\<close>.\<close>

fun memcmp_eq :: "byte list \<Rightarrow> memory \<Rightarrow> addr \<Rightarrow> bool result" where
  "memcmp_eq [] mem a = Inr True"
| "memcmp_eq (b # bs) mem a =
     (case mem a of
        None \<Rightarrow> Inl (SegFault (unat a))
      | Some v \<Rightarrow> if v \<noteq> b then Inr False else memcmp_eq bs mem (a + 1))"

text \<open>
  One turn of the loops in \<open>match_after\<close> and \<open>match_before\<close>: the flag is overwritten by every
  token that is compared and kept by an unknown one.
\<close>

definition match_token :: "memory \<Rightarrow> MatchToken \<Rightarrow> addr \<Rightarrow> bool \<Rightarrow> bool result" where
  "match_token mem token data pass =
     (case tok_type token of
        MATCH_WILDCARD \<Rightarrow> Inr pass
      | MATCH_MASK \<Rightarrow> memcmp_mask token mem data
      | MATCH_EXACT \<Rightarrow> memcmp_eq (tok_bytes token) mem data)"

definition match_after :: "memory \<Rightarrow> nat \<Rightarrow> addr \<Rightarrow> MatchPattern \<Rightarrow> (bool \<times> addr) result" where
  "match_after mem index data p =
     fold_result (\<lambda>token (pass, data).
        map_result (\<lambda>pass. (pass, data + of_nat (length (tok_bytes token)))) (match_token mem token data pass))
       (drop index (take (pat_size p) (tokens p))) (True, data)"

definition match_before :: "memory \<Rightarrow> nat \<Rightarrow> addr \<Rightarrow> MatchPattern \<Rightarrow> (bool \<times> addr) result" where
  "match_before mem index data p =
     fold_result (\<lambda>token (pass, data).
        let data = data - of_nat (length (tok_bytes token)) in
        map_result (\<lambda>pass. (pass, data)) (match_token mem token data pass))
       (rev (take (Suc index) (tokens p))) (True, data)"

section \<open>Scanning\<close>

text \<open>
  \<^verbatim>\<open>memmem\<close> on \<open>n\<close> bytes: the distance to the first occurrence. A scan keeps the current
  address and the number of bytes up to the end of the region, which does not wrap around.
\<close>

fun memmem :: "memory \<Rightarrow> addr \<Rightarrow> nat \<Rightarrow> byte list \<Rightarrow> (nat option) result" where
  "memmem mem cur n needle =
     (if n < length needle then Inr None
      else bind_result (memcmp_eq needle mem cur) (\<lambda>eq.
        if eq then Inr (Some 0)
        else if n = 0 then Inr None
        else map_result (map_option Suc) (memmem mem (cur + 1) (n - 1) needle)))"

declare memmem.simps [simp del]

text \<open>The test of one occurrence: \<open>None\<close> for \<^verbatim>\<open>continue\<close>, the address where the pattern starts.\<close>

definition try_match :: "memory \<Rightarrow> MatchPattern \<Rightarrow> MatchToken \<Rightarrow> addr \<Rightarrow> (addr option) result" where
  "try_match mem p needle cur =
     bind_result
       (if 0 < tok_offset needle then match_before mem (tok_offset needle - 1) cur p else Inr (True, cur))
       (\<lambda>(pass, temp_before).
          if \<not> pass then Inr None
          else if tok_offset needle < length (tokens p)
          then map_result (\<lambda>(pass, _). if pass then Some temp_before else None)
                 (match_after mem (tok_offset needle + 1) (cur + of_nat (length (tok_bytes needle))) p)
          else Inr (Some temp_before))"

text \<open>
  \<open>memory_scan\<close>: the answer and the addresses that were given to the callback. A needle
  without bytes would leave the loop at one place; the parser makes none.
\<close>

function scan_loop ::
  "memory \<Rightarrow> (addr \<Rightarrow> bool) \<Rightarrow> MatchPattern \<Rightarrow> MatchToken \<Rightarrow> addr \<Rightarrow> nat \<Rightarrow> addr list \<Rightarrow> (bool \<times> addr list) result" where
  "scan_loop mem func p needle cur n found =
     (if n = 0 \<or> tok_bytes needle = [] then Inr (True, found)
      else
        (case memmem mem cur n (tok_bytes needle) of
           Inl e \<Rightarrow> Inl e
         | Inr None \<Rightarrow> Inr (False, found)
         | Inr (Some k) \<Rightarrow>
             let cur = cur + of_nat k; next = cur + of_nat (length (tok_bytes needle));
                 n = n - k - length (tok_bytes needle)
             in (case try_match mem p needle cur of
                   Inl e \<Rightarrow> Inl e
                 | Inr None \<Rightarrow> scan_loop mem func p needle next n found
                 | Inr (Some temp_before) \<Rightarrow>
                     if \<not> func temp_before then Inr (True, found @ [temp_before])
                     else scan_loop mem func p needle next n (found @ [temp_before]))))"
  by pat_completeness auto
termination
  by (relation "measure (\<lambda>(mem, func, p, needle, cur, n, found). n)") auto

declare scan_loop.simps [simp del]

definition memory_scan ::
  "memory \<Rightarrow> addr \<Rightarrow> nat \<Rightarrow> (addr \<Rightarrow> bool) \<Rightarrow> MatchPattern \<Rightarrow> (bool \<times> addr list) result" where
  "memory_scan mem base len func p =
     (case match_pattern_get_longest_token p MATCH_EXACT of
        None \<Rightarrow> Inl NullDeref
      | Some needle \<Rightarrow> scan_loop mem func p needle base len [])"

text \<open>\<open>memoryScanOnce\<close>: the first match, zero where there is none.\<close>

function once_loop :: "memory \<Rightarrow> MatchPattern \<Rightarrow> MatchToken \<Rightarrow> addr \<Rightarrow> nat \<Rightarrow> addr result" where
  "once_loop mem p needle cur n =
     (if n = 0 \<or> tok_bytes needle = [] then Inr 0
      else
        (case memmem mem cur n (tok_bytes needle) of
           Inl e \<Rightarrow> Inl e
         | Inr None \<Rightarrow> Inr 0
         | Inr (Some k) \<Rightarrow>
             let cur = cur + of_nat k; next = cur + of_nat (length (tok_bytes needle));
                 n = n - k - length (tok_bytes needle)
             in (case try_match mem p needle cur of
                   Inl e \<Rightarrow> Inl e
                 | Inr None \<Rightarrow> once_loop mem p needle next n
                 | Inr (Some temp_before) \<Rightarrow> Inr temp_before)))"
  by pat_completeness auto
termination
  by (relation "measure (\<lambda>(mem, p, needle, cur, n). n)") auto

declare once_loop.simps [simp del]

definition memoryScanOnce :: "memory \<Rightarrow> addr \<Rightarrow> nat \<Rightarrow> MatchPattern \<Rightarrow> addr result" where
  "memoryScanOnce mem base len p =
     (case match_pattern_get_longest_token p MATCH_EXACT of
        None \<Rightarrow> Inl NullDeref
      | Some needle \<Rightarrow> once_loop mem p needle base len)"

text \<open>
  \<open>memoryScanAsyn\<close>: the argument block of the thread, with a copy of the pattern made token by
  token, and the function of the thread. Its answer is whether the block and the copy are
  freed, and the addresses given to the callback: two of the three ways out of the loop leave
  without freeing. Whether \<^verbatim>\<open>pthread_create\<close> makes the thread is an argument; its answer is
  not looked at, so that without a thread nothing is scanned and nothing is freed.
\<close>

definition copy_token :: "MatchToken \<Rightarrow> MatchToken" where
  "copy_token item =
     \<lparr>tok_type = tok_type item, tok_bytes = fold (\<lambda>b bs. bs @ [b]) (tok_bytes item) [],
      tok_masks = fold (\<lambda>b bs. bs @ [b]) (tok_masks item) [], tok_offset = tok_offset item\<rparr>"

definition thread_pattern :: "MatchPattern \<Rightarrow> MatchPattern" where
  "thread_pattern p =
     fold (\<lambda>item q. q\<lparr>tokens := tokens q @ [copy_token item]\<rparr>) (tokens p)
       \<lparr>tokens = [], pat_size = pat_size p, byte_len = byte_len p\<rparr>"

function asyn_loop ::
  "memory \<Rightarrow> (addr \<Rightarrow> bool) \<Rightarrow> MatchPattern \<Rightarrow> MatchToken \<Rightarrow> addr \<Rightarrow> nat \<Rightarrow> addr list \<Rightarrow> (bool \<times> addr list) result" where
  "asyn_loop mem func p needle cur n found =
     (if n = 0 \<or> tok_bytes needle = [] then Inr (True, found)
      else
        (case memmem mem cur n (tok_bytes needle) of
           Inl e \<Rightarrow> Inl e
         | Inr None \<Rightarrow> Inr (False, found)
         | Inr (Some k) \<Rightarrow>
             let cur = cur + of_nat k; next = cur + of_nat (length (tok_bytes needle));
                 n = n - k - length (tok_bytes needle)
             in (case try_match mem p needle cur of
                   Inl e \<Rightarrow> Inl e
                 | Inr None \<Rightarrow> asyn_loop mem func p needle next n found
                 | Inr (Some temp_before) \<Rightarrow>
                     if \<not> func temp_before then Inr (False, found @ [temp_before])
                     else asyn_loop mem func p needle next n (found @ [temp_before]))))"
  by pat_completeness auto
termination
  by (relation "measure (\<lambda>(mem, func, p, needle, cur, n, found). n)") auto

declare asyn_loop.simps [simp del]

definition memory_scan_asyn ::
  "memory \<Rightarrow> addr \<Rightarrow> nat \<Rightarrow> (addr \<Rightarrow> bool) \<Rightarrow> MatchPattern \<Rightarrow> (bool \<times> addr list) result" where
  "memory_scan_asyn mem base len func p =
     (case match_pattern_get_longest_token p MATCH_EXACT of
        None \<Rightarrow> Inl NullDeref
      | Some needle \<Rightarrow> asyn_loop mem func p needle base len [])"

definition memoryScanAsyn ::
  "bool \<Rightarrow> memory \<Rightarrow> addr \<Rightarrow> nat \<Rightarrow> (addr \<Rightarrow> bool) \<Rightarrow> MatchPattern \<Rightarrow> (bool \<times> addr list) result" where
  "memoryScanAsyn created mem base len func p =
     (let q = thread_pattern p in if created then memory_scan_asyn mem base len func q else Inr (False, []))"

section \<open>Pattern texts\<close>

text \<open>The bytes of a pattern and how they are written, with any number of blanks behind each.\<close>

datatype pat_item = Exact byte | Any | High nat | Low nat

fun item_ok :: "pat_item \<Rightarrow> bool" where
  "item_ok (High h) = (h < 16)"
| "item_ok (Low l) = (l < 16)"
| "item_ok _ = True"

fun item_text :: "pat_item \<Rightarrow> string" where
  "item_text (Exact b) = [hex_digit (unat b div 16), hex_digit (unat b mod 16)]"
| "item_text Any = ''??''"
| "item_text (High h) = [hex_digit h, CHR ''?'']"
| "item_text (Low l) = [CHR ''?'', hex_digit l]"

definition pattern_text :: "(pat_item \<times> nat) list \<Rightarrow> string" where
  "pattern_text items = concat (map (\<lambda>(i, k). item_text i @ replicate k (CHR '' '')) items)"

text \<open>What a byte of memory is compared with: its kind, a value and a mask.\<close>

fun item_cell :: "pat_item \<Rightarrow> MatchType \<times> byte \<times> byte" where
  "item_cell (Exact b) = (MATCH_EXACT, b, 0xff)"
| "item_cell Any = (MATCH_WILDCARD, 0x42, 0)"
| "item_cell (High h) = (MATCH_MASK, of_nat (16 * h + 2), 0xf0)"
| "item_cell (Low l) = (MATCH_MASK, of_nat (64 + l), 0x0f)"

definition token_cells :: "MatchToken \<Rightarrow> (MatchType \<times> byte \<times> byte) list" where
  "token_cells t =
     (case tok_type t of
        MATCH_EXACT \<Rightarrow> map (\<lambda>b. (MATCH_EXACT, b, 0xff)) (tok_bytes t)
      | MATCH_WILDCARD \<Rightarrow> map (\<lambda>b. (MATCH_WILDCARD, b, 0)) (tok_bytes t)
      | MATCH_MASK \<Rightarrow> map (\<lambda>(b, m). (MATCH_MASK, b, m)) (zip (tok_bytes t) (tok_masks t)))"

definition cells :: "MatchPattern \<Rightarrow> (MatchType \<times> byte \<times> byte) list" where
  "cells p = concat (map token_cells (tokens p))"

text \<open>
  The shape of a parsed pattern: tokens are not empty and know their position, neighbours
  differ in kind, and masks belong to the masked tokens.
\<close>

definition token_ok :: "MatchToken \<Rightarrow> bool" where
  "token_ok t \<longleftrightarrow> tok_bytes t \<noteq> []
     \<and> length (tok_masks t) = (if tok_type t = MATCH_MASK then length (tok_bytes t) else 0)"

definition pattern_ok :: "MatchPattern \<Rightarrow> bool" where
  "pattern_ok p \<longleftrightarrow> pat_size p = length (tokens p) \<and> list_all token_ok (tokens p)
     \<and> map tok_offset (tokens p) = [0..<length (tokens p)] \<and> distinct_adj (map tok_type (tokens p))"

definition push_item :: "pat_item \<Rightarrow> MatchPattern \<Rightarrow> MatchPattern" where
  "push_item i p = (case item_cell i of (t, b, m) \<Rightarrow> push_byte t b (if t = MATCH_MASK then [m] else []) p)"

lemma modify_last_snoc [simp]: "modify_last f (p\<lparr>tokens := ts @ [t]\<rparr>) = p\<lparr>tokens := ts @ [f t]\<rparr>"
  by (simp add: modify_last_def)

lemma push_byte_new:
  "tokens p = [] \<or> tok_type (last (tokens p)) \<noteq> t \<Longrightarrow> push_byte t v ms p =
     p\<lparr>tokens := tokens p @ [\<lparr>tok_type = t, tok_bytes = [v], tok_masks = ms, tok_offset = length (tokens p)\<rparr>],
       pat_size := Suc (length (tokens p))\<rparr>"
  by (simp add: push_byte_def match_pattern_push_token_def Let_def modify_last_def)

lemma push_byte_old:
  "tokens p = ts @ [tok] \<Longrightarrow> tok_type tok = t \<Longrightarrow> push_byte t v ms p =
     p\<lparr>tokens := ts @ [tok\<lparr>tok_bytes := tok_bytes tok @ [v], tok_masks := tok_masks tok @ ms\<rparr>]\<rparr>"
  by (simp add: push_byte_def modify_last_def)

lemma push_item_step:
  assumes "pattern_ok p"
  shows "pattern_ok (push_item i p)" and "cells (push_item i p) = cells p @ [item_cell i]"
    and "byte_len (push_item i p) = byte_len p"
proof -
  obtain t b m where cell: "item_cell i = (t, b, m)" by (cases "item_cell i")
  have m: "t = MATCH_EXACT \<Longrightarrow> m = 0xff" "t = MATCH_WILDCARD \<Longrightarrow> m = 0" using cell by (cases i; auto)+
  let ?ms = "if t = MATCH_MASK then [m] else []"
  have goal: "pattern_ok (push_item i p) \<and> cells (push_item i p) = cells p @ [item_cell i]
      \<and> byte_len (push_item i p) = byte_len p"
  proof (cases "tokens p = [] \<or> tok_type (last (tokens p)) \<noteq> t")
    case True
    have "distinct_adj (map tok_type (tokens p) @ [t])"
      using assms True by (auto simp: pattern_ok_def distinct_adj_append_iff last_map)
    then show ?thesis
      using assms m cell unfolding push_item_def cell prod.case push_byte_new [OF True]
      by (auto simp: pattern_ok_def token_ok_def cells_def token_cells_def split: MatchType.splits)
  next
    case False
    then obtain ts tok where ts: "tokens p = ts @ [tok]" "tok_type tok = t"
      by (metis append_butlast_last_id)
    show ?thesis
      using assms m cell ts(2) unfolding push_item_def cell prod.case push_byte_old [OF ts] 
      by (auto simp: pattern_ok_def token_ok_def cells_def token_cells_def ts split: MatchType.splits)
  qed
  then show "pattern_ok (push_item i p)" "cells (push_item i p) = cells p @ [item_cell i]"
    "byte_len (push_item i p) = byte_len p" by blast+
qed

lemma push_items:
  assumes "pattern_ok p"
  shows "pattern_ok (fold push_item is p) \<and> cells (fold push_item is p) = cells p @ map item_cell is
    \<and> byte_len (fold push_item is p) = byte_len p"
  using assms by (induction "is" arbitrary: p) (simp_all add: push_item_step)

subsection \<open>Parsing what was written\<close>

lemma hex_digit_parse:
  assumes "n < 16"
  shows "ascii_xdigit_value (hex_digit n) = Some n" "hex_digit n \<noteq> CHR ''?''" "hex_digit n \<noteq> CHR '' ''"
    "hex_digit n \<noteq> CHR '':''" "hex_digit n \<noteq> CHR 0x00"
proof -
  have "list_all (\<lambda>n. ascii_xdigit_value (hex_digit n) = Some n \<and> hex_digit n \<notin> {CHR ''?'', CHR '' '', CHR '':'', CHR 0x00})
      [0..<16]" by code_simp
  with assms show "ascii_xdigit_value (hex_digit n) = Some n" "hex_digit n \<noteq> CHR ''?''" "hex_digit n \<noteq> CHR '' ''"
    "hex_digit n \<noteq> CHR '':''" "hex_digit n \<noteq> CHR 0x00" by (auto simp: list_all_iff)
qed

lemma join_nibbles:
  fixes u l :: nat
  assumes "u < 16" and "l < 16"
  shows "push_bit 4 u OR l = 16 * u + l"
proof -
  have "list_all (\<lambda>u. list_all (\<lambda>l. push_bit 4 u OR l = 16 * u + l) [0..<16]) [0..<16::nat]" by code_simp
  with assms show ?thesis by (auto simp: list_all_iff)
qed

lemma byte_value_item:
  assumes "item_ok i"
  shows "\<exists>v m. byte_value (item_text i @ rest) 0xff = Some (v, m) \<and> push_value v m = push_item i"
proof (cases i)
  case (Exact b)
  have "unat b < 2 ^ LENGTH(8)" by (rule unsigned_less)
  then have b: "unat b div 16 < 16" "unat b mod 16 < 16" "16 * (unat b div 16) + unat b mod 16 = unat b"
    by auto
  then show ?thesis
    using Exact by (auto simp: byte_value_def xdigit_at_def hex_digit_parse join_nibbles push_value_def push_item_def)
next
  case (Low l)
  then show ?thesis using assms join_nibbles [of 4 l]
    by (auto simp: byte_value_def xdigit_at_def hex_digit_parse push_value_def push_item_def fun_eq_iff)
qed (use assms in \<open>auto simp: byte_value_def xdigit_at_def hex_digit_parse join_nibbles push_value_def push_item_def fun_eq_iff\<close>)

lemma item_text_chars:
  assumes "item_ok i"
  shows "item_text i \<noteq> []" "length (item_text i) = 2" "hd (item_text i) \<noteq> CHR '' ''"
    "CHR '':'' \<notin> set (item_text i)" "CHR 0x00 \<notin> set (item_text i)"
proof -
  have b: "unat b div 16 < 16" "unat b mod 16 < 16" for b :: byte
  proof -
    have "unat b < 2 ^ LENGTH(8)" by (rule unsigned_less)
    then show "unat b div 16 < 16" "unat b mod 16 < 16" by auto
  qed
  show "item_text i \<noteq> []" "length (item_text i) = 2" "hd (item_text i) \<noteq> CHR '' ''"
    "CHR '':'' \<notin> set (item_text i)" "CHR 0x00 \<notin> set (item_text i)"
    using assms
    by (cases i; simp add: b hex_digit_parse hex_digit_parse(4,5) [symmetric])+
qed

lemma parse_blanks: "parse_loop (replicate k (CHR '' '') @ rest) None p = parse_loop rest None p"
proof (induction k)
  case (Suc k)
  then show ?case by (subst parse_loop.simps) simp
qed simp

lemma parse_item:
  assumes "item_ok i"
  shows "parse_loop (item_text i @ rest) None p = parse_loop rest None (push_item i p)"
proof -
  obtain v m where v: "byte_value (item_text i @ rest) 0xff = Some (v, m)" "push_value v m = push_item i"
    using byte_value_item [OF assms] by blast
  have "hd (item_text i @ rest) \<noteq> CHR '' ''" "drop 2 (item_text i @ rest) = rest" "item_text i @ rest \<noteq> []"
    using item_text_chars [OF assms] by auto
  with v item_text_chars(1) [OF assms] show ?thesis by (subst parse_loop.simps) (simp add: byte_mask_def)
qed

lemma parse_pattern_text:
  assumes "list_all (\<lambda>(i, k). item_ok i) items"
  shows "parse_loop (pattern_text items) None p = (True, fold push_item (map fst items) p)"
  using assms
proof (induction items arbitrary: p)
  case Nil
  then show ?case by (subst parse_loop.simps) (simp add: pattern_text_def)
next
  case (Cons it items)
  obtain i k where it: "it = (i, k)" by force
  have "pattern_text (it # items) = item_text i @ replicate k (CHR '' '') @ pattern_text items"
    by (simp add: pattern_text_def it)
  with Cons it show ?case by (simp add: parse_item parse_blanks)
qed

lemma pattern_text_chars:
  assumes "list_all (\<lambda>(i, k). item_ok i) items"
  shows "CHR '':'' \<notin> set (pattern_text items)" "c_string (pattern_text items) = pattern_text items"
proof -
  have "c \<noteq> CHR '':'' \<and> c \<noteq> CHR 0x00" if "c \<in> set (pattern_text items)" for c
    using assms that item_text_chars(4,5) by (force simp: pattern_text_def list_all_iff)
  then show "CHR '':'' \<notin> set (pattern_text items)" "c_string (pattern_text items) = pattern_text items"
    by (auto simp: c_string_def takeWhile_eq_all_conv)
qed

lemma MemoryScan_new_text:
  assumes "list_all (\<lambda>(i, k). item_ok i) items"
  shows "MemoryScan_new (pattern_text items) =
    match_token_cmp (fold push_item (map fst items) \<lparr>tokens = [], pat_size = 0, byte_len = 0\<rparr>)"
  using pattern_text_chars [OF assms] parse_pattern_text [OF assms]
  by (simp add: MemoryScan_new_def match_pattern_new_from_string_def string_split_def find_sub_none)

lemma token_cells_length: "token_ok t \<Longrightarrow> length (token_cells t) = length (tok_bytes t)"
  by (auto simp: token_ok_def token_cells_def split: MatchType.splits)

lemma match_token_cmp_len:
  assumes "list_all token_ok (tokens p)"
  shows "byte_len (match_token_cmp p) = byte_len p + length (cells p)"
proof -
  have "fold (\<lambda>item n. n + length (tok_bytes item)) ts n = n + length (concat (map token_cells ts))"
    if "list_all token_ok ts" for ts n
    using that by (induction ts arbitrary: n) (simp_all add: token_cells_length)
  with assms show ?thesis by (simp add: match_token_cmp_def cells_def)
qed

section \<open>Finding\<close>

definition occurs :: "memory \<Rightarrow> addr \<Rightarrow> byte list \<Rightarrow> bool" where
  "occurs mem a bs \<longleftrightarrow> list_all (\<lambda>i. mem (a + of_nat i) = Some (bs ! i)) [0..<length bs]"

text \<open>The reference: the smallest distance at which the bytes lie within the region.\<close>

definition first_occurrence :: "memory \<Rightarrow> addr \<Rightarrow> nat \<Rightarrow> byte list \<Rightarrow> nat option" where
  "first_occurrence mem a n bs = find (\<lambda>k. occurs mem (a + of_nat k) bs) [0..<Suc n - length bs]"

definition readable :: "memory \<Rightarrow> addr \<Rightarrow> nat \<Rightarrow> bool" where
  "readable mem a n \<longleftrightarrow> list_all (\<lambda>i. mem (a + of_nat i) \<noteq> None) [0..<n]"

lemma find_map: "find P (map f xs) = map_option f (find (\<lambda>x. P (f x)) xs)"
  by (induction xs) auto

lemma upt_Suc_map: "[0..<Suc n] = 0 # map Suc [0..<n]"
  by (simp add: upt_conv_Cons map_Suc_upt del: upt_Suc)

lemma occurs_Cons: "occurs mem a (b # bs) \<longleftrightarrow> mem a = Some b \<and> occurs mem (a + 1) bs"
  by (simp add: occurs_def upt_Suc_map list.pred_map comp_def algebra_simps del: upt_Suc)

lemma readable_Suc: "readable mem a (Suc n) \<longleftrightarrow> mem a \<noteq> None \<and> readable mem (a + 1) n"
  by (simp add: readable_def upt_Suc_map list.pred_map comp_def algebra_simps del: upt_Suc)

lemma readable_mono: "readable mem a n \<Longrightarrow> m \<le> n \<Longrightarrow> readable mem a m"
  by (auto simp: readable_def list_all_iff)

lemma memcmp_eq_occurs: "readable mem a (length bs) \<Longrightarrow> memcmp_eq bs mem a = Inr (occurs mem a bs)"
  by (induction bs arbitrary: a) (auto simp: occurs_def [of _ _ "[]"] occurs_Cons readable_Suc)

lemma first_occurrence_step:
  assumes "length bs \<le> Suc n"
  shows "first_occurrence mem a (Suc n) bs =
    (if occurs mem a bs then Some 0
     else if n < length bs then None else map_option Suc (first_occurrence mem (a + 1) n bs))"
proof -
  have "[0..<Suc (Suc n) - length bs] = 0 # map Suc [0..<Suc n - length bs]"
    using assms upt_Suc_map [of "Suc n - length bs"] by (simp add: Suc_diff_le del: upt_Suc)
  then show ?thesis
    by (auto simp: first_occurrence_def find_map comp_def algebra_simps simp del: upt_Suc)
qed

lemma memmem_first:
  assumes "readable mem a n" and "bs \<noteq> []"
  shows "memmem mem a n bs = Inr (first_occurrence mem a n bs)"
  using assms(1)
proof (induction n arbitrary: a)
  case 0
  then show ?case using assms(2) by (cases bs) (simp_all add: memmem.simps [of _ _ 0] first_occurrence_def)
next
  case (Suc n)
  show ?case
  proof (cases "Suc n < length bs")
    case True
    then show ?thesis by (subst memmem.simps) (simp add: first_occurrence_def)
  next
    case False
    have cmp: "memcmp_eq bs mem a = Inr (occurs mem a bs)"
      by (rule memcmp_eq_occurs) (use Suc.prems False readable_mono in auto)
    have "readable mem (a + 1) n" using Suc.prems readable_Suc by blast
    moreover have "n < length bs \<Longrightarrow> first_occurrence mem (a + 1) n bs = None" by (simp add: first_occurrence_def)
    ultimately show ?thesis
      using False cmp Suc.IH first_occurrence_step [of bs n mem a] by (subst memmem.simps) auto
  qed
qed

text \<open>A pattern of exact bytes is one token.\<close>

lemma push_exact_items:
  assumes "bs \<noteq> []"
  shows "fold push_item (map Exact bs) \<lparr>tokens = [], pat_size = 0, byte_len = 0\<rparr> =
    \<lparr>tokens = [\<lparr>tok_type = MATCH_EXACT, tok_bytes = bs, tok_masks = [], tok_offset = 0\<rparr>], pat_size = 1, byte_len = 0\<rparr>"
  using assms
proof (induction bs rule: rev_nonempty_induct)
  case (single b)
  then show ?case by (simp add: push_item_def push_byte_new)
next
  case (snoc b bs)
  then show ?case
    by (simp add: push_item_def push_byte_old [of _ "[]" "\<lparr>tok_type = MATCH_EXACT, tok_bytes = bs, tok_masks = [], tok_offset = 0\<rparr>"])
qed

lemma once_loop_exact:
  assumes "readable mem a n" and "bs \<noteq> []" and "tokens p = [tok]" and "pat_size p = 1"
    and "tok = \<lparr>tok_type = MATCH_EXACT, tok_bytes = bs, tok_masks = [], tok_offset = 0\<rparr>"
  shows "once_loop mem p tok a n = Inr (case first_occurrence mem a n bs of Some k \<Rightarrow> a + of_nat k | None \<Rightarrow> 0)"
proof (cases "n = 0")
  case True
  then show ?thesis using assms(2)
    by (cases bs) (simp_all add: once_loop.simps first_occurrence_def)
next
  case False
  have "try_match mem p tok cur = Inr (Some cur)" for cur
    using assms(3-5) by (simp add: try_match_def match_after_def)
  with False assms(2,5) memmem_first [OF assms(1,2)] show ?thesis
    by (subst once_loop.simps) (simp split: option.split add: Let_def)
qed

text \<open>The last token that is compared decides.\<close>

lemma match_after_snoc:
  assumes "fold_result (\<lambda>token (pass, data).
        map_result (\<lambda>pass. (pass, data + of_nat (length (tok_bytes token)))) (match_token mem token data pass))
       (us @ [t]) (pass0, data) = Inr (pass, data')" and "tok_type t \<noteq> MATCH_WILDCARD"
  shows "match_token mem t (data + of_nat (length (concat (map tok_bytes us)))) True = Inr pass"
  using assms(1)
proof (induction us arbitrary: pass0 data)
  case Nil
  have "match_token mem t data pass0 = match_token mem t data True"
    using assms(2) by (cases "tok_type t") (simp_all add: match_token_def)
  with Nil show ?case by (auto simp: map_result_eq_Inr bind_result_eq_Inr)
next
  case (Cons u us)
  then obtain pass1 where "fold_result (\<lambda>token (pass, data).
        map_result (\<lambda>pass. (pass, data + of_nat (length (tok_bytes token)))) (match_token mem token data pass))
       (us @ [t]) (pass1, data + of_nat (length (tok_bytes u))) = Inr (pass, data')"
    by (auto simp: bind_result_eq_Inr map_result_eq_Inr)
  from Cons.IH [OF this] show ?case by (simp add: algebra_simps)
qed

subsection \<open>The scan of the thread\<close>

lemma copy_token_same: "copy_token item = item"
proof -
  have "fold (\<lambda>b bs. bs @ [b]) xs acc = acc @ xs" for xs acc :: "byte list"
    by (induction xs arbitrary: acc) simp_all
  then show ?thesis by (simp add: copy_token_def)
qed

lemma thread_pattern_same: "thread_pattern p = p"
proof -
  have "fold (\<lambda>item q. q\<lparr>tokens := tokens q @ [copy_token item]\<rparr>) ts q = q\<lparr>tokens := tokens q @ ts\<rparr>" for ts and q :: MatchPattern
    by (induction ts arbitrary: q) (simp_all add: copy_token_same)
  then show ?thesis by (simp add: thread_pattern_def)
qed

text \<open>The two loops differ in the answer only, and only where a callback stops the scan.\<close>

lemma asyn_loop_scan:
  "list_all func found \<Longrightarrow> asyn_loop mem func p needle cur n found =
     map_result (\<lambda>(b, addrs). (b \<and> list_all func addrs, addrs)) (scan_loop mem func p needle cur n found)"
proof (induction mem func p needle cur n found rule: scan_loop.induct)
  case (1 mem func p needle cur n found)
  show ?case
  proof (cases "n = 0 \<or> tok_bytes needle = []")
    case True
    then show ?thesis using "1.prems" by (subst scan_loop.simps, subst asyn_loop.simps) auto
  next
    case False
    note IH = "1.IH" [OF False]
    show ?thesis
      unfolding scan_loop.simps [of mem func p needle cur n found] asyn_loop.simps [of mem func p needle cur n found]
      using False "1.prems" IH by (auto simp: Let_def split: sum.split option.split)
  qed
qed

section \<open>Properties\<close>

text \<open>
  C35: parsing gives back what was written. The text of any sequence of exact, unknown and half
  known bytes, with any blanks between them, is parsed into a well-formed pattern that
  compares exactly these bytes under these masks, in their order; the recorded length is
  their number.
\<close>

theorem pattern_parse_roundtrip:
  assumes "list_all (\<lambda>(i, k). item_ok i) items" and "p = MemoryScan_new (pattern_text items)"
  shows "pattern_ok p \<and> cells p = map (\<lambda>(i, k). item_cell i) items \<and> byte_len p = length items"
proof -
  let ?p = "fold push_item (map fst items) \<lparr>tokens = [], pat_size = 0, byte_len = 0\<rparr>"
  have "pattern_ok \<lparr>tokens = [], pat_size = 0, byte_len = 0\<rparr>" by (simp add: pattern_ok_def)
  from push_items [OF this] have ok: "pattern_ok ?p" "cells ?p = map item_cell (map fst items)" "byte_len ?p = 0"
    by (simp_all add: cells_def)
  have p: "p = match_token_cmp ?p" using MemoryScan_new_text [OF assms(1)] assms(2) by simp
  have "byte_len p = length items"
    using match_token_cmp_len [of ?p] ok by (simp add: p pattern_ok_def)
  moreover have "pattern_ok p" "cells p = cells ?p"
    using ok by (simp_all add: p match_token_cmp_def pattern_ok_def cells_def)
  ultimately show ?thesis using ok(2) by (simp add: case_prod_unfold)
qed

theorem pattern_parse_roundtrip_witness:
  "cells (MemoryScan_new ''1f 2?  ??'')
     = [(MATCH_EXACT, 0x1f, 0xff), (MATCH_MASK, 0x22, 0xf0), (MATCH_WILDCARD, 0x42, 0)]"
proof -
  have "pattern_text [(Exact 0x1f, 1), (High 2, 2), (Any, 0)] = ''1f 2?  ??''" by code_simp
  then show ?thesis
    using pattern_parse_roundtrip [OF _ refl, of "[(Exact 0x1f, 1), (High 2, 2), (Any, 0)]"] by simp
qed

text \<open>
  Scanning a readable region once for a pattern of exact bytes finds their first
  occurrence that lies in the region, and answers null exactly when there is none (or at
  address zero).
\<close>

theorem scan_once_first:
  assumes "readable mem base n" and "bs \<noteq> []" and "length ks = length bs"
  shows "memoryScanOnce mem base n (MemoryScan_new (pattern_text (zip (map Exact bs) ks)))
    = Inr (case first_occurrence mem base n bs of Some k \<Rightarrow> base + of_nat k | None \<Rightarrow> 0)"
proof -
  let ?tok = "\<lparr>tok_type = MATCH_EXACT, tok_bytes = bs, tok_masks = [], tok_offset = 0\<rparr>"
  have ok: "list_all (\<lambda>(i, k). item_ok i) (zip (map Exact bs) ks)"
    by (auto simp: list_all_iff dest!: set_zip_leftD)
  have items: "map fst (zip (map Exact bs) ks) = map Exact bs" using assms(3) by (intro map_fst_zip) simp
  define p where "p = MemoryScan_new (pattern_text (zip (map Exact bs) ks))"
  have p: "tokens p = [?tok]" "pat_size p = 1"
    unfolding p_def MemoryScan_new_text [OF ok] items push_exact_items [OF assms(2)]
    by (simp_all add: match_token_cmp_def)
  have "match_pattern_get_longest_token p MATCH_EXACT = Some ?tok"
    by (simp add: match_pattern_get_longest_token_def p)
  then show ?thesis
    using once_loop_exact [OF assms(1,2) p refl] by (simp add: memoryScanOnce_def p_def [symmetric])
qed

theorem scan_once_first_witness:
  "memoryScanOnce ((\<lambda>_. None)(0x10 \<mapsto> 7, 0x11 \<mapsto> 1, 0x12 \<mapsto> 2, 0x13 \<mapsto> 9)) 0x10 4 (MemoryScan_new ''01 02'') = Inr 0x11"
proof -
  let ?mem = "(\<lambda>_. None)(0x10 \<mapsto> 7, 0x11 \<mapsto> 1, 0x12 \<mapsto> 2, 0x13 \<mapsto> 9) :: memory"
  have r: "readable ?mem 0x10 4" by code_simp
  have "pattern_text (zip (map Exact [1, 2]) [1, 0]) = ''01 02''" by code_simp
  moreover have "first_occurrence ?mem 0x10 4 [1, 2] = Some 1" by code_simp
  ultimately show ?thesis using scan_once_first [OF r, of "[1, 2]" "[1, 0]"] by simp
qed

text \<open>
  Behind the needle only the last token that is compared decides: its result overwrites
  those of the tokens before it. A pattern without an exact token dereferences null.
\<close>

theorem match_after_last_decides:
  assumes "drop index (take (pat_size p) (tokens p)) = us @ [t]" and "tok_type t \<noteq> MATCH_WILDCARD"
    and "match_after mem index data p = Inr (pass, data')"
  shows "match_token mem t (data + of_nat (length (concat (map tok_bytes us)))) True = Inr pass
    \<and> ((\<forall>tok \<in> set (tokens q). tok_type tok \<noteq> MATCH_EXACT) \<longrightarrow> memory_scan mem base n func q = Inl NullDeref)"
proof -
  have "fold (\<lambda>item longest. if tok_type item = MATCH_EXACT
          \<and> (case longest of None \<Rightarrow> True | Some l \<Rightarrow> length (tok_bytes l) < length (tok_bytes item))
        then Some item else longest) ts None = None"
    if "\<forall>tok \<in> set ts. tok_type tok \<noteq> MATCH_EXACT" for ts :: "MatchToken list"
    using that by (induction ts) auto
  then have "(\<forall>tok \<in> set (tokens q). tok_type tok \<noteq> MATCH_EXACT) \<longrightarrow> memory_scan mem base n func q = Inl NullDeref"
    by (simp add: memory_scan_def match_pattern_get_longest_token_def)
  moreover note match_after_snoc [OF assms(3) [unfolded match_after_def assms(1)] assms(2)]
  ultimately show ?thesis by blast
qed

text \<open>The masked byte and the exact byte behind the needle differ, and still the pattern is found.\<close>

definition false_match_memory :: memory where
  "false_match_memory = (\<lambda>_. None)(0x10 \<mapsto> 0xaa, 0x11 \<mapsto> 0xbb, 0x12 \<mapsto> 0x05, 0x13 \<mapsto> 0x00, 0x14 \<mapsto> 0x12)"

theorem match_after_last_decides_witness:
  "memoryScanOnce false_match_memory 0x10 5 (MemoryScan_new ''aabb?1cc?2'') = Inr 0x10
   \<and> match_token false_match_memory \<lparr>tok_type = MATCH_MASK, tok_bytes = [0x42], tok_masks = [0x0f], tok_offset = 3\<rparr>
       0x14 True = Inr True"
proof -
  let ?p = "MemoryScan_new ''aabb?1cc?2''"
  let ?t = "\<lparr>tok_type = MATCH_MASK, tok_bytes = [0x42], tok_masks = [0x0f], tok_offset = 3\<rparr>"
  have toks: "drop 1 (take (pat_size ?p) (tokens ?p)) =
      [\<lparr>tok_type = MATCH_MASK, tok_bytes = [0x41], tok_masks = [0x0f], tok_offset = 1\<rparr>,
       \<lparr>tok_type = MATCH_EXACT, tok_bytes = [0xcc], tok_masks = [], tok_offset = 2\<rparr>] @ [?t]" by code_simp
  have after: "match_after false_match_memory 1 0x12 ?p = Inr (True, 0x15)" by code_simp
  from match_after_last_decides [OF toks _ after, of ?p "0x10" 5 "\<lambda>_. True"]
  have "match_token false_match_memory ?t 0x14 True = Inr True" by simp
  moreover have "memoryScanOnce false_match_memory 0x10 5 ?p = Inr 0x10" by code_simp
  ultimately show ?thesis by blast
qed

text \<open>
  C37: the scan in a thread, once the thread is made, sees what the scan in place sees. On its copy of the pattern it
  gives the same addresses to the callback, in the same order, and fails where the other
  fails. It frees its arguments only when it ran to the end of the region and no callback
  stopped it: when the rest of the region has no further occurrence of the needle, or a
  callback asks to stop, they are never freed. When the thread cannot be made, the callback is told
  nothing and the arguments are not freed either.
\<close>

theorem scan_thread_same:
  "memoryScanAsyn created mem base len func p =
     (if created then map_result (\<lambda>(b, addrs). (b \<and> list_all func addrs, addrs)) (memory_scan mem base len func p)
      else Inr (False, []))"
  by (simp add: memoryScanAsyn_def Let_def memory_scan_asyn_def memory_scan_def thread_pattern_same asyn_loop_scan
      split: option.split)

end
