(* ===== verification/Scan_Spec.thy ===== *)
theory Scan_Spec
  imports Memory_Scan
begin

text \<open>
  A reference for the scans of \<^verbatim>\<open>core/memory_scan.cpp\<close>: which addresses a scan gives to its
  callback, for any parsed pattern, as a list that is computed without the loops of the code.
  The last functions of the class, which only forward to a scan, are here too.
\<close>

section \<open>Entry points\<close>

text \<open>The addresses that the callback is told; the answer of the scan is dropped.\<close>

definition memoryScanSync :: "memory \<Rightarrow> addr \<Rightarrow> nat \<Rightarrow> (addr \<Rightarrow> bool) \<Rightarrow> MatchPattern \<Rightarrow> addr list result" where
  "memoryScanSync mem base len func p = map_result snd (memory_scan mem base len func p)"

definition memoryScanSync_end :: "memory \<Rightarrow> addr \<Rightarrow> addr \<Rightarrow> (addr \<Rightarrow> bool) \<Rightarrow> MatchPattern \<Rightarrow> addr list result" where
  "memoryScanSync_end mem base end_data func p = memoryScanSync mem base (unat (end_data - base)) func p"

definition memoryScanAsyn_end ::
  "bool \<Rightarrow> memory \<Rightarrow> addr \<Rightarrow> addr \<Rightarrow> (addr \<Rightarrow> bool) \<Rightarrow> MatchPattern \<Rightarrow> (bool \<times> addr list) result" where
  "memoryScanAsyn_end created mem base end_data func p = memoryScanAsyn created mem base (unat (end_data - base)) func p"

section \<open>The reference\<close>

definition compared :: "MatchToken \<Rightarrow> bool" where
  "compared t \<longleftrightarrow> tok_type t \<noteq> MATCH_WILDCARD"

definition bytes_of :: "MatchToken list \<Rightarrow> nat" where
  "bytes_of ts = sum_list (map (length \<circ> tok_bytes) ts)"

definition token_matches :: "memory \<Rightarrow> MatchToken \<Rightarrow> addr \<Rightarrow> bool" where
  "token_matches mem t a =
     (case tok_type t of
        MATCH_WILDCARD \<Rightarrow> True
      | MATCH_EXACT \<Rightarrow> occurs mem a (tok_bytes t)
      | MATCH_MASK \<Rightarrow> list_all (\<lambda>i. tok_bytes t ! i AND tok_masks t ! i = the (mem (a + of_nat i)) AND tok_masks t ! i)
          [0..<length (tok_bytes t)])"

text \<open>The tokens lie one behind the other from \<open>a\<close> on: all of them match, the last or the first compared one does.\<close>

fun all_match :: "memory \<Rightarrow> MatchToken list \<Rightarrow> addr \<Rightarrow> bool" where
  "all_match mem [] a \<longleftrightarrow> True"
| "all_match mem (t # ts) a \<longleftrightarrow> token_matches mem t a \<and> all_match mem ts (a + of_nat (length (tok_bytes t)))"

fun last_matches :: "memory \<Rightarrow> MatchToken list \<Rightarrow> addr \<Rightarrow> bool" where
  "last_matches mem [] a \<longleftrightarrow> True"
| "last_matches mem (t # ts) a \<longleftrightarrow>
     (if list_ex compared ts then last_matches mem ts (a + of_nat (length (tok_bytes t))) else token_matches mem t a)"

fun first_matches :: "memory \<Rightarrow> MatchToken list \<Rightarrow> addr \<Rightarrow> bool" where
  "first_matches mem [] a \<longleftrightarrow> True"
| "first_matches mem (t # ts) a \<longleftrightarrow>
     (if compared t then token_matches mem t a else first_matches mem ts (a + of_nat (length (tok_bytes t))))"

text \<open>The occurrences of bytes in a region from the left that do not overlap, as distances from its start.\<close>

function positions :: "memory \<Rightarrow> addr \<Rightarrow> nat \<Rightarrow> byte list \<Rightarrow> nat \<Rightarrow> nat list" where
  "positions mem base len bs k =
     (if bs = [] \<or> len < k + length bs then []
      else if occurs mem (base + of_nat k) bs then k # positions mem base len bs (k + length bs)
      else positions mem base len bs (Suc k))"
  by pat_completeness auto
termination
  by (relation "measure (\<lambda>(mem, base, len, bs, k). Suc len - k)")
    (auto simp: length_greater_0_conv [symmetric] simp del: length_greater_0_conv)

declare positions.simps [simp del]

text \<open>A callback is told the addresses up to the first one that it answers with false.\<close>

fun told :: "('a \<Rightarrow> bool) \<Rightarrow> 'a list \<Rightarrow> 'a list" where
  "told func [] = []"
| "told func (x # xs) = x # (if func x then told func xs else [])"

text \<open>Whether a scan accepts an occurrence of token \<open>i\<close> at \<open>a\<close>, and where the pattern starts then.\<close>

definition accepts :: "memory \<Rightarrow> MatchPattern \<Rightarrow> nat \<Rightarrow> addr \<Rightarrow> bool" where
  "accepts mem p i a \<longleftrightarrow>
     first_matches mem (take i (tokens p)) (a - of_nat (bytes_of (take i (tokens p))))
     \<and> last_matches mem (drop (Suc i) (tokens p)) (a + of_nat (length (tok_bytes (tokens p ! i))))"

definition pattern_start :: "MatchPattern \<Rightarrow> nat \<Rightarrow> addr \<Rightarrow> addr" where
  "pattern_start p i a = a - of_nat (bytes_of (take i (tokens p)))"

definition matches :: "memory \<Rightarrow> MatchPattern \<Rightarrow> MatchToken \<Rightarrow> addr \<Rightarrow> nat \<Rightarrow> addr list" where
  "matches mem p needle base len =
     (let i = tok_offset needle in
      map (\<lambda>k. pattern_start p i (base + of_nat k))
        (filter (\<lambda>k. accepts mem p i (base + of_nat k)) (positions mem base len (tok_bytes needle) 0)))"

section \<open>Tokens\<close>

lemma bytes_of_simps [simp]:
  "bytes_of [] = 0" "bytes_of (t # ts) = length (tok_bytes t) + bytes_of ts" "bytes_of (ts @ us) = bytes_of ts + bytes_of us"
  by (simp_all add: bytes_of_def)

lemma readable_nth: "readable mem a n \<longleftrightarrow> (\<forall>k < n. mem (a + of_nat k) \<noteq> None)"
  by (auto simp: readable_def list_all_iff)

lemma readable_sub:
  assumes "readable mem a n" and "i + m \<le> n"
  shows "readable mem (a + of_nat i) m"
  unfolding readable_nth
proof (intro allI impI)
  fix j assume "j < m"
  then have "i + j < n" using assms(2) by simp
  with assms(1) have "mem (a + of_nat (i + j)) \<noteq> None" unfolding readable_nth by blast
  moreover have "a + of_nat i + of_nat j = a + of_nat (i + j)" by simp
  ultimately show "mem (a + of_nat i + of_nat j) \<noteq> None" by metis
qed

lemma memcmp_mask_from_total:
  assumes "readable mem a n" and "i + n \<le> length (tok_masks t)"
  shows "memcmp_mask_from n t mem a i = Inr (list_all (\<lambda>j. tok_bytes t ! (i + j) AND tok_masks t ! (i + j) =
    the (mem (a + of_nat j)) AND tok_masks t ! (i + j)) [0..<n])"
  using assms
proof (induction n arbitrary: a i)
  case (Suc n)
  obtain v where v: "mem a = Some v" and rest: "readable mem (a + 1) n" using Suc.prems(1) readable_Suc by auto
  from Suc.IH [OF rest, of "Suc i"] Suc.prems(2) v show ?case
    by (simp add: upt_Suc_map list.pred_map comp_def algebra_simps Let_def del: upt_Suc)
qed simp

lemma match_token_total:
  assumes "token_ok t" and "readable mem a (length (tok_bytes t))"
  shows "match_token mem t a pass = Inr (if compared t then token_matches mem t a else pass)"
  using assms memcmp_mask_from_total [OF assms(2), of 0 t] memcmp_eq_occurs [OF assms(2)]
  by (cases "tok_type t") (simp_all add: match_token_def compared_def token_matches_def memcmp_mask_def token_ok_def)

lemma last_matches_none: "\<not> list_ex compared ts \<Longrightarrow> last_matches mem ts a"
  by (cases ts) (auto simp: token_matches_def compared_def)

lemma match_after_total:
  assumes "list_all token_ok ts" and "readable mem a (bytes_of ts)"
  shows "fold_result (\<lambda>token (pass, data).
        map_result (\<lambda>pass. (pass, data + of_nat (length (tok_bytes token)))) (match_token mem token data pass)) ts (pass, a)
    = Inr (if list_ex compared ts then last_matches mem ts a else pass, a + of_nat (bytes_of ts))"
  using assms
proof (induction ts arbitrary: pass a)
  case (Cons t ts)
  have t: "token_ok t" "readable mem a (length (tok_bytes t))" "readable mem (a + of_nat (length (tok_bytes t))) (bytes_of ts)"
    using Cons.prems readable_sub [of mem a "bytes_of (t # ts)" 0 "length (tok_bytes t)"]
      readable_sub [of mem a "bytes_of (t # ts)" "length (tok_bytes t)" "bytes_of ts"] by simp_all
  from Cons.IH [OF _ t(3)] Cons.prems(1) match_token_total [OF t(1,2)] show ?case by (simp add: algebra_simps)
qed simp

lemma first_matches_snoc:
  "first_matches mem (ts @ [t]) a \<longleftrightarrow>
     (if list_ex compared ts then first_matches mem ts a else compared t \<longrightarrow> token_matches mem t (a + of_nat (bytes_of ts)))"
  by (induction ts arbitrary: a) (auto simp: algebra_simps)

lemma match_before_total:
  assumes "list_all token_ok ts" and "readable mem (a - of_nat (bytes_of ts)) (bytes_of ts)"
  shows "fold_result (\<lambda>token (pass, data).
        let data = data - of_nat (length (tok_bytes token)) in
        map_result (\<lambda>pass. (pass, data)) (match_token mem token data pass)) (rev ts) (pass, a)
    = Inr (if list_ex compared ts then first_matches mem ts (a - of_nat (bytes_of ts)) else pass, a - of_nat (bytes_of ts))"
  using assms
proof (induction ts arbitrary: pass a rule: rev_induct)
  case (snoc t ts)
  let ?b = "a - of_nat (length (tok_bytes t))"
  have base: "a - of_nat (bytes_of (ts @ [t])) = ?b - of_nat (bytes_of ts)" by (simp add: algebra_simps)
  have "readable mem (?b - of_nat (bytes_of ts)) (bytes_of ts)"
    using readable_sub [of mem "?b - of_nat (bytes_of ts)" "bytes_of (ts @ [t])" 0 "bytes_of ts"] snoc.prems(2) unfolding base by simp
  moreover have "readable mem ?b (length (tok_bytes t))"
    using readable_sub [of mem "?b - of_nat (bytes_of ts)" "bytes_of (ts @ [t])" "bytes_of ts" "length (tok_bytes t)"] snoc.prems(2)
    unfolding base by simp
  ultimately show ?case
    using snoc.IH [of ?b] snoc.prems(1) match_token_total [of t mem ?b] unfolding base
    by (simp add: first_matches_snoc Let_def)
qed simp

lemma longest_token_in:
  assumes "match_pattern_get_longest_token p t = Some x"
  shows "x \<in> set (tokens p) \<and> tok_type x = t"
proof -
  have "fold (\<lambda>item longest.
        if tok_type item = t
           \<and> (case longest of None \<Rightarrow> True | Some l \<Rightarrow> length (tok_bytes l) < length (tok_bytes item))
        then Some item else longest) ts acc = Some x \<Longrightarrow> acc = Some x \<or> x \<in> set ts \<and> tok_type x = t" for ts acc
  proof (induction ts arbitrary: acc)
    case (Cons a ts)
    from Cons.IH [OF Cons.prems [simplified]] show ?case by (auto split: if_splits)
  qed simp
  from this [of "tokens p" None] assms show ?thesis by (auto simp: match_pattern_get_longest_token_def)
qed

lemma pattern_ok_index:
  assumes "pattern_ok p" and "x \<in> set (tokens p)"
  shows "tok_offset x < length (tokens p)" and "tokens p ! tok_offset x = x"
proof -
  obtain i where i: "i < length (tokens p)" "tokens p ! i = x" using assms(2) by (auto simp: in_set_conv_nth)
  have "map tok_offset (tokens p) ! i = [0..<length (tokens p)] ! i" using assms(1) by (simp add: pattern_ok_def)
  with i have "tok_offset x = i" by simp
  with i show "tok_offset x < length (tokens p)" "tokens p ! tok_offset x = x" by simp_all
qed

section \<open>The test of an occurrence and the loop\<close>

lemma first_matches_none: "\<not> list_ex compared ts \<Longrightarrow> first_matches mem ts a"
  by (induction ts arbitrary: a) auto

lemma try_match_total:
  assumes "pattern_ok p" and "needle \<in> set (tokens p)" and "i = tok_offset needle"
    and "readable mem (a - of_nat (bytes_of (take i (tokens p)))) (bytes_of (tokens p))"
  shows "try_match mem p needle a = Inr (if accepts mem p i a then Some (pattern_start p i a) else None)"
proof -
  let ?us = "take i (tokens p)" and ?vs = "drop (Suc i) (tokens p)" and ?n = "length (tok_bytes needle)"
  have i: "i < length (tokens p)" "tokens p ! i = needle" using pattern_ok_index [OF assms(1,2)] by (simp_all add: assms(3))
  have split: "tokens p = ?us @ needle # ?vs" using id_take_nth_drop [OF i(1)] i(2) by simp
  have ok: "list_all token_ok ?us" "list_all token_ok ?vs" "pat_size p = length (tokens p)"
    using assms(1) by (auto simp: pattern_ok_def list_all_iff dest: in_set_takeD in_set_dropD)
  have len: "bytes_of (tokens p) = bytes_of ?us + ?n + bytes_of ?vs"
    using arg_cong [OF split, of bytes_of] by simp
  have "readable mem (a - of_nat (bytes_of ?us)) (bytes_of ?us)"
    using readable_sub [OF assms(4), of 0 "bytes_of ?us"] len by simp
  note before = match_before_total [OF ok(1) this]
  have "readable mem (a + of_nat ?n) (bytes_of ?vs)"
    using readable_sub [OF assms(4), of "bytes_of ?us + ?n" "bytes_of ?vs"] len by (simp add: algebra_simps)
  note after = match_after_total [OF ok(2) this]
  have b: "(if 0 < tok_offset needle then match_before mem (tok_offset needle - 1) a p else Inr (True, a))
      = Inr (first_matches mem ?us (a - of_nat (bytes_of ?us)), a - of_nat (bytes_of ?us))"
    using before [of True] first_matches_none [of ?us mem]
    by (cases i) (auto simp: match_before_def assms(3) [symmetric])
  have c: "match_after mem (tok_offset needle + 1) (a + of_nat ?n) p
      = Inr (last_matches mem ?vs (a + of_nat ?n), a + of_nat ?n + of_nat (bytes_of ?vs))"
    using after [of True] last_matches_none [of ?vs mem] ok(3)
    by (auto simp: match_after_def assms(3) [symmetric])
  show ?thesis
    unfolding try_match_def b c using i by (auto simp: accepts_def pattern_start_def assms(3) [symmetric])
qed

lemma positions_first:
  assumes "bs \<noteq> []" and "k \<le> len"
  shows "positions mem base len bs k =
    (case first_occurrence mem (base + of_nat k) (len - k) bs of
       None \<Rightarrow> [] | Some j \<Rightarrow> (k + j) # positions mem base len bs (k + j + length bs))"
  using assms(2)
proof (induction "len - k" arbitrary: k)
  case 0
  then show ?case using assms(1) by (cases bs) (auto simp: positions.simps first_occurrence_def)
next
  case (Suc d)
  show ?case
  proof (cases "len < k + length bs")
    case True
    then have "Suc (len - k) - length bs = 0" using Suc.prems by simp
    with True show ?thesis by (subst positions.simps) (simp add: first_occurrence_def)
  next
    case False
    then have step: "first_occurrence mem (base + of_nat k) (len - k) bs =
      (if occurs mem (base + of_nat k) bs then Some 0
       else if d < length bs then None else map_option Suc (first_occurrence mem (base + of_nat k + 1) d bs))"
      using first_occurrence_step [of bs d mem "base + of_nat k"] Suc.hyps(2) by simp
    have k: "Suc k \<le> len" "d = len - Suc k" using Suc.hyps(2) by simp_all
    have "positions mem base len bs (Suc k) = []" if "d < length bs"
    proof -
      have "len < Suc k + length bs" using that k by linarith
      then show ?thesis by (subst positions.simps) simp
    qed
    with Suc.hyps(1) [OF k(2,1)] step False assms(1) k(2) show ?thesis
      by (subst positions.simps) (auto simp: algebra_simps split: option.split)
  qed
qed

lemma scan_loop_told:
  assumes "readable mem base len" and "tok_bytes needle \<noteq> []"
    and "\<And>k. k + length (tok_bytes needle) \<le> len \<Longrightarrow>
      try_match mem p needle (base + of_nat k) = Inr (if acc k then Some (start k) else None)"
    and "k \<le> len"
  shows "\<exists>b. scan_loop mem func p needle (base + of_nat k) (len - k) found =
    Inr (b, found @ told func (map start (filter acc (positions mem base len (tok_bytes needle) k))))"
  using assms(4)
proof (induction "len - k" arbitrary: k found rule: less_induct)
  case less
  let ?bs = "tok_bytes needle"
  show ?case
  proof (cases "k = len")
    case True
    then show ?thesis using assms(2) by (subst scan_loop.simps, subst positions.simps) auto
  next
    case False
    have "readable mem (base + of_nat k) (len - k)" using readable_sub [OF assms(1), of k "len - k"] less.prems by simp
    note mm = memmem_first [OF this assms(2)]
    note pos = positions_first [OF assms(2) less.prems, of mem base]
    show ?thesis
    proof (cases "first_occurrence mem (base + of_nat k) (len - k) ?bs")
      case None
      then show ?thesis using mm pos False less.prems assms(2) by (subst scan_loop.simps) auto
    next
      case (Some j)
      then have "j \<in> set [0..<Suc (len - k) - length ?bs]"
        unfolding first_occurrence_def by (auto simp: find_Some_iff simp del: upt_Suc)
      then have j: "k + j + length ?bs \<le> len" using less.prems by (auto simp del: upt_Suc)
      let ?k = "k + j + length ?bs"
      have test: "try_match mem p needle (base + of_nat k + of_nat j) = Inr (if acc (k + j) then Some (start (k + j)) else None)"
        using assms(3) [of "k + j"] j by (simp add: algebra_simps)
      have dec: "len - ?k < len - k" using j assms(2) False less.prems
        by (auto simp: length_greater_0_conv [symmetric] simp del: length_greater_0_conv)
      have cont: "\<exists>b. scan_loop mem func p needle (base + of_nat k + of_nat j + of_nat (length ?bs)) (len - k - j - length ?bs) found =
          Inr (b, found @ told func (map start (filter acc (positions mem base len ?bs ?k))))" for found
        using less.hyps [OF dec j, of found] by (simp add: algebra_simps)
      show ?thesis
        using mm pos False less.prems assms(2) test cont [of found] cont [of "found @ [start (k + j)]"] Some
        by (subst scan_loop.simps) (auto simp: Let_def)
    qed
  qed
qed

text \<open>The search for one match is a scan whose callback stops it at once.\<close>

lemma once_loop_scan:
  "once_loop mem p needle cur n =
     map_result (\<lambda>(b, found). case found of [] \<Rightarrow> 0 | a # _ \<Rightarrow> a) (scan_loop mem (\<lambda>_. False) p needle cur n [])"
proof (induction mem p needle cur n rule: once_loop.induct)
  case (1 mem p needle cur n)
  then show ?case
    by (subst once_loop.simps, subst scan_loop.simps) (auto simp: Let_def split: sum.splits option.splits)
qed

lemma told_once: "(case told (\<lambda>_. False) xs of [] \<Rightarrow> d | a # _ \<Rightarrow> a) = (case xs of [] \<Rightarrow> d | a # _ \<Rightarrow> a)"
  by (cases xs) simp_all

section \<open>Properties\<close>

lemma last_matches_all: "all_match mem ts a \<Longrightarrow> last_matches mem ts a"
  by (induction ts arbitrary: a) auto

lemma first_matches_all: "all_match mem ts a \<Longrightarrow> first_matches mem ts a"
  by (induction ts arbitrary: a) auto

lemma all_match_append: "all_match mem (ts @ us) a \<longleftrightarrow> all_match mem ts a \<and> all_match mem us (a + of_nat (bytes_of ts))"
  by (induction ts arbitrary: a) (auto simp: algebra_simps)

lemma all_match_accepts:
  assumes "all_match mem (tokens p) (pattern_start p i a)" and "i < length (tokens p)"
  shows "accepts mem p i a" and "tok_type (tokens p ! i) = MATCH_EXACT \<Longrightarrow> occurs mem a (tok_bytes (tokens p ! i))"
proof -
  let ?us = "take i (tokens p)" and ?vs = "drop (Suc i) (tokens p)" and ?t = "tokens p ! i"
  have "all_match mem (?us @ ?t # ?vs) (pattern_start p i a)" using assms(1) id_take_nth_drop [OF assms(2)] by simp
  then have "all_match mem ?us (pattern_start p i a)" "token_matches mem ?t a" "all_match mem ?vs (a + of_nat (length (tok_bytes ?t)))"
    by (simp_all add: all_match_append pattern_start_def)
  then show "accepts mem p i a" "tok_type ?t = MATCH_EXACT \<Longrightarrow> occurs mem a (tok_bytes ?t)"
    using first_matches_all last_matches_all by (simp_all add: accepts_def pattern_start_def token_matches_def)
qed

text \<open>Every position is an occurrence inside the region; one that no other overlaps from the left is a position.\<close>

lemma positions_sound:
  "m \<in> set (positions mem base len bs k) \<Longrightarrow> m + length bs \<le> len \<and> occurs mem (base + of_nat m) bs"
proof (induction mem base len bs k rule: positions.induct)
  case (1 mem base len bs k)
  from "1.prems" show ?case
    by (subst (asm) positions.simps) (use "1.IH" in \<open>auto split: if_splits\<close>)
qed

lemma positions_complete:
  assumes "bs \<noteq> []" and "k \<le> m" and "m + length bs \<le> len" and "occurs mem (base + of_nat m) bs"
    and "\<And>j. k \<le> j \<Longrightarrow> j < m \<Longrightarrow> m < j + length bs \<Longrightarrow> \<not> occurs mem (base + of_nat j) bs"
  shows "m \<in> set (positions mem base len bs k)"
  using assms
proof (induction mem base len bs k rule: positions.induct)
  case (1 mem base len bs k)
  have region: "\<not> (bs = [] \<or> len < k + length bs)" using "1.prems"(1-3) by simp
  show ?case
  proof (cases "m = k")
    case True
    then show ?thesis using "1.prems"(4) region by (subst positions.simps) simp
  next
    case False
    then have "Suc k \<le> m" using "1.prems"(2) by simp
    moreover have "k + length bs \<le> m" if "occurs mem (base + of_nat k) bs"
      using "1.prems"(5) [of k] that \<open>Suc k \<le> m\<close> by force
    ultimately show ?thesis
      using "1.IH" region "1.prems"(1,3-5) by (subst positions.simps) auto
  qed
qed

text \<open>
  C36: what a scan gives to its callback. Let the region be readable, with the bytes of the
  pattern in front of it and behind it. The needle, the longest exact token, is looked for from the left
  without overlaps; an occurrence is accepted when the first compared token of the pattern, if it
  lies before the needle, and the last compared token, if it lies behind, match at
  their places; the callback is told the start of the pattern for each accepted occurrence, in order,
  up to the first that it answers with false. The search for one match answers with the first
  of these addresses, null when there is none. So every address told is one where the needle
  occurs in the region and these two tokens match, though tokens between them need not. In the
  other direction a match of the whole pattern is among the addresses when no
  other occurrence of the needle in the region overlaps that of the match from the left;
  with such an overlap it can be missed, because the search goes on behind the needle.
\<close>

theorem scan_told:
  assumes "pattern_ok p" and "match_pattern_get_longest_token p MATCH_EXACT = Some needle" and "i = tok_offset needle"
    and "readable mem (base - of_nat (bytes_of (take i (tokens p)))) (len + bytes_of (tokens p))"
  shows "memoryScanSync mem base len func p = Inr (told func (matches mem p needle base len))
    \<and> memoryScanOnce mem base len p = Inr (case matches mem p needle base len of [] \<Rightarrow> 0 | a # _ \<Rightarrow> a)
    \<and> (\<forall>a \<in> set (matches mem p needle base len). \<exists>k. a = pattern_start p i (base + of_nat k)
          \<and> k + length (tok_bytes needle) \<le> len \<and> occurs mem (base + of_nat k) (tok_bytes needle) \<and> accepts mem p i (base + of_nat k))
    \<and> (\<forall>k. k + length (tok_bytes needle) \<le> len \<and> all_match mem (tokens p) (pattern_start p i (base + of_nat k))
          \<and> (\<forall>j < k. k < j + length (tok_bytes needle) \<longrightarrow> \<not> occurs mem (base + of_nat j) (tok_bytes needle))
          \<longrightarrow> pattern_start p i (base + of_nat k) \<in> set (matches mem p needle base len))"
proof (intro conjI)
  let ?us = "take i (tokens p)" and ?n = "length (tok_bytes needle)"
  have needle: "needle \<in> set (tokens p)" using longest_token_in [OF assms(2)] by simp
  have ne: "tok_bytes needle \<noteq> []" using assms(1) needle by (auto simp: pattern_ok_def list_all_iff token_ok_def)
  have i: "i < length (tokens p)" "tokens p ! i = needle" using pattern_ok_index [OF assms(1) needle] by (simp_all add: assms(3))
  have split: "tokens p = ?us @ needle # drop (Suc i) (tokens p)" using id_take_nth_drop [OF i(1)] i(2) by simp
  have len: "bytes_of ?us + ?n \<le> bytes_of (tokens p)" using arg_cong [OF split, of bytes_of] by simp
  have region: "readable mem base len"
    using readable_sub [OF assms(4), of "bytes_of ?us" len] len by simp
  have "try_match mem p needle (base + of_nat k) =
      Inr (if accepts mem p i (base + of_nat k) then Some (pattern_start p i (base + of_nat k)) else None)"
    if "k + ?n \<le> len" for k
  proof (rule try_match_total [OF assms(1) needle assms(3)])
    have "base + of_nat k - of_nat (bytes_of ?us) = base - of_nat (bytes_of ?us) + of_nat k" by simp
    then show "readable mem (base + of_nat k - of_nat (bytes_of ?us)) (bytes_of (tokens p))"
      using readable_sub [OF assms(4), of k "bytes_of (tokens p)"] that unfolding \<open>base + of_nat k - _ = _\<close> by simp
  qed
  from scan_loop_told [OF region ne this, of 0 _ "[]"]
  have loop: "\<exists>b. scan_loop mem f p needle base len [] = Inr (b, told f (matches mem p needle base len))" for f
    by (simp add: matches_def Let_def assms(3))
  show "memoryScanSync mem base len func p = Inr (told func (matches mem p needle base len))"
    using loop [of func] assms(2) by (auto simp: memoryScanSync_def memory_scan_def)
  show "memoryScanOnce mem base len p = Inr (case matches mem p needle base len of [] \<Rightarrow> 0 | a # _ \<Rightarrow> a)"
    using loop [of "\<lambda>_. False"] assms(2) by (auto simp: memoryScanOnce_def once_loop_scan told_once)
  show "\<forall>a \<in> set (matches mem p needle base len). \<exists>k. a = pattern_start p i (base + of_nat k)
      \<and> k + ?n \<le> len \<and> occurs mem (base + of_nat k) (tok_bytes needle) \<and> accepts mem p i (base + of_nat k)"
    using positions_sound by (fastforce simp: matches_def Let_def assms(3))
  show "\<forall>k. k + ?n \<le> len \<and> all_match mem (tokens p) (pattern_start p i (base + of_nat k))
      \<and> (\<forall>j < k. k < j + ?n \<longrightarrow> \<not> occurs mem (base + of_nat j) (tok_bytes needle))
      \<longrightarrow> pattern_start p i (base + of_nat k) \<in> set (matches mem p needle base len)"
  proof (intro allI impI, elim conjE)
    fix k assume k: "k + ?n \<le> len" "all_match mem (tokens p) (pattern_start p i (base + of_nat k))"
      "\<forall>j < k. k < j + ?n \<longrightarrow> \<not> occurs mem (base + of_nat j) (tok_bytes needle)"
    have acc: "occurs mem (base + of_nat k) (tok_bytes needle)" "accepts mem p i (base + of_nat k)"
      using all_match_accepts [OF k(2) i(1)] longest_token_in [OF assms(2)] i(2) by simp_all
    then have "k \<in> set (positions mem base len (tok_bytes needle) 0)"
      using positions_complete [OF ne _ k(1)] k(3) by simp
    with acc(2) show "pattern_start p i (base + of_nat k) \<in> set (matches mem p needle base len)"
      by (simp add: matches_def Let_def assms(3) [symmetric])
  qed
qed

text \<open>
  The tokens between the needle and the last one do not match, and still the pattern is reported; and a
  match of the whole pattern is missed because an occurrence of the needle overlaps it.
\<close>

definition scan_memory :: memory where
  "scan_memory = (\<lambda>_. Some 0)(0x10 \<mapsto> 0xaa, 0x11 \<mapsto> 0xbb, 0x12 \<mapsto> 0x05, 0x14 \<mapsto> 0x12)"

definition overlap_memory :: memory where
  "overlap_memory = (\<lambda>_. Some 0)(0x10 \<mapsto> 0xaa, 0x11 \<mapsto> 0xaa, 0x12 \<mapsto> 0xaa, 0x13 \<mapsto> 0x01)"

theorem scan_told_witness:
  "memoryScanSync scan_memory 0x0f 6 (\<lambda>_. True) (MemoryScan_new ''aabb?1cc?2'') = Inr [0x10]
   \<and> \<not> all_match scan_memory (tokens (MemoryScan_new ''aabb?1cc?2'')) 0x10
   \<and> memoryScanSync overlap_memory 0x10 4 (\<lambda>_. True) (MemoryScan_new ''aaaa?1'') = Inr []
   \<and> all_match overlap_memory (tokens (MemoryScan_new ''aaaa?1'')) 0x11
   \<and> memoryScanSync overlap_memory 0x11 3 (\<lambda>_. True) (MemoryScan_new ''aaaa?1'') = Inr [0x11]"
proof -
  let ?p = "MemoryScan_new ''aabb?1cc?2''" and ?q = "MemoryScan_new ''aaaa?1''"
  let ?needle = "\<lparr>tok_type = MATCH_EXACT, tok_bytes = [0xaa, 0xbb], tok_masks = [], tok_offset = 0\<rparr>"
  have "pattern_ok ?p" by code_simp
  moreover have "match_pattern_get_longest_token ?p MATCH_EXACT = Some ?needle" by code_simp
  moreover have "readable scan_memory a n" for a n by (auto simp: readable_nth scan_memory_def)
  ultimately have "memoryScanSync scan_memory 0x0f 6 (\<lambda>_. True) ?p = Inr (told (\<lambda>_. True) (matches scan_memory ?p ?needle 0x0f 6))"
    using scan_told [of ?p ?needle 0 scan_memory "0x0f" 6 "\<lambda>_. True"] by simp
  also have "\<dots> = Inr [0x10]" by code_simp
  finally have found: "memoryScanSync scan_memory 0x0f 6 (\<lambda>_. True) ?p = Inr [0x10]" .
  have toks: "tokens ?p = [?needle, \<lparr>tok_type = MATCH_MASK, tok_bytes = [0x41], tok_masks = [0x0f], tok_offset = 1\<rparr>,
      \<lparr>tok_type = MATCH_EXACT, tok_bytes = [0xcc], tok_masks = [], tok_offset = 2\<rparr>,
      \<lparr>tok_type = MATCH_MASK, tok_bytes = [0x42], tok_masks = [0x0f], tok_offset = 3\<rparr>]" by code_simp
  have "\<not> all_match scan_memory (tokens ?p) 0x10"
    unfolding toks by (simp add: token_matches_def occurs_def scan_memory_def)
  moreover have "memoryScanSync overlap_memory 0x10 4 (\<lambda>_. True) ?q = Inr []
      \<and> memoryScanSync overlap_memory 0x11 3 (\<lambda>_. True) ?q = Inr [0x11]"
  proof -
    let ?nd = "\<lparr>tok_type = MATCH_EXACT, tok_bytes = [0xaa, 0xaa], tok_masks = [], tok_offset = 0\<rparr>"
    have ok: "pattern_ok ?q" "match_pattern_get_longest_token ?q MATCH_EXACT = Some ?nd" by code_simp+
    have read: "readable overlap_memory a n" for a n by (auto simp: readable_nth overlap_memory_def)
    have "told (\<lambda>_. True) (matches overlap_memory ?q ?nd 0x10 4) = []"
      "told (\<lambda>_. True) (matches overlap_memory ?q ?nd 0x11 3) = [0x11]" by code_simp+
    then show ?thesis
      using scan_told [OF ok refl read, of "0x10" 4 "\<lambda>_. True"] scan_told [OF ok refl read, of "0x11" 3 "\<lambda>_. True"] by simp
  qed
  moreover have "tokens ?q = [\<lparr>tok_type = MATCH_EXACT, tok_bytes = [0xaa, 0xaa], tok_masks = [], tok_offset = 0\<rparr>,
      \<lparr>tok_type = MATCH_MASK, tok_bytes = [0x41], tok_masks = [0x0f], tok_offset = 1\<rparr>]" by code_simp
  then have "all_match overlap_memory (tokens ?q) 0x11"
    by (simp add: token_matches_def occurs_def overlap_memory_def)
  ultimately show ?thesis using found by blast
qed

end
