(* ===== verification/Hex_Dump.thy ===== *)
theory Hex_Dump
  imports Trace_Common
begin

text \<open>
  \<^verbatim>\<open>trace/hex_dump.cpp\<close>: \<open>HexDump::Dump\<close> on a 64-bit build. The routine formats every line in
  one character buffer through two moving indices and prints it as a C string; cells that a
  line does not write keep what the buffer holds. The lemmas show that the text is that of a
  direct line formatter.
\<close>

section \<open>The buffer\<close>

text \<open>\<^verbatim>\<open>out\<close>: 16 digits, a colon, 16 cells of three characters, two spaces, 16 characters, zero.\<close>

definition out_size :: nat where
  "out_size = 16 + 1 + 16 * 3 + 2 + 16 + 1"

definition out_init :: "char list" where
  "out_init = (replicate (out_size - 1) (CHR '' '') @ [CHR 0x00])[16 := CHR '':'']"

text \<open>The digits of the offset: the top four bits, then a shift to the left.\<close>

fun put_offset :: "nat \<Rightarrow> nat \<Rightarrow> addr \<Rightarrow> char list \<Rightarrow> char list" where
  "put_offset 0 hex line_offset out = out"
| "put_offset (Suc n) hex line_offset out =
     put_offset n (Suc hex) (push_bit 4 line_offset)
       (out[hex := hex_digit (unat (drop_bit 60 line_offset))])"

definition printable :: "byte \<Rightarrow> char" where
  "printable b = (if 0x20 \<le> b \<and> b < 0x7f then char_of (unat b) else CHR ''.'')"

text \<open>The loop over the bytes of a line, then the one that erases the rest of it.\<close>

fun put_bytes :: "nat \<Rightarrow> memory \<Rightarrow> addr \<Rightarrow> nat \<Rightarrow> nat \<Rightarrow> char list \<Rightarrow> (char list \<times> nat \<times> nat) result" where
  "put_bytes 0 mem a hex asc out = Inr (out, hex, asc)"
| "put_bytes (Suc n) mem a hex asc out =
     (case mem a of
        None \<Rightarrow> Inl (SegFault (unat a))
      | Some b \<Rightarrow>
          put_bytes n mem (a + 1) (hex + 3) (Suc asc)
            (out[hex := hex_digit (unat (drop_bit 4 b)), hex + 1 := hex_digit (unat (b AND 0x0f)),
                 asc := printable b]))"

fun erase_rest :: "nat \<Rightarrow> nat \<Rightarrow> nat \<Rightarrow> char list \<Rightarrow> char list" where
  "erase_rest 0 hex asc out = out"
| "erase_rest (Suc n) hex asc out =
     erase_rest n (hex + 3) (Suc asc) (out[hex := CHR '' '', hex + 1 := CHR '' '', asc := CHR '' ''])"

text \<open>One iteration: the line for \<open>count\<close> bytes from \<open>offset\<close> on, after a gap.\<close>

definition dump_line :: "memory \<Rightarrow> addr \<Rightarrow> nat \<Rightarrow> nat \<Rightarrow> char list \<Rightarrow> char list result" where
  "dump_line mem offset gap count out =
     (let line_offset = offset AND NOT 0x0f;
          out = put_offset 16 0 line_offset out;
          hex = 16 + 2 + gap * 3;
          asc = 16 + 1 + 16 * 3 + 2 + gap
      in map_result (\<lambda>(out, hex, asc). erase_rest (16 - (count + gap)) hex asc out)
           (put_bytes count mem offset hex asc out))"

text \<open>\<^verbatim>\<open>os << out\<close>: the characters before the zero.\<close>

definition c_str :: "char list \<Rightarrow> string" where
  "c_str out = takeWhile (\<lambda>c. c \<noteq> CHR 0x00) out"

text \<open>The iterations after the first one, where the gap is zero.\<close>

function dump_rest :: "memory \<Rightarrow> addr \<Rightarrow> nat \<Rightarrow> char list \<Rightarrow> string result" where
  "dump_rest mem offset byte_count out =
     (if byte_count = 0 then Inr []
      else let count = min byte_count 16 in
        bind_result (dump_line mem offset 0 count out) (\<lambda>out.
          map_result (\<lambda>rest. c_str out @ (if 0 < byte_count - count then [CHR 0x0a] else []) @ rest)
            (dump_rest mem (offset + of_nat count) (byte_count - count) out)))"
  by pat_completeness auto
termination
  by (relation "measure (\<lambda>(mem, offset, byte_count, out). byte_count)") (auto simp: min_def)

declare dump_rest.simps [simp del]

definition Dump :: "memory \<Rightarrow> addr \<Rightarrow> nat \<Rightarrow> string result" where
  "Dump mem address byte_count =
     (if byte_count = 0 then Inr []
      else if address = 0 then Inr ''00000000:''
      else
        let gap = unat (address AND 0x0f); count = min byte_count (16 - gap) in
        bind_result (dump_line mem address gap count out_init) (\<lambda>out.
          map_result (\<lambda>rest. c_str out @ (if 0 < byte_count - count then [CHR 0x0a] else []) @ rest)
            (dump_rest mem (address + of_nat count) (byte_count - count) out)))"

section \<open>The direct formatter\<close>

definition hex16 :: "addr \<Rightarrow> string" where
  "hex16 w = map (\<lambda>i. hex_digit (unat (drop_bit (60 - 4 * i) w) mod 16)) [0..<16]"

text \<open>One line from a cell per column: \<open>None\<close> where the line has no byte.\<close>

definition hex_cell :: "byte option \<Rightarrow> string" where
  "hex_cell c = (case c of Some b \<Rightarrow> [hex_digit (unat b div 16), hex_digit (unat b mod 16), CHR '' '']
                         | None \<Rightarrow> ''   '')"

definition asc_cell :: "byte option \<Rightarrow> char" where
  "asc_cell c = (case c of Some b \<Rightarrow> printable b | None \<Rightarrow> CHR '' '')"

definition line_text :: "addr \<Rightarrow> byte option list \<Rightarrow> string" where
  "line_text offset cells =
     hex16 (offset AND NOT 0x0f) @ '': '' @ concat (map hex_cell cells) @ '' '' @ map asc_cell cells"

fun join_lines :: "string list \<Rightarrow> string" where
  "join_lines [] = []"
| "join_lines [l] = l"
| "join_lines (l # m # ls) = l @ [CHR 0x0a] @ join_lines (m # ls)"

text \<open>The lines of a row of cells, sixteen to a line, the last one padded.\<close>

function lines_of :: "addr \<Rightarrow> byte option list \<Rightarrow> string list" where
  "lines_of offset cells =
     (if cells = [] then []
      else line_text offset (take 16 (cells @ replicate 16 None)) # lines_of (offset + 16) (drop 16 cells))"
  by pat_completeness auto
termination
  by (relation "measure (\<lambda>(offset, cells). length cells)") auto

declare lines_of.simps [simp del]

definition dump_text :: "addr \<Rightarrow> byte list \<Rightarrow> string" where
  "dump_text address bs =
     join_lines (lines_of (address AND NOT 0x0f)
       (replicate (unat (address AND 0x0f)) None @ map Some bs))"

section \<open>The buffer holds a line\<close>

definition render :: "string \<Rightarrow> byte option list \<Rightarrow> char list" where
  "render digits cells =
     digits @ '': '' @ concat (map hex_cell cells) @ '' '' @ map asc_cell cells @ [CHR 0x00]"

lemma length_hex_cells [simp]: "length (concat (map hex_cell cells)) = 3 * length cells"
  by (induction cells) (auto simp: hex_cell_def split: option.split)

lemma hex_cells_update:
  assumes "j < length cells" and "hex_cell x = [h1, h2, CHR '' '']"
  shows "(concat (map hex_cell cells))[3 * j := h1, Suc (3 * j) := h2] = concat (map hex_cell (cells[j := x]))"
  using assms(1)
proof (induction cells arbitrary: j)
  case (Cons c cells)
  obtain p q where c: "hex_cell c = [p, q, CHR '' '']" by (cases c) (auto simp: hex_cell_def)
  show ?case
  proof (cases j)
    case 0
    with c assms(2) show ?thesis by simp
  next
    case (Suc i)
    have "3 * Suc i = Suc (Suc (Suc (3 * i)))" by simp
    with Cons.IH [of i] Cons.prems c show ?thesis by (simp add: Suc)
  qed
qed simp

lemma asc_cells_update:
  "j < length cells \<Longrightarrow> (map asc_cell cells)[j := asc_cell x] = map asc_cell (cells[j := x])"
  by (simp add: map_update)

text \<open>Writing one cell in the buffer, at the indices of the source.\<close>

lemma render_update:
  assumes "length digits = 16" and "length cells = 16" and "j < 16"
    and "hex_cell x = [h1, h2, CHR '' '']" and "asc_cell x = c"
  shows "(render digits cells)[18 + 3 * j := h1, Suc (18 + 3 * j) := h2, 67 + j := c]
    = render digits (cells[j := x])"
proof -
  have idx: "18 + 3 * j - 16 = Suc (Suc (3 * j))" "Suc (18 + 3 * j) - 16 = Suc (Suc (Suc (3 * j)))"
    "67 + j - 16 = Suc (Suc (48 + Suc j))" by simp_all
  have lt: "3 * j < 48" "Suc (3 * j) < 48" using assms(3) by simp_all
  have hex: "(concat (map hex_cell cells))[3 * j := h1, Suc (3 * j) := h2]
      = concat (map hex_cell (cells[j := x]))"
    by (rule hex_cells_update) (use assms in auto)
  have asc: "(map asc_cell cells)[j := c] = map asc_cell (cells[j := x])"
    using asc_cells_update [of j cells x] assms by simp
  show ?thesis
    using assms lt hex asc
    by (simp add: render_def list_update_append idx)
qed

lemma out_init_render: "out_init = render (replicate 16 (CHR '' '')) (replicate 16 None)"
  by code_simp

lemma put_offset_eq:
  "hex + n \<le> length out \<Longrightarrow> put_offset n hex w out =
     take hex out @ map (\<lambda>i. hex_digit (unat (drop_bit 60 (push_bit (4 * i) w)))) [0..<n] @ drop (hex + n) out"
proof (induction n arbitrary: hex w out)
  case (Suc n)
  let ?d = "\<lambda>i. hex_digit (unat (drop_bit 60 (push_bit (4 * i) w)))"
  have shift: "map (\<lambda>i. hex_digit (unat (drop_bit 60 (push_bit (4 * i + 4) w)))) [0..<n]
      = map ?d (map Suc [0..<n])"
    by (simp add: comp_def add.commute)
  have upt: "[0..<Suc n] = 0 # map Suc [0..<n]" by (simp only: upt_conv_Cons map_Suc_upt)
  have take: "take (Suc hex) (out[hex := c]) = take hex out @ [c]" for c
    using Suc.prems by (simp add: take_Suc_conv_app_nth)
  show ?case
    using Suc.prems
    by (simp add: Suc.IH shift take upt del: upt_Suc map_map)
qed simp

lemma hex16_digits:
  "map (\<lambda>i. hex_digit (unat (drop_bit 60 (push_bit (4 * i) (w :: addr))))) [0..<16] = hex16 w"
proof -
  have "unat (drop_bit 60 (push_bit (4 * i) w)) = unat (drop_bit (60 - 4 * i) w) mod 16" if "i < 16" for i
  proof -
    have "drop_bit 60 (push_bit (4 * i) w) = take_bit 4 (drop_bit (60 - 4 * i) w)"
      by (rule bit_eqI) (use that in \<open>auto simp: bit_simps\<close>)
    then show ?thesis by (simp add: take_bit_eq_mod unat_mod)
  qed
  then show ?thesis by (auto simp: hex16_def)
qed

text \<open>The bytes that the line loop writes, from column \<open>j\<close> on.\<close>

lemma nibbles:
  "hex_cell (Some b) = [hex_digit (unat (drop_bit 4 b)), hex_digit (unat (b AND 0x0f)), CHR '' '']"
proof -
  have "unat (drop_bit 4 b) = unat b div 16"
    by (simp add: drop_bit_eq_div unat_div)
  moreover have "(mask 4 :: byte) = 0x0f" by (simp add: mask_eq_exp_minus_1)
  then have "b AND 0x0f = take_bit 4 b" by (simp add: take_bit_eq_mask)
  then have "unat (b AND 0x0f) = unat b mod 16" by (simp add: take_bit_eq_mod unat_mod)
  ultimately show ?thesis by (simp add: hex_cell_def)
qed

lemma put_bytes_render:
  assumes "length digits = 16" and "length cells = 16" and "j + n \<le> 16"
  shows "put_bytes n mem a (18 + 3 * j) (67 + j) (render digits cells) =
    map_result (\<lambda>bs. (render digits (take j cells @ map Some bs @ drop (j + n) cells),
        18 + 3 * (j + n), 67 + (j + n))) (read_bytes n mem a)"
  using assms(2,3)
proof (induction n arbitrary: a j cells)
  case 0
  then show ?case by simp
next
  case (Suc n)
  show ?case
  proof (cases "mem a")
    case None
    then show ?thesis by simp
  next
    case (Some b)
    let ?cells = "cells[j := Some b]"
    have upd: "(render digits cells)[18 + 3 * j := hex_digit (unat (drop_bit 4 b)),
        18 + 3 * j + 1 := hex_digit (unat (b AND 0x0f)), 67 + j := printable b] = render digits ?cells"
      using render_update [OF assms(1) Suc.prems(1) _ nibbles, of j b "printable b"] Suc.prems(2)
      by (simp add: asc_cell_def)
    have "put_bytes n mem (a + 1) (18 + 3 * Suc j) (67 + Suc j) (render digits ?cells) =
      map_result (\<lambda>bs. (render digits (take (Suc j) ?cells @ map Some bs @ drop (Suc j + n) ?cells),
        18 + 3 * (Suc j + n), 67 + (Suc j + n))) (read_bytes n mem (a + 1))"
      by (rule Suc.IH) (use Suc.prems in simp_all)
    moreover have "take (Suc j) ?cells = take j cells @ [Some b]"
      using Suc.prems by (simp add: take_Suc_conv_app_nth)
    moreover have "drop (Suc j + n) ?cells = drop (j + Suc n) cells" by simp
    moreover have "18 + 3 * j + 3 = 18 + 3 * Suc j" "Suc (67 + j) = 67 + Suc j" by simp_all
    then have "put_bytes (Suc n) mem a (18 + 3 * j) (67 + j) (render digits cells)
        = put_bytes n mem (a + 1) (18 + 3 * Suc j) (67 + Suc j) (render digits ?cells)"
      by (simp only: put_bytes.simps Some option.case upd)
    ultimately show ?thesis
      using Some by (cases "read_bytes n mem (a + 1)") simp_all
  qed
qed

lemma erase_rest_render:
  assumes "length digits = 16" and "length cells = 16" and "j + n \<le> 16"
  shows "erase_rest n (18 + 3 * j) (67 + j) (render digits cells)
    = render digits (take j cells @ replicate n None @ drop (j + n) cells)"
  using assms(2,3)
proof (induction n arbitrary: j cells)
  case 0
  then show ?case by simp
next
  case (Suc n)
  let ?cells = "cells[j := None]"
  have upd: "(render digits cells)[18 + 3 * j := CHR '' '', 18 + 3 * j + 1 := CHR '' '', 67 + j := CHR '' '']
      = render digits ?cells"
    using render_update [OF assms(1) Suc.prems(1), of j None "CHR '' ''" "CHR '' ''" "CHR '' ''"] Suc.prems(2)
    by (simp add: asc_cell_def hex_cell_def)
  have "erase_rest n (18 + 3 * Suc j) (67 + Suc j) (render digits ?cells)
      = render digits (take (Suc j) ?cells @ replicate n None @ drop (Suc j + n) ?cells)"
    by (rule Suc.IH) (use Suc.prems in simp_all)
  moreover have "take (Suc j) ?cells = take j cells @ [None]"
    using Suc.prems by (simp add: take_Suc_conv_app_nth)
  moreover have "18 + 3 * j + 3 = 18 + 3 * Suc j" "Suc (67 + j) = 67 + Suc j" by simp_all
  then have "erase_rest (Suc n) (18 + 3 * j) (67 + j) (render digits cells)
      = erase_rest n (18 + 3 * Suc j) (67 + Suc j) (render digits ?cells)"
    by (simp only: erase_rest.simps upd)
  ultimately show ?case by simp
qed

lemma dump_line_render:
  assumes "length digits = 16" and "length cells = 16" and "gap + count \<le> 16"
  shows "dump_line mem offset gap count (render digits cells) =
    map_result (\<lambda>bs. render (hex16 (offset AND NOT 0x0f))
        (take gap cells @ map Some bs @ replicate (16 - (gap + count)) None)) (read_bytes count mem offset)"
proof -
  let ?lo = "offset AND NOT 0x0f"
  have put: "put_offset 16 0 w (render digits cells) = render (hex16 w) cells" for w
  proof -
    have "length (render digits cells) \<ge> 16" using assms(1) by (simp add: render_def)
    then have "put_offset 16 0 w (render digits cells) = hex16 w @ drop 16 (render digits cells)"
      by (simp add: put_offset_eq hex16_digits)
    then show ?thesis using assms(1) by (simp add: render_def)
  qed
  have len: "length (hex16 ?lo) = 16" by (simp add: hex16_def)
  have idx: "16 + 2 + gap * 3 = 18 + 3 * gap" "16 + 1 + 16 * 3 + 2 + gap = 67 + gap" by simp_all
  have erase: "erase_rest (16 - (count + gap)) (18 + 3 * (gap + count)) (67 + (gap + count))
      (render (hex16 ?lo) (take gap cells @ map Some bs @ drop (gap + count) cells))
      = render (hex16 ?lo) (take gap cells @ map Some bs @ replicate (16 - (gap + count)) None)"
    if "length bs = count" for bs
    using erase_rest_render [OF len, of "take gap cells @ map Some bs @ drop (gap + count) cells"
        "gap + count" "16 - (count + gap)"] assms(2,3) that
    by (simp add: add.commute)
  show ?thesis
    unfolding dump_line_def Let_def put idx put_bytes_render [OF len assms(2,3)]
  proof (cases "read_bytes count mem offset")
    case (Inr bs)
    then show "map_result (\<lambda>(out, hex, asc). erase_rest (16 - (count + gap)) hex asc out)
        (map_result (\<lambda>bs. (render (hex16 ?lo) (take gap cells @ map Some bs @ drop (gap + count) cells),
          18 + 3 * (gap + count), 67 + (gap + count))) (read_bytes count mem offset))
      = map_result (\<lambda>bs. render (hex16 ?lo) (take gap cells @ map Some bs @ replicate (16 - (gap + count)) None))
          (read_bytes count mem offset)"
      by (simp only: map_result_simps prod.case erase [OF read_bytes_length [OF Inr]])
  qed simp
qed

lemma hex_digit_not_zero:
  assumes "n < 16"
  shows "hex_digit n \<noteq> CHR 0x00" and "CHR 0x00 \<noteq> hex_digit n"
proof -
  from assms have "n \<in> set [0..<16]" by simp
  moreover have "list_all (\<lambda>n. hex_digit n \<noteq> CHR 0x00) [0..<16]" by code_simp
  ultimately show "hex_digit n \<noteq> CHR 0x00" unfolding list_all_iff by blast
  then show "CHR 0x00 \<noteq> hex_digit n" by metis
qed

lemma printable_not_zero: "printable b \<noteq> CHR 0x00"
proof -
  have "char_of (unat b) \<noteq> CHR 0x00" if "0x20 \<le> b" "b < 0x7f"
  proof
    assume "char_of (unat b) = CHR 0x00"
    then have "of_char (char_of (unat b) :: char) = (0 :: nat)" by simp
    then have "unat b mod 256 = 0" by simp
    moreover have "unat b < 0x7f" "0x20 \<le> unat b"
      using that by (simp_all add: word_less_nat_alt word_le_nat_alt)
    ultimately show False by simp
  qed
  then show ?thesis by (simp add: printable_def)
qed

lemma c_str_render:
  assumes "length cells = 16"
  shows "c_str (render (hex16 (offset AND NOT 0x0f)) cells) = line_text offset cells"
proof -
  have hex: "CHR 0x00 \<notin> set (hex16 w)" for w
    by (auto simp: hex16_def hex_digit_not_zero)
  have cell: "CHR 0x00 \<notin> set (hex_cell c)" for c
  proof (cases c)
    case (Some b)
    have "unat b < 256" using unsigned_less [of b] by simp
    then have "unat b div 16 < 16" by simp
    then show ?thesis by (simp add: Some hex_cell_def hex_digit_not_zero)
  qed (simp add: hex_cell_def)
  have asc: "asc_cell c \<noteq> CHR 0x00" for c
    using printable_not_zero by (auto simp: asc_cell_def split: option.splits)
  have all: "takeWhile (\<lambda>c. c \<noteq> CHR 0x00) (line_text offset cells @ [CHR 0x00]) = line_text offset cells"
  proof -
    have "\<forall>c \<in> set (line_text offset cells). c \<noteq> CHR 0x00"
      using hex cell asc by (fastforce simp: line_text_def)
    then show ?thesis by (simp add: takeWhile_append2)
  qed
  then show ?thesis by (simp add: c_str_def render_def line_text_def)
qed

section \<open>The text of a dump\<close>

lemma lines_of_Cons:
  "cells \<noteq> [] \<Longrightarrow> lines_of offset cells =
     line_text offset (take 16 (cells @ replicate 16 None)) # lines_of (offset + 16) (drop 16 cells)"
  by (subst lines_of.simps) simp

lemma lines_of_empty_iff: "lines_of offset cells = [] \<longleftrightarrow> cells = []"
  by (subst lines_of.simps) simp

lemma join_lines_Cons:
  "join_lines (l # ls) = l @ (if ls \<noteq> [] then [CHR 0x0a] else []) @ join_lines ls"
  by (cases ls) simp_all

lemma dump_rest_step:
  "0 < n \<Longrightarrow> dump_rest mem offset n out =
     bind_result (dump_line mem offset 0 (min n 16) out) (\<lambda>out.
       map_result (\<lambda>rest. c_str out @ (if 0 < n - min n 16 then [CHR 0x0a] else []) @ rest)
         (dump_rest mem (offset + of_nat (min n 16)) (n - min n 16) out))"
  by (subst dump_rest.simps) (simp add: Let_def)

lemma dump_rest_lines:
  assumes "length digits = 16" and "length cells = 16"
  shows "dump_rest mem offset n (render digits cells) =
    map_result (\<lambda>bs. join_lines (lines_of offset (map Some bs))) (read_bytes n mem offset)"
  using assms
proof (induction n arbitrary: offset digits cells rule: less_induct)
  case (less n)
  show ?case
  proof (cases "n = 0")
    case True
    then show ?thesis by (subst dump_rest.simps) (simp add: lines_of.simps)
  next
    case False
    let ?c = "min n 16"
    have split: "read_bytes n mem offset = bind_result (read_bytes ?c mem offset) (\<lambda>bs.
        map_result (\<lambda>cs. bs @ cs) (read_bytes (n - ?c) mem (offset + of_nat ?c)))"
      using read_bytes_add [of ?c "n - ?c" mem offset] by simp
    show ?thesis
    proof (cases "read_bytes ?c mem offset")
      case (Inl e)
      then show ?thesis
        using False dump_line_render [OF less.prems, of 0 ?c mem offset]
        by (simp add: dump_rest_step split)
    next
      case (Inr bs)
      have len: "length bs = ?c" using read_bytes_length [OF Inr] .
      let ?line = "map Some bs @ replicate (16 - ?c) None"
      have line: "dump_line mem offset 0 ?c (render digits cells)
          = Inr (render (hex16 (offset AND NOT 0x0f)) ?line)"
        using dump_line_render [OF less.prems, of 0 ?c mem offset] Inr by simp
      have IH: "dump_rest mem (offset + of_nat ?c) (n - ?c) (render (hex16 (offset AND NOT 0x0f)) ?line)
          = map_result (\<lambda>bs. join_lines (lines_of (offset + of_nat ?c) (map Some bs)))
              (read_bytes (n - ?c) mem (offset + of_nat ?c))"
        by (rule less.IH) (use False len in \<open>auto simp: hex16_def\<close>)
      have shown: "c_str (render (hex16 (offset AND NOT 0x0f)) ?line) = line_text offset ?line"
        by (rule c_str_render) (use len in simp)
      have first: "lines_of offset (map Some (bs @ cs)) = line_text offset ?line # lines_of (offset + of_nat ?c) (map Some cs)"
        if "length cs = n - ?c" for cs
      proof (cases "n \<le> 16")
        case True
        have "bs \<noteq> []" using len False by auto
        with True show ?thesis using len that by (simp add: lines_of_Cons lines_of.simps [of _ "[]"])
      next
        case big: False
        then have "map Some (bs @ cs) \<noteq> []" using len by auto
        from lines_of_Cons [OF this, of offset] big len show ?thesis by simp
      qed
      have pos: "0 < n" using False by simp
      show ?thesis
      proof (cases "read_bytes (n - ?c) mem (offset + of_nat ?c)")
        case (Inl e)
        then show ?thesis
          unfolding dump_rest_step [OF pos] line split \<open>read_bytes ?c mem offset = Inr bs\<close>
          by (simp only: bind_result_simps IH map_result_simps)
      next
        case (Inr cs)
        have more: "(lines_of (offset + of_nat ?c) (map Some cs) \<noteq> []) = (0 < n - ?c)"
          unfolding lines_of_empty_iff map_is_Nil_conv
          by (simp only: length_greater_0_conv [symmetric] read_bytes_length [OF Inr])
        show ?thesis
          unfolding dump_rest_step [OF pos] line split \<open>read_bytes ?c mem offset = Inr bs\<close>
          by (simp only: bind_result_simps IH map_result_simps Inr shown
              first [OF read_bytes_length [OF Inr]] join_lines_Cons more)
      qed
    qed
  qed
qed

lemma align_split: "(a AND NOT 0x0f) + of_nat (unat (a AND 0x0f)) = (a :: addr)"
proof -
  have "(a AND NOT 0x0f) + (a AND 0x0f) = (a AND NOT 0x0f) OR (a AND 0x0f)"
    by (rule disjunctive_add) (auto simp: bit_simps)
  also have "\<dots> = a" by (rule bit_eqI) (auto simp: bit_simps)
  finally show ?thesis by simp
qed

lemma align_idem: "(a AND NOT 0x0f) AND NOT 0x0f = (a AND NOT 0x0f :: addr)"
  by (rule bit_eqI) (auto simp: bit_simps)

lemma gap_less: "unat ((a :: addr) AND 0x0f) < 16"
proof -
  have "(mask 4 :: addr) = 0x0f" by (simp add: mask_eq_exp_minus_1)
  then have "a AND 0x0f = take_bit 4 a" by (simp add: take_bit_eq_mask)
  then show ?thesis by (simp add: take_bit_eq_mod unat_mod)
qed

lemma line_text_align: "line_text (a AND NOT 0x0f) cells = line_text a cells"
  by (simp only: line_text_def align_idem)

text \<open>The lines of the gap and the first bytes, then of the rest.\<close>

lemma lines_of_first:
  assumes "gap < 16" and "length bs = min n (16 - gap)" and "length cs = n - min n (16 - gap)" and "0 < n"
  shows "lines_of base (replicate gap None @ map Some (bs @ cs)) =
    line_text base (replicate gap None @ map Some bs @ replicate (16 - (gap + length bs)) None)
    # lines_of (base + 16) (map Some cs)"
proof -
  have ne: "replicate gap None @ map Some (bs @ cs) \<noteq> []" using assms by (cases bs) auto
  have first: "take 16 ((replicate gap None @ map Some (bs @ cs)) @ replicate 16 None)
      = replicate gap None @ map Some bs @ replicate (16 - (gap + length bs)) None"
    using assms by (cases "n \<le> 16 - gap") auto
  have later: "drop 16 (replicate gap None @ map Some (bs @ cs)) = map Some cs"
    using assms by (cases "n \<le> 16 - gap") auto
  show ?thesis unfolding lines_of_Cons [OF ne] first later ..
qed

lemma Dump_text:
  assumes "address \<noteq> 0" and "0 < byte_count"
  shows "Dump mem address byte_count = map_result (dump_text address) (read_bytes byte_count mem address)"
proof -
  let ?gap = "unat (address AND 0x0f)" and ?base = "address AND NOT 0x0f"
  let ?c = "min byte_count (16 - ?gap)"
  have gap: "?gap < 16" by (rule gap_less)
  have split: "read_bytes byte_count mem address = bind_result (read_bytes ?c mem address) (\<lambda>bs.
      map_result (\<lambda>cs. bs @ cs) (read_bytes (byte_count - ?c) mem (address + of_nat ?c)))"
    using read_bytes_add [of ?c "byte_count - ?c" mem address] by simp
  have line: "dump_line mem address ?gap ?c out_init =
      map_result (\<lambda>bs. render (hex16 ?base)
        (replicate ?gap None @ map Some bs @ replicate (16 - (?gap + ?c)) None)) (read_bytes ?c mem address)"
    using dump_line_render [of "replicate 16 (CHR '' '')" "replicate 16 None" ?gap ?c mem address] gap
    by (simp add: out_init_render min_absorb1)
  note unfold = Dump_def Let_def split line
  show ?thesis
  proof (cases "read_bytes ?c mem address")
    case (Inl e)
    with assms show ?thesis by (simp only: unfold) simp
  next
    case (Inr bs)
    have len: "length bs = ?c" using read_bytes_length [OF Inr] .
    let ?line = "replicate ?gap None @ map Some bs @ replicate (16 - (?gap + ?c)) None"
    have rest: "dump_rest mem (address + of_nat ?c) (byte_count - ?c) (render (hex16 ?base) ?line)
        = map_result (\<lambda>cs. join_lines (lines_of (address + of_nat ?c) (map Some cs)))
            (read_bytes (byte_count - ?c) mem (address + of_nat ?c))"
      by (rule dump_rest_lines) (use gap len in \<open>auto simp: hex16_def\<close>)
    have shown: "c_str (render (hex16 ?base) ?line) = line_text address ?line"
      by (rule c_str_render) (use gap len in auto)
    have next_line: "byte_count - ?c \<noteq> 0 \<Longrightarrow> address + of_nat ?c = ?base + 16"
    proof -
      assume "byte_count - ?c \<noteq> 0"
      then have "?c + ?gap = 16" using gap by auto
      then have sum: "(of_nat ?c :: addr) + of_nat ?gap = 16" by (metis of_nat_add of_nat_numeral)
      have "address + of_nat ?c = (?base + of_nat ?gap) + of_nat ?c" by (simp only: align_split)
      also have "\<dots> = ?base + (of_nat ?c + of_nat ?gap)" by (simp only: ac_simps)
      finally show ?thesis by (simp only: sum)
    qed
    have first: "join_lines (lines_of ?base (replicate ?gap None @ map Some (bs @ cs))) =
        line_text address ?line @ (if 0 < byte_count - ?c then [CHR 0x0a] else [])
        @ join_lines (lines_of (address + of_nat ?c) (map Some cs))"
      if cs: "length cs = byte_count - ?c" for cs
    proof -
      have lines: "lines_of ?base (replicate ?gap None @ map Some (bs @ cs))
          = line_text address ?line # lines_of (?base + 16) (map Some cs)"
        using lines_of_first [OF gap len cs assms(2), of ?base] by (simp only: len line_text_align)
      have same: "lines_of (?base + 16) (map Some cs) = lines_of (address + of_nat ?c) (map Some cs)"
      proof (cases "cs = []")
        case False
        then have "byte_count - ?c \<noteq> 0" by (metis cs length_0_conv)
        then have "address + of_nat ?c = ?base + 16" by (rule next_line)
        then show ?thesis by (simp only:)
      qed (simp add: lines_of.simps [of _ "[]"])
      have "(lines_of (address + of_nat ?c) (map Some cs) \<noteq> []) = (0 < byte_count - ?c)"
        unfolding lines_of_empty_iff map_is_Nil_conv
        by (simp only: length_greater_0_conv [symmetric] cs)
      then show ?thesis unfolding lines same join_lines_Cons by simp
    qed
    show ?thesis
    proof (cases "read_bytes (byte_count - ?c) mem (address + of_nat ?c)")
      case (Inl e)
      with assms \<open>read_bytes ?c mem address = Inr bs\<close> rest show ?thesis by (simp only: unfold) simp
    next
      case (Inr cs)
      have "dump_text address (bs @ cs) = line_text address ?line
          @ (if 0 < byte_count - ?c then [CHR 0x0a] else [])
          @ join_lines (lines_of (address + of_nat ?c) (map Some cs))"
        unfolding dump_text_def by (rule first) (rule read_bytes_length [OF Inr])
      with assms \<open>read_bytes ?c mem address = Inr bs\<close> rest Inr shown show ?thesis
        by (simp only: unfold) simp
    qed
  qed
qed

section \<open>Properties\<close>

text \<open>
  C27: the dump of a non-empty buffer at a non-null address is the text of the direct
  formatter: one line for every sixteen addresses from the aligned base on, each with the
  sixteen digits of its address, two digits for every byte that belongs to the buffer, blanks
  in front of the first and behind the last byte, and the printable characters; and the dump
  faults exactly when reading the bytes does. Nothing of an earlier line is left over.
\<close>

theorem dump_equals_formatter:
  assumes "address \<noteq> 0" and "0 < byte_count"
  shows "Dump mem address byte_count = map_result (dump_text address) (read_bytes byte_count mem address)"
  using assms by (rule Dump_text)

theorem dump_equals_formatter_witness:
  "Dump (\<lambda>a. if a < 0x2000 then Some (ucast a) else None) 0x103E 3 =
     Inr (''0000000000001030:                                           3e 3f                >?'' @ [CHR 0x0a]
       @ ''0000000000001040: 40                                               @               '')"
proof -
  let ?mem = "\<lambda>a :: addr. if a < 0x2000 then Some (ucast a :: byte) else None"
  have "read_bytes (Suc (Suc (Suc 0))) ?mem 0x103E = Inr [0x3e, 0x3f, 0x40]" by simp
  then have "read_bytes 3 ?mem 0x103E = Inr [0x3e, 0x3f, 0x40]" by (simp only: numeral_3_eq_3)
  moreover have "dump_text 0x103E [0x3e, 0x3f, 0x40] =
     ''0000000000001030:                                           3e 3f                >?'' @ [CHR 0x0a]
       @ ''0000000000001040: 40                                               @               ''"
    by code_simp
  ultimately show ?thesis using dump_equals_formatter [of "0x103E" 3 ?mem] by simp
qed

end
