(* ===== verification/Memory_Manager.thy ===== *)
theory Memory_Manager
  imports Hex_Dump
begin

text \<open>
  \<^verbatim>\<open>trace/memory_manager.cpp\<close>: the blocks of memory that the traced code owns. A block gets
  the next index when a call allocates it, is dumped to the file when a call releases it or
  the trace ends, and an access is located by the first block whose bounds, both included,
  hold the address. An address without a block is looked up in the heap: the process maps
  and the chunks that \<^verbatim>\<open>malloc_iterate\<close> reports are parameters, and \<open>None\<close> stands for a libc
  that does not export the iterator.
\<close>

section \<open>Model\<close>

record MemoryManager =
  file_open :: bool
  file_failed :: bool
  file_content :: string
  mm_index :: "64 word"
  dump_path :: string
  memory_infos :: "memory_info list"

definition MemoryManager_new :: MemoryManager where
  "MemoryManager_new = \<lparr>file_open = False, file_failed = False, file_content = [], mm_index = 0, dump_path = [], memory_infos = []\<rparr>"

text \<open>
  The dump file is a stream: open or not, failed or not, and what has been written. Opening
  truncates the file; opening a stream that is open sets its failure bit, after which it
  writes nothing until the next successful opening.
\<close>

definition set_dump_path :: "string \<Rightarrow> bool \<Rightarrow> MemoryManager \<Rightarrow> MemoryManager" where
  "set_dump_path path can_open m =
     (let m = m\<lparr>dump_path := path\<rparr> in
      if file_open m then m\<lparr>file_failed := True\<rparr>
      else if can_open then m\<lparr>file_open := True, file_failed := False, file_content := []\<rparr>
      else m\<lparr>file_failed := True\<rparr>)"

definition is_in_memory :: "MemoryManager \<Rightarrow> addr \<Rightarrow> bool" where
  "is_in_memory m a =
     (if a = 0 then False
      else list_ex (\<lambda>i. mi_start i \<le> a \<and> a \<le> mi_end i) (memory_infos m))"

definition add_memory :: "addr \<Rightarrow> addr \<Rightarrow> MemoryManager \<Rightarrow> bool \<times> MemoryManager" where
  "add_memory a sz m =
     (let e = a + sz; start = a in
      if is_in_memory m a \<or> is_in_memory m e then (False, m)
      else (True, m\<lparr>memory_infos := memory_infos m @ [\<lparr>memory_index = mm_index m, mi_start = start, mi_end = e\<rparr>],
                    mm_index := mm_index m + 1\<rparr>))"

text \<open>
  \<open>write_memory_buffer\<close>: header, dump and newline go to the open file. The block of sixteen
  bytes takes another path to the same text. Dumping reads the memory of the process.
\<close>

definition write_memory_buffer ::
  "memory \<Rightarrow> addr \<Rightarrow> addr \<Rightarrow> 64 word \<Rightarrow> MemoryManager \<Rightarrow> (bool \<times> MemoryManager) result" where
  "write_memory_buffer mem a len index m =
     (if \<not> file_open m then Inr (False, m)
      else
        let header = ''memory block index:'' @ fmt_hex index @ '' size:'' @ fmt_hex len
                     @ '' address:'' @ fmt_hex a @ [CHR 0x0a]
        in map_result (\<lambda>t. (True, if file_failed m then m
                                 else m\<lparr>file_content := file_content m @ header @ t @ [CHR 0x0a]\<rparr>))
             (Dump mem a (unat len)))"

text \<open>\<open>clear\<close>: dump every block, forget them, close the file.\<close>

definition MemoryManager_clear :: "memory \<Rightarrow> MemoryManager \<Rightarrow> MemoryManager result" where
  "MemoryManager_clear mem m =
     map_result (\<lambda>m. m\<lparr>memory_infos := [], file_open := False\<rparr>)
       (fold_result (\<lambda>i m. map_result snd
            (write_memory_buffer mem (mi_start i) (mi_end i - mi_start i) (memory_index i) m))
          (memory_infos m) m)"

text \<open>\<open>remove_memory\<close>: the first block that starts at the address is dumped and erased.\<close>

fun remove_first :: "addr \<Rightarrow> memory_info list \<Rightarrow> (memory_info \<times> memory_info list) option" where
  "remove_first a [] = None"
| "remove_first a (i # is) =
     (if mi_start i = a then Some (i, is)
      else map_option (\<lambda>(j, js). (j, i # js)) (remove_first a is))"

definition remove_memory :: "memory \<Rightarrow> addr \<Rightarrow> MemoryManager \<Rightarrow> (bool \<times> MemoryManager) result" where
  "remove_memory mem a m =
     (case remove_first a (memory_infos m) of
        None \<Rightarrow> Inr (False, m)
      | Some (i, rest) \<Rightarrow>
          map_result (\<lambda>(_, m). (True, m\<lparr>memory_infos := rest\<rparr>))
            (write_memory_buffer mem (mi_start i) (mi_end i - mi_start i) (memory_index i) m))"

text \<open>The callback of the heap iterator: the last chunk that holds the address stays.\<close>

definition iterate_callback :: "addr \<Rightarrow> addr \<times> addr \<Rightarrow> addr \<times> addr \<Rightarrow> addr \<times> addr" where
  "iterate_callback a ch found =
     (let (chunk, sz) = ch; start = chunk; e = chunk + sz in
      if start \<le> a \<and> a \<le> e then (chunk, sz) else found)"

type_synonym heap_iterator = "addr \<Rightarrow> addr \<Rightarrow> (addr \<times> addr) list"

text \<open>
  The constructor looks the iterator up in the C library, under its three names; the pointer is
  static, and stays as it is where the library does not open. \<open>libc\<close> is \<^verbatim>\<open>dlsym\<close> on its handle.
\<close>

definition find_malloc_iterate ::
  "(string \<Rightarrow> heap_iterator option) option \<Rightarrow> heap_iterator option \<Rightarrow> heap_iterator option" where
  "find_malloc_iterate libc malloc_iterate_addr =
     (case libc of
        None \<Rightarrow> malloc_iterate_addr
      | Some dlsym \<Rightarrow>
          let a = dlsym ''malloc_iterate'';
              a = (if a = None then dlsym ''je_malloc_iterate'' else a);
              a = (if a = None then dlsym ''scudo_malloc_iterate'' else a)
          in a)"

lemma find_malloc_iterate_finds:
  assumes "dlsym name = Some it" and "name \<in> {''malloc_iterate'', ''je_malloc_iterate'', ''scudo_malloc_iterate''}"
  shows "find_malloc_iterate (Some dlsym) a \<noteq> None"
  using assms by (auto simp: find_malloc_iterate_def Let_def split: if_splits)

definition find_already_alloc_memory_info ::
  "heap_iterator option \<Rightarrow> (addr \<times> addr) list \<Rightarrow> addr \<Rightarrow> MemoryManager \<Rightarrow> memory_info \<times> MemoryManager" where
  "find_already_alloc_memory_info malloc_iterate maps a m =
     (case malloc_iterate of
        None \<Rightarrow> (\<lparr>memory_index = 0, mi_start = 0, mi_end = 0\<rparr>, m)
      | Some iter \<Rightarrow>
          let index = mm_index m; m = m\<lparr>mm_index := mm_index m + 1\<rparr> in
          (case find (\<lambda>(s, e). s \<le> a \<and> a \<le> e) maps of
             None \<Rightarrow> (\<lparr>memory_index = index, mi_start = 0, mi_end = 0\<rparr>, m)
           | Some (s, e) \<Rightarrow>
               let (chunk, sz) = fold (iterate_callback a) (iter s (e - s)) (0, 0) in
               if chunk = 0 then (\<lparr>memory_index = index, mi_start = s, mi_end = e\<rparr>, m)
               else (\<lparr>memory_index = index, mi_start = chunk, mi_end = chunk + sz\<rparr>, m)))"

text \<open>\<open>get_memory_offset\<close>: offset and index of the block, \<open>-1\<close> and zero where there is none.\<close>

definition get_memory_offset ::
  "heap_iterator option \<Rightarrow> (addr \<times> addr) list \<Rightarrow> addr \<Rightarrow> MemoryManager
   \<Rightarrow> (addr \<times> 64 word) \<times> MemoryManager" where
  "get_memory_offset malloc_iterate maps a m =
     (case find (\<lambda>i. mi_start i \<le> a \<and> a \<le> mi_end i) (memory_infos m) of
        Some i \<Rightarrow> ((a - mi_start i, memory_index i), m)
      | None \<Rightarrow>
          let (i, m) = find_already_alloc_memory_info malloc_iterate maps a m in
          if mi_start i \<noteq> 0
          then ((a - mi_start i, memory_index i), m\<lparr>memory_infos := memory_infos m @ [i]\<rparr>)
          else ((- 1, 0), m))"

section \<open>Locating an address\<close>

definition holds :: "memory_info \<Rightarrow> addr \<Rightarrow> bool" where
  "holds i a \<longleftrightarrow> mi_start i \<le> a \<and> a \<le> mi_end i"

lemma fold_callback_holds:
  "(case fold (iterate_callback a) chs found of (chunk, sz) \<Rightarrow>
      (chunk, sz) = found \<or> chunk \<le> a \<and> a \<le> chunk + sz)"
proof (induction chs arbitrary: found)
  case (Cons ch chs)
  show ?case
    using Cons.IH [of "iterate_callback a ch found"]
    by (cases ch) (auto simp: iterate_callback_def Let_def split: if_splits)
qed auto

lemma find_already_holds:
  assumes "find_already_alloc_memory_info it maps a m = (i, m')" and "mi_start i \<noteq> 0"
  shows "holds i a \<and> memory_infos m' = memory_infos m \<and> memory_index i = mm_index m
    \<and> mm_index m' = mm_index m + 1"
proof -
  obtain iter where it: "it = Some iter"
    using assms by (cases it) (auto simp: find_already_alloc_memory_info_def)
  obtain s e where map: "find (\<lambda>(s, e). s \<le> a \<and> a \<le> e) maps = Some (s, e)"
    using assms it
    by (cases "find (\<lambda>(s, e). s \<le> a \<and> a \<le> e) maps")
      (auto simp: find_already_alloc_memory_info_def Let_def)
  then have se: "s \<le> a" "a \<le> e" by (auto dest: find_SomeD)
  show ?thesis
    using assms it map se fold_callback_holds [where a = a and chs = "iter s (e - s)" and found = "(0, 0)"]
    by (auto simp: find_already_alloc_memory_info_def Let_def holds_def split: prod.splits if_splits)
qed

lemma find_already_index:
  assumes "find_already_alloc_memory_info it maps a m = (i, m')"
  shows "memory_infos m' = memory_infos m \<and> (mm_index m' = mm_index m \<or> mm_index m' = mm_index m + 1)"
  using assms
  by (auto simp: find_already_alloc_memory_info_def Let_def split: option.splits prod.splits if_splits)

lemma get_memory_offset_cases:
  assumes "get_memory_offset it maps a m = ((off, idx), m')"
  shows "(\<exists>i \<in> set (memory_infos m'). holds i a \<and> off = a - mi_start i \<and> idx = memory_index i)
    \<or> off = - 1 \<and> idx = 0 \<and> memory_infos m' = memory_infos m \<and> (\<forall>i \<in> set (memory_infos m). \<not> holds i a)"
proof (cases "find (\<lambda>i. mi_start i \<le> a \<and> a \<le> mi_end i) (memory_infos m)")
  case (Some i)
  then have "i \<in> set (memory_infos m)" "holds i a"
    by (auto simp: find_Some_iff holds_def)
  with Some assms show ?thesis by (auto simp: get_memory_offset_def)
next
  case None
  then have none: "\<forall>i \<in> set (memory_infos m). \<not> holds i a" by (auto simp: find_None_iff holds_def)
  obtain i m1 where found: "find_already_alloc_memory_info it maps a m = (i, m1)" by force
  show ?thesis
  proof (cases "mi_start i = 0")
    case True
    with None found assms none find_already_index [OF found] show ?thesis
      by (auto simp: get_memory_offset_def)
  next
    case False
    with None found assms find_already_holds [OF found False] show ?thesis
      by (auto simp: get_memory_offset_def)
  qed
qed

section \<open>Blocks keep their indices\<close>

definition indices_fresh :: "MemoryManager \<Rightarrow> bool" where
  "indices_fresh m \<longleftrightarrow> distinct (map memory_index (memory_infos m))
     \<and> (\<forall>i \<in> set (memory_infos m). memory_index i < mm_index m)"

text \<open>The operations that the tracer calls on the manager.\<close>

datatype mm_op =
    OpAdd addr addr
  | OpRemove addr
  | OpLocate addr
  | OpClear
  | OpSetPath string bool

definition mm_apply ::
  "memory \<Rightarrow> heap_iterator option \<Rightarrow> (addr \<times> addr) list \<Rightarrow> mm_op \<Rightarrow> MemoryManager \<Rightarrow> MemoryManager result" where
  "mm_apply mem it maps op m =
     (case op of
        OpAdd a sz \<Rightarrow> Inr (snd (add_memory a sz m))
      | OpRemove a \<Rightarrow> map_result snd (remove_memory mem a m)
      | OpLocate a \<Rightarrow> Inr (snd (get_memory_offset it maps a m))
      | OpClear \<Rightarrow> MemoryManager_clear mem m
      | OpSetPath p ok \<Rightarrow> Inr (set_dump_path p ok m))"

lemma write_memory_buffer_infos:
  "write_memory_buffer mem a len index m = Inr (b, m') \<Longrightarrow>
   memory_infos m' = memory_infos m \<and> mm_index m' = mm_index m"
  by (auto simp: write_memory_buffer_def Let_def map_result_eq_Inr split: if_splits)

lemma remove_first_subset:
  "remove_first a is = Some (i, rest) \<Longrightarrow>
   set rest \<subseteq> set is \<and> (distinct (map memory_index is) \<longrightarrow> distinct (map memory_index rest))"
proof (induction "is" arbitrary: rest)
  case (Cons x xs)
  then show ?case by (fastforce split: if_splits)
qed simp

lemma snoc_fresh:
  assumes "indices_fresh m" and "mm_index m \<noteq> - 1"
  shows "indices_fresh (m\<lparr>memory_infos := memory_infos m @ [\<lparr>memory_index = mm_index m, mi_start = s, mi_end = e\<rparr>],
    mm_index := mm_index m + 1\<rparr>)"
proof -
  have "mm_index m < mm_index m + 1" using assms(2) by (simp add: not_le [symmetric] inc_less_eq_self_iff_eq)
  with assms(1) show ?thesis by (fastforce simp: indices_fresh_def)
qed

lemma get_memory_offset_fresh:
  assumes "indices_fresh m" and "mm_index m \<noteq> - 1"
  shows "indices_fresh (snd (get_memory_offset it maps a m))
    \<and> mm_index (snd (get_memory_offset it maps a m)) \<in> {mm_index m, mm_index m + 1}"
proof (cases "find (\<lambda>i. mi_start i \<le> a \<and> a \<le> mi_end i) (memory_infos m)")
  case (Some i)
  with assms show ?thesis by (simp add: get_memory_offset_def)
next
  case None
  obtain i m1 where found: "find_already_alloc_memory_info it maps a m = (i, m1)" by force
  have less: "mm_index m < mm_index m + 1"
    using assms(2) by (simp add: not_le [symmetric] inc_less_eq_self_iff_eq)
  show ?thesis
  proof (cases "mi_start i = 0")
    case True
    with None found find_already_index [OF found] less assms(1) show ?thesis
      by (fastforce simp: get_memory_offset_def indices_fresh_def)
  next
    case False
    with None found find_already_holds [OF found False] less assms(1) show ?thesis
      by (fastforce simp: get_memory_offset_def indices_fresh_def)
  qed
qed

lemma clear_infos:
  assumes "MemoryManager_clear mem m = Inr m'"
  shows "memory_infos m' = [] \<and> mm_index m' = mm_index m"
proof -
  from assms obtain m1 where m1: "fold_result (\<lambda>i m. map_result snd
      (write_memory_buffer mem (mi_start i) (mi_end i - mi_start i) (memory_index i) m)) (memory_infos m) m = Inr m1"
    and m': "m' = m1\<lparr>memory_infos := [], file_open := False\<rparr>"
    by (auto simp: MemoryManager_clear_def map_result_eq_Inr)
  have "mm_index m1 = mm_index m"
    by (rule fold_result_invariant [OF m1, where P = "\<lambda>s. mm_index s = mm_index m"])
      (auto simp: map_result_eq_Inr dest: write_memory_buffer_infos)
  with m' show ?thesis by simp
qed

lemma mm_apply_fresh:
  assumes "mm_apply mem it maps op m = Inr m'" and "indices_fresh m" and "mm_index m \<noteq> - 1"
  shows "indices_fresh m' \<and> mm_index m' \<in> {mm_index m, mm_index m + 1}"
proof (cases op)
  case (OpAdd a sz)
  with assms snoc_fresh [OF assms(2,3)] show ?thesis
    by (auto simp: mm_apply_def add_memory_def Let_def split: if_splits)
next
  case (OpRemove a)
  then obtain b where rem: "remove_memory mem a m = Inr (b, m')"
    using assms(1) by (auto simp: mm_apply_def map_result_eq_Inr)
  show ?thesis
  proof (cases "remove_first a (memory_infos m)")
    case None
    with rem assms(2) show ?thesis by (simp add: remove_memory_def)
  next
    case (Some r)
    obtain i rest where r: "r = (i, rest)" by force
    with Some rem obtain m1 where "memory_infos m1 = memory_infos m" "mm_index m1 = mm_index m"
      "m' = m1\<lparr>memory_infos := rest\<rparr>"
      by (auto simp: remove_memory_def map_result_eq_Inr dest!: write_memory_buffer_infos)
    with remove_first_subset [of a "memory_infos m" i rest] Some r assms(2) show ?thesis
      by (auto simp: indices_fresh_def)
  qed
next
  case (OpLocate a)
  with assms get_memory_offset_fresh [OF assms(2,3)] show ?thesis by (auto simp: mm_apply_def)
next
  case OpClear
  with assms(1) have "MemoryManager_clear mem m = Inr m'" by (simp add: mm_apply_def)
  from clear_infos [OF this] show ?thesis by (simp add: indices_fresh_def)
next
  case (OpSetPath p ok)
  with assms show ?thesis by (auto simp: mm_apply_def set_dump_path_def Let_def indices_fresh_def split: if_splits)
qed

lemma mm_run_fresh:
  assumes "fold_result (mm_apply mem it maps) ops m = Inr m'" and "indices_fresh m"
    and "unat (mm_index m) + length ops < 2 ^ 64"
  shows "indices_fresh m' \<and> unat (mm_index m') \<le> unat (mm_index m) + length ops"
  using assms
proof (induction ops arbitrary: m)
  case (Cons op ops)
  obtain m1 where m1: "mm_apply mem it maps op m = Inr m1"
    and rest: "fold_result (mm_apply mem it maps) ops m1 = Inr m'"
    using Cons.prems(1) by (auto simp: bind_result_eq_Inr)
  have "mm_index m \<noteq> - 1"
  proof
    assume "mm_index m = - 1"
    then have "unat (mm_index m) = 2 ^ 64 - 1"
      by (simp add: unsigned_minus_1_eq_mask mask_eq_exp_minus_1)
    with Cons.prems(3) show False by simp
  qed
  from mm_apply_fresh [OF m1 Cons.prems(2) this]
  have fresh: "indices_fresh m1" and idx: "unat (mm_index m1) \<le> unat (mm_index m) + 1"
    by (auto simp: unat_word_ariths)
  from Cons.IH [OF rest fresh] idx Cons.prems(3) show ?case by simp
qed simp

section \<open>The dump file\<close>

text \<open>What one block adds to an open file that has not failed.\<close>

definition block_text :: "memory_info \<Rightarrow> byte list \<Rightarrow> string" where
  "block_text i bs =
     ''memory block index:'' @ fmt_hex (memory_index i) @ '' size:'' @ fmt_hex (mi_end i - mi_start i)
     @ '' address:'' @ fmt_hex (mi_start i) @ [CHR 0x0a]
     @ (if bs = [] then [] else dump_text (mi_start i) bs) @ [CHR 0x0a]"

lemma write_block:
  assumes "file_open m" and "\<not> file_failed m" and "mi_start i \<noteq> 0"
    and "read_bytes (unat (mi_end i - mi_start i)) mem (mi_start i) = Inr bs"
  shows "write_memory_buffer mem (mi_start i) (mi_end i - mi_start i) (memory_index i) m
    = Inr (True, m\<lparr>file_content := file_content m @ block_text i bs\<rparr>)"
proof (cases "unat (mi_end i - mi_start i) = 0")
  case True
  with assms show ?thesis
    by (simp add: write_memory_buffer_def Let_def Dump_def block_text_def)
next
  case False
  then have "bs \<noteq> []" using read_bytes_length [OF assms(4)] by auto
  with assms False Dump_text show ?thesis
    by (simp add: write_memory_buffer_def Let_def block_text_def)
qed

section \<open>Properties\<close>

text \<open>
  C28: locating an address answers with a block that holds it, the offset from the start of
  that block and its index; the answer without a block is given only when no recorded block
  holds the address, and then no block is added.
\<close>

theorem get_memory_offset_sound:
  assumes "get_memory_offset it maps a m = ((off, idx), m')"
  shows "(\<exists>i \<in> set (memory_infos m'). mi_start i \<le> a \<and> a \<le> mi_end i
        \<and> mi_start i + off = a \<and> off \<le> mi_end i - mi_start i \<and> idx = memory_index i)
    \<or> off = - 1 \<and> idx = 0 \<and> memory_infos m' = memory_infos m
        \<and> (\<forall>i \<in> set (memory_infos m). \<not> (mi_start i \<le> a \<and> a \<le> mi_end i))"
proof -
  have "a - s \<le> e - s" if "s \<le> a" "a \<le> e" for s e :: addr
    using that by (simp add: word_le_nat_alt unat_sub)
  with get_memory_offset_cases [OF assms] show ?thesis by (fastforce simp: holds_def)
qed

theorem get_memory_offset_sound_witness:
  "get_memory_offset (Some (\<lambda>s n. [(0x5000, 0x40)])) [(0x4000, 0x6000)] 0x5010 MemoryManager_new
     = ((0x10, 0), MemoryManager_new\<lparr>mm_index := 1,
          memory_infos := [\<lparr>memory_index = 0, mi_start = 0x5000, mi_end = 0x5040\<rparr>]\<rparr>)
   \<and> (0x5000 :: addr) + 0x10 = 0x5010"
proof -
  have run: "get_memory_offset (Some (\<lambda>s n. [(0x5000, 0x40)])) [(0x4000, 0x6000)] 0x5010 MemoryManager_new
     = ((0x10, 0), MemoryManager_new\<lparr>mm_index := 1,
          memory_infos := [\<lparr>memory_index = 0, mi_start = 0x5000, mi_end = 0x5040\<rparr>]\<rparr>)"
    by (simp add: get_memory_offset_def MemoryManager_new_def find_already_alloc_memory_info_def
        iterate_callback_def Let_def)
  from get_memory_offset_sound [OF run] run show ?thesis by auto
qed

text \<open>
  C29: after any sequence of allocations, releases, lookups, clears and changes of the dump
  file on a fresh manager that ends without a fault, no two recorded blocks share an index and
  every index is below the counter, for runs of fewer than \<open>2 ^ 64\<close> operations.
\<close>

theorem memory_indices_unique:
  assumes "fold_result (mm_apply mem it maps) ops MemoryManager_new = Inr m"
    and "length ops < 2 ^ 64"
  shows "distinct (map memory_index (memory_infos m))
    \<and> (\<forall>i \<in> set (memory_infos m). memory_index i < mm_index m) \<and> unat (mm_index m) \<le> length ops"
  using mm_run_fresh [OF assms(1)] assms(2)
  by (simp add: indices_fresh_def MemoryManager_new_def)

theorem memory_indices_unique_witness:
  "\<exists>m. fold_result (mm_apply (\<lambda>_. None) None []) [OpAdd 0x1000 16, OpAdd 0x2000 16, OpRemove 0x1000]
      MemoryManager_new = Inr m \<and> distinct (map memory_index (memory_infos m)) \<and> mm_index m = 2"
proof -
  have run: "fold_result (mm_apply (\<lambda>_. None) None []) [OpAdd 0x1000 16, OpAdd 0x2000 16, OpRemove 0x1000]
      MemoryManager_new = Inr (MemoryManager_new\<lparr>mm_index := 2,
        memory_infos := [\<lparr>memory_index = 1, mi_start = 0x2000, mi_end = 0x2010\<rparr>]\<rparr>)"
    by (simp add: mm_apply_def add_memory_def remove_memory_def MemoryManager_new_def is_in_memory_def
        write_memory_buffer_def Let_def)
  from memory_indices_unique [OF run] run show ?thesis by simp
qed

text \<open>
  C30: an allocation that is recorded and then released leaves the list of blocks as it was
  and the counter one higher, and the release adds exactly the dump of the block to an open
  file: its header, its bytes at the time of the release and a newline.
\<close>

theorem add_remove_roundtrip:
  assumes "add_memory a sz m = (True, m1)" and "\<forall>i \<in> set (memory_infos m). mi_start i \<noteq> a"
    and "a \<noteq> 0" and "file_open m" and "\<not> file_failed m" and "read_bytes (unat sz) mem a = Inr bs"
  shows "\<exists>m2. remove_memory mem a m1 = Inr (True, m2) \<and> memory_infos m2 = memory_infos m
    \<and> mm_index m2 = mm_index m + 1
    \<and> file_content m2 = file_content m
        @ block_text \<lparr>memory_index = mm_index m, mi_start = a, mi_end = a + sz\<rparr> bs"
proof -
  let ?i = "\<lparr>memory_index = mm_index m, mi_start = a, mi_end = a + sz\<rparr>"
  have m1: "m1 = m\<lparr>memory_infos := memory_infos m @ [?i], mm_index := mm_index m + 1\<rparr>"
    using assms(1) by (auto simp: add_memory_def Let_def split: if_splits)
  have last: "remove_first a (is @ [?i]) = Some (?i, is)" if "\<forall>i \<in> set is. mi_start i \<noteq> a" for "is"
    using that by (induction "is") auto
  have "write_memory_buffer mem a (a + sz - a) (mm_index m) m1
      = Inr (True, m1\<lparr>file_content := file_content m1 @ block_text ?i bs\<rparr>)"
    using write_block [of m1 ?i mem bs] assms(3-6) m1 by simp
  then show ?thesis
    using last [OF assms(2)] by (simp add: remove_memory_def m1)
qed

theorem add_remove_roundtrip_witness:
  "\<exists>m1 m2. add_memory 0x1000 1 (MemoryManager_new\<lparr>file_open := True\<rparr>) = (True, m1)
     \<and> remove_memory (\<lambda>_. Some 0x41) 0x1000 m1 = Inr (True, m2) \<and> memory_infos m2 = [] \<and> mm_index m2 = 1"
proof -
  let ?m = "MemoryManager_new\<lparr>file_open := True\<rparr>"
  obtain m1 where add: "add_memory 0x1000 1 ?m = (True, m1)"
    by (simp add: add_memory_def is_in_memory_def MemoryManager_new_def Let_def)
  have bytes: "read_bytes (unat (1 :: addr)) (\<lambda>_. Some 0x41) 0x1000 = Inr [0x41]" by simp
  show ?thesis
    using add_remove_roundtrip [OF add _ _ _ _ bytes] add
    by (auto simp: MemoryManager_new_def)
qed

text \<open>
  The bounds of a block are both taken as its own, and only the two bounds of a new block
  are tested. So a block that starts where a recorded one ends is refused although the two
  share no byte, and a block that encloses a recorded one is accepted although it shares all
  of its bytes.
\<close>

theorem add_memory_bounds:
  assumes "memory_infos m = [i]" and "mi_start i < mi_end i" and "mi_start i \<noteq> 0"
  shows "add_memory (mi_end i) sz m = (False, m)
    \<and> (a < mi_start i \<and> mi_end i < a + sz \<longrightarrow> fst (add_memory a sz m))"
proof -
  have "mi_end i \<noteq> 0" using assms(2) by auto
  with assms show ?thesis
    by (auto simp: add_memory_def is_in_memory_def Let_def)
qed

theorem add_memory_bounds_witness:
  "\<not> fst (add_memory 0x1010 16 (MemoryManager_new\<lparr>memory_infos :=
      [\<lparr>memory_index = 0, mi_start = 0x1000, mi_end = 0x1010\<rparr>]\<rparr>))
   \<and> fst (add_memory 0xF00 0x200 (MemoryManager_new\<lparr>memory_infos :=
      [\<lparr>memory_index = 0, mi_start = 0x1000, mi_end = 0x1010\<rparr>]\<rparr>))"
  using add_memory_bounds [of "MemoryManager_new\<lparr>memory_infos :=
      [\<lparr>memory_index = 0, mi_start = 0x1000, mi_end = 0x1010\<rparr>]\<rparr>"
      "\<lparr>memory_index = 0, mi_start = 0x1000, mi_end = 0x1010\<rparr>" _ "0xF00"]
  by simp

text \<open>
  \<open>clear\<close> on an open file writes the dump of every recorded block, in the order of the
  blocks, then forgets them and closes the file; with a closed file it only forgets them.
\<close>

theorem clear_dumps_every_block:
  assumes "\<forall>i \<in> set (memory_infos m). mi_start i \<noteq> 0
      \<and> read_bytes (unat (mi_end i - mi_start i)) mem (mi_start i) = Inr (contents i)"
    and "\<not> file_failed m"
  shows "MemoryManager_clear mem m = Inr (m\<lparr>memory_infos := [], file_open := False,
    file_content := file_content m
      @ (if file_open m then concat (map (\<lambda>i. block_text i (contents i)) (memory_infos m)) else [])\<rparr>)"
proof -
  let ?w = "\<lambda>i m. map_result snd
      (write_memory_buffer mem (mi_start i) (mi_end i - mi_start i) (memory_index i) m)"
  have fold: "fold_result ?w is n = Inr (n\<lparr>file_content := file_content n
      @ (if file_open n then concat (map (\<lambda>i. block_text i (contents i)) is) else [])\<rparr>)"
    if "\<not> file_failed n" "set is \<subseteq> set (memory_infos m)" for "is" n
    using that
  proof (induction "is" arbitrary: n)
    case (Cons i "is")
    have w: "?w i n = Inr (n\<lparr>file_content := file_content n @ (if file_open n then block_text i (contents i) else [])\<rparr>)"
      using write_block [of n i mem "contents i"] assms(1) Cons.prems
      by (auto simp: write_memory_buffer_def)
    show ?case using Cons.IH Cons.prems w by simp
  qed simp
  show ?thesis
    using fold [OF assms(2) order_refl] by (simp add: MemoryManager_clear_def)
qed

theorem clear_dumps_every_block_witness:
  "\<exists>m'. MemoryManager_clear (\<lambda>_. Some 0x41) (MemoryManager_new\<lparr>file_open := True,
      memory_infos := [\<lparr>memory_index = 0, mi_start = 0x1000, mi_end = 0x1001\<rparr>]\<rparr>) = Inr m'
    \<and> file_content m' = block_text \<lparr>memory_index = 0, mi_start = 0x1000, mi_end = 0x1001\<rparr> [0x41]"
  using clear_dumps_every_block [of "MemoryManager_new\<lparr>file_open := True,
      memory_infos := [\<lparr>memory_index = 0, mi_start = 0x1000, mi_end = 0x1001\<rparr>]\<rparr>" "\<lambda>_. Some 0x41" "\<lambda>_. [0x41]"]
  by (simp add: MemoryManager_new_def)

end
