(* ===== verification/Logger_Manager.thy ===== *)
theory Logger_Manager
  imports Memory_Manager
begin

text \<open>
  \<^verbatim>\<open>trace/logger_manager.cpp\<close> in the arm64 build: the two sinks, the block manager behind the
  memory columns, and the line of the trace with its columns for the program counter, the
  instruction, the registers, the memory accesses and the call. The logging library keeps
  the loggers it created by name; its registry is part of the state. The files directory of
  the application, the file system, the clock and the register accessor of the virtual
  machine are arguments.
\<close>

section \<open>Strings\<close>

definition is_trim_space :: "char \<Rightarrow> bool" where
  "is_trim_space c \<longleftrightarrow> c \<in> {CHR '' '', CHR 0x09, CHR 0x0a, CHR 0x0d, CHR 0x0c, CHR 0x0b}"

definition ltrim :: "string \<Rightarrow> string" where
  "ltrim str =
     (let start = length (takeWhile is_trim_space str) in
      if start = length str then [] else drop start str)"

definition rtrim :: "string \<Rightarrow> string" where
  "rtrim str =
     (let k = length (takeWhile is_trim_space (rev str)) in
      if k = length str then [] else take (length str - k) str)"

definition trim :: "string \<Rightarrow> string" where
  "trim str = rtrim (ltrim str)"

text \<open>\<open>join\<close>: all elements but the last followed by the delimiter, then the last.\<close>

definition join :: "string list \<Rightarrow> string \<Rightarrow> string" where
  "join v delim =
     (if v = [] then ''[]''
      else ''['' @ concat (map (\<lambda>s. s @ delim) (butlast v)) @ last v @ '']'')"

section \<open>State\<close>

record LoggerManager =
  lg_memory_manager :: "MemoryManager option"
  logcat :: "string list option"
  file_log :: "string list option"
  lg_registry :: "string list"
  trace_log_base :: string
  lg_module_name :: string
  lg_module_range :: module_range

text \<open>The constructor, in a process whose registered loggers are \<open>reg\<close>.\<close>

definition LoggerManager_new :: "string list \<Rightarrow> string \<Rightarrow> module_range \<Rightarrow> LoggerManager" where
  "LoggerManager_new reg name rng =
     \<lparr>lg_memory_manager = Some MemoryManager_new, logcat = None, file_log = None, lg_registry = reg,
      trace_log_base = [], lg_module_name = name, lg_module_range = rng\<rparr>"

text \<open>
  Creating a logger registers its name; a registered name throws. Dropping the last handle
  of the manager does not unregister it.
\<close>

definition create_logger :: "string \<Rightarrow> LoggerManager \<Rightarrow> LoggerManager result" where
  "create_logger name lg =
     (if name \<in> set (lg_registry lg) then Inl LoggerExists
      else Inr (lg\<lparr>lg_registry := name # lg_registry lg\<rparr>))"

definition set_enable_to_logcat :: "bool \<Rightarrow> LoggerManager \<Rightarrow> LoggerManager result" where
  "set_enable_to_logcat enable lg =
     (if enable \<and> logcat lg \<noteq> None then Inr lg
      else if \<not> enable \<and> logcat lg \<noteq> None then Inr (lg\<lparr>logcat := None\<rparr>)
      else if enable then map_result (\<lambda>lg. lg\<lparr>logcat := Some []\<rparr>) (create_logger ''logcat_itrace'' lg)
      else Inr lg)"

text \<open>
  The file system as the sources use it: the mode of an existing path, whether \<^verbatim>\<open>mkdir\<close>
  succeeds, whether a file opens. The file sink opens its file before its name is registered.
\<close>

record file_env =
  files_dir :: string
  stat_mode :: "string \<Rightarrow> 32 word option"
  mkdir_ok :: "string \<Rightarrow> bool"
  open_ok :: "string \<Rightarrow> bool"
  base_name :: "string \<Rightarrow> string"
  timestamp_ms :: "64 word"

definition S_IFDIR :: "32 word" where
  "S_IFDIR = 0x4000"

definition check_and_mkdir :: "file_env \<Rightarrow> string \<Rightarrow> bool" where
  "check_and_mkdir fs path =
     (case stat_mode fs path of
        Some mode \<Rightarrow> if mode AND S_IFDIR \<noteq> 0 then True else False
      | None \<Rightarrow> if mkdir_ok fs path then True else False)"

definition make_log_base :: "file_env \<Rightarrow> LoggerManager \<Rightarrow> LoggerManager" where
  "make_log_base fs lg =
     (if trace_log_base lg = [] then
        lg\<lparr>trace_log_base := files_dir fs @ ''/itrace/'' @ base_name fs (lg_module_name lg) @ ''_''
             @ hex_digits (unat (mr_base (lg_module_range lg))) @ ''_'' @ hex_digits (unat (timestamp_ms fs)) @ ''/''\<rparr>
      else lg)"

definition set_enable_to_file :: "file_env \<Rightarrow> bool \<Rightarrow> LoggerManager \<Rightarrow> LoggerManager result" where
  "set_enable_to_file fs enable lg =
     (if enable then
        if \<not> check_and_mkdir fs (files_dir fs @ ''/itrace/'') then Inr lg
        else
          let lg = make_log_base fs lg in
          if file_log lg = None
          then if \<not> open_ok fs (trace_log_base lg @ ''itrace.txt'') then Inl OpenFailed
               else map_result (\<lambda>lg. lg\<lparr>file_log := Some []\<rparr>) (create_logger ''itracer'' lg)
          else Inr lg
      else if file_log lg \<noteq> None then Inr (lg\<lparr>file_log := None\<rparr>)
      else Inr lg)"

definition set_memory_dump_to_file :: "file_env \<Rightarrow> bool \<Rightarrow> LoggerManager \<Rightarrow> LoggerManager" where
  "set_memory_dump_to_file fs dump lg =
     (if dump then
        if \<not> check_and_mkdir fs (files_dir fs @ ''/itrace/'') then lg
        else
          let lg = make_log_base fs lg;
              m = (case lg_memory_manager lg of None \<Rightarrow> MemoryManager_new | Some m \<Rightarrow> m);
              path = trace_log_base lg @ ''/memory_dump.txt''
          in lg\<lparr>lg_memory_manager := Some (set_dump_path path (open_ok fs path) m)\<rparr>
      else if lg_memory_manager lg \<noteq> None then lg\<lparr>lg_memory_manager := None\<rparr>
      else lg)"

definition LoggerManager_flush :: "memory \<Rightarrow> LoggerManager \<Rightarrow> LoggerManager result" where
  "LoggerManager_flush mem lg =
     (case lg_memory_manager lg of
        None \<Rightarrow> Inr lg
      | Some m \<Rightarrow> map_result (\<lambda>m. lg\<lparr>lg_memory_manager := Some m\<rparr>) (MemoryManager_clear mem m))"

section \<open>The columns\<close>

text \<open>The macros that view the vector registers as arrays of smaller registers.\<close>

fun fpr_le :: "nat \<Rightarrow> FPRState \<Rightarrow> nat \<Rightarrow> nat" where
  "fpr_le 0 st i = 0"
| "fpr_le (Suc n) st i = unat (st i) + 256 * fpr_le n st (Suc i)"

definition QBDI_FPR_GET_B :: "FPRState \<Rightarrow> nat \<Rightarrow> nat" where
  "QBDI_FPR_GET_B st i = fpr_le 1 st i"

definition QBDI_FPR_GET_H :: "FPRState \<Rightarrow> nat \<Rightarrow> nat" where
  "QBDI_FPR_GET_H st i = fpr_le 2 st (2 * i)"

definition QBDI_FPR_GET_S :: "FPRState \<Rightarrow> nat \<Rightarrow> nat" where
  "QBDI_FPR_GET_S st i = fpr_le 4 st (4 * i)"

definition QBDI_FPR_GET_D :: "FPRState \<Rightarrow> nat \<Rightarrow> nat" where
  "QBDI_FPR_GET_D st i = fpr_le 8 st (8 * i)"

definition QBDI_FPR_GET_V :: "FPRState \<Rightarrow> nat \<Rightarrow> nat" where
  "QBDI_FPR_GET_V st i = fpr_le 16 st (16 * i)"

text \<open>The value of a vector operand, by the first letter of its name.\<close>

definition fpr_value :: "string \<Rightarrow> FPRState \<Rightarrow> nat \<Rightarrow> nat" where
  "fpr_value name st ctx =
     (case name of
        CHR ''B'' # _ \<Rightarrow> QBDI_FPR_GET_B st ctx
      | CHR ''H'' # _ \<Rightarrow> QBDI_FPR_GET_H st (ctx div 2)
      | CHR ''S'' # _ \<Rightarrow> QBDI_FPR_GET_S st (ctx div 4)
      | CHR ''D'' # _ \<Rightarrow> QBDI_FPR_GET_D st (ctx div 8)
      | _ \<Rightarrow> QBDI_FPR_GET_V st (ctx div 16))"

definition reg_text :: "string \<Rightarrow> nat \<Rightarrow> string" where
  "reg_text name v = name @ ''= 0x'' @ hex_digits v"

text \<open>One turn of the loop over the operands: the current and the read registers.\<close>

definition operand_regs ::
  "(GPRState \<Rightarrow> nat \<Rightarrow> addr) \<Rightarrow> inst_trace_info \<Rightarrow> OperandAnalysis \<Rightarrow> string list \<times> string list
   \<Rightarrow> string list \<times> string list" where
  "operand_regs gpr_get info operand regs =
     (if regAccess operand \<in> {REGISTER_READ, REGISTER_READ_WRITE, REGISTER_WRITE} then
        (case regName operand of
           None \<Rightarrow> regs
         | Some name \<Rightarrow>
             if regCtxIdx operand < 0 then regs
             else
               let ctx = nat (regCtxIdx operand);
                   reads = regAccess operand \<in> {REGISTER_READ, REGISTER_READ_WRITE};
                   (cur, rd) = regs
               in if op_type operand = OPERAND_FPR then
                    (cur @ [reg_text name (fpr_value name (fpr_state (post_status info)) ctx)],
                     if reads then rd @ [reg_text name (fpr_value name (fpr_state (pre_status info)) ctx)] else rd)
                  else if op_type operand = OPERAND_GPR then
                    (cur @ [reg_text name (unat (gpr_get (gpr_state (post_status info)) ctx))],
                     if reads then rd @ [reg_text name (unat (gpr_get (gpr_state (pre_status info)) ctx))] else rd)
                  else regs)
      else regs)"

definition format_register_info ::
  "(GPRState \<Rightarrow> nat \<Rightarrow> addr) \<Rightarrow> inst_trace_info \<Rightarrow> InstAnalysis \<Rightarrow> string" where
  "format_register_info gpr_get info inst =
     (let (cur, rd) = fold (operand_regs gpr_get info) (operands inst) ([], []) in
      (if cur \<noteq> [] then join cur '','' else []) @ (if rd \<noteq> [] then '','' @ join rd '','' else []))"

datatype MemoryAccessType = MEMORY_READ | MEMORY_WRITE | MEMORY_READ_WRITE

record MemoryAccess =
  accessAddress :: addr
  ma_size :: "16 word"
  ma_value :: addr
  ma_type :: MemoryAccessType

record heap_env =
  he_iterate :: "heap_iterator option"
  he_maps :: "(addr \<times> addr) list"

definition logger_in_module_range :: "LoggerManager \<Rightarrow> addr \<Rightarrow> bool" where
  "logger_in_module_range lg a \<longleftrightarrow> mr_base (lg_module_range lg) \<le> a \<and> a < mr_end (lg_module_range lg)"

text \<open>One access: module accesses by offset, others through the block manager.\<close>

definition access_text ::
  "heap_env \<Rightarrow> MemoryAccess \<Rightarrow> string list \<times> LoggerManager \<Rightarrow> (string list \<times> LoggerManager) result" where
  "access_text he ma st =
     (let (ma_info, lg) = st in
      if logger_in_module_range lg (accessAddress ma) then
        let off = fmt_hex (accessAddress ma - mr_base (lg_module_range lg)) in
        if ma_type ma = MEMORY_READ
        then Inr (ma_info @ [''read module offset:'' @ off @ '' size:'' @ fmt_hex (ma_size ma)
                             @ '' => '' @ fmt_hex (ma_value ma)], lg)
        else Inr (ma_info @ [''write module offset:'' @ off @ '' size:'' @ fmt_hex (ma_size ma)
                             @ '' => '' @ fmt_hex (ma_value ma) @ '' ''], lg)
      else
        (case lg_memory_manager lg of
           None \<Rightarrow> Inl NullDeref
         | Some m \<Rightarrow>
             let ((off, index), m) = get_memory_offset (he_iterate he) (he_maps he) (accessAddress ma) m;
                 verb = (if ma_type ma = MEMORY_READ then ''read'' else ''write'')
             in Inr (ma_info @ [verb @ '' memory:'' @ fmt_hex (accessAddress ma) @ ''=>'' @ fmt_hex (ma_value ma)
                       @ '' memory block index:'' @ fmt_hex index @ '' size:'' @ fmt_hex (ma_size ma)
                       @ '' offset:'' @ fmt_hex off],
                     lg\<lparr>lg_memory_manager := Some m\<rparr>)))"

definition format_access_info ::
  "heap_env \<Rightarrow> MemoryAccess list \<Rightarrow> LoggerManager \<Rightarrow> (string \<times> LoggerManager) result" where
  "format_access_info he accesses lg =
     (if accesses = [] then Inr ([], lg)
      else map_result (\<lambda>(ma_info, lg). (if ma_info = [] then [] else join ma_info '','', lg))
             (fold_result (access_text he) accesses ([], lg)))"

definition format_call_info :: "inst_trace_info \<Rightarrow> string" where
  "format_call_info info =
     (case fun_call info of
        None \<Rightarrow> '' ''
      | Some call \<Rightarrow> call_module_name call @ '':'' @ fun_name call @ '' args:'' @ join (args call) '',''
                     @ '' '' @ ret_value call)"

definition write_info :: "string \<Rightarrow> LoggerManager \<Rightarrow> LoggerManager" where
  "write_info line lg =
     (let lg = (case logcat lg of Some ls \<Rightarrow> lg\<lparr>logcat := Some (ls @ [line])\<rparr> | None \<Rightarrow> lg) in
      (case file_log lg of Some ls \<Rightarrow> lg\<lparr>file_log := Some (ls @ [line])\<rparr> | None \<Rightarrow> lg))"

text \<open>The effect of a returned call on the blocks, at the head of \<open>write_trace_info\<close>.\<close>

definition record_blocks :: "memory \<Rightarrow> inst_trace_info \<Rightarrow> LoggerManager \<Rightarrow> LoggerManager result" where
  "record_blocks mem info lg =
     (case fun_call info of
        None \<Rightarrow> Inr lg
      | Some call \<Rightarrow>
          if fun_name call = [] then Inr lg
          else
            bind_result
              (if memory_free_address call \<noteq> 0 then
                 (case lg_memory_manager lg of
                    None \<Rightarrow> Inl NullDeref
                  | Some m \<Rightarrow> map_result (\<lambda>(_, m). lg\<lparr>lg_memory_manager := Some m\<rparr>)
                      (remove_memory mem (memory_free_address call) m))
               else Inr lg)
              (\<lambda>lg. if memory_alloc_size call \<noteq> 0 then
                 (case lg_memory_manager lg of
                    None \<Rightarrow> Inl NullDeref
                  | Some m \<Rightarrow> Inr (lg\<lparr>lg_memory_manager :=
                      Some (snd (add_memory (memory_alloc_address call) (memory_alloc_size call) m))\<rparr>))
               else Inr lg))"

definition logger_write_trace_info ::
  "(GPRState \<Rightarrow> nat \<Rightarrow> addr) \<Rightarrow> heap_env \<Rightarrow> memory \<Rightarrow> inst_trace_info \<Rightarrow> InstAnalysis \<Rightarrow> MemoryAccess list
   \<Rightarrow> LoggerManager \<Rightarrow> LoggerManager result" where
  "logger_write_trace_info gpr_get he mem info inst accesses lg =
     (if logcat lg = None \<and> file_log lg = None then Inr lg
      else bind_result (record_blocks mem info lg) (\<lambda>lg.
        let head = ''|'' @ fmt_hex (info_pc info) @ ''|'' @ fmt_hex (info_pc info - mr_base (lg_module_range lg)) @ ''|''
                   @ trim (disassembly inst) @ ''|'' @ format_register_info gpr_get info inst @ ''|''
        in map_result (\<lambda>(access, lg). write_info (head @ access @ ''|'' @ format_call_info info) lg)
             (format_access_info he accesses lg)))"

section \<open>Lemmas\<close>

lemma ltrim_eq: "ltrim s = dropWhile is_trim_space s"
proof (cases "length (takeWhile is_trim_space s) = length s")
  case True
  have "length (takeWhile is_trim_space s) + length (dropWhile is_trim_space s) = length s"
    by (metis length_append takeWhile_dropWhile_id)
  with True have "dropWhile is_trim_space s = []" by (simp only: length_0_conv [symmetric])
  then show ?thesis unfolding ltrim_def Let_def True by (simp only: refl if_True)
next
  case False
  then show ?thesis by (simp add: ltrim_def dropWhile_eq_drop)
qed

lemma rtrim_eq: "rtrim s = rev (dropWhile is_trim_space (rev s))"
proof -
  have "take (length s - k) s = rev (drop k (rev s))" for k
    by (simp add: rev_drop)
  then show ?thesis
    using ltrim_eq [of "rev s"]
    by (auto simp: rtrim_def ltrim_def Let_def dropWhile_eq_drop split: if_splits)
qed

lemma trim_split:
  "\<exists>l r. s = l @ trim s @ r \<and> list_all is_trim_space l \<and> list_all is_trim_space r
     \<and> (trim s \<noteq> [] \<longrightarrow> \<not> is_trim_space (hd (trim s)) \<and> \<not> is_trim_space (last (trim s)))"
proof -
  let ?l = "takeWhile is_trim_space s" and ?m = "dropWhile is_trim_space s"
  let ?r = "rev (takeWhile is_trim_space (rev ?m))"
  have trim: "trim s = rev (dropWhile is_trim_space (rev ?m))" by (simp add: trim_def ltrim_eq rtrim_eq)
  have m: "?m = trim s @ ?r"
    by (metis trim rev_append rev_rev_ident takeWhile_dropWhile_id)
  have "s = ?l @ trim s @ ?r" using m by (metis takeWhile_dropWhile_id)
  moreover have "list_all is_trim_space ?l" "list_all is_trim_space ?r"
    by (auto simp: list_all_iff dest: set_takeWhileD)
  moreover have "\<not> is_trim_space (hd (trim s)) \<and> \<not> is_trim_space (last (trim s))" if ne: "trim s \<noteq> []"
  proof
    have "?m \<noteq> []" using ne by (metis m append_is_Nil_conv)
    then have "\<not> is_trim_space (hd ?m)" by (rule hd_dropWhile)
    with m ne show "\<not> is_trim_space (hd (trim s))" by (metis hd_append2)
    have "dropWhile is_trim_space (rev ?m) \<noteq> []" using trim ne by auto
    then have "\<not> is_trim_space (hd (dropWhile is_trim_space (rev ?m)))" by (rule hd_dropWhile)
    then show "\<not> is_trim_space (last (trim s))" by (simp add: trim last_rev)
  qed
  ultimately show ?thesis by blast
qed

lemma hex_digits_no_bar: "CHR ''|'' \<notin> set (hex_digits n)"
proof (induction n rule: hex_digits.induct)
  case (1 n)
  have digit: "hex_digit k \<noteq> CHR ''|''" if "k < 16" for k
  proof -
    from that have "k \<in> set [0..<16]" by simp
    moreover have "list_all (\<lambda>n. hex_digit n \<noteq> CHR ''|'') [0..<16]" by code_simp
    ultimately show ?thesis unfolding list_all_iff by blast
  qed
  show ?case
    using 1 digit [of n] digit [of "n mod 16"] by (subst hex_digits.simps) (auto simp: eq_commute)
qed

lemma field_split: "CHR ''|'' \<notin> set f \<Longrightarrow> takeWhile (\<lambda>c. c \<noteq> CHR ''|'') (f @ CHR ''|'' # rest) = f"
  by (induction f) auto

lemma field_skip: "CHR ''|'' \<notin> set f \<Longrightarrow> dropWhile (\<lambda>c. c \<noteq> CHR ''|'') (f @ CHR ''|'' # rest) = CHR ''|'' # rest"
  by (induction f) auto

text \<open>Reading a hexadecimal column of a line back.\<close>

definition column :: "nat \<Rightarrow> string \<Rightarrow> string" where
  "column n line = takeWhile (\<lambda>c. c \<noteq> CHR ''|'') (((\<lambda>l. tl (dropWhile (\<lambda>c. c \<noteq> CHR ''|'') l)) ^^ n) line)"

lemma column_pc:
  "column 1 (''|'' @ fmt_hex a @ ''|'' @ rest) = fmt_hex (a :: addr)"
  using field_split [of "fmt_hex a" rest] hex_digits_no_bar
  by (simp add: column_def fmt_hex_def)

lemma column_offset:
  "column 2 (''|'' @ fmt_hex a @ ''|'' @ fmt_hex b @ ''|'' @ rest) = fmt_hex (b :: addr)"
proof -
  have "dropWhile (\<lambda>c. c \<noteq> CHR ''|'') (fmt_hex a @ CHR ''|'' # xs) = CHR ''|'' # xs" for xs
    by (rule field_skip) (simp add: fmt_hex_def hex_digits_no_bar)
  then show ?thesis
    using field_split [of "fmt_hex b" rest] hex_digits_no_bar
    by (simp add: column_def fmt_hex_def numeral_2_eq_2)
qed

lemma record_blocks_sinks:
  "record_blocks mem info lg = Inr lg' \<Longrightarrow> logcat lg' = logcat lg \<and> file_log lg' = file_log lg
     \<and> lg_module_range lg' = lg_module_range lg"
  by (auto simp: record_blocks_def bind_result_eq_Inr map_result_eq_Inr split: option.splits if_splits)

lemma access_text_sinks:
  "access_text he ma st = Inr st' \<Longrightarrow> logcat (snd st') = logcat (snd st) \<and> file_log (snd st') = file_log (snd st)"
  by (auto simp: access_text_def Let_def split: option.splits if_splits prod.splits)

lemma format_access_info_sinks:
  assumes "format_access_info he accesses lg = Inr (s, lg')"
  shows "logcat lg' = logcat lg \<and> file_log lg' = file_log lg"
proof (cases "accesses = []")
  case True
  with assms show ?thesis by (simp add: format_access_info_def)
next
  case False
  then obtain r where r: "fold_result (access_text he) accesses ([], lg) = Inr r" "lg' = snd r"
    using assms by (auto simp: format_access_info_def map_result_eq_Inr)
  have "logcat (snd r) = logcat lg \<and> file_log (snd r) = file_log lg"
    by (rule fold_result_invariant [OF r(1),
          where P = "\<lambda>st. logcat (snd st) = logcat lg \<and> file_log (snd st) = file_log lg"])
      (auto dest: access_text_sinks)
  with r(2) show ?thesis by simp
qed

text \<open>The line that is written, and that both sinks get it.\<close>

lemma logger_write_line:
  assumes "logger_write_trace_info gpr_get he mem info inst accesses lg = Inr lg'"
    and "logcat lg \<noteq> None \<or> file_log lg \<noteq> None"
  shows "\<exists>line rest. line = ''|'' @ fmt_hex (info_pc info) @ ''|''
      @ fmt_hex (info_pc info - mr_base (lg_module_range lg)) @ ''|'' @ trim (disassembly inst) @ ''|'' @ rest
    \<and> logcat lg' = map_option (\<lambda>ls. ls @ [line]) (logcat lg)
    \<and> file_log lg' = map_option (\<lambda>ls. ls @ [line]) (file_log lg)"
proof -
  obtain lg1 where lg1: "record_blocks mem info lg = Inr lg1"
    using assms by (auto simp: logger_write_trace_info_def bind_result_eq_Inr)
  obtain access lg2 where lg2: "format_access_info he accesses lg1 = Inr (access, lg2)"
    using assms lg1 by (auto simp: logger_write_trace_info_def Let_def map_result_eq_Inr)
  let ?line = "''|'' @ fmt_hex (info_pc info) @ ''|''
      @ fmt_hex (info_pc info - mr_base (lg_module_range lg)) @ ''|'' @ trim (disassembly inst) @ ''|''
      @ format_register_info gpr_get info inst @ ''|'' @ access @ ''|'' @ format_call_info info"
  have "lg' = write_info ?line lg2"
    using assms lg1 lg2 record_blocks_sinks [OF lg1]
    by (auto simp: logger_write_trace_info_def Let_def)
  then have "logcat lg' = map_option (\<lambda>ls. ls @ [?line]) (logcat lg)
      \<and> file_log lg' = map_option (\<lambda>ls. ls @ [?line]) (file_log lg)"
    using record_blocks_sinks [OF lg1] format_access_info_sinks [OF lg2]
    by (auto simp: write_info_def Let_def split: option.split)
  then show ?thesis by auto
qed

section \<open>Properties\<close>

text \<open>
  C32: a traced instruction writes one line, the same to both sinks that are enabled, and the
  first two columns of the line read back as the program counter and its offset in the
  module; with both sinks disabled nothing happens, not even to the blocks.
\<close>

theorem trace_line_columns:
  assumes "logger_write_trace_info gpr_get he mem info inst accesses lg = Inr lg'"
  shows "(logcat lg = None \<and> file_log lg = None \<longrightarrow> lg' = lg)
    \<and> (logcat lg \<noteq> None \<or> file_log lg \<noteq> None \<longrightarrow>
        (\<exists>line. logcat lg' = map_option (\<lambda>ls. ls @ [line]) (logcat lg)
          \<and> file_log lg' = map_option (\<lambda>ls. ls @ [line]) (file_log lg)
          \<and> read_hex (drop 2 (column 1 line)) = unat (info_pc info)
          \<and> read_hex (drop 2 (column 2 line)) = unat (info_pc info - mr_base (lg_module_range lg))))"
proof -
  have "lg' = lg" if "logcat lg = None \<and> file_log lg = None"
    using assms that by (simp add: logger_write_trace_info_def)
  moreover have "\<exists>line. logcat lg' = map_option (\<lambda>ls. ls @ [line]) (logcat lg)
      \<and> file_log lg' = map_option (\<lambda>ls. ls @ [line]) (file_log lg)
      \<and> read_hex (drop 2 (column 1 line)) = unat (info_pc info)
      \<and> read_hex (drop 2 (column 2 line)) = unat (info_pc info - mr_base (lg_module_range lg))"
    if on: "logcat lg \<noteq> None \<or> file_log lg \<noteq> None"
  proof -
    obtain line rest where line: "line = ''|'' @ fmt_hex (info_pc info) @ ''|''
        @ fmt_hex (info_pc info - mr_base (lg_module_range lg)) @ ''|'' @ rest"
      and sinks: "logcat lg' = map_option (\<lambda>ls. ls @ [line]) (logcat lg)"
        "file_log lg' = map_option (\<lambda>ls. ls @ [line]) (file_log lg)"
      using logger_write_line [OF assms on] by blast
    have digits: "read_hex (drop 2 (fmt_hex w)) = unat w" for w :: addr
      by (simp add: fmt_hex_def read_hex_digits)
    have "read_hex (drop 2 (column 1 line)) = unat (info_pc info)"
      "read_hex (drop 2 (column 2 line)) = unat (info_pc info - mr_base (lg_module_range lg))"
      unfolding line column_pc column_offset digits by (rule refl)+
    with sinks show ?thesis by blast
  qed
  ultimately show ?thesis by blast
qed

text \<open>A logger with logcat enabled and an instruction, for the witnesses.\<close>

definition demo_logger :: LoggerManager where
  "demo_logger = (LoggerManager_new [] ''liba.so'' \<lparr>mr_base = 0x1000, mr_end = 0x2000\<rparr>)\<lparr>logcat := Some []\<rparr>"

definition demo_inst :: InstAnalysis where
  "demo_inst = \<lparr>ia_address = 0x1010, disassembly = '' nop '', isBranch = False, isCall = False,
     affectControlFlow = False, operands = []\<rparr>"

theorem trace_line_columns_witness:
  "\<exists>lg' line. logger_write_trace_info (\<lambda>_ _. 0) \<lparr>he_iterate = None, he_maps = []\<rparr> (\<lambda>_. None)
      (inst_trace_info_new\<lparr>info_pc := 0x1010\<rparr>) demo_inst [] demo_logger = Inr lg'
    \<and> logcat lg' = Some [line] \<and> read_hex (drop 2 (column 1 line)) = 0x1010"
proof -
  obtain lg' where run: "logger_write_trace_info (\<lambda>_ _. 0) \<lparr>he_iterate = None, he_maps = []\<rparr> (\<lambda>_. None)
      (inst_trace_info_new\<lparr>info_pc := 0x1010\<rparr>) demo_inst [] demo_logger = Inr lg'"
    by (simp add: logger_write_trace_info_def demo_logger_def record_blocks_def inst_trace_info_new_def
        format_access_info_def)
  from trace_line_columns [OF run] run show ?thesis
    by (auto simp: demo_logger_def LoggerManager_new_def)
qed

text \<open>
  C34: switching the memory dump off drops the block manager that the trace needs: the next
  traced call that allocates or releases, and the next traced access outside the module,
  dereferences the null manager.
\<close>

theorem memory_dump_off_breaks_trace:
  assumes "lg' = set_memory_dump_to_file fs False lg" and "logcat lg \<noteq> None \<or> file_log lg \<noteq> None"
  shows "(\<forall>info inst accesses call. fun_call info = Some call \<and> fun_name call \<noteq> []
        \<and> (memory_free_address call \<noteq> 0 \<or> memory_alloc_size call \<noteq> 0)
        \<longrightarrow> logger_write_trace_info gpr_get he mem info inst accesses lg' = Inl NullDeref)
    \<and> (\<forall>info inst ma. fun_call info = None
        \<and> \<not> (mr_base (lg_module_range lg) \<le> accessAddress ma \<and> accessAddress ma < mr_end (lg_module_range lg))
        \<longrightarrow> logger_write_trace_info gpr_get he mem info inst [ma] lg' = Inl NullDeref)"
proof -
  have lg': "lg_memory_manager lg' = None" "logcat lg' = logcat lg" "file_log lg' = file_log lg"
    "lg_module_range lg' = lg_module_range lg"
    using assms(1) by (auto simp: set_memory_dump_to_file_def)
  have "record_blocks mem info lg' = Inl NullDeref"
    if "fun_call info = Some call" "fun_name call \<noteq> []" "memory_free_address call \<noteq> 0 \<or> memory_alloc_size call \<noteq> 0"
    for info call using that lg' by (auto simp: record_blocks_def)
  moreover have "record_blocks mem info lg' = Inr lg'" if "fun_call info = None" for info
    using that by (simp add: record_blocks_def)
  moreover have "format_access_info he [ma] lg' = Inl NullDeref"
    if "\<not> (mr_base (lg_module_range lg) \<le> accessAddress ma \<and> accessAddress ma < mr_end (lg_module_range lg))" for ma
    using that lg' by (auto simp: format_access_info_def access_text_def logger_in_module_range_def)
  ultimately show ?thesis
    using assms(2) lg' by (auto simp: logger_write_trace_info_def Let_def)
qed

theorem memory_dump_off_breaks_trace_witness:
  "logger_write_trace_info (\<lambda>_ _. 0) \<lparr>he_iterate = None, he_maps = []\<rparr> (\<lambda>_. None)
     inst_trace_info_new demo_inst
     [\<lparr>accessAddress = 0x9000, ma_size = 8, ma_value = 0, ma_type = MEMORY_READ\<rparr>]
     (set_memory_dump_to_file \<lparr>files_dir = [], stat_mode = (\<lambda>_. None), mkdir_ok = (\<lambda>_. True),
        open_ok = (\<lambda>_. True), base_name = (\<lambda>s. s), timestamp_ms = 0\<rparr> False demo_logger) = Inl NullDeref"
proof -
  let ?fs = "\<lparr>files_dir = [], stat_mode = (\<lambda>_. None), mkdir_ok = (\<lambda>_. True),
        open_ok = (\<lambda>_. True), base_name = (\<lambda>s. s), timestamp_ms = 0\<rparr> :: file_env"
  have sinks: "logcat demo_logger \<noteq> None \<or> file_log demo_logger \<noteq> None" by (simp add: demo_logger_def)
  have none: "fun_call inst_trace_info_new = None" by (simp add: inst_trace_info_new_def)
  show ?thesis
    by (rule conjunct2 [OF memory_dump_off_breaks_trace [OF refl sinks], rule_format])
      (simp add: none demo_logger_def LoggerManager_new_def)
qed

text \<open>
  A sink can be switched on once: switching it off forgets the logger but leaves its name
  registered, so that switching it on again throws, and so does switching it on in a second
  manager of the process.
\<close>

theorem sink_enabled_once:
  assumes "set_enable_to_logcat True lg = Inr lg1" and "logcat lg = None"
    and "set_enable_to_logcat False lg1 = Inr lg2"
  shows "set_enable_to_logcat True lg1 = Inr lg1 \<and> logcat lg2 = None
    \<and> set_enable_to_logcat True lg2 = Inl LoggerExists
    \<and> set_enable_to_logcat True (LoggerManager_new (lg_registry lg2) name rng) = Inl LoggerExists"
  using assms
  by (auto simp: set_enable_to_logcat_def create_logger_def map_result_eq_Inr LoggerManager_new_def
      split: if_splits)

theorem sink_enabled_once_witness:
  "\<exists>lg1 lg2. set_enable_to_logcat True (LoggerManager_new [] ''a'' \<lparr>mr_base = 0, mr_end = 1\<rparr>) = Inr lg1
     \<and> set_enable_to_logcat False lg1 = Inr lg2 \<and> set_enable_to_logcat True lg2 = Inl LoggerExists"
proof -
  let ?lg = "LoggerManager_new [] ''a'' \<lparr>mr_base = 0, mr_end = 1\<rparr>"
  let ?lg1 = "?lg\<lparr>logcat := Some [], lg_registry := [''logcat_itrace'']\<rparr>"
  have on: "set_enable_to_logcat True ?lg = Inr ?lg1"
    by (simp add: set_enable_to_logcat_def create_logger_def LoggerManager_new_def)
  have off: "set_enable_to_logcat False ?lg1 = Inr (?lg1\<lparr>logcat := None\<rparr>)"
    by (simp add: set_enable_to_logcat_def)
  have "logcat ?lg = None" by (simp add: LoggerManager_new_def)
  from sink_enabled_once [OF on this off] on off show ?thesis by blast
qed

text \<open>
  The text of the instruction column is the disassembly without the blanks around it:
  cutting only blanks at both ends, and none is left there.
\<close>

theorem trim_cuts_blanks:
  "\<exists>l r. disassembly inst = l @ trim (disassembly inst) @ r
     \<and> list_all is_trim_space l \<and> list_all is_trim_space r
     \<and> (trim (disassembly inst) = [] \<or> (\<not> is_trim_space (hd (trim (disassembly inst)))
          \<and> \<not> is_trim_space (last (trim (disassembly inst)))))"
  using trim_split by blast

end
