(* ===== verification/Vector_Registers.thy ===== *)
theory Vector_Registers
  imports Logger_Manager
begin

text \<open>
  The views of the vector registers in \<^verbatim>\<open>trace/common.h\<close>: the macros that read and write the
  state as an array of registers of 8 to 128 bits, and the enumeration of the index at which
  each named register lies in its array. Together with the macros of the logger: what a
  register of a name is of the vector register of its number.
\<close>

section \<open>The macros\<close>

text \<open>Writing bytes, the lowest first; \<^verbatim>\<open>(uint8_t) v\<close> and the like cut the value off.\<close>

fun fpr_store :: "nat \<Rightarrow> nat \<Rightarrow> nat \<Rightarrow> FPRState \<Rightarrow> FPRState" where
  "fpr_store 0 i v st = st"
| "fpr_store (Suc n) i v st = fpr_store n (Suc i) (v div 256) (st(i := of_nat v))"

definition QBDI_FPR_GET_Q :: "FPRState \<Rightarrow> nat \<Rightarrow> nat" where
  "QBDI_FPR_GET_Q st i = fpr_le 16 st (16 * i)"

definition QBDI_FPR_SET_B :: "FPRState \<Rightarrow> nat \<Rightarrow> nat \<Rightarrow> FPRState" where
  "QBDI_FPR_SET_B st i v = fpr_store 1 i v st"

definition QBDI_FPR_SET_H :: "FPRState \<Rightarrow> nat \<Rightarrow> nat \<Rightarrow> FPRState" where
  "QBDI_FPR_SET_H st i v = fpr_store 2 (2 * i) v st"

definition QBDI_FPR_SET_S :: "FPRState \<Rightarrow> nat \<Rightarrow> nat \<Rightarrow> FPRState" where
  "QBDI_FPR_SET_S st i v = fpr_store 4 (4 * i) v st"

definition QBDI_FPR_SET_D :: "FPRState \<Rightarrow> nat \<Rightarrow> nat \<Rightarrow> FPRState" where
  "QBDI_FPR_SET_D st i v = fpr_store 8 (8 * i) v st"

definition QBDI_FPR_SET_V :: "FPRState \<Rightarrow> nat \<Rightarrow> nat \<Rightarrow> FPRState" where
  "QBDI_FPR_SET_V st i v = fpr_store 16 (16 * i) v st"

definition QBDI_FPR_SET_Q :: "FPRState \<Rightarrow> nat \<Rightarrow> nat \<Rightarrow> FPRState" where
  "QBDI_FPR_SET_Q st i v = fpr_store 16 (16 * i) v st"

section \<open>The enumeration\<close>

text \<open>\<^verbatim>\<open>vector_reg_id\<close>, in the order of the source.\<close>

definition vector_reg_id_H :: "(string \<times> nat) list" where
  "vector_reg_id_H =
     [(''H0'', 0), (''H1'', 8), (''H2'', 0x10), (''H3'', 0x18), (''H4'', 0x20), (''H5'', 0x28), (''H6'', 0x30), (''H7'', 0x38),
      (''H8'', 0x40), (''H9'', 0x48), (''H10'', 0x50), (''H11'', 0x58), (''H12'', 0x60), (''H13'', 0x68), (''H14'', 0x70), (''H15'', 0x78),
      (''H16'', 0x80), (''H17'', 0x88), (''H18'', 0x90), (''H19'', 0x98), (''H20'', 0xa0), (''H21'', 0xa8), (''H22'', 0xb0), (''H23'', 0xb8),
      (''H24'', 0xc0), (''H25'', 0xc8), (''H26'', 0xd0), (''H27'', 0xd8), (''H28'', 0xe0), (''H29'', 0xe8), (''H30'', 0xf0), (''H31'', 0xf8)]"

definition vector_reg_id_Q :: "(string \<times> nat) list" where
  "vector_reg_id_Q =
     [(''Q0'', 0), (''Q1'', 1), (''Q2'', 2), (''Q3'', 3), (''Q4'', 4), (''Q5'', 5), (''Q6'', 6), (''Q7'', 7),
      (''Q8'', 8), (''Q9'', 9), (''Q10'', 10), (''Q11'', 11), (''Q12'', 12), (''Q13'', 13), (''Q14'', 14), (''Q15'', 15),
      (''Q16'', 16), (''Q17'', 17), (''Q18'', 18), (''Q19'', 19), (''Q20'', 20), (''Q21'', 21), (''Q22'', 22), (''Q23'', 23),
      (''Q24'', 24), (''Q25'', 25), (''Q26'', 26), (''Q27'', 27), (''Q28'', 28), (''Q29'', 29), (''Q30'', 30), (''Q31'', 31)]"

definition vector_reg_id_D :: "(string \<times> nat) list" where
  "vector_reg_id_D =
     [(''D0'', 0x0), (''D1'', 0x2), (''D2'', 0x4), (''D3'', 0x6), (''D4'', 0x8), (''D5'', 0xa), (''D6'', 0xc), (''D7'', 0xe),
      (''D8'', 0x10), (''D9'', 0x12), (''D10'', 0x14), (''D11'', 0x16), (''D12'', 0x18), (''D13'', 0x1a), (''D14'', 0x1c), (''D15'', 0x1e),
      (''D16'', 0x20), (''D17'', 0x22), (''D18'', 0x24), (''D19'', 0x26), (''D20'', 0x28), (''D21'', 0x2a), (''D22'', 0x2c), (''D23'', 0x2e),
      (''D24'', 0x30), (''D25'', 0x32), (''D26'', 0x34), (''D27'', 0x36), (''D28'', 0x38), (''D29'', 0x3a), (''D30'', 0x3c), (''D31'', 0x3e)]"

definition vector_reg_id_S :: "(string \<times> nat) list" where
  "vector_reg_id_S =
     [(''S0'', 0x0), (''S1'', 0x4), (''S2'', 0x8), (''S3'', 0xc), (''S4'', 0x10), (''S5'', 0x14), (''S6'', 0x18), (''S7'', 0x1c),
      (''S8'', 0x20), (''S9'', 0x24), (''S10'', 0x28), (''S11'', 0x2c), (''S12'', 0x30), (''S13'', 0x34), (''S14'', 0x38), (''S15'', 0x3c),
      (''S16'', 0x40), (''S17'', 0x44), (''S18'', 0x48), (''S19'', 0x4c), (''S20'', 0x50), (''S21'', 0x54), (''S22'', 0x58), (''S23'', 0x5c),
      (''S24'', 0x60), (''S25'', 0x64), (''S26'', 0x68), (''S27'', 0x6c), (''S28'', 0x70), (''S29'', 0x74), (''S30'', 0x78), (''S31'', 0x7c)]"

definition vector_reg_id_B :: "(string \<times> nat) list" where
  "vector_reg_id_B =
     [(''B0'', 0), (''B1'', 0x10), (''B2'', 0x20), (''B3'', 0x30), (''B4'', 0x40), (''B5'', 0x50), (''B6'', 0x60), (''B7'', 0x70),
      (''B8'', 0x80), (''B9'', 0x90), (''B10'', 0xa0), (''B11'', 0xb0), (''B12'', 0xc0), (''B13'', 0xd0), (''B14'', 0xe0), (''B15'', 0xf0),
      (''B16'', 0x100), (''B17'', 0x110), (''B18'', 0x120), (''B19'', 0x130), (''B20'', 0x140), (''B21'', 0x150), (''B22'', 0x160), (''B23'', 0x170),
      (''B24'', 0x180), (''B25'', 0x190), (''B26'', 0x1a0), (''B27'', 0x1b0), (''B28'', 0x1c0), (''B29'', 0x1d0), (''B30'', 0x1e0), (''B31'', 0x1f0)]"

definition vector_reg_id :: "(string \<times> nat) list" where
  "vector_reg_id = vector_reg_id_H @ vector_reg_id_Q @ vector_reg_id_D @ vector_reg_id_S @ vector_reg_id_B"

section \<open>A kind of register\<close>

text \<open>The bytes of a register by its letter, and the macros of the letter.\<close>

datatype reg_kind = KB | KH | KS | KD | KQ

fun kind_letter :: "reg_kind \<Rightarrow> char" where
  "kind_letter KB = CHR ''B''"
| "kind_letter KH = CHR ''H''"
| "kind_letter KS = CHR ''S''"
| "kind_letter KD = CHR ''D''"
| "kind_letter KQ = CHR ''Q''"

fun kind_bytes :: "reg_kind \<Rightarrow> nat" where
  "kind_bytes KB = 1"
| "kind_bytes KH = 2"
| "kind_bytes KS = 4"
| "kind_bytes KD = 8"
| "kind_bytes KQ = 16"

fun kind_get :: "reg_kind \<Rightarrow> FPRState \<Rightarrow> nat \<Rightarrow> nat" where
  "kind_get KB = QBDI_FPR_GET_B"
| "kind_get KH = QBDI_FPR_GET_H"
| "kind_get KS = QBDI_FPR_GET_S"
| "kind_get KD = QBDI_FPR_GET_D"
| "kind_get KQ = QBDI_FPR_GET_Q"

fun kind_set :: "reg_kind \<Rightarrow> FPRState \<Rightarrow> nat \<Rightarrow> nat \<Rightarrow> FPRState" where
  "kind_set KB = QBDI_FPR_SET_B"
| "kind_set KH = QBDI_FPR_SET_H"
| "kind_set KS = QBDI_FPR_SET_S"
| "kind_set KD = QBDI_FPR_SET_D"
| "kind_set KQ = QBDI_FPR_SET_Q"

lemmas fpr_macro_defs = QBDI_FPR_GET_B_def QBDI_FPR_GET_H_def QBDI_FPR_GET_S_def QBDI_FPR_GET_D_def QBDI_FPR_GET_Q_def
  QBDI_FPR_GET_V_def QBDI_FPR_SET_B_def QBDI_FPR_SET_H_def QBDI_FPR_SET_S_def QBDI_FPR_SET_D_def QBDI_FPR_SET_Q_def

lemma kind_macros:
  "kind_get kd st k = fpr_le (kind_bytes kd) st (kind_bytes kd * k)"
  "kind_set kd st k v = fpr_store (kind_bytes kd) (kind_bytes kd * k) v st"
  by (cases kd; simp only: kind_get.simps kind_set.simps kind_bytes.simps fpr_macro_defs mult_1)+

lemma fpr_value_kind:
  "fpr_value (kind_letter kd # cs) st (16 * i) = fpr_le (kind_bytes kd) st (16 * i)"
  by (cases kd) (simp_all add: fpr_value_def fpr_macro_defs)

section \<open>Bytes\<close>

lemma fpr_le_bound: "fpr_le n st i < 256 ^ n"
proof (induction n arbitrary: i)
  case (Suc n)
  have "unat (st i) < 256" using unsigned_less [of "st i"] by simp
  with Suc [of "Suc i"] show ?case by simp
qed simp

lemma fpr_le_low: "n \<le> m \<Longrightarrow> fpr_le n st i = fpr_le m st i mod 256 ^ n"
proof (induction n arbitrary: m i)
  case (Suc n)
  then obtain m' where m: "m = Suc m'" "n \<le> m'" by (cases m) auto
  have "unat (st i) < 256" using unsigned_less [of "st i"] by simp
  then show ?case using Suc.IH [OF m(2), of "Suc i"] by (simp add: m(1) mod_mult2_eq)
qed simp

lemma fpr_store_other: "j < i \<or> i + n \<le> j \<Longrightarrow> fpr_store n i v st j = st j"
  by (induction n arbitrary: i v st) auto

lemma fpr_le_cong: "(\<And>j. i \<le> j \<Longrightarrow> j < i + n \<Longrightarrow> st j = st' j) \<Longrightarrow> fpr_le n st i = fpr_le n st' i"
  by (induction n arbitrary: i) auto

lemma fpr_le_store: "fpr_le n (fpr_store n i v st) i = v mod 256 ^ n"
proof (induction n arbitrary: i v st)
  case (Suc n)
  have "unat (of_nat v :: byte) = v mod 256" by (simp add: unat_of_nat)
  then show ?case using Suc [of "Suc i" "v div 256"] by (simp add: fpr_store_other mod_mult2_eq)
qed simp

lemma fpr_le_append: "fpr_le (n + m) st i = fpr_le n st i + 256 ^ n * fpr_le m st (i + n)"
  by (induction n arbitrary: i) (simp_all add: algebra_simps)

lemma fpr_le_high: "fpr_le (n + m) st i div 256 ^ n = fpr_le m st (i + n)"
  by (simp add: fpr_le_append div_mult_self2 [of "256 ^ n :: nat"] fpr_le_bound)

lemma fpr_le_store_wide:
  assumes "n \<le> w"
  shows "fpr_le w (fpr_store n i v st) i = v mod 256 ^ n + 256 ^ n * (fpr_le w st i div 256 ^ n)"
proof -
  obtain m where w: "w = n + m" using assms le_Suc_ex by blast
  have "fpr_le m (fpr_store n i v st) (i + n) = fpr_le m st (i + n)"
    by (rule fpr_le_cong) (simp add: fpr_store_other)
  then show ?thesis unfolding w fpr_le_high by (simp only: fpr_le_append fpr_le_store)
qed

section \<open>Places\<close>

lemma reg_places:
  "list_all (\<lambda>i. map_of vector_reg_id (CHR ''B'' # dec_digits i) = Some (16 * i)) [0..<32]"
  "list_all (\<lambda>i. map_of vector_reg_id (CHR ''H'' # dec_digits i) = Some (8 * i)) [0..<32]"
  "list_all (\<lambda>i. map_of vector_reg_id (CHR ''S'' # dec_digits i) = Some (4 * i)) [0..<32]"
  "list_all (\<lambda>i. map_of vector_reg_id (CHR ''D'' # dec_digits i) = Some (2 * i)) [0..<32]"
  "list_all (\<lambda>i. map_of vector_reg_id (CHR ''Q'' # dec_digits i) = Some i) [0..<32]"
  by code_simp+

lemma reg_place:
  assumes "i < 32"
  shows "map_of vector_reg_id (kind_letter kd # dec_digits i) = Some (16 div kind_bytes kd * i)"
  using reg_places assms by (cases kd) (auto simp: list_all_iff)

lemma reg_place_byte: "kind_bytes kd * (16 div kind_bytes kd * i) = 16 * i"
  by (cases kd) simp_all

section \<open>Property\<close>

text \<open>
  C33: the register of a name is the low part of the vector register of its number. For every
  kind and number, the macro of the kind reads at the place that the enumeration gives the low bytes of the
  vector register, and the logger prints the same value for the operand of that name; a value
  that is written there is read back, cut off to the width, the rest of the vector register and every other one keep their values.
\<close>

theorem vector_register_views:
  assumes "i < 32"
  shows "\<exists>k. map_of vector_reg_id (kind_letter kd # dec_digits i) = Some k
    \<and> kind_get kd st k = QBDI_FPR_GET_V st i mod 256 ^ kind_bytes kd
    \<and> fpr_value (kind_letter kd # dec_digits i) st (16 * i) = kind_get kd st k
    \<and> kind_get kd (kind_set kd st k v) k = v mod 256 ^ kind_bytes kd
    \<and> QBDI_FPR_GET_V (kind_set kd st k v) i
        = v mod 256 ^ kind_bytes kd + 256 ^ kind_bytes kd * (QBDI_FPR_GET_V st i div 256 ^ kind_bytes kd)
    \<and> (\<forall>j. j \<noteq> i \<longrightarrow> QBDI_FPR_GET_V (kind_set kd st k v) j = QBDI_FPR_GET_V st j)"
proof (intro exI conjI allI impI)
  let ?k = "16 div kind_bytes kd * i"
  have n: "kind_bytes kd \<le> 16" by (cases kd) simp_all
  show "map_of vector_reg_id (kind_letter kd # dec_digits i) = Some ?k" by (rule reg_place [OF assms])
  show "kind_get kd st ?k = QBDI_FPR_GET_V st i mod 256 ^ kind_bytes kd"
    unfolding kind_macros reg_place_byte QBDI_FPR_GET_V_def by (rule fpr_le_low [OF n])
  show "fpr_value (kind_letter kd # dec_digits i) st (16 * i) = kind_get kd st ?k"
    unfolding kind_macros reg_place_byte by (rule fpr_value_kind)
  show "kind_get kd (kind_set kd st ?k v) ?k = v mod 256 ^ kind_bytes kd"
    unfolding kind_macros by (rule fpr_le_store)
  show "QBDI_FPR_GET_V (kind_set kd st ?k v) i
      = v mod 256 ^ kind_bytes kd + 256 ^ kind_bytes kd * (QBDI_FPR_GET_V st i div 256 ^ kind_bytes kd)"
    unfolding kind_macros reg_place_byte QBDI_FPR_GET_V_def by (rule fpr_le_store_wide [OF n])
  show "QBDI_FPR_GET_V (kind_set kd st ?k v) j = QBDI_FPR_GET_V st j" if "j \<noteq> i" for j
    unfolding kind_macros reg_place_byte QBDI_FPR_GET_V_def
  proof (rule fpr_le_cong, rule fpr_store_other)
    fix x assume "16 * j \<le> x" "x < 16 * j + 16"
    then show "x < 16 * i \<or> 16 * i + kind_bytes kd \<le> x" using \<open>j \<noteq> i\<close> n by linarith
  qed
qed

theorem vector_register_views_witness:
  "kind_get KS (kind_set KS (\<lambda>_. 0) 4 0x123456789) 4 = 0x23456789
    \<and> QBDI_FPR_GET_V (kind_set KS (\<lambda>_. 0) 4 0x123456789) 2 = 0"
proof -
  have place: "map_of vector_reg_id (kind_letter KS # dec_digits 1) = Some 4" using reg_place [of 1 KS] by simp
  have "QBDI_FPR_GET_V (\<lambda>_. 0) 2 = 0" by (simp add: QBDI_FPR_GET_V_def eval_nat_numeral)
  with vector_register_views [of 1 KS "\<lambda>_. 0" "0x123456789"] place show ?thesis by auto
qed

end
