(* ===== verification/Dispatch_Base.thy ===== *)
theory Dispatch_Base
  imports Trace_Common
begin

text \<open>
  \<^verbatim>\<open>trace/dispatch/dispatch_base.cpp\<close>: what every dispatcher shares, that is the module test,
  the symbol table of the exports, the values of the argument and return registers, and the
  rendering of registers, strings and buffers. A handler of the dispatch tables is the list
  of its statements; \<open>run_handler\<close> executes it on the record of the call. The macro
  \<^verbatim>\<open>REGISTER_HANDLER\<close> of \<^verbatim>\<open>common.h\<close> fills the table of a module.
\<close>

section \<open>Registers and arguments\<close>

text \<open>
  \<open>get_arg_register_value\<close> of the arm64 build: eight registers, then up to sixteen words
  of the stack.
\<close>

definition get_arg_register_value :: "memory \<Rightarrow> GPRState \<Rightarrow> nat \<Rightarrow> addr result" where
  "get_arg_register_value mem status arg_index =
     (if 8 + 16 \<le> arg_index then Inr 0
      else if arg_index < 8 then Inr (gpr_x status arg_index)
      else let stack_offset = (arg_index - 8) * 8 in
        if 16 * 8 \<le> stack_offset then Inr 0
        else read_uintptr64 mem (gpr_sp status + of_nat (stack_offset div 8 * 8)))"

definition get_ret_register_value :: "memory \<Rightarrow> GPRState \<Rightarrow> nat \<Rightarrow> addr result" where
  "get_ret_register_value mem status arg_index =
     (if 8 + 16 \<le> arg_index then Inr 0
      else if arg_index < 8 then Inr (gpr_x status arg_index)
      else let stack_offset = (arg_index - 8) * 8 in
        if 16 * 8 \<le> stack_offset then Inr 0
        else read_uintptr64 mem (gpr_sp status + of_nat (stack_offset div 8 * 8)))"

text \<open>The registers of the arm build and its \<open>get_arg_register_value\<close>.\<close>

record GPRState32 =
  gpr_r :: "nat \<Rightarrow> 32 word"
  gpr_sp32 :: "32 word"

definition get_arg_register_value_arm ::
  "(32 word \<Rightarrow> byte option) \<Rightarrow> GPRState32 \<Rightarrow> nat \<Rightarrow> 32 word result" where
  "get_arg_register_value_arm mem status arg_index =
     (if 4 + 16 \<le> arg_index then Inr 0
      else if arg_index < 4 then Inr (gpr_r status arg_index)
      else let stack_offset = (arg_index - 4) * 4;
               stack_offset = stack_offset
                 + (if stack_offset mod 8 \<noteq> 0 then 8 - stack_offset mod 8 else 0)
           in read_uintptr32 mem (gpr_sp32 status + of_nat (stack_offset div 4 * 4)))"

section \<open>Rendering\<close>

definition push_arg :: "string \<Rightarrow> 'w inst_fun_call \<Rightarrow> 'w inst_fun_call" where
  "push_arg s call = call\<lparr>args := args call @ [s]\<rparr>"

definition add_common_reg_values :: "GPRState \<Rightarrow> addr inst_fun_call \<Rightarrow> addr inst_fun_call" where
  "add_common_reg_values state call =
     (let call = push_arg (''X0='' @ fmt_hex (gpr_x state 0)) call;
          call = push_arg (''X1='' @ fmt_hex (gpr_x state 1)) call;
          call = push_arg (''X2='' @ fmt_hex (gpr_x state 2)) call;
          call = push_arg (''X3='' @ fmt_hex (gpr_x state 3)) call;
          call = push_arg (''X4='' @ fmt_hex (gpr_x state 4)) call;
          call = push_arg (''X5='' @ fmt_hex (gpr_x state 5)) call;
          call = push_arg (''X6='' @ fmt_hex (gpr_x state 6)) call
      in push_arg (''X7='' @ fmt_hex (gpr_x state 7)) call)"

definition add_common_return_value :: "GPRState \<Rightarrow> addr inst_fun_call \<Rightarrow> addr inst_fun_call" where
  "add_common_return_value state call =
     call\<lparr>ret_type := kUnknown, ret_value := ''ret='' @ fmt_hex (gpr_x state 0)\<rparr>"

text \<open>\<open>read_string_from_address\<close> followed by the read that formatting the pointer does.\<close>

definition read_string_from_address ::
  "('a::len word \<Rightarrow> byte option) \<Rightarrow> 'a word \<Rightarrow> string result" where
  "read_string_from_address mem address = (if address = 0 then Inr [] else read_cstring mem address)"

text \<open>Formatting a raw \<^verbatim>\<open>const char *\<close>: a null pointer throws.\<close>

definition format_cstr :: "('a::len word \<Rightarrow> byte option) \<Rightarrow> 'a word \<Rightarrow> string result" where
  "format_cstr mem p = (if p = 0 then Inl FormatError else read_cstring mem p)"

definition HEX_digit :: "nat \<Rightarrow> char" where
  "HEX_digit n = ''0123456789ABCDEF'' ! n"

definition fmt_02X :: "byte \<Rightarrow> string" where
  "fmt_02X b = [HEX_digit (unat b div 16), HEX_digit (unat b mod 16)]"

text \<open>One iteration of the outer loop of \<open>hexdump\<close>, for the row that starts at \<open>a\<close>.\<close>

definition hexdump_row :: "addr \<Rightarrow> byte list \<Rightarrow> string" where
  "hexdump_row a bs =
     ''0x'' @ hex_digits (unat a) @ '': ''
     @ concat (map (\<lambda>j. if j < length bs then fmt_02X (bs ! j) @ '' '' else ''   '') [0..<16])
     @ '' |''
     @ concat (map (\<lambda>j. if j < length bs
         then [if 32 \<le> unat (bs ! j) \<and> unat (bs ! j) \<le> 126 then char_of (unat (bs ! j)) else CHR ''.'']
         else []) [0..<16])
     @ ''| '' @ [CHR 0x09]"

function hexdump :: "memory \<Rightarrow> addr \<Rightarrow> nat \<Rightarrow> string result" where
  "hexdump mem data byte_count =
     (if byte_count = 0 then Inr []
      else bind_result (read_bytes (min 16 byte_count) mem data) (\<lambda>bs.
        map_result (\<lambda>rest. hexdump_row data bs @ rest) (hexdump mem (data + 16) (byte_count - 16))))"
  by pat_completeness auto
termination
  by (relation "measure (\<lambda>(mem, data, byte_count). byte_count)") auto

declare hexdump.simps [simp del]

definition read_buffer_hexdump_from_address :: "memory \<Rightarrow> addr \<Rightarrow> nat \<Rightarrow> string result" where
  "read_buffer_hexdump_from_address mem address byte_count =
     (if address = 0 \<or> byte_count = 0 then Inr [] else hexdump mem address byte_count)"

section \<open>Handlers\<close>

text \<open>
  The statements of a handler. \<open>PushHex l n\<close> is
  \<^verbatim>\<open>args.push_back(fmt::format("l{:#x}", argn))\<close>, \<open>PushDec\<close> the same with \<^verbatim>\<open>{}\<close>,
  \<open>PushStr\<close> formats \<^verbatim>\<open>read_string_from_address(argn)\<close> with \<^verbatim>\<open>{}\<close> and \<open>PushStrHex\<close> with
  \<^verbatim>\<open>{:#x}\<close>, which throws on a string, \<open>PushCStr\<close> formats
  \<^verbatim>\<open>reinterpret_cast<const char *>(argn)\<close> between two literals, \<open>PushHexIf\<close> is a \<open>PushHex\<close>
  under \<^verbatim>\<open>if (argk != 0)\<close>.
\<close>

datatype action =
    PushHex string nat
  | PushDec string nat
  | PushStr string nat
  | PushCStr string nat string
  | PushStrHex string nat
  | PushLit string
  | PushHexIf nat string nat
  | SetRet fun_data_type

text \<open>
  A handler: a list of statements, or a switch on an argument with named constants as its
  cases and a default.
\<close>

datatype handler =
    Straight "action list"
  | SwitchOn nat "(string \<times> action list) list" "action list"

fun run_action ::
  "('a::len word \<Rightarrow> byte option) \<Rightarrow> (nat \<Rightarrow> 'a word result) \<Rightarrow> action
   \<Rightarrow> 'a word inst_fun_call \<Rightarrow> 'a word inst_fun_call result" where
  "run_action mem argv (PushHex l n) call =
     map_result (\<lambda>v. push_arg (l @ fmt_hex v) call) (argv n)"
| "run_action mem argv (PushDec l n) call =
     map_result (\<lambda>v. push_arg (l @ fmt_dec v) call) (argv n)"
| "run_action mem argv (PushStr l n) call =
     bind_result (argv n) (\<lambda>v.
       map_result (\<lambda>s. push_arg (l @ s) call) (read_string_from_address mem v))"
| "run_action mem argv (PushCStr l n r) call =
     bind_result (argv n) (\<lambda>v. map_result (\<lambda>s. push_arg (l @ s @ r) call) (format_cstr mem v))"
| "run_action mem argv (PushStrHex l n) call =
     bind_result (argv n) (\<lambda>v. bind_result (read_string_from_address mem v) (\<lambda>_. Inl FormatError))"
| "run_action mem argv (PushLit l) call = Inr (push_arg l call)"
| "run_action mem argv (PushHexIf k l n) call =
     bind_result (argv k) (\<lambda>c. if c \<noteq> 0
       then map_result (\<lambda>v. push_arg (l @ fmt_hex v) call) (argv n) else Inr call)"
| "run_action mem argv (SetRet t) call = Inr (call\<lparr>ret_type := t\<rparr>)"

definition run_actions ::
  "('a::len word \<Rightarrow> byte option) \<Rightarrow> (nat \<Rightarrow> 'a word result) \<Rightarrow> action list
   \<Rightarrow> 'a word inst_fun_call \<Rightarrow> 'a word inst_fun_call result" where
  "run_actions mem argv acts call = fold_result (run_action mem argv) acts call"

text \<open>The switch: \<open>cst\<close> gives the value of a named constant of the system headers.\<close>

definition switch_case :: "(string \<Rightarrow> nat) \<Rightarrow> nat \<Rightarrow> (string \<times> action list) list \<Rightarrow> action list \<Rightarrow> action list" where
  "switch_case cst v cases dflt =
     (case find (\<lambda>(k, acts). cst k = v) cases of Some (k, acts) \<Rightarrow> acts | None \<Rightarrow> dflt)"

fun run_handler ::
  "(string \<Rightarrow> nat) \<Rightarrow> ('a::len word \<Rightarrow> byte option) \<Rightarrow> (nat \<Rightarrow> 'a word result) \<Rightarrow> handler
   \<Rightarrow> 'a word inst_fun_call \<Rightarrow> 'a word inst_fun_call result" where
  "run_handler cst mem argv (Straight acts) call = run_actions mem argv acts call"
| "run_handler cst mem argv (SwitchOn n cases dflt) call =
     bind_result (argv n) (\<lambda>v. run_actions mem argv (switch_case cst (unat v) cases dflt) call)"

section \<open>The state of a dispatcher\<close>

record DispatchBase =
  symbol_info :: "addr \<Rightarrow> string option"
  d_module_range :: module_range

text \<open>
  The static handler table of a module beside its object: address to name and handler.
\<close>

type_synonym handler_map = "addr \<Rightarrow> (string \<times> action list) option"

definition is_module_address :: "DispatchBase \<Rightarrow> addr \<Rightarrow> bool" where
  "is_module_address d address =
     (if address < mr_base (d_module_range d) then False
      else if mr_end (d_module_range d) < address then False
      else True)"

definition get_address_symbol :: "DispatchBase \<Rightarrow> addr \<Rightarrow> string" where
  "get_address_symbol d address =
     (case symbol_info d address of None \<Rightarrow> [] | Some s \<Rightarrow> s)"

definition add_export_info :: "string \<Rightarrow> addr \<Rightarrow> DispatchBase \<Rightarrow> DispatchBase" where
  "add_export_info symbol a d =
     (case symbol_info d a of
        None \<Rightarrow> d\<lparr>symbol_info := (symbol_info d)(a \<mapsto> symbol)\<rparr>
      | Some _ \<Rightarrow> d)"

text \<open>The export callback: \<open>None\<close> is a null symbol; the user data is the dispatcher.\<close>

definition dispatch_export_func :: "string option \<Rightarrow> addr \<Rightarrow> DispatchBase \<Rightarrow> DispatchBase" where
  "dispatch_export_func symbol a d =
     (case symbol of
        Some s \<Rightarrow> if a \<noteq> 0 then add_export_info s a d else d
      | None \<Rightarrow> d)"

text \<open>
  What the constructors use of \<^verbatim>\<open>stl::Library\<close>: the address range, the symbol lookup
  (zero for a symbol that is not found) and the exports that \<open>enumerate_exports\<close> reports.
\<close>

record Library_view =
  lib_start :: addr
  lib_end :: addr
  find_symbol :: "string \<Rightarrow> addr"
  lib_exports :: "(string option \<times> addr) list"

definition enumerate_exports :: "Library_view \<Rightarrow> DispatchBase \<Rightarrow> DispatchBase" where
  "enumerate_exports module d = fold (\<lambda>(s, a). dispatch_export_func s a) (lib_exports module) d"

text \<open>\<open>REGISTER_HANDLER\<close>: \<^verbatim>\<open>insert\<close> leaves an entry that is there.\<close>

definition REGISTER_HANDLER :: "Library_view \<Rightarrow> string \<times> action list \<Rightarrow> handler_map \<Rightarrow> handler_map" where
  "REGISTER_HANDLER module row m =
     (let a = find_symbol module (fst row) in
      if a \<noteq> 0 then (case m a of None \<Rightarrow> m(a \<mapsto> row) | Some _ \<Rightarrow> m) else m)"

section \<open>Lemmas\<close>

named_theorems dispatch_simps \<open>rewriting of the dispatch primitives\<close>

lemma push_arg_simps [simp, dispatch_simps]:
  "args (push_arg s call) = args call @ [s]"
  "fun_name (push_arg s call) = fun_name call"
  "ret_type (push_arg s call) = ret_type call"
  "ret_value (push_arg s call) = ret_value call"
  "fun_address (push_arg s call) = fun_address call"
  "call_module_name (push_arg s call) = call_module_name call"
  "is_svc (push_arg s call) = is_svc call"
  "memory_alloc_address (push_arg s call) = memory_alloc_address call"
  "memory_alloc_size (push_arg s call) = memory_alloc_size call"
  "memory_free_address (push_arg s call) = memory_free_address call"
  by (simp_all add: push_arg_def)

lemma get_arg_register_value_reg [simp, dispatch_simps]:
  "n < 8 \<Longrightarrow> get_arg_register_value mem st n = Inr (gpr_x st n)"
  "n < 8 \<Longrightarrow> get_ret_register_value mem st n = Inr (gpr_x st n)"
  by (simp_all add: get_arg_register_value_def get_ret_register_value_def)

lemma add_common_reg_values_args:
  "args (add_common_reg_values st call) = args call @
     map (\<lambda>i. CHR ''X'' # dec_digits i @ ''='' @ fmt_hex (gpr_x st i)) [0..<8]"
proof -
  have "[0..<8] = [0, 1, 2, 3, 4, 5, 6, 7::nat]" by code_simp
  moreover have "dec_digits 0 = ''0''" "dec_digits (Suc 0) = ''1''" "dec_digits 2 = ''2''"
    "dec_digits 3 = ''3''" "dec_digits 4 = ''4''" "dec_digits 5 = ''5''" "dec_digits 6 = ''6''"
    "dec_digits 7 = ''7''"
    by code_simp+
  ultimately show ?thesis by (simp add: add_common_reg_values_def Let_def)
qed

subsection \<open>The module test\<close>

lemma is_module_address_iff:
  "is_module_address d a \<longleftrightarrow> a \<in> {mr_base (d_module_range d) .. mr_end (d_module_range d)}"
  by (auto simp: is_module_address_def not_less)

subsection \<open>First registration wins\<close>

text \<open>
  Registering a list of rows gives, for every address, the row that was there or else the
  first row whose symbol resolves to the address.
\<close>

lemma REGISTER_HANDLER_fold:
  "fold (REGISTER_HANDLER module) rows m a =
     (case m a of
        Some r \<Rightarrow> Some r
      | None \<Rightarrow> if a = 0 then None else find (\<lambda>row. find_symbol module (fst row) = a) rows)"
proof (induction rows arbitrary: m)
  case Nil
  show ?case by (simp split: option.split)
next
  case (Cons row rows)
  show ?case
    by (simp add: Cons.IH) (auto simp: REGISTER_HANDLER_def Let_def split: option.split)
qed

lemma export_step:
  "symbol_info (dispatch_export_func s b d) a =
     (case symbol_info d a of
        Some t \<Rightarrow> Some t
      | None \<Rightarrow> if s \<noteq> None \<and> b = a \<and> a \<noteq> 0 then s else None)"
  by (cases s) (auto simp: dispatch_export_func_def add_export_info_def split: option.splits)

lemma export_fold:
  "symbol_info (fold (\<lambda>(s, a). dispatch_export_func s a) exports d) a =
     (case symbol_info d a of
        Some s \<Rightarrow> Some s
      | None \<Rightarrow> if a = 0 then None
                else Option.bind (find (\<lambda>e. fst e \<noteq> None \<and> snd e = a) exports) fst)"
proof (induction exports arbitrary: d)
  case Nil
  show ?case by (simp split: option.split)
next
  case (Cons e exports)
  show ?case
    by (cases e, cases "symbol_info d a") (auto simp: Cons.IH export_step)
qed

lemma export_range [simp]:
  "d_module_range (enumerate_exports module d) = d_module_range d"
proof -
  have "d_module_range (fold (\<lambda>(s, a). dispatch_export_func s a) exports d) = d_module_range d" for exports
    by (induction exports arbitrary: d)
      (auto simp: dispatch_export_func_def add_export_info_def split: option.split)
  then show ?thesis by (simp add: enumerate_exports_def)
qed

end
