(* ===== verification/Handler_Facts.thy ===== *)
theory Handler_Facts
  imports Dispatch_Base
begin

text \<open>
  Facts of the handler language: which statements print which argument, what a list of
  statements appends to the call, that statements touch nothing but the arguments and the
  type of the result, and that numeric statements cannot fail. The dispatchers of system
  calls, of libc and of libz rest on them.
\<close>

section \<open>Kinds of statements\<close>

text \<open>The argument that a statement prints, if it prints one unconditionally.\<close>

fun printed_arg :: "action \<Rightarrow> nat option" where
  "printed_arg (PushHex l n) = Some n"
| "printed_arg (PushDec l n) = Some n"
| "printed_arg (PushStr l n) = Some n"
| "printed_arg (PushCStr l n r) = Some n"
| "printed_arg (PushStrHex l n) = Some n"
| "printed_arg (PushLit l) = None"
| "printed_arg (PushHexIf k l n) = None"
| "printed_arg (SetRet t) = None"

fun plain :: "action \<Rightarrow> bool" where
  "plain (PushLit l) = False"
| "plain (PushHexIf k l n) = False"
| "plain _ = True"

fun numeric :: "action \<Rightarrow> bool" where
  "numeric (PushStr l n) = False"
| "numeric (PushCStr l n r) = False"
| "numeric (PushStrHex l n) = False"
| "numeric _ = True"

text \<open>The arguments are printed in the order of the registers, without a gap.\<close>

fun in_order :: "handler \<Rightarrow> bool" where
  "in_order (Straight acts) =
     (let ns = List.map_filter printed_arg acts in ns = [0..<length ns] \<and> length ns \<le> 6)"
| "in_order (SwitchOn n cases dflt) = True"

section \<open>What a handler reports\<close>

text \<open>The text of a printed value, against the value of the argument.\<close>

fun renders :: "('a::len word \<Rightarrow> byte option) \<Rightarrow> action \<Rightarrow> 'a word \<Rightarrow> string \<Rightarrow> bool" where
  "renders mem (PushHex l n) v s \<longleftrightarrow> s = l @ fmt_hex v"
| "renders mem (PushDec l n) v s \<longleftrightarrow> s = l @ fmt_dec v"
| "renders mem (PushStr l n) v s \<longleftrightarrow> (\<exists>t. read_string_from_address mem v = Inr t \<and> s = l @ t)"
| "renders mem (PushCStr l n r) v s \<longleftrightarrow> v \<noteq> 0 \<and> (\<exists>t. read_cstring mem v = Inr t \<and> s = l @ t @ r)"
| "renders mem (PushStrHex l n) v s \<longleftrightarrow> False"
| "renders mem (PushLit l) v s \<longleftrightarrow> s = l"
| "renders mem (PushHexIf k l n) v s \<longleftrightarrow> False"
| "renders mem (SetRet t) v s \<longleftrightarrow> False"

lemma run_actions_Nil [simp]: "run_actions mem argv [] call = Inr call"
  by (simp add: run_actions_def)

lemma run_actions_Cons [simp]:
  "run_actions mem argv (a # acts) call = bind_result (run_action mem argv a call) (run_actions mem argv acts)"
  by (simp add: run_actions_def [abs_def])

text \<open>The statements only append arguments and set the type of the result.\<close>

lemma run_action_frame:
  assumes "run_action mem argv a call = Inr call'"
  shows "call'\<lparr>args := A, ret_type := t\<rparr> = call\<lparr>args := A, ret_type := t\<rparr>"
  using assms by (cases a) (auto simp: bind_result_eq_Inr map_result_eq_Inr push_arg_def split: if_splits)

lemma run_actions_frame:
  assumes "run_actions mem argv acts call = Inr call'"
  shows "call'\<lparr>args := A, ret_type := t\<rparr> = call\<lparr>args := A, ret_type := t\<rparr>"
  using assms
proof (induction acts arbitrary: call)
  case (Cons a acts)
  from Cons.prems obtain mid where mid: "run_action mem argv a call = Inr mid"
    and rest: "run_actions mem argv acts mid = Inr call'"
    by (auto simp: bind_result_eq_Inr)
  from Cons.IH [OF rest] run_action_frame [OF mid] show ?case by simp
qed simp

text \<open>
  The arguments that a list of plain statements appends, one by one against the values.
\<close>

lemma run_actions_renders:
  assumes "run_actions mem (\<lambda>n. Inr (val n)) acts call = Inr call'" and "list_all plain acts"
  shows "\<exists>texts. args call' = args call @ texts
    \<and> list_all2 (\<lambda>a s. renders mem a (val (the (printed_arg a))) s)
        (filter (\<lambda>a. printed_arg a \<noteq> None) acts) texts"
  using assms
proof (induction acts arbitrary: call)
  case (Cons a acts)
  from Cons.prems obtain mid where mid: "run_action mem (\<lambda>n. Inr (val n)) a call = Inr mid"
    and rest: "run_actions mem (\<lambda>n. Inr (val n)) acts mid = Inr call'"
    by (auto simp: bind_result_eq_Inr)
  from Cons.IH [OF rest] Cons.prems(2) obtain texts where texts:
    "args call' = args mid @ texts"
    "list_all2 (\<lambda>a s. renders mem a (val (the (printed_arg a))) s)
        (filter (\<lambda>a. printed_arg a \<noteq> None) acts) texts"
    by auto
  show ?case
  proof (cases "printed_arg a")
    case None
    with mid Cons.prems(2) have "args mid = args call" by (cases a) auto
    with texts None show ?thesis by auto
  next
    case (Some n)
    have "\<exists>s. args mid = args call @ [s] \<and> renders mem a (val n) s"
      using mid Some
      by (cases a) (auto simp: bind_result_eq_Inr map_result_eq_Inr format_cstr_def split: if_splits)
    then obtain s where "args mid = args call @ [s]" "renders mem a (val n) s" by blast
    with texts Some show ?thesis by (intro exI [of _ "s # texts"]) simp
  qed
qed simp

text \<open>Numeric statements succeed whatever the memory holds.\<close>

lemma run_actions_numeric:
  "list_all numeric acts \<Longrightarrow> \<exists>call'. run_actions mem (\<lambda>n. Inr (val n)) acts call = Inr call'"
proof (induction acts arbitrary: call)
  case (Cons a acts)
  then show ?case by (cases a) auto
qed simp

text \<open>A handler only sees the six argument registers when its statements name only those.\<close>

fun arg_indices :: "action \<Rightarrow> nat list" where
  "arg_indices (PushHex l n) = [n]"
| "arg_indices (PushDec l n) = [n]"
| "arg_indices (PushStr l n) = [n]"
| "arg_indices (PushCStr l n r) = [n]"
| "arg_indices (PushStrHex l n) = [n]"
| "arg_indices (PushLit l) = []"
| "arg_indices (PushHexIf k l n) = [k, n]"
| "arg_indices (SetRet t) = []"

fun handler_actions :: "handler \<Rightarrow> action list" where
  "handler_actions (Straight acts) = acts"
| "handler_actions (SwitchOn n cases dflt) = concat (map snd cases) @ dflt"

lemma run_action_argv_cong:
  "(\<And>n. n \<in> set (arg_indices a) \<Longrightarrow> argv n = argv' n) \<Longrightarrow>
   run_action mem argv a call = run_action mem argv' a call"
  by (cases a) (auto intro!: arg_cong2 [where f = bind_result] simp: fun_eq_iff)

lemma run_actions_argv_cong:
  "(\<And>a n. a \<in> set acts \<Longrightarrow> n \<in> set (arg_indices a) \<Longrightarrow> argv n = argv' n) \<Longrightarrow>
   run_actions mem argv acts call = run_actions mem argv' acts call"
proof (induction acts arbitrary: call)
  case (Cons a acts)
  have "run_action mem argv a call = run_action mem argv' a call"
    by (rule run_action_argv_cong) (use Cons.prems in auto)
  moreover have "run_actions mem argv acts = run_actions mem argv' acts"
    by (rule ext, rule Cons.IH) (use Cons.prems in auto)
  ultimately show ?case by simp
qed simp

lemma run_actions_address:
  assumes "run_actions mem argv acts call = Inr call'"
  shows "fun_address call' = fun_address call" and "is_svc call' = is_svc call"
    and "fun_name call' = fun_name call" and "call_module_name call' = call_module_name call"
proof -
  note same = run_actions_frame [OF assms, of kUnknown "[]"]
  show "fun_address call' = fun_address call" using arg_cong [OF same, of fun_address] by simp
  show "is_svc call' = is_svc call" using arg_cong [OF same, of is_svc] by simp
  show "fun_name call' = fun_name call" using arg_cong [OF same, of fun_name] by simp
  show "call_module_name call' = call_module_name call"
    using arg_cong [OF same, of call_module_name] by simp
qed

lemma in_order_nth:
  assumes "in_order (Straight acts)" and "i < length (filter (\<lambda>a. printed_arg a \<noteq> None) acts)"
  shows "printed_arg (filter (\<lambda>a. printed_arg a \<noteq> None) acts ! i) = Some i
    \<and> length (filter (\<lambda>a. printed_arg a \<noteq> None) acts) \<le> 6"
proof -
  let ?P = "filter (\<lambda>a. printed_arg a \<noteq> None) acts"
  have ns: "List.map_filter printed_arg acts = map (the \<circ> printed_arg) ?P"
    by (simp add: List.map_filter_def comp_def)
  have "map (the \<circ> printed_arg) ?P = [0..<length ?P]" "length ?P \<le> 6"
    using assms(1) by (simp_all add: Let_def ns)
  from arg_cong [OF this(1), of "\<lambda>xs. xs ! i"] assms(2)
  have "the (printed_arg (?P ! i)) = i" by simp
  moreover have "printed_arg (?P ! i) \<noteq> None" using nth_mem [OF assms(2)] by simp
  ultimately show ?thesis using \<open>length ?P \<le> 6\<close> by auto
qed

text \<open>
  A handler whose statements are plain and in order: text \<open>i\<close> is the label of its \<open>i\<close>-th
  printing statement with the value of argument \<open>i\<close>.
\<close>

lemma run_actions_in_order:
  assumes "run_actions mem (\<lambda>n. Inr (val n)) acts call = Inr call'" and "list_all plain acts"
    and "in_order (Straight acts)"
  shows "let pushes = filter (\<lambda>a. printed_arg a \<noteq> None) acts in
      length (args call') = length (args call) + length pushes \<and> length pushes \<le> 6
      \<and> take (length (args call)) (args call') = args call
      \<and> (\<forall>i < length pushes. printed_arg (pushes ! i) = Some i
           \<and> renders mem (pushes ! i) (val i) (args call' ! (length (args call) + i)))"
proof -
  let ?P = "filter (\<lambda>a. printed_arg a \<noteq> None) acts"
  obtain texts where texts: "args call' = args call @ texts"
    "list_all2 (\<lambda>a s. renders mem a (val (the (printed_arg a))) s) ?P texts"
    using run_actions_renders [OF assms(1,2)] by auto
  have "length ?P \<le> 6" using in_order_nth [OF assms(3), of 0] by (cases "?P") auto
  with texts in_order_nth [OF assms(3)] show ?thesis
    by (auto simp: Let_def list_all2_conv_all_nth nth_append)
qed

end
