(* ===== verification/Syscall_Table_Arm.thy ===== *)
theory Syscall_Table_Arm
  imports Dispatch_Base
begin

text \<open>
  The \<open>handlers\<close> table of \<^verbatim>\<open>DispatchSyscall::dispatch_args\<close> in the arm build
  (\<^verbatim>\<open>dispatch_syscall.cpp\<close>, from line 27), row by row in the order of the source.
\<close>

definition arm_handlers_1 :: "(string \<times> string \<times> handler) list" where
  "arm_handlers_1 = [
   (''__NR_exit'', ''exit'',
      Straight [PushHex ''status='' 0, SetRet kNumber]),
   (''__NR_fork'', ''fork'',
      Straight [SetRet kNumber]),
   (''__NR_read'', ''read'',
      Straight [PushHex ''fd='' 0, PushHex ''buf='' 1, PushHex ''count='' 2, SetRet kNumber]),
   (''__NR_write'', ''write'',
      Straight [PushHex ''fd='' 0, PushHex ''buf='' 1, PushHex ''count='' 2, SetRet kNumber]),
   (''__NR_open'', ''open'',
      Straight [PushStr ''pathname='' 0, PushHex ''flags='' 1, PushHex ''mode='' 2, SetRet kNumber]),
   (''__NR_close'', ''close'',
      Straight [PushHex ''fd='' 0, SetRet kNumber]),
   (''__NR_creat'', ''creat'',
      Straight [PushStr ''pathname='' 0, PushHex ''mode='' 1, SetRet kNumber]),
   (''__NR_unlink'', ''unlink'',
      Straight [PushStr ''pathname='' 0, SetRet kNumber]),
   (''__NR_execve'', ''execve'',
      Straight [PushStr ''pathname='' 0, PushHex ''argv='' 1, PushHex ''envp='' 2, SetRet kNumber]),
   (''__NR_chdir'', ''chdir'',
      Straight [PushStr ''path='' 0, SetRet kNumber]),
   (''__NR_mknod'', ''mknod'',
      Straight [PushStr ''pathname='' 0, PushHex ''mode='' 1, PushHex ''dev='' 2, SetRet kNumber]),
   (''__NR_chmod'', ''chmod'',
      Straight [PushStr ''pathname='' 0, PushHex ''mode='' 1, SetRet kNumber]),
   (''__NR_lchown'', ''lchown'',
      Straight [PushStr ''pathname='' 0, PushHex ''owner='' 1, PushHex ''group='' 2,
                SetRet kNumber]),
   (''__NR_lseek'', ''lseek'',
      Straight [PushHex ''fd='' 0, PushHex ''offset='' 1, PushHex ''whence='' 2, SetRet kNumber]),
   (''__NR_getpid'', ''getpid'',
      Straight [SetRet kNumber]),
   (''__NR_mount'', ''mount'',
      Straight [PushStr ''source='' 0, PushStr ''target='' 1, PushStr ''filesystemtype='' 2,
                PushHex ''mountflags='' 3, PushHex ''data='' 4, SetRet kNumber]),
   (''__NR_setuid'', ''setuid'',
      Straight [PushHex ''uid='' 0, SetRet kNumber]),
   (''__NR_getuid'', ''getuid'',
      Straight [SetRet kNumber]),
   (''__NR_ptrace'', ''ptrace'',
      Straight [PushHex ''request='' 0, PushHex ''pid='' 1, PushHex ''addr='' 2,
                PushHex ''data='' 3, SetRet kNumber]),
   (''__NR_pause'', ''pause'',
      Straight [SetRet kNumber]),
   (''__NR_access'', ''access'',
      Straight [PushStr ''pathname='' 0, PushHex ''mode='' 1, SetRet kNumber]),
   (''__NR_nice'', ''nice'',
      Straight [PushHex ''inc='' 0, SetRet kNumber]),
   (''__NR_sync'', ''sync'',
      Straight [SetRet kNumber]),
   (''__NR_kill'', ''kill'',
      Straight [PushHex ''pid='' 0, PushHex ''sig='' 1, SetRet kNumber]),
   (''__NR_rename'', ''rename'',
      Straight [PushStr ''oldpath='' 0, PushStr ''newpath='' 1, SetRet kNumber]),
   (''__NR_mkdir'', ''mkdir'',
      Straight [PushStr ''pathname='' 0, PushHex ''mode='' 1, SetRet kNumber]),
   (''__NR_rmdir'', ''rmdir'',
      Straight [PushStr ''pathname='' 0, SetRet kNumber]),
   (''__NR_dup'', ''dup'',
      Straight [PushHex ''oldfd='' 0, SetRet kNumber])]"

definition arm_handlers_2 :: "(string \<times> string \<times> handler) list" where
  "arm_handlers_2 = [
   (''__NR_pipe'', ''pipe'',
      Straight [PushHex ''pipefd='' 0, SetRet kNumber]),
   (''__NR_times'', ''times'',
      Straight [PushHex ''buf='' 0, SetRet kNumber]),
   (''__NR_brk'', ''brk'',
      Straight [PushHex ''addr='' 0, SetRet kNumber]),
   (''__NR_setgid'', ''setgid'',
      Straight [PushHex ''gid='' 0, SetRet kNumber]),
   (''__NR_getgid'', ''getgid'',
      Straight [SetRet kNumber]),
   (''__NR_geteuid'', ''geteuid'',
      Straight [SetRet kNumber]),
   (''__NR_getegid'', ''getegid'',
      Straight [SetRet kNumber]),
   (''__NR_acct'', ''acct'',
      Straight [PushStr ''filename='' 0, SetRet kNumber]),
   (''__NR_umount2'', ''umount2'',
      Straight [PushStr ''target='' 0, PushHex ''flags='' 1, SetRet kNumber]),
   (''__NR_ioctl'', ''ioctl'',
      Straight [PushHex ''fd='' 0, PushHex ''request='' 1, PushHex ''arg='' 2, SetRet kNumber]),
   (''__NR_fcntl'', ''fcntl'',
      Straight [PushHex ''fd='' 0, PushHex ''cmd='' 1, PushHex ''arg='' 2, SetRet kNumber]),
   (''__NR_setpgid'', ''setpgid'',
      Straight [PushHex ''pid='' 0, PushHex ''pgid='' 1, SetRet kNumber]),
   (''__NR_umask'', ''umask'',
      Straight [PushHex ''mask='' 0, SetRet kNumber]),
   (''__NR_chroot'', ''chroot'',
      Straight [PushStr ''path='' 0, SetRet kNumber]),
   (''__NR_ustat'', ''ustat'',
      Straight [PushHex ''dev='' 0, PushHex ''ubuf='' 1, SetRet kNumber]),
   (''__NR_dup2'', ''dup2'',
      Straight [PushHex ''oldfd='' 0, PushHex ''newfd='' 1, SetRet kNumber]),
   (''__NR_getppid'', ''getppid'',
      Straight [SetRet kNumber]),
   (''__NR_getpgrp'', ''getpgrp'',
      Straight [SetRet kNumber]),
   (''__NR_setsid'', ''setsid'',
      Straight [SetRet kNumber]),
   (''__NR_sigaction'', ''sigaction'',
      Straight [PushHex ''sig='' 0, PushHex ''act='' 1, PushHex ''oldact='' 2, SetRet kNumber]),
   (''__NR_setreuid'', ''setreuid'',
      Straight [PushHex ''ruid='' 0, PushHex ''euid='' 1, SetRet kNumber]),
   (''__NR_setregid'', ''setregid'',
      Straight [PushHex ''rgid='' 0, PushHex ''egid='' 1, SetRet kNumber]),
   (''__NR_sigsuspend'', ''sigsuspend'',
      Straight [PushHex ''mask='' 0, SetRet kNumber]),
   (''__NR_sigpending'', ''sigpending'',
      Straight [PushHex ''set='' 0, SetRet kNumber]),
   (''__NR_sethostname'', ''sethostname'',
      Straight [PushStr ''name='' 0, PushHex ''len='' 1, SetRet kNumber]),
   (''__NR_setrlimit'', ''setrlimit'',
      Straight [PushHex ''resource='' 0, PushHex ''rlim='' 1, SetRet kNumber]),
   (''__NR_getrusage'', ''getrusage'',
      Straight [PushHex ''who='' 0, PushHex ''usage='' 1, SetRet kNumber]),
   (''__NR_gettimeofday'', ''gettimeofday'',
      Straight [PushHex ''tv='' 0, PushHex ''tz='' 1, SetRet kNumber]),
   (''__NR_settimeofday'', ''settimeofday'',
      Straight [PushHex ''tv='' 0, PushHex ''tz='' 1, SetRet kNumber]),
   (''__NR_getgroups'', ''getgroups'',
      Straight [PushHex ''size='' 0, PushHex ''list='' 1, SetRet kNumber]),
   (''__NR_setgroups'', ''setgroups'',
      Straight [PushHex ''size='' 0, PushHex ''list='' 1, SetRet kNumber]),
   (''__NR_symlink'', ''symlink'',
      Straight [PushStr ''target='' 0, PushStr ''linkpath='' 1, SetRet kNumber]),
   (''__NR_readlink'', ''readlink'',
      Straight [PushStr ''pathname='' 0, PushHex ''buf='' 1, PushHex ''bufsiz='' 2, SetRet kNumber])]"

definition arm_handlers_3 :: "(string \<times> string \<times> handler) list" where
  "arm_handlers_3 = [
   (''__NR_uselib'', ''uselib'',
      Straight [PushStr ''library='' 0, SetRet kNumber]),
   (''__NR_swapon'', ''swapon'',
      Straight [PushStr ''path='' 0, PushHex ''swapflags='' 1, SetRet kNumber]),
   (''__NR_reboot'', ''reboot'',
      Straight [PushHex ''magic='' 0, PushHex ''magic2='' 1, PushHex ''cmd='' 2,
                PushHex ''arg='' 3, SetRet kNumber]),
   (''__NR_munmap'', ''munmap'',
      Straight [PushHex ''addr='' 0, PushHex ''len='' 1, SetRet kNumber]),
   (''__NR_truncate'', ''truncate'',
      Straight [PushStr ''path='' 0, PushHex ''length='' 1, SetRet kNumber]),
   (''__NR_ftruncate'', ''ftruncate'',
      Straight [PushHex ''fd='' 0, PushHex ''length='' 1, SetRet kNumber]),
   (''__NR_fchmod'', ''fchmod'',
      Straight [PushHex ''fd='' 0, PushHex ''mode='' 1, SetRet kNumber]),
   (''__NR_fchown'', ''fchown'',
      Straight [PushHex ''fd='' 0, PushHex ''owner='' 1, PushHex ''group='' 2, SetRet kNumber]),
   (''__NR_getpriority'', ''getpriority'',
      Straight [PushHex ''which='' 0, PushHex ''who='' 1, SetRet kNumber]),
   (''__NR_setpriority'', ''setpriority'',
      Straight [PushHex ''which='' 0, PushHex ''who='' 1, PushHex ''prio='' 2, SetRet kNumber]),
   (''__NR_statfs'', ''statfs'',
      Straight [PushStr ''path='' 0, PushHex ''buf='' 1, SetRet kNumber]),
   (''__NR_fstatfs'', ''fstatfs'',
      Straight [PushHex ''fd='' 0, PushHex ''buf='' 1, SetRet kNumber]),
   (''__NR_syslog'', ''syslog'',
      Straight [PushHex ''type='' 0, PushHex ''buf='' 1, PushHex ''len='' 2, SetRet kNumber]),
   (''__NR_setitimer'', ''setitimer'',
      Straight [PushHex ''which='' 0, PushHex ''new_value='' 1, PushHex ''old_value='' 2,
                SetRet kNumber]),
   (''__NR_getitimer'', ''getitimer'',
      Straight [PushHex ''which='' 0, PushHex ''curr_value='' 1, SetRet kNumber]),
   (''__NR_stat'', ''stat'',
      Straight [PushStr ''pathname='' 0, PushHex ''statbuf='' 1, SetRet kNumber]),
   (''__NR_lstat'', ''lstat'',
      Straight [PushStr ''pathname='' 0, PushHex ''statbuf='' 1, SetRet kNumber]),
   (''__NR_fstat'', ''fstat'',
      Straight [PushHex ''fd='' 0, PushHex ''statbuf='' 1, SetRet kNumber]),
   (''__NR_vhangup'', ''vhangup'',
      Straight [SetRet kNumber]),
   (''__NR_wait4'', ''wait4'',
      Straight [PushHex ''pid='' 0, PushHex ''status='' 1, PushHex ''options='' 2,
                PushHex ''rusage='' 3, SetRet kNumber]),
   (''__NR_swapoff'', ''swapoff'',
      Straight [PushStr ''path='' 0, SetRet kNumber]),
   (''__NR_sysinfo'', ''sysinfo'',
      Straight [PushHex ''info='' 0, SetRet kNumber]),
   (''__NR_fsync'', ''fsync'',
      Straight [PushHex ''fd='' 0, SetRet kNumber]),
   (''__NR_sigreturn'', ''sigreturn'',
      Straight [SetRet kNumber]),
   (''__NR_clone'', ''clone'',
      Straight [PushHex ''flags='' 0, PushHex ''child_stack='' 1, PushHex ''parent_tid='' 2,
                PushHex ''child_tid='' 3, PushHex ''tls='' 4, SetRet kNumber]),
   (''__NR_setdomainname'', ''setdomainname'',
      Straight [PushStr ''name='' 0, PushHex ''len='' 1, SetRet kNumber]),
   (''__NR_uname'', ''uname'',
      Straight [PushHex ''buf='' 0, SetRet kNumber]),
   (''__NR_adjtimex'', ''adjtimex'',
      Straight [PushHex ''buf='' 0, SetRet kNumber]),
   (''__NR_mprotect'', ''mprotect'',
      Straight [PushHex ''addr='' 0, PushHex ''len='' 1, PushHex ''prot='' 2, SetRet kNumber])]"

definition arm_handlers_4 :: "(string \<times> string \<times> handler) list" where
  "arm_handlers_4 = [
   (''__NR_sigprocmask'', ''sigprocmask'',
      Straight [PushHex ''how='' 0, PushHex ''set='' 1, PushHex ''oldset='' 2, SetRet kNumber]),
   (''__NR_init_module'', ''init_module'',
      Straight [PushHex ''module_image='' 0, PushHex ''len='' 1, PushHex ''param_values='' 2,
                SetRet kNumber]),
   (''__NR_delete_module'', ''delete_module'',
      Straight [PushStr ''name='' 0, PushHex ''flags='' 1, SetRet kNumber]),
   (''__NR_quotactl'', ''quotactl'',
      Straight [PushHex ''cmd='' 0, PushStr ''special='' 1, PushHex ''id='' 2, PushHex ''addr='' 3,
                SetRet kNumber]),
   (''__NR_getpgid'', ''getpgid'',
      Straight [PushHex ''pid='' 0, SetRet kNumber]),
   (''__NR_fchdir'', ''fchdir'',
      Straight [PushHex ''fd='' 0, SetRet kNumber]),
   (''__NR_bdflush'', ''bdflush'',
      Straight [PushHex ''func='' 0, PushHex ''data='' 1, SetRet kNumber]),
   (''__NR_sysfs'', ''sysfs'',
      Straight [PushHex ''option='' 0, PushHex ''arg1='' 1, PushHex ''arg2='' 2, SetRet kNumber]),
   (''__NR_personality'', ''personality'',
      Straight [PushHex ''persona='' 0, SetRet kNumber]),
   (''__NR_setfsuid'', ''setfsuid'',
      Straight [PushHex ''uid='' 0, SetRet kNumber]),
   (''__NR_setfsgid'', ''setfsgid'',
      Straight [PushHex ''gid='' 0, SetRet kNumber]),
   (''__NR__llseek'', ''_llseek'',
      Straight [PushHex ''fd='' 0, PushHex ''offset_high='' 1, PushHex ''offset_low='' 2,
                PushHex ''result='' 3, PushHex ''whence='' 4, SetRet kNumber]),
   (''__NR_getdents'', ''getdents'',
      Straight [PushHex ''fd='' 0, PushHex ''dirp='' 1, PushHex ''count='' 2, SetRet kNumber]),
   (''__NR__newselect'', ''_newselect'',
      Straight [PushHex ''nfds='' 0, PushHex ''readfds='' 1, PushHex ''writefds='' 2,
                PushHex ''exceptfds='' 3, PushHex ''timeout='' 4, SetRet kNumber]),
   (''__NR_flock'', ''flock'',
      Straight [PushHex ''fd='' 0, PushHex ''cmd='' 1, PushHex ''lock='' 2, SetRet kNumber]),
   (''__NR_msync'', ''msync'',
      Straight [PushHex ''addr='' 0, PushHex ''length='' 1, PushHex ''flags='' 2, SetRet kNumber]),
   (''__NR_readv'', ''readv'',
      Straight [PushHex ''fd='' 0, PushHex ''iov='' 1, PushHex ''iovcnt='' 2, SetRet kNumber]),
   (''__NR_writev'', ''writev'',
      Straight [PushHex ''fd='' 0, PushHex ''iov='' 1, PushHex ''iovcnt='' 2, SetRet kNumber]),
   (''__NR_getsid'', ''getsid'',
      Straight [PushHex ''pid='' 0, SetRet kNumber]),
   (''__NR_fdatasync'', ''fdatasync'',
      Straight [PushHex ''fd='' 0, SetRet kNumber]),
   (''__NR__sysctl'', ''_sysctl'',
      Straight [PushHex ''args='' 0, SetRet kNumber]),
   (''__NR_mlock'', ''mlock'',
      Straight [PushHex ''addr='' 0, PushHex ''len='' 1, SetRet kNumber]),
   (''__NR_munlock'', ''munlock'',
      Straight [PushHex ''addr='' 0, PushHex ''len='' 1, SetRet kNumber]),
   (''__NR_mlockall'', ''mlockall'',
      Straight [PushHex ''flags='' 0, SetRet kNumber]),
   (''__NR_munlockall'', ''munlockall'',
      Straight [SetRet kNumber])]"

definition arm_handlers_5 :: "(string \<times> string \<times> handler) list" where
  "arm_handlers_5 = [
   (''__NR_sched_setparam'', ''sched_setparam'',
      Straight [PushHex ''pid='' 0, PushHex ''param='' 1, SetRet kNumber]),
   (''__NR_sched_getparam'', ''sched_getparam'',
      Straight [PushHex ''pid='' 0, PushHex ''param='' 1, SetRet kNumber]),
   (''__NR_sched_setscheduler'', ''sched_setscheduler'',
      Straight [PushHex ''pid='' 0, PushHex ''policy='' 1, PushHex ''param='' 2]),
   (''__NR_sched_getscheduler'', ''sched_getscheduler'',
      Straight [PushHex ''pid='' 0, SetRet kNumber]),
   (''__NR_sched_yield'', ''sched_yield'',
      Straight [SetRet kNumber]),
   (''__NR_sched_get_priority_max'', ''sched_get_priority_max'',
      Straight [PushHex ''policy='' 0]),
   (''__NR_sched_get_priority_min'', ''sched_get_priority_min'',
      Straight [PushHex ''policy='' 0, SetRet kNumber]),
   (''__NR_sched_rr_get_interval'', ''sched_rr_get_interval'',
      Straight [PushHex ''pid='' 0, PushHex ''ts='' 1]),
   (''__NR_nanosleep'', ''nanosleep'',
      Straight [PushHex ''req='' 0, PushHex ''rem='' 1, SetRet kNumber]),
   (''__NR_mremap'', ''mremap'',
      Straight [PushHex ''old_address='' 0, PushHex ''old_size='' 1, PushHex ''new_size='' 2,
                PushHex ''flags='' 3, PushHex ''new_address='' 4, SetRet kNumber]),
   (''__NR_setresuid'', ''setresuid'',
      Straight [PushHex ''ruid='' 0, PushHex ''euid='' 1, PushHex ''suid='' 2, SetRet kNumber]),
   (''__NR_getresuid'', ''getresuid'',
      Straight [PushHex ''ruid='' 0, PushHex ''euid='' 1, PushHex ''suid='' 2, SetRet kNumber]),
   (''__NR_poll'', ''poll'',
      Straight [PushHex ''fds='' 0, PushHex ''nfds='' 1, PushHex ''timeout='' 2, SetRet kNumber]),
   (''__NR_nfsservctl'', ''nfsservctl'',
      Straight [PushHex ''cmd='' 0, PushHex ''arg='' 1, PushHex ''buf='' 2, PushHex ''buflen='' 3,
                SetRet kNumber]),
   (''__NR_setresgid'', ''setresgid'',
      Straight [PushHex ''rgid='' 0, PushHex ''egid='' 1, PushHex ''sgid='' 2, SetRet kNumber]),
   (''__NR_prctl'', ''prctl'',
      Straight [PushHex ''option='' 0, PushHex ''arg2='' 1, PushHex ''arg3='' 2,
                PushHex ''arg4='' 3, PushHex ''arg5='' 4, SetRet kNumber]),
   (''__NR_rt_sigreturn'', ''rt_sigreturn'',
      Straight [SetRet kNumber]),
   (''__NR_rt_sigaction'', ''rt_sigaction'',
      Straight [PushHex ''signum='' 0, PushHex ''act='' 1, PushHex ''oldact='' 2, SetRet kNumber]),
   (''__NR_rt_sigprocmask'', ''rt_sigprocmask'',
      Straight [PushHex ''how='' 0, PushHex ''set='' 1, PushHex ''oldset='' 2, SetRet kNumber]),
   (''__NR_rt_sigpending'', ''rt_sigpending'',
      Straight [PushHex ''set='' 0, PushHex ''sigsetsize='' 1, SetRet kNumber]),
   (''__NR_rt_sigtimedwait'', ''rt_sigtimedwait'',
      Straight [PushHex ''uthese='' 0, PushHex ''uinfo='' 1, PushHex ''uts='' 2,
                PushHex ''sigsetsize='' 3, SetRet kNumber])]"

definition arm_handlers_6 :: "(string \<times> string \<times> handler) list" where
  "arm_handlers_6 = [
   (''__NR_rt_sigqueueinfo'', ''rt_sigqueueinfo'',
      Straight [PushHex ''pid='' 0, PushHex ''sig='' 1, PushHex ''uinfo='' 2, SetRet kNumber]),
   (''__NR_rt_sigsuspend'', ''rt_sigsuspend'',
      Straight [PushHex ''unewset='' 0, PushHex ''sigsetsize='' 1, SetRet kNumber]),
   (''__NR_pread64'', ''pread64'',
      Straight [PushHex ''fd='' 0, PushHex ''buf='' 1, PushHex ''count='' 2, PushHex ''offset='' 3,
                SetRet kNumber]),
   (''__NR_pwrite64'', ''pwrite64'',
      Straight [PushHex ''fd='' 0, PushHex ''buf='' 1, PushHex ''count='' 2, PushHex ''offset='' 3,
                SetRet kNumber]),
   (''__NR_chown'', ''chown'',
      Straight [PushStr ''pathname='' 0, PushHex ''owner='' 1, PushHex ''group='' 2,
                SetRet kNumber]),
   (''__NR_getcwd'', ''getcwd'',
      Straight [PushHex ''buf='' 0, PushHex ''size='' 1, SetRet kString]),
   (''__NR_capget'', ''capget'',
      Straight [PushHex ''hdrp='' 0, PushHex ''datap='' 1, SetRet kNumber]),
   (''__NR_capset'', ''capset'',
      Straight [PushHex ''hdrp='' 0, PushHex ''datap='' 1, SetRet kNumber]),
   (''__NR_sigaltstack'', ''sigaltstack'',
      Straight [PushHex ''ss='' 0, PushHex ''oss='' 1, SetRet kNumber]),
   (''__NR_sendfile'', ''sendfile'',
      Straight [PushHex ''out_fd='' 0, PushHex ''in_fd='' 1, PushHex ''offset='' 2,
                PushHex ''count='' 3, SetRet kNumber]),
   (''__NR_vfork'', ''vfork'',
      Straight [SetRet kNumber]),
   (''__NR_ugetrlimit'', ''ugetrlimit'',
      Straight [PushHex ''resource='' 0, PushHex ''rlim='' 1, SetRet kNumber]),
   (''__NR_mmap2'', ''mmap2'',
      Straight [PushHex ''addr='' 0, PushHex ''length='' 1, PushHex ''prot='' 2,
                PushHex ''flags='' 3, PushHex ''fd='' 4, PushHex ''pgoffset='' 5, SetRet kPointer]),
   (''__NR_truncate64'', ''truncate64'',
      Straight [PushStr ''path='' 0, PushHex ''length='' 1, SetRet kNumber]),
   (''__NR_ftruncate64'', ''ftruncate64'',
      Straight [PushHex ''fd='' 0, PushHex ''length='' 1, SetRet kNumber]),
   (''__NR_stat64'', ''stat64'',
      Straight [PushStr ''pathname='' 0, PushHex ''statbuf='' 1, SetRet kNumber]),
   (''__NR_lstat64'', ''lstat64'',
      Straight [PushStr ''pathname='' 0, PushHex ''statbuf='' 1, SetRet kNumber]),
   (''__NR_fstat64'', ''fstat64'',
      Straight [PushHex ''fd='' 0, PushHex ''statbuf='' 1, SetRet kNumber]),
   (''__NR_lchown32'', ''lchown32'',
      Straight [PushStr ''pathname='' 0, PushHex ''owner='' 1, PushHex ''group='' 2,
                SetRet kNumber]),
   (''__NR_getuid32'', ''getuid32'',
      Straight [SetRet kNumber]),
   (''__NR_getgid32'', ''getgid32'',
      Straight [SetRet kNumber]),
   (''__NR_geteuid32'', ''geteuid32'',
      Straight [SetRet kNumber]),
   (''__NR_getegid32'', ''getegid32'',
      Straight [SetRet kNumber]),
   (''__NR_setreuid32'', ''setreuid32'',
      Straight [PushHex ''ruid='' 0, PushHex ''euid='' 1, SetRet kNumber])]"

definition arm_handlers_7 :: "(string \<times> string \<times> handler) list" where
  "arm_handlers_7 = [
   (''__NR_setregid32'', ''setregid32'',
      Straight [PushHex ''rgid='' 0, PushHex ''egid='' 1, SetRet kNumber]),
   (''__NR_getgroups32'', ''getgroups32'',
      Straight [PushHex ''size='' 0, PushHex ''list='' 1, SetRet kNumber]),
   (''__NR_setgroups32'', ''setgroups32'',
      Straight [PushHex ''size='' 0, PushHex ''list='' 1, SetRet kNumber]),
   (''__NR_fchown32'', ''fchown32'',
      Straight [PushHex ''fd='' 0, PushHex ''owner='' 1, PushHex ''group='' 2, SetRet kNumber]),
   (''__NR_setresuid32'', ''setresuid32'',
      Straight [PushHex ''ruid='' 0, PushHex ''euid='' 1, PushHex ''suid='' 2, SetRet kNumber]),
   (''__NR_getresuid32'', ''getresuid32'',
      Straight [PushHex ''ruid='' 0, PushHex ''euid='' 1, PushHex ''suid='' 2, SetRet kNumber]),
   (''__NR_setresgid32'', ''setresgid32'',
      Straight [PushHex ''rgid='' 0, PushHex ''egid='' 1, PushHex ''sgid='' 2, SetRet kNumber]),
   (''__NR_getresgid32'', ''getresgid32'',
      Straight [PushHex ''rgid='' 0, PushHex ''egid='' 1, PushHex ''sgid='' 2, SetRet kNumber]),
   (''__NR_chown32'', ''chown32'',
      Straight [PushStr ''pathname='' 0, PushHex ''owner='' 1, PushHex ''group='' 2,
                SetRet kNumber]),
   (''__NR_setuid32'', ''setuid32'',
      Straight [PushHex ''uid='' 0, SetRet kNumber]),
   (''__NR_setgid32'', ''setgid32'',
      Straight [PushHex ''gid='' 0, SetRet kNumber]),
   (''__NR_setfsuid32'', ''setfsuid32'',
      Straight [PushHex ''fsuid='' 0, SetRet kNumber]),
   (''__NR_setfsgid32'', ''setfsgid32'',
      Straight [PushHex ''fsgid='' 0, SetRet kNumber]),
   (''__NR_getdents64'', ''getdents64'',
      Straight [PushHex ''fd='' 0, PushHex ''dirp='' 1, PushHex ''count='' 2, SetRet kNumber]),
   (''__NR_pivot_root'', ''pivot_root'',
      Straight [PushStr ''new_root='' 0, PushStr ''put_old='' 1, SetRet kNumber]),
   (''__NR_mincore'', ''mincore'',
      Straight [PushHex ''start='' 0, PushHex ''len='' 1, PushHex ''vec='' 2, SetRet kNumber]),
   (''__NR_madvise'', ''madvise'',
      Straight [PushHex ''addr='' 0, PushHex ''len='' 1, PushHex ''advice='' 2, SetRet kNumber]),
   (''__NR_fcntl64'', ''fcntl64'',
      Straight [PushHex ''fd='' 0, PushHex ''cmd='' 1, PushHex ''arg='' 2, SetRet kNumber]),
   (''__NR_gettid'', ''gettid'',
      Straight [SetRet kNumber]),
   (''__NR_readahead'', ''readahead'',
      Straight [PushHex ''fd='' 0, PushHex ''offset='' 1, PushHex ''count='' 2, SetRet kNumber])]"

definition arm_handlers_8 :: "(string \<times> string \<times> handler) list" where
  "arm_handlers_8 = [
   (''__NR_setxattr'', ''setxattr'',
      Straight [PushStr ''path='' 0, PushStr ''name='' 1, PushHex ''value='' 2,
                PushHex ''size='' 3, PushHex ''flags='' 4, SetRet kNumber]),
   (''__NR_setxattr'', ''setxattr'',
      Straight [PushStr ''path='' 0, PushStr ''name='' 1, PushHex ''value='' 2,
                PushHex ''size='' 3, PushHex ''flags='' 4, SetRet kNumber]),
   (''__NR_setxattr'', ''setxattr'',
      Straight [PushHex ''fd='' 0, PushStr ''name='' 1, PushHex ''value='' 2, PushHex ''size='' 3,
                PushHex ''flags='' 4, SetRet kNumber]),
   (''__NR_getxattr'', ''getxattr'',
      Straight [PushStr ''path='' 0, PushStr ''name='' 1, PushHex ''value='' 2,
                PushHex ''size='' 3, SetRet kNumber]),
   (''__NR_lgetxattr'', ''lgetxattr'',
      Straight [PushStr ''path='' 0, PushStr ''name='' 1, PushHex ''value='' 2,
                PushHex ''size='' 3, SetRet kNumber]),
   (''__NR_fgetxattr'', ''fgetxattr'',
      Straight [PushHex ''fd='' 0, PushStr ''name='' 1, PushHex ''value='' 2, PushHex ''size='' 3,
                SetRet kNumber]),
   (''__NR_listxattr'', ''listxattr'',
      Straight [PushStr ''path='' 0, PushHex ''list='' 1, PushHex ''size='' 2, SetRet kNumber]),
   (''__NR_llistxattr'', ''llistxattr'',
      Straight [PushStr ''path='' 0, PushHex ''list='' 1, PushHex ''size='' 2, SetRet kNumber]),
   (''__NR_flistxattr'', ''flistxattr'',
      Straight [PushHex ''fd='' 0, PushHex ''list='' 1, PushHex ''size='' 2, SetRet kNumber]),
   (''__NR_removexattr'', ''removexattr'',
      Straight [PushStr ''path='' 0, PushStr ''name='' 1, SetRet kNumber]),
   (''__NR_lremovexattr'', ''lremovexattr'',
      Straight [PushStr ''path='' 0, PushStr ''name='' 1, SetRet kNumber]),
   (''__NR_fremovexattr'', ''fremovexattr'',
      Straight [PushHex ''fd='' 0, PushStr ''name='' 1, SetRet kNumber]),
   (''__NR_tkill'', ''tkill'',
      Straight [PushHex ''tid='' 0, PushHex ''sig='' 1, SetRet kNumber]),
   (''__NR_sendfile64'', ''sendfile64'',
      Straight [PushHex ''out_fd='' 0, PushHex ''in_fd='' 1, PushHex ''offset='' 2,
                PushHex ''count='' 3, SetRet kNumber]),
   (''__NR_futex'', ''futex'',
      Straight [PushHex ''uaddr='' 0, PushHex ''op='' 1, PushHex ''val='' 2, PushHex ''utime='' 3,
                PushHex ''uaddr2='' 4, PushHex ''val3='' 5, SetRet kNumber]),
   (''__NR_sched_setaffinity'', ''sched_setaffinity'',
      Straight [PushHex ''pid='' 0, PushHex ''size='' 1, PushHex ''mask='' 2, SetRet kNumber])]"

definition arm_handlers_9 :: "(string \<times> string \<times> handler) list" where
  "arm_handlers_9 = [
   (''__NR_sched_getaffinity'', ''sched_getaffinity'',
      Straight [PushHex ''pid='' 0, PushHex ''size='' 1, PushHex ''mask='' 2, SetRet kNumber]),
   (''__NR_io_setup'', ''io_setup'',
      Straight [PushHex ''nr_events='' 0, PushHex ''ctx='' 1, SetRet kNumber]),
   (''__NR_io_destroy'', ''io_destroy'',
      Straight [PushHex ''ctx='' 0, SetRet kNumber]),
   (''__NR_io_getevents'', ''io_getevents'',
      Straight [PushHex ''ctx_id='' 0, PushHex ''min_nr='' 1, PushHex ''nr='' 2,
                PushHex ''events='' 3, PushHex ''timeout='' 4, SetRet kNumber]),
   (''__NR_io_submit'', ''io_submit'',
      Straight [PushHex ''ctx_id='' 0, PushHex ''nr='' 1, PushHex ''iocbpp='' 2, SetRet kNumber]),
   (''__NR_io_cancel'', ''io_cancel'',
      Straight [PushHex ''ctx_id='' 0, PushHex ''iocb='' 1, PushHex ''result='' 2, SetRet kNumber]),
   (''__NR_exit_group'', ''exit_group'',
      Straight [PushHex ''error_code='' 0, SetRet kNumber]),
   (''__NR_lookup_dcookie'', ''lookup_dcookie'',
      Straight [PushHex ''cookie64='' 0, PushHex ''buf='' 1, PushHex ''len='' 2, SetRet kNumber]),
   (''__NR_epoll_create'', ''epoll_create'',
      Straight [PushHex ''size='' 0, SetRet kNumber]),
   (''__NR_epoll_ctl'', ''epoll_ctl'',
      Straight [PushHex ''epfd='' 0, PushHex ''op='' 1, PushHex ''fd='' 2, PushHex ''event='' 3,
                SetRet kNumber]),
   (''__NR_epoll_wait'', ''epoll_wait'',
      Straight [PushHex ''epfd='' 0, PushHex ''events='' 1, PushHex ''maxevents='' 2,
                PushHex ''timeout='' 3, SetRet kNumber]),
   (''__NR_remap_file_pages'', ''remap_file_pages'',
      Straight [PushHex ''start='' 0, PushHex ''size='' 1, PushHex ''prot='' 2,
                PushHex ''pgoff='' 3, PushHex ''flags='' 4, SetRet kNumber]),
   (''__NR_set_tid_address'', ''set_tid_address'',
      Straight [PushHex ''tidptr='' 0, SetRet kNumber]),
   (''__NR_timer_create'', ''timer_create'',
      Straight [PushHex ''clockid='' 0, PushHex ''sevp='' 1, PushHex ''timerid='' 2,
                SetRet kNumber]),
   (''__NR_timer_gettime'', ''timer_gettime'',
      Straight [PushHex ''timerid='' 0, PushHex ''curr_value='' 1, SetRet kNumber]),
   (''__NR_timer_getoverrun'', ''timer_getoverrun'',
      Straight [PushHex ''timerid='' 0, SetRet kNumber]),
   (''__NR_timer_settime'', ''timer_settime'',
      Straight [PushHex ''timerid='' 0, PushHex ''flags='' 1, PushHex ''new_value='' 2,
                PushHex ''old_value='' 3, SetRet kNumber]),
   (''__NR_timer_delete'', ''timer_delete'',
      Straight [PushHex ''timerid='' 0, SetRet kNumber]),
   (''__NR_clock_settime'', ''clock_settime'',
      Straight [PushHex ''clockid='' 0, PushHex ''tp='' 1, SetRet kNumber])]"

definition arm_handlers_10 :: "(string \<times> string \<times> handler) list" where
  "arm_handlers_10 = [
   (''__NR_clock_gettime'', ''clock_gettime'',
      Straight [PushHex ''clockid='' 0, PushHex ''tp='' 1, SetRet kNumber]),
   (''__NR_clock_getres'', ''clock_getres'',
      Straight [PushHex ''clockid='' 0, PushHex ''res='' 1, SetRet kNumber]),
   (''__NR_clock_nanosleep'', ''clock_nanosleep'',
      Straight [PushHex ''clockid='' 0, PushHex ''flags='' 1, PushHex ''request='' 2,
                PushHex ''remain='' 3, SetRet kNumber]),
   (''__NR_statfs64'', ''statfs64'',
      Straight [PushStrHex ''path='' 0, PushHex ''buf='' 1, SetRet kNumber]),
   (''__NR_fstatfs64'', ''fstatfs64'',
      Straight [PushHex ''fd='' 0, PushHex ''buf='' 1, SetRet kNumber]),
   (''__NR_tgkill'', ''tgkill'',
      Straight [PushHex ''tgid='' 0, PushHex ''tid='' 1, PushHex ''sig='' 2, SetRet kNumber]),
   (''__NR_utimes'', ''utimes'',
      Straight [PushStrHex ''filename='' 0, PushHex ''tv='' 1, SetRet kNumber]),
   (''__NR_arm_fadvise64_64'', ''arm_fadvise64_64'',
      Straight [PushHex ''fd='' 0, PushHex ''advice='' 1, PushHex ''offset='' 2,
                PushHex ''len='' 3, SetRet kNumber]),
   (''__NR_mq_open'', ''mq_open'',
      Straight [PushStr ''name='' 0, PushDec ''oflag='' 1, SetRet kNumber]),
   (''__NR_mq_unlink'', ''mq_unlink'',
      Straight [PushStrHex ''name='' 0, SetRet kNumber]),
   (''__NR_mq_timedsend'', ''mq_timedsend'',
      Straight [PushHex ''mqdes='' 0, PushHex ''msg_ptr='' 1, PushHex ''msg_len='' 2,
                PushHex ''msg_prio='' 3, PushHex ''abs_timeout='' 4, SetRet kNumber]),
   (''__NR_mq_timedreceive'', ''mq_timedreceive'',
      Straight [PushHex ''mqdes='' 0, PushHex ''msg_ptr='' 1, PushHex ''msg_len='' 2,
                PushHex ''msg_prio='' 3, PushHex ''abs_timeout='' 4, SetRet kNumber]),
   (''__NR_mq_notify'', ''mq_notify'',
      Straight [PushHex ''mqdes='' 0, PushHex ''notification='' 1]),
   (''__NR_mq_getsetattr'', ''mq_getsetattr'',
      Straight [PushHex ''mqdes='' 0, PushHex ''newattr='' 1, PushHex ''oldattr='' 2,
                SetRet kNumber]),
   (''__NR_waitid'', ''waitid'',
      Straight [PushHex ''idtype='' 0, PushHex ''id='' 1, PushHex ''infop='' 2,
                PushHex ''options='' 3, SetRet kNumber]),
   (''__NR_socket'', ''socket'',
      Straight [PushHex ''domain='' 0, PushHex ''type='' 1, PushHex ''protocol='' 2,
                SetRet kNumber]),
   (''__NR_bind'', ''bind'',
      Straight [PushHex ''sockfd='' 0, PushHex ''addr='' 1, PushHex ''addrlen='' 2, SetRet kNumber]),
   (''__NR_connect'', ''connect'',
      Straight [PushHex ''sockfd='' 0, PushHex ''addr='' 1, PushHex ''addrlen='' 2, SetRet kNumber])]"

definition arm_handlers_11 :: "(string \<times> string \<times> handler) list" where
  "arm_handlers_11 = [
   (''__NR_listen'', ''listen'',
      Straight [PushHex ''sockfd='' 0, PushHex ''backlog='' 1, SetRet kNumber]),
   (''__NR_accept'', ''accept'',
      Straight [PushHex ''sockfd='' 0, PushHex ''addr='' 1, PushHex ''addrlen='' 2, SetRet kNumber]),
   (''__NR_getsockname'', ''getsockname'',
      Straight [PushHex ''sockfd='' 0, PushHex ''addr='' 1, PushHex ''addrlen='' 2, SetRet kNumber]),
   (''__NR_getpeername'', ''getpeername'',
      Straight [PushHex ''sockfd='' 0, PushHex ''addr='' 1, PushHex ''addrlen='' 2, SetRet kNumber]),
   (''__NR_socketpair'', ''socketpair'',
      Straight [PushHex ''domain='' 0, PushHex ''type='' 1, PushHex ''protocol='' 2,
                PushHex ''sv='' 3, SetRet kNumber]),
   (''__NR_send'', ''send'',
      Straight [PushHex ''sockfd='' 0, PushHex ''buf='' 1, PushHex ''len='' 2,
                PushHex ''flags='' 3, SetRet kNumber]),
   (''__NR_sendto'', ''sendto'',
      Straight [PushHex ''sockfd='' 0, PushHex ''buf='' 1, PushHex ''len='' 2,
                PushHex ''flags='' 3, PushHex ''dest_addr='' 4, PushHex ''addrlen='' 5,
                SetRet kNumber]),
   (''__NR_recv'', ''recv'',
      Straight [PushHex ''sockfd='' 0, PushHex ''buf='' 1, PushHex ''len='' 2, SetRet kNumber]),
   (''__NR_recvfrom'', ''recvfrom'',
      Straight [PushHex ''sockfd='' 0, PushHex ''buf='' 1, PushHex ''len='' 2,
                PushHex ''flags='' 3, PushHex ''src_addr='' 4, PushHex ''addrlen='' 5,
                SetRet kNumber]),
   (''__NR_shutdown'', ''shutdown'',
      Straight [PushHex ''sockfd='' 0, PushHex ''how='' 1, SetRet kNumber]),
   (''__NR_setsockopt'', ''setsockopt'',
      Straight [PushHex ''sockfd='' 0, PushHex ''level='' 1, PushHex ''optname='' 2,
                PushHex ''optval='' 3, PushHex ''optlen='' 4, SetRet kNumber]),
   (''__NR_getsockopt'', ''getsockopt'',
      Straight [PushHex ''sockfd='' 0, PushHex ''level='' 1, PushHex ''optname='' 2,
                PushHex ''optval='' 3, PushHex ''optlen='' 4, SetRet kNumber]),
   (''__NR_sendmsg'', ''sendmsg'',
      Straight [PushHex ''sockfd='' 0, PushHex ''msg='' 1, PushHex ''flags='' 2, SetRet kNumber]),
   (''__NR_recvmsg'', ''recvmsg'',
      Straight [PushHex ''sockfd='' 0, PushHex ''msg='' 1, PushHex ''flags='' 2, SetRet kNumber]),
   (''__NR_semop'', ''semop'',
      Straight [PushHex ''semid='' 0, PushHex ''sops='' 1, PushHex ''nsops='' 2, SetRet kNumber]),
   (''__NR_shmget'', ''shmget'',
      Straight [PushHex ''key='' 0, PushHex ''size='' 1, PushHex ''shmflg='' 2, SetRet kNumber]),
   (''__NR_shmctl'', ''shmctl'',
      Straight [PushHex ''shmid='' 0, PushHex ''cmd='' 1, PushHex ''buf='' 2, SetRet kNumber])]"

definition arm_handlers_12 :: "(string \<times> string \<times> handler) list" where
  "arm_handlers_12 = [
   (''__NR_msgsnd'', ''msgsnd'',
      Straight [PushHex ''msqid='' 0, PushHex ''msgp='' 1, PushHex ''msgsz='' 2,
                PushHex ''msgflg='' 3, SetRet kNumber]),
   (''__NR_semget'', ''semget'',
      Straight [PushHex ''key='' 0, PushHex ''nsems='' 1, PushHex ''semflg='' 2, SetRet kNumber]),
   (''__NR_semctl'', ''semctl'',
      Straight [PushHex ''semid='' 0, PushHex ''semnum='' 1, PushHex ''cmd='' 2,
                PushHexIf 3 ''arg='' 3, SetRet kNumber]),
   (''__NR_shmget'', ''shmget'',
      Straight [PushHex ''key='' 0, PushHex ''size='' 1, PushHex ''shmflg='' 2, SetRet kNumber]),
   (''__NR_shmctl'', ''shmctl'',
      Straight [PushHex ''shmid='' 0, PushHex ''cmd='' 1, PushHex ''buf='' 2, SetRet kNumber]),
   (''__NR_shmat'', ''shmat'',
      Straight [PushHex ''shmid='' 0, PushHex ''shmaddr='' 1, PushHex ''shmflg='' 2,
                SetRet kPointer]),
   (''__NR_shmdt'', ''shmdt'',
      Straight [PushHex ''shmaddr='' 0, SetRet kNumber]),
   (''__NR_add_key'', ''add_key'',
      Straight [PushStr ''type='' 0, PushStr ''description='' 1, PushHex ''payload='' 2,
                PushHex ''plen='' 3, PushHex ''destringid='' 4, SetRet kNumber]),
   (''__NR_request_key'', ''request_key'',
      Straight [PushStr ''type='' 0, PushStr ''description='' 1, PushStr ''callout_info='' 2,
                PushStr ''destringid='' 3, SetRet kNumber]),
   (''__NR_keyctl'', ''keyctl'',
      Straight [PushHex ''cmd='' 0, PushHex ''arg2='' 1, PushHex ''arg3='' 2, PushHex ''arg4='' 3,
                PushHex ''arg5='' 4, SetRet kNumber]),
   (''__NR_semtimedop'', ''semtimedop'',
      Straight [PushHex ''semid='' 0, PushHex ''sops='' 1, PushHex ''nsops='' 2,
                PushHex ''timeout='' 3, SetRet kNumber]),
   (''__NR_vserver'', ''vserver'',
      Straight [PushHex ''a0='' 0, PushHex ''a1='' 1, PushHex ''a2='' 2, PushHex ''a3='' 3,
                PushHex ''a4='' 4, PushHex ''a5='' 5, SetRet kNumber]),
   (''__NR_ioprio_set'', ''ioprio_set'',
      Straight [PushHex ''which='' 0, PushHex ''who='' 1, PushHex ''ioprio='' 2, SetRet kNumber]),
   (''__NR_ioprio_get'', ''ioprio_get'',
      Straight [PushHex ''which='' 0, PushHex ''who='' 1, SetRet kNumber])]"

definition arm_handlers_13 :: "(string \<times> string \<times> handler) list" where
  "arm_handlers_13 = [
   (''__NR_inotify_init'', ''inotify_init'',
      Straight [SetRet kNumber]),
   (''__NR_inotify_add_watch'', ''inotify_add_watch'',
      Straight [PushHex ''fd='' 0, PushStr ''path='' 1, PushHex ''mask='' 2, SetRet kNumber]),
   (''__NR_inotify_rm_watch'', ''inotify_rm_watch'',
      Straight [PushHex ''fd='' 0, PushHex ''wd='' 1, SetRet kNumber]),
   (''__NR_mbind'', ''mbind'',
      Straight [PushHex ''addr='' 0, PushHex ''len='' 1, PushHex ''mode='' 2,
                PushHex ''nodemask='' 3, PushHex ''maxnode='' 4, PushHex ''flags='' 5,
                SetRet kNumber]),
   (''__NR_get_mempolicy'', ''get_mempolicy'',
      Straight [PushHex ''policy='' 0, PushHex ''nmask='' 1, PushHex ''maxnode='' 2,
                PushHex ''addr='' 3, PushHex ''flags='' 4, SetRet kNumber]),
   (''__NR_set_mempolicy'', ''set_mempolicy'',
      Straight [PushHex ''mode='' 0, PushHex ''nmask='' 1, PushHex ''maxnode='' 2, SetRet kNumber]),
   (''__NR_openat'', ''openat'',
      Straight [PushHex ''dirfd='' 0, PushStr ''path='' 1, PushHex ''flags='' 2,
                PushHex ''mode='' 3, SetRet kNumber]),
   (''__NR_mkdirat'', ''mkdirat'',
      Straight [PushHex ''fd='' 0, PushStr ''path='' 1, PushHex ''mode='' 2, SetRet kNumber]),
   (''__NR_mknodat'', ''mknodat'',
      Straight [PushHex ''fd='' 0, PushStr ''path='' 1, PushHex ''mode='' 2, PushHex ''dev='' 3,
                SetRet kNumber]),
   (''__NR_fchownat'', ''fchownat'',
      Straight [PushHex ''dirfd='' 0, PushStr ''path='' 1, PushHex ''uid='' 2, PushHex ''gid='' 3,
                PushHex ''flags='' 4, SetRet kNumber]),
   (''__NR_futimesat'', ''futimesat'',
      Straight [PushHex ''dirfd='' 0, PushStr ''path='' 1, PushHex ''tvp='' 2, SetRet kNumber]),
   (''__NR_fstatat64'', ''fstatat64'',
      Straight [PushHex ''dirfd='' 0, PushStr ''path='' 1, PushHex ''stbuf='' 2,
                PushHex ''flags='' 3, SetRet kNumber]),
   (''__NR_unlinkat'', ''unlinkat'',
      Straight [PushHex ''fd='' 0, PushStr ''path='' 1, PushHex ''flag='' 2, SetRet kNumber]),
   (''__NR_renameat'', ''renameat'',
      Straight [PushHex ''oldfd='' 0, PushStr ''oldpath='' 1, PushHex ''newfd='' 2,
                PushStr ''newpath='' 3, SetRet kNumber]),
   (''__NR_symlinkat'', ''symlinkat'',
      Straight [PushStr ''oldpath='' 0, PushHex ''fd='' 1, PushStr ''newpath='' 2, SetRet kNumber]),
   (''__NR_linkat'', ''linkat'',
      Straight [PushHex ''fromfd='' 0, PushStr ''frompath='' 1, PushHex ''tofd='' 2,
                PushStr ''topath='' 3, PushHex ''flags='' 4, SetRet kNumber])]"

definition arm_handlers_14 :: "(string \<times> string \<times> handler) list" where
  "arm_handlers_14 = [
   (''__NR_readlinkat'', ''readlinkat'',
      Straight [PushHex ''dirfd='' 0, PushStr ''pathname='' 1, PushHex ''buf='' 2,
                PushHex ''bufsiz='' 3, SetRet kNumber]),
   (''__NR_fchmodat'', ''fchmodat'',
      Straight [PushHex ''dirfd='' 0, PushStr ''path='' 1, PushHex ''mode='' 2,
                PushHex ''flags='' 3, SetRet kNumber]),
   (''__NR_faccessat'', ''faccessat'',
      Straight [PushHex ''dirfd='' 0, PushStr ''path='' 1, PushHex ''mode='' 2,
                PushHex ''flags='' 3, SetRet kNumber]),
   (''__NR_pselect6'', ''pselect6'',
      Straight [PushHex ''nfds='' 0, PushHex ''readfds='' 1, PushHex ''writefds='' 2,
                PushHex ''exceptfds='' 3, PushHex ''timeout='' 4, PushHex ''sigmask='' 5,
                SetRet kNumber]),
   (''__NR_ppoll'', ''ppoll'',
      Straight [PushHex ''fds='' 0, PushHex ''nfds='' 1, PushHex ''timeout='' 2,
                PushHex ''sigmask='' 3, SetRet kNumber]),
   (''__NR_unshare'', ''unshare'',
      Straight [PushHex ''unshare_flags='' 0, SetRet kNumber]),
   (''__NR_set_robust_list'', ''set_robust_list'',
      Straight [PushHex ''head='' 0, PushHex ''len='' 1, SetRet kNumber]),
   (''__NR_get_robust_list'', ''get_robust_list'',
      Straight [PushHex ''pid='' 0, PushHex ''head_ptr='' 1, PushHex ''len_ptr='' 2,
                SetRet kNumber]),
   (''__NR_splice'', ''splice'',
      Straight [PushHex ''fd_in='' 0, PushHex ''off_in='' 1, PushHex ''fd_out='' 2,
                PushHex ''off_out='' 3, PushHex ''len='' 4, PushHex ''flags='' 5, SetRet kNumber]),
   (''__NR_tee'', ''tee'',
      Straight [PushHex ''fd_in='' 0, PushHex ''fd_out='' 1, PushHex ''len='' 2,
                PushHex ''flags='' 3, SetRet kNumber]),
   (''__NR_vmsplice'', ''vmsplice'',
      Straight [PushHex ''fd='' 0, PushHex ''iov='' 1, PushHex ''nr_segs='' 2,
                PushHex ''flags='' 3, SetRet kNumber]),
   (''__NR_move_pages'', ''move_pages'',
      Straight [PushHex ''pid='' 0, PushHex ''nr_pages='' 1, PushHex ''pages='' 2,
                PushHex ''nodes='' 3, PushHex ''status='' 4, PushHex ''flags='' 5, SetRet kNumber]),
   (''__NR_getcpu'', ''getcpu'',
      Straight [PushHex ''cpu='' 0, PushHex ''node='' 1, SetRet kNumber]),
   (''__NR_epoll_pwait'', ''epoll_pwait'',
      Straight [PushHex ''epfd='' 0, PushHex ''events='' 1, PushHex ''maxevents='' 2,
                PushHex ''timeout='' 3, PushHex ''ss='' 4, SetRet kNumber]),
   (''__NR_kexec_load'', ''kexec_load'',
      Straight [PushHex ''entry='' 0, PushHex ''nr_segments='' 1, PushHex ''segments='' 2,
                PushHex ''flags='' 3, SetRet kNumber]),
   (''__NR_utimensat'', ''utimensat'',
      Straight [PushHex ''dirfd='' 0, PushStr ''pathname='' 1, PushHex ''times='' 2,
                PushHex ''flags='' 3, SetRet kNumber])]"

definition arm_handlers_15 :: "(string \<times> string \<times> handler) list" where
  "arm_handlers_15 = [
   (''__NR_signalfd'', ''signalfd'',
      Straight [PushHex ''fd='' 0, PushHex ''mask='' 1, PushHex ''sizemask='' 2, SetRet kNumber]),
   (''__NR_timerfd_create'', ''timerfd_create'',
      Straight [PushHex ''clockid='' 0, PushHex ''flags='' 1, SetRet kNumber]),
   (''__NR_eventfd'', ''eventfd'',
      Straight [PushHex ''count='' 0, PushHex ''flags='' 1, SetRet kNumber]),
   (''__NR_fallocate'', ''fallocate'',
      Straight [PushHex ''fd='' 0, PushHex ''mode='' 1, PushHex ''offset='' 2, PushHex ''len='' 3,
                SetRet kNumber]),
   (''__NR_timerfd_settime'', ''timerfd_settime'',
      Straight [PushHex ''fd='' 0, PushHex ''flags='' 1, PushHex ''new_value='' 2,
                PushHex ''old_value='' 3, SetRet kNumber]),
   (''__NR_timerfd_gettime'', ''timerfd_gettime'',
      Straight [PushHex ''fd='' 0, PushHex ''curr_value='' 1, SetRet kNumber]),
   (''__NR_signalfd4'', ''signalfd4'',
      Straight [PushHex ''fd='' 0, PushHex ''mask='' 1, PushHex ''sizemask='' 2,
                PushHex ''flags='' 3, SetRet kNumber]),
   (''__NR_eventfd2'', ''eventfd2'',
      Straight [PushHex ''initval='' 0, PushHex ''flags='' 1, SetRet kNumber]),
   (''__NR_epoll_create1'', ''epoll_create1'',
      Straight [PushHex ''flags='' 0, SetRet kNumber]),
   (''__NR_dup3'', ''dup3'',
      Straight [PushHex ''fd='' 0, PushHex ''fd2='' 1, PushHex ''flags='' 2, SetRet kNumber]),
   (''__NR_pipe2'', ''pipe2'',
      Straight [PushHex ''fildes[2]='' 0, PushHex ''flags='' 1, SetRet kNumber]),
   (''__NR_inotify_init1'', ''inotify_init1'',
      Straight [PushHex ''flags='' 0, SetRet kNumber]),
   (''__NR_preadv'', ''preadv'',
      Straight [PushHex ''fd='' 0, PushHex ''iov='' 1, PushHex ''iovcnt='' 2,
                PushHex ''offset='' 3, SetRet kNumber]),
   (''__NR_pwritev'', ''pwritev'',
      Straight [PushHex ''fd='' 0, PushHex ''iov='' 1, PushHex ''iovcnt='' 2,
                PushHex ''offset='' 3, SetRet kNumber]),
   (''__NR_rt_tgsigqueueinfo'', ''rt_tgsigqueueinfo'',
      Straight [PushHex ''tgid='' 0, PushHex ''tid='' 1, PushHex ''sig='' 2, PushHex ''uinfo='' 3,
                SetRet kNumber]),
   (''__NR_perf_event_open'', ''perf_event_open'',
      Straight [PushHex ''attr='' 0, PushHex ''pid='' 1, PushHex ''cpu='' 2,
                PushHex ''group_fd='' 3, PushHex ''flags='' 4, SetRet kNumber]),
   (''__NR_recvmmsg'', ''recvmmsg'',
      Straight [PushHex ''sockfd='' 0, PushHex ''msgvec='' 1, PushHex ''vlen='' 2,
                PushHex ''flags='' 3, PushHex ''timeout='' 4, SetRet kNumber]),
   (''__NR_accept4'', ''accept4'',
      Straight [PushHex ''sockfd='' 0, PushHex ''addr='' 1, PushHex ''addrlen='' 2,
                PushHex ''flags='' 3, SetRet kNumber])]"

definition arm_handlers_16 :: "(string \<times> string \<times> handler) list" where
  "arm_handlers_16 = [
   (''__NR_fanotify_init'', ''fanotify_init'',
      Straight [PushHex ''flags='' 0, PushHex ''event_f_flags='' 1, SetRet kNumber]),
   (''__NR_fanotify_mark'', ''fanotify_mark'',
      Straight [PushHex ''fanotify_fd='' 0, PushHex ''flags='' 1, PushHex ''mask='' 2,
                PushHex ''dirfd='' 3, PushHex ''pathname='' 4, SetRet kNumber]),
   (''__NR_prlimit64'', ''prlimit64'',
      Straight [PushHex ''pid='' 0, PushHex ''resource='' 1, PushHex ''new_limit='' 2,
                PushHex ''old_limit='' 3, SetRet kNumber]),
   (''__NR_name_to_handle_at'', ''name_to_handle_at'',
      Straight [PushHex ''dirfd='' 0, PushHex ''pathname='' 1, PushHex ''handle='' 2,
                PushHex ''mount_id='' 3, PushHex ''flags='' 4, SetRet kNumber]),
   (''__NR_open_by_handle_at'', ''open_by_handle_at'',
      Straight [PushHex ''mount_fd='' 0, PushHex ''handle='' 1, PushHex ''flags='' 2,
                SetRet kNumber]),
   (''__NR_clock_adjtime'', ''clock_adjtime'',
      Straight [PushHex ''clk_id='' 0, PushHex ''buf='' 1, SetRet kNumber]),
   (''__NR_syncfs'', ''syncfs'',
      Straight [PushHex ''fd='' 0, SetRet kNumber]),
   (''__NR_setns'', ''setns'',
      Straight [PushHex ''fd='' 0, PushHex ''nstype='' 1, SetRet kNumber]),
   (''__NR_sendmmsg'', ''sendmmsg'',
      Straight [PushHex ''sockfd='' 0, PushHex ''msgvec='' 1, PushHex ''vlen='' 2,
                PushHex ''flags='' 3, SetRet kNumber]),
   (''__NR_process_vm_readv'', ''process_vm_readv'',
      Straight [PushHex ''pid='' 0, PushHex ''local_iov='' 1, PushHex ''liovcnt='' 2,
                PushHex ''remote_iov='' 3, PushHex ''riovcnt='' 4, PushHex ''flags='' 5,
                SetRet kNumber]),
   (''__NR_process_vm_writev'', ''process_vm_writev'',
      Straight [PushHex ''pid='' 0, PushHex ''local_iov='' 1, PushHex ''liovcnt='' 2,
                PushHex ''remote_iov='' 3, PushHex ''riovcnt='' 4, PushHex ''flags='' 5,
                SetRet kNumber]),
   (''__NR_kcmp'', ''kcmp'',
      Straight [PushHex ''pid1='' 0, PushHex ''pid2='' 1, PushHex ''type='' 2, PushHex ''idx1='' 3,
                PushHex ''idx2='' 4, SetRet kNumber]),
   (''__NR_finit_module'', ''finit_module'',
      Straight [PushHex ''fd='' 0, PushHex ''param_values='' 1, PushHex ''flags='' 2,
                SetRet kNumber]),
   (''__NR_sched_setattr'', ''sched_setattr'',
      Straight [PushHex ''pid='' 0, PushHex ''attr='' 1, PushHex ''flags='' 2, SetRet kNumber]),
   (''__NR_sched_getattr'', ''sched_getattr'',
      Straight [PushHex ''pid='' 0, PushHex ''attr='' 1, PushHex ''size='' 2, PushHex ''flags='' 3,
                SetRet kNumber])]"

definition arm_handlers_17 :: "(string \<times> string \<times> handler) list" where
  "arm_handlers_17 = [
   (''__NR_renameat2'', ''renameat2'',
      Straight [PushHex ''olddirfd='' 0, PushHex ''oldpath='' 1, PushHex ''newdirfd='' 2,
                PushHex ''newpath='' 3, PushHex ''flags='' 4, SetRet kNumber]),
   (''__NR_seccomp'', ''seccomp'',
      Straight [PushHex ''operation='' 0, PushHex ''flags='' 1, PushHex ''args='' 2,
                SetRet kNumber]),
   (''__NR_getrandom'', ''getrandom'',
      Straight [PushHex ''buf='' 0, PushHex ''buflen='' 1, PushHex ''flags='' 2, SetRet kNumber]),
   (''__NR_memfd_create'', ''memfd_create'',
      Straight [PushHex ''name='' 0, PushHex ''flags='' 1, SetRet kNumber]),
   (''__NR_bpf'', ''bpf'',
      Straight [PushHex ''cmd='' 0, PushHex ''attr='' 1, PushHex ''size='' 2, SetRet kNumber]),
   (''__NR_execveat'', ''execveat'',
      Straight [PushHex ''dirfd='' 0, PushHex ''pathname='' 1, PushHex ''argv='' 2,
                PushHex ''envp='' 3, PushHex ''flags='' 4, SetRet kNumber]),
   (''__NR_userfaultfd'', ''userfaultfd'',
      Straight [PushHex ''flags='' 0, SetRet kNumber]),
   (''__NR_membarrier'', ''membarrier'',
      Straight [PushHex ''cmd='' 0, PushHex ''flags='' 1, SetRet kNumber]),
   (''__NR_mlock2'', ''mlock2'',
      Straight [PushHex ''addr='' 0, PushHex ''length='' 1, PushHex ''flags='' 2, SetRet kNumber]),
   (''__NR_copy_file_range'', ''copy_file_range'',
      Straight [PushHex ''fd_in='' 0, PushHex ''off_in='' 1, PushHex ''fd_out='' 2,
                PushHex ''off_out='' 3, PushHex ''len='' 4, PushHex ''flags='' 5, SetRet kNumber]),
   (''__NR_preadv2'', ''preadv2'',
      Straight [PushHex ''fd='' 0, PushHex ''iov='' 1, PushHex ''iovcnt='' 2,
                PushHex ''offset='' 3, PushHex ''flags='' 4, SetRet kNumber]),
   (''__NR_pwritev2'', ''pwritev2'',
      Straight [PushHex ''fd='' 0, PushHex ''iov='' 1, PushHex ''iovcnt='' 2,
                PushHex ''offset='' 3, PushHex ''flags='' 4, SetRet kNumber]),
   (''__NR_pkey_mprotect'', ''pkey_mprotect'',
      Straight [PushHex ''addr='' 0, PushHex ''len='' 1, PushHex ''prot='' 2, PushHex ''pkey='' 3,
                SetRet kNumber]),
   (''__NR_pkey_alloc'', ''pkey_alloc'',
      Straight [PushHex ''flags='' 0, PushHex ''access_rights='' 1, SetRet kNumber]),
   (''__NR_pkey_free'', ''pkey_free'',
      Straight [PushHex ''pkey='' 0, SetRet kNumber])]"

definition arm_handlers_18 :: "(string \<times> string \<times> handler) list" where
  "arm_handlers_18 = [
   (''__NR_statx'', ''statx'',
      Straight [PushHex ''dirfd='' 0, PushHex ''pathname='' 1, PushHex ''flags='' 2,
                PushHex ''mask='' 3, PushHex ''statxbuf='' 4, SetRet kNumber])]"

definition arm_handlers :: "(string \<times> string \<times> handler) list" where
  "arm_handlers =
     arm_handlers_1 @ arm_handlers_2 @ arm_handlers_3 @ arm_handlers_4 @ arm_handlers_5
      @ arm_handlers_6 @ arm_handlers_7 @ arm_handlers_8 @ arm_handlers_9 @ arm_handlers_10
      @ arm_handlers_11 @ arm_handlers_12 @ arm_handlers_13 @ arm_handlers_14 @ arm_handlers_15
      @ arm_handlers_16 @ arm_handlers_17 @ arm_handlers_18"

lemmas arm_handlers_defs =
  arm_handlers_def arm_handlers_1_def arm_handlers_2_def arm_handlers_3_def arm_handlers_4_def
  arm_handlers_5_def arm_handlers_6_def arm_handlers_7_def arm_handlers_8_def arm_handlers_9_def
  arm_handlers_10_def arm_handlers_11_def arm_handlers_12_def arm_handlers_13_def
  arm_handlers_14_def arm_handlers_15_def arm_handlers_16_def arm_handlers_17_def
  arm_handlers_18_def

end
