(* ===== verification/Dispatch_Syscall.thy ===== *)
theory Dispatch_Syscall
  imports Handler_Facts Syscall_Table_Arm64 Syscall_Table_Arm
begin

text \<open>
  \<^verbatim>\<open>trace/dispatch/dispatch_syscall.cpp\<close>: the dispatcher of system calls. The table is a
  function-local static whose closures capture the parameters and the locals of the call
  that built it by reference; the state of the dispatcher is the stack address of that
  activation, and a handler that runs while its locals are elsewhere reads a dead frame.
  The numbers of the system calls and the \<^verbatim>\<open>PR_\<close> constants come from the kernel headers and
  are parameters \<open>NR\<close> and \<open>PR\<close>.
\<close>

section \<open>Model\<close>

record DispatchSyscall =
  captured_frame :: "addr option"

text \<open>
  \<open>handlers.find(sys_value)\<close>: the key type is \<^verbatim>\<open>uint32_t\<close>, so the register is truncated;
  of two rows with one key the first stays in the table.
\<close>

definition find_row ::
  "(string \<Rightarrow> 32 word) \<Rightarrow> (string \<times> string \<times> handler) list \<Rightarrow> 32 word
   \<Rightarrow> (string \<times> string \<times> handler) option" where
  "find_row NR table key = find (\<lambda>row. NR (fst row) = key) table"

text \<open>
  \<open>dispatch_args\<close> of the arm64 build. \<open>frame\<close> is the address of this activation; the
  static table is built on the first call.
\<close>

definition DispatchSyscall_dispatch_args ::
  "(string \<Rightarrow> 32 word) \<Rightarrow> (string \<Rightarrow> nat) \<Rightarrow> memory \<Rightarrow> addr \<Rightarrow> DispatchSyscall \<Rightarrow> inst_trace_info
   \<Rightarrow> (bool \<times> DispatchSyscall \<times> inst_trace_info) result" where
  "DispatchSyscall_dispatch_args NR PR mem frame d info =
     (case fun_call info of
        None \<Rightarrow> Inl NullDeref
      | Some call \<Rightarrow>
          let call = call\<lparr>call_module_name := ''kernel_syscall''\<rparr>;
              gpr = gpr_state (pre_status info);
              sys_value = gpr_x gpr 8;
              owner = (case captured_frame d of None \<Rightarrow> frame | Some f \<Rightarrow> f);
              d = d\<lparr>captured_frame := Some owner\<rparr>
          in (case find_row NR arm64_handlers (ucast sys_value) of
                Some (key, name, body) \<Rightarrow>
                  let call = call\<lparr>fun_name := name, args := []\<rparr> in
                  if owner \<noteq> frame then Inl DanglingCapture
                  else map_result (\<lambda>call. (True, d, info\<lparr>fun_call := Some call\<rparr>))
                         (run_handler PR mem (get_arg_register_value mem gpr) body call)
              | None \<Rightarrow>
                  let call = call\<lparr>fun_name := ''unknown'', args := [], ret_type := kNumber\<rparr>
                  in Inr (False, d, info\<lparr>fun_call := Some call\<rparr>)))"

text \<open>
  \<open>dispatch_args\<close> of the arm build, on the record of the call: the six arguments are read
  before the table is searched, the last two from the stack.
\<close>

definition DispatchSyscall_dispatch_args_arm ::
  "(string \<Rightarrow> 32 word) \<Rightarrow> (string \<Rightarrow> nat) \<Rightarrow> (32 word \<Rightarrow> byte option) \<Rightarrow> addr \<Rightarrow> DispatchSyscall
   \<Rightarrow> GPRState32 \<Rightarrow> 32 word inst_fun_call
   \<Rightarrow> (bool \<times> DispatchSyscall \<times> 32 word inst_fun_call) result" where
  "DispatchSyscall_dispatch_args_arm NR PR mem frame d gpr call =
     (let call = call\<lparr>call_module_name := ''kernel_syscall''\<rparr> in
      bind_result (get_arg_register_value_arm mem gpr 4) (\<lambda>arg4.
      bind_result (get_arg_register_value_arm mem gpr 5) (\<lambda>arg5.
      let sys_value = gpr_r gpr 7;
          owner = (case captured_frame d of None \<Rightarrow> frame | Some f \<Rightarrow> f);
          d = d\<lparr>captured_frame := Some owner\<rparr>
      in (case find_row NR arm_handlers sys_value of
            Some (key, name, body) \<Rightarrow>
              let call = call\<lparr>fun_name := name, args := []\<rparr> in
              if owner \<noteq> frame then Inl DanglingCapture
              else map_result (\<lambda>call. (True, d, call))
                     (run_handler PR mem (get_arg_register_value_arm mem gpr) body call)
          | None \<Rightarrow>
              Inr (False, d, call\<lparr>fun_name := ''unknown'', args := [], ret_type := kNumber\<rparr>)))))"

text \<open>\<open>record_memory_info\<close>, on the record of the call.\<close>

definition syscall_record_memory_info ::
  "GPRState \<Rightarrow> GPRState \<Rightarrow> addr inst_fun_call \<Rightarrow> addr inst_fun_call" where
  "syscall_record_memory_info pre ret_status call =
     (if fun_name call = [] then call
      else let ret = gpr_x ret_status 0; arg0 = gpr_x pre 0; arg1 = gpr_x pre 1 in
        if fun_name call = ''mmap'' \<or> fun_name call = ''mmap2'' then
          if arg1 = 0 \<or> ret = 0 then call
          else call\<lparr>memory_alloc_address := ret, memory_alloc_size := arg1\<rparr>
        else if fun_name call = ''munmap'' then
          if arg0 = 0 then call else call\<lparr>memory_free_address := arg0\<rparr>
        else call)"

definition DispatchSyscall_dispatch_ret ::
  "inst_trace_info \<Rightarrow> GPRState \<Rightarrow> (bool \<times> inst_trace_info) result" where
  "DispatchSyscall_dispatch_ret info ret_status =
     (case fun_call info of
        None \<Rightarrow> Inl NullDeref
      | Some call \<Rightarrow>
          let call = syscall_record_memory_info (gpr_state (pre_status info)) ret_status call;
              call = call\<lparr>ret_value := ''ret= '' @ fmt_hex (gpr_x ret_status 0)\<rparr>
          in Inr (True, info\<lparr>fun_call := Some call\<rparr>))"

section \<open>Facts of the tables\<close>

lemma arm64_in_order:
  "list_all (\<lambda>(k, name, h). k = ''__NR_lgetxattr'' \<or> in_order h) arm64_handlers"
  unfolding arm64_handlers_def list_all_append by (intro conjI; code_simp)

lemma arm_in_order: "list_all (\<lambda>(k, name, h). in_order h) arm_handlers"
  unfolding arm_handlers_def list_all_append by (intro conjI; code_simp)

lemma arm64_six_args:
  "list_all (\<lambda>(k, name, h). list_all (\<lambda>a. list_all (\<lambda>n. n < 6) (arg_indices a)) (handler_actions h))
     arm64_handlers"
  unfolding arm64_handlers_def list_all_append by (intro conjI; code_simp)

lemma arm64_row_registers:
  assumes "(k, name, Straight acts) \<in> set arm64_handlers"
  shows "run_actions mem (get_arg_register_value mem gpr) acts call
    = run_actions mem (\<lambda>n. Inr (gpr_x gpr n)) acts call"
proof (rule run_actions_argv_cong)
  fix a n assume "a \<in> set acts" "n \<in> set (arg_indices a)"
  with arm64_six_args assms have "n < 6"
    by (force simp: list_all_iff)
  then show "get_arg_register_value mem gpr n = Inr (gpr_x gpr n)" by simp
qed

lemma find_row_key:
  assumes "inj_on NR (fst ` set table)" and "find (\<lambda>row. fst row = k) table = Some row"
  shows "find_row NR table (NR k) = Some row"
proof -
  have "k \<in> fst ` set table" using assms(2) by (auto simp: find_Some_iff)
  have "find (\<lambda>row. NR (fst row) = NR k) table = find (\<lambda>row. fst row = k) table"
    by (rule find_cong) (use assms(1) \<open>k \<in> fst ` set table\<close> in \<open>auto dest: inj_onD\<close>)
  with assms(2) show ?thesis by (simp add: find_row_def)
qed

lemma find_row_in_table: "find (\<lambda>row. fst row = k) table = Some (k', name, h) \<Longrightarrow> (k', name, h) \<in> set table \<and> k' = k"
  by (auto simp: find_Some_iff) (metis fst_conv)

text \<open>One dispatch of a known number, from the frame that the closures captured.\<close>

lemma dispatch_known:
  assumes "inj_on NR (fst ` set arm64_handlers)"
    and "find (\<lambda>row. fst row = k) arm64_handlers = Some (k', name, h)"
    and "ucast (gpr_x (gpr_state (pre_status info)) 8) = NR k" and "fun_call info = Some call"
  shows "DispatchSyscall_dispatch_args NR PR mem frame d info =
    (if captured_frame d \<noteq> None \<and> captured_frame d \<noteq> Some frame then Inl DanglingCapture
     else map_result
       (\<lambda>call. (True, d\<lparr>captured_frame := Some frame\<rparr>, info\<lparr>fun_call := Some call\<rparr>))
       (run_handler PR mem (get_arg_register_value mem (gpr_state (pre_status info))) h
         (call\<lparr>call_module_name := ''kernel_syscall'', fun_name := name, args := []\<rparr>)))"
  using find_row_key [OF assms(1,2)] assms(3,4)
  by (auto simp: DispatchSyscall_dispatch_args_def Let_def split: option.splits)

lemma dispatch_unknown:
  assumes "\<forall>row \<in> set arm64_handlers. NR (fst row) \<noteq> ucast (gpr_x (gpr_state (pre_status info)) 8)"
    and "fun_call info = Some call"
  shows "DispatchSyscall_dispatch_args NR PR mem frame d info =
    Inr (False, d\<lparr>captured_frame := Some (case captured_frame d of None \<Rightarrow> frame | Some f \<Rightarrow> f)\<rparr>,
      info\<lparr>fun_call := Some (call\<lparr>call_module_name := ''kernel_syscall'', fun_name := ''unknown'',
        args := [], ret_type := kNumber\<rparr>)\<rparr>)"
proof -
  have "find_row NR arm64_handlers (ucast (gpr_x (gpr_state (pre_status info)) 8)) = None"
    using assms(1) by (auto simp: find_row_def find_None_iff)
  with assms(2) show ?thesis
    by (simp add: DispatchSyscall_dispatch_args_def Let_def)
qed

text \<open>A numbering of the rows of a table, as an instance of the kernel's numbers.\<close>

definition row_number :: "(string \<times> 'b) list \<Rightarrow> string \<Rightarrow> 32 word" where
  "row_number table k = of_nat (length (takeWhile (\<lambda>row. fst row \<noteq> k) table))"

lemma row_number_inj:
  assumes "length table < 2 ^ 32"
  shows "inj_on (row_number table) (fst ` set table)"
proof (rule inj_onI)
  fix k k' assume k: "k \<in> fst ` set table" "k' \<in> fst ` set table"
    and eq: "row_number table k = row_number table k'"
  let ?n = "\<lambda>k. length (takeWhile (\<lambda>row. fst row \<noteq> k) table)"
  have at: "fst (table ! ?n q) = q" if "q \<in> fst ` set table" for q
  proof -
    have "?n q < length table"
      using that by (intro takeWhile_shorter) auto
    from nth_length_takeWhile [OF this] show ?thesis by simp
  qed
  have small: "unat (of_nat (?n q) :: 32 word) = ?n q" for q
  proof (rule unat_of_nat_small)
    show "?n q < 2 ^ LENGTH(32)"
      using assms length_takeWhile_le [of "\<lambda>row. fst row \<noteq> q" table] by simp
  qed
  from eq have "(of_nat (?n k) :: 32 word) = of_nat (?n k')" by (simp add: row_number_def)
  then have "unat (of_nat (?n k) :: 32 word) = unat (of_nat (?n k') :: 32 word)" by simp
  then have "fst (table ! ?n k) = fst (table ! ?n k')" by (simp only: small)
  then show "k = k'" by (simp only: at [OF k(1)] at [OF k(2)])
qed

lemma arm64_length: "length arm64_handlers = 278"
  by (simp add: arm64_handlers_defs)

lemma row_number_arm64_inj: "inj_on (row_number arm64_handlers) (fst ` set arm64_handlers)"
  by (rule row_number_inj) (simp add: arm64_length)

text \<open>The first row of the table, which the witnesses dispatch to.\<close>

lemma io_setup_row:
  "find (\<lambda>row. fst row = ''__NR_io_setup'') arm64_handlers = Some (''__NR_io_setup'', ''io_setup'',
     Straight [PushDec ''nr_events='' 0, PushHex ''ctx_idp='' 1, SetRet kNumber])"
  by (simp add: arm64_handlers_def arm64_handlers_1_def)

lemma io_setup_number: "row_number arm64_handlers ''__NR_io_setup'' = 0"
  by (simp add: row_number_def arm64_handlers_def arm64_handlers_1_def)

lemma io_setup_x8:
  "ucast (gpr_x (gpr_state (pre_status (inst_trace_info_new\<lparr>fun_call := c\<rparr>))) 8)
     = row_number arm64_handlers ''__NR_io_setup''"
  by (simp add: io_setup_number inst_trace_info_new_def zero_status_def zero_gpr_def)

section \<open>Sequences of system calls\<close>

text \<open>The dispatches of a run, each with the address of its activation.\<close>

fun dispatch_all ::
  "(string \<Rightarrow> 32 word) \<Rightarrow> (string \<Rightarrow> nat) \<Rightarrow> memory \<Rightarrow> DispatchSyscall \<Rightarrow> (addr \<times> inst_trace_info) list
   \<Rightarrow> (DispatchSyscall \<times> inst_trace_info list) result" where
  "dispatch_all NR PR mem d [] = Inr (d, [])"
| "dispatch_all NR PR mem d ((frame, info) # calls) =
     bind_result (DispatchSyscall_dispatch_args NR PR mem frame d info) (\<lambda>(b, d, info).
       map_result (\<lambda>(d, infos). (d, info # infos)) (dispatch_all NR PR mem d calls))"

lemma run_action_no_dangling:
  "\<forall>n. argv n \<noteq> Inl DanglingCapture \<Longrightarrow> run_action mem argv a call \<noteq> Inl DanglingCapture"
proof -
  assume argv: "\<forall>n. argv n \<noteq> Inl DanglingCapture"
  have str: "read_cstring mem v \<noteq> Inl DanglingCapture" for v
  proof (induction mem v rule: read_cstring.induct)
    case (1 mem a)
    then show ?case
      by (subst read_cstring.simps) (auto split: option.split simp: map_result_def split: sum.split)
  qed
  show ?thesis
  proof (cases a)
    case (PushHex l n) then show ?thesis using argv by (cases "argv n") auto
  next
    case (PushDec l n) then show ?thesis using argv by (cases "argv n") auto
  next
    case (PushStr l n) then show ?thesis using argv str
      by (cases "argv n") (auto simp: read_string_from_address_def map_result_def split: sum.split)
  next
    case (PushCStr l n r) then show ?thesis using argv str
      by (cases "argv n") (auto simp: format_cstr_def map_result_def split: sum.split)
  next
    case (PushStrHex l n) then show ?thesis using argv str
      by (cases "argv n") (auto simp: read_string_from_address_def bind_result_def split: sum.split)
  next
    case (PushHexIf k l n) then show ?thesis using argv
      by (cases "argv k"; cases "argv n") auto
  qed auto
qed

lemma run_actions_no_dangling:
  "\<forall>n. argv n \<noteq> Inl DanglingCapture \<Longrightarrow> run_actions mem argv acts call \<noteq> Inl DanglingCapture"
proof (induction acts arbitrary: call)
  case (Cons a acts)
  then show ?case
    using run_action_no_dangling [OF Cons.prems, of mem a call]
    by (cases "run_action mem argv a call") auto
qed simp

lemma get_arg_no_dangling: "get_arg_register_value mem gpr n \<noteq> Inl DanglingCapture"
proof -
  have "read_le m mem a \<noteq> Inl DanglingCapture" for m a
    by (induction m arbitrary: a) (auto simp: map_result_def split: option.split sum.split)
  then show ?thesis
    by (auto simp: get_arg_register_value_def read_uintptr64_def map_result_def Let_def split: sum.split)
qed

lemma run_handler_no_dangling:
  "run_handler PR mem (get_arg_register_value mem gpr) h call \<noteq> Inl DanglingCapture"
proof (cases h)
  case (Straight acts)
  then show ?thesis
    using run_actions_no_dangling [of "get_arg_register_value mem gpr" mem acts call] get_arg_no_dangling
    by simp
next
  case (SwitchOn n cases dflt)
  then show ?thesis
    using run_actions_no_dangling [of "get_arg_register_value mem gpr" mem _ call]
      get_arg_no_dangling [of mem gpr]
    by (cases "get_arg_register_value mem gpr n") auto
qed

lemma dispatch_same_frame:
  assumes "captured_frame d = None \<or> captured_frame d = Some frame"
  shows "DispatchSyscall_dispatch_args NR PR mem frame d info \<noteq> Inl DanglingCapture
    \<and> (\<forall>b d' info'. DispatchSyscall_dispatch_args NR PR mem frame d info = Inr (b, d', info')
         \<longrightarrow> captured_frame d' = Some frame)"
  using assms run_handler_no_dangling [of PR mem "gpr_state (pre_status info)"]
  by (auto simp: DispatchSyscall_dispatch_args_def Let_def map_result_def split: option.split sum.split)

section \<open>Properties\<close>

text \<open>
  C18: a system call of the arm64 table is reported under the name of its row, with the
  texts of the arguments in the order of the registers: the \<open>i\<close>-th text is the label of the
  \<open>i\<close>-th statement followed by the value of \<open>x\<close>\<open>i\<close> in the format of that statement. It holds
  for every row without a switch or a conditional statement except \<open>lgetxattr\<close>, for all
  numbers that the kernel headers may give the rows.
\<close>

theorem syscall_reports_arguments:
  assumes "inj_on NR (fst ` set arm64_handlers)"
    and "find (\<lambda>row. fst row = k) arm64_handlers = Some (k, name, Straight acts)"
    and "k \<noteq> ''__NR_lgetxattr''" and "list_all plain acts"
    and "ucast (gpr_x (gpr_state (pre_status info)) 8) = NR k"
    and "DispatchSyscall_dispatch_args NR PR mem frame d info = Inr (b, d', info')"
  shows "\<exists>call. fun_call info' = Some call \<and> b \<and> fun_name call = name
    \<and> call_module_name call = ''kernel_syscall'' \<and> length (args call) \<le> 6
    \<and> (let pushes = filter (\<lambda>a. printed_arg a \<noteq> None) acts in
        length (args call) = length pushes \<and>
        (\<forall>i < length pushes. printed_arg (pushes ! i) = Some i
           \<and> renders mem (pushes ! i) (gpr_x (gpr_state (pre_status info)) i) (args call ! i)))"
proof -
  let ?gpr = "gpr_state (pre_status info)" and ?P = "filter (\<lambda>a. printed_arg a \<noteq> None) acts"
  have row: "(k, name, Straight acts) \<in> set arm64_handlers" using find_row_in_table [OF assms(2)] by simp
  obtain call0 where call0: "fun_call info = Some call0"
    using assms(6) by (cases "fun_call info") (auto simp: DispatchSyscall_dispatch_args_def)
  let ?start = "call0\<lparr>call_module_name := ''kernel_syscall'', fun_name := name, args := []\<rparr>"
  obtain call where run: "run_actions mem (\<lambda>n. Inr (gpr_x ?gpr n)) acts ?start = Inr call"
    and res: "b" "info' = info\<lparr>fun_call := Some call\<rparr>"
    using assms(6) dispatch_known [OF assms(1,2,5) call0, of PR mem frame d]
    by (auto simp: arm64_row_registers [OF row] map_result_eq_Inr split: if_splits)
  have ord: "in_order (Straight acts)"
    using arm64_in_order row assms(3) by (auto simp: list_all_iff)
  show ?thesis
    using run_actions_in_order [OF run assms(4) ord] run_actions_address(3,4) [OF run] res
    by (auto simp: Let_def)
qed

theorem syscall_reports_arguments_witness:
  "\<exists>call. fun_call (inst_trace_info_new\<lparr>fun_call := Some (inst_fun_call_new
       \<lparr>fun_name := ''io_setup'', call_module_name := ''kernel_syscall'',
        args := [''nr_events=0'', ''ctx_idp=0x0''], ret_type := kNumber\<rparr>)\<rparr>) = Some call
     \<and> fun_name call = ''io_setup'' \<and> length (args call) \<le> 6"
proof -
  let ?NR = "row_number arm64_handlers"
  let ?info = "inst_trace_info_new\<lparr>fun_call := Some inst_fun_call_new\<rparr>"
  note inj = row_number_arm64_inj and row = io_setup_row
  have x8: "ucast (gpr_x (gpr_state (pre_status ?info)) 8) = ?NR ''__NR_io_setup''" by (rule io_setup_x8)
  have digits: "fmt_dec (0::64 word) = ''0''" "fmt_hex (0::64 word) = ''0x0''" by code_simp+
  have run: "DispatchSyscall_dispatch_args ?NR (\<lambda>_. 0) (\<lambda>_. None) 0 \<lparr>captured_frame = None\<rparr> ?info
    = Inr (True, \<lparr>captured_frame = Some 0\<rparr>, inst_trace_info_new\<lparr>fun_call := Some (inst_fun_call_new
       \<lparr>fun_name := ''io_setup'', call_module_name := ''kernel_syscall'',
        args := [''nr_events=0'', ''ctx_idp=0x0''], ret_type := kNumber\<rparr>)\<rparr>)"
    using dispatch_known [OF inj row x8, of _ "\<lambda>_. 0" "\<lambda>_. None" 0 "\<lparr>captured_frame = None\<rparr>"]
    by (simp add: push_arg_def inst_trace_info_new_def zero_status_def zero_gpr_def digits
      inst_fun_call_new_def)
  show ?thesis
    using syscall_reports_arguments [OF inj row _ _ x8 run] by auto
qed

text \<open>
  A system call whose row prints only numbers is dispatched without a fault whatever the
  memory of the process holds, when it runs in the frame that the closures captured.
\<close>

theorem syscall_numeric_total:
  assumes "inj_on NR (fst ` set arm64_handlers)"
    and "find (\<lambda>row. fst row = k) arm64_handlers = Some (k, name, Straight acts)"
    and "list_all numeric acts"
    and "ucast (gpr_x (gpr_state (pre_status info)) 8) = NR k" and "fun_call info = Some call"
    and "captured_frame d = None \<or> captured_frame d = Some frame"
  shows "\<exists>call'. DispatchSyscall_dispatch_args NR PR mem frame d info =
    Inr (True, d\<lparr>captured_frame := Some frame\<rparr>, info\<lparr>fun_call := Some call'\<rparr>)
    \<and> fun_name call' = name"
proof -
  have row: "(k, name, Straight acts) \<in> set arm64_handlers" using find_row_in_table [OF assms(2)] by simp
  let ?start = "call\<lparr>call_module_name := ''kernel_syscall'', fun_name := name, args := []\<rparr>"
  obtain call' where run: "run_actions mem (\<lambda>n. Inr (gpr_x (gpr_state (pre_status info)) n)) acts ?start
      = Inr call'"
    using run_actions_numeric [OF assms(3)] by blast
  have "fun_name call' = name" using run_actions_address(3) [OF run] by simp
  with run dispatch_known [OF assms(1,2,4,5), of PR mem frame d] assms(6) show ?thesis
    by (auto simp: arm64_row_registers [OF row])
qed

theorem syscall_numeric_total_witness:
  "\<exists>call'. DispatchSyscall_dispatch_args (row_number arm64_handlers) (\<lambda>_. 0) (\<lambda>_. None) 7
      \<lparr>captured_frame = None\<rparr> (inst_trace_info_new\<lparr>fun_call := Some inst_fun_call_new\<rparr>) =
    Inr (True, \<lparr>captured_frame = Some 7\<rparr>, inst_trace_info_new\<lparr>fun_call := Some call'\<rparr>)
    \<and> fun_name call' = ''io_setup''"
proof -
  show ?thesis
    using syscall_numeric_total [OF row_number_arm64_inj io_setup_row, of "inst_trace_info_new\<lparr>fun_call := Some inst_fun_call_new\<rparr>"
        inst_fun_call_new "\<lparr>captured_frame = None\<rparr>" 7 "\<lambda>_. 0" "\<lambda>_. None"]
    by (simp add: io_setup_number inst_trace_info_new_def zero_status_def zero_gpr_def)
qed

text \<open>
  C20: the closures of the static table are good for one activation only. While every
  dispatch of a run has its locals at one stack address, no handler reads a dead frame; the
  first known system call that is dispatched from another address does.
\<close>

theorem syscall_captured_frame:
  assumes "inj_on NR (fst ` set arm64_handlers)" and "\<forall>c \<in> set calls. fst c = f"
  shows "dispatch_all NR PR mem \<lparr>captured_frame = None\<rparr> calls \<noteq> Inl DanglingCapture
    \<and> (\<forall>d infos g info k row. dispatch_all NR PR mem \<lparr>captured_frame = None\<rparr> calls = Inr (d, infos)
        \<and> calls \<noteq> [] \<and> g \<noteq> f \<and> fun_call info \<noteq> None
        \<and> find (\<lambda>row. fst row = k) arm64_handlers = Some row
        \<and> ucast (gpr_x (gpr_state (pre_status info)) 8) = NR k
        \<longrightarrow> DispatchSyscall_dispatch_args NR PR mem g d info = Inl DanglingCapture)"
proof -
  have all: "dispatch_all NR PR mem d calls \<noteq> Inl DanglingCapture
      \<and> (\<forall>d' infos. dispatch_all NR PR mem d calls = Inr (d', infos) \<and> calls \<noteq> []
           \<longrightarrow> captured_frame d' = Some f)"
    if "captured_frame d = None \<or> captured_frame d = Some f" for d
    using that assms(2)
  proof (induction calls arbitrary: d)
    case (Cons c calls)
    obtain info where c: "c = (f, info)" using Cons.prems(2) by (cases c) auto
    note step = dispatch_same_frame [OF Cons.prems(1), of NR PR mem info]
    show ?case
    proof (cases "DispatchSyscall_dispatch_args NR PR mem f d info")
      case (Inl e)
      with step show ?thesis by (auto simp: c)
    next
      case (Inr r)
      obtain b d1 info1 where r: "r = (b, d1, info1)" by (cases r)
      with step Inr have d1: "captured_frame d1 = Some f" by blast
      have "dispatch_all NR PR mem d1 calls \<noteq> Inl DanglingCapture
        \<and> (\<forall>d' infos. dispatch_all NR PR mem d1 calls = Inr (d', infos) \<and> calls \<noteq> []
             \<longrightarrow> captured_frame d' = Some f)"
        by (rule Cons.IH) (use d1 Cons.prems in auto)
      then show ?thesis
        using d1 Inr r by (cases "dispatch_all NR PR mem d1 calls"; cases calls) (auto simp: c)
    qed
  qed simp
  have none: "dispatch_all NR PR mem \<lparr>captured_frame = None\<rparr> calls \<noteq> Inl DanglingCapture
      \<and> (\<forall>d' infos. dispatch_all NR PR mem \<lparr>captured_frame = None\<rparr> calls = Inr (d', infos)
           \<and> calls \<noteq> [] \<longrightarrow> captured_frame d' = Some f)"
    by (rule all) simp
  have "DispatchSyscall_dispatch_args NR PR mem g d info = Inl DanglingCapture"
    if asm: "captured_frame d = Some f" "g \<noteq> f" "fun_call info \<noteq> None"
      "find (\<lambda>row. fst row = k) arm64_handlers = Some row"
      "ucast (gpr_x (gpr_state (pre_status info)) 8) = NR k" for d g info k row
  proof -
    obtain k' name h where row: "row = (k', name, h)" by (cases row)
    obtain call where call: "fun_call info = Some call" using asm(3) by blast
    from asm(4) row have found: "find (\<lambda>row. fst row = k) arm64_handlers = Some (k', name, h)" by simp
    from dispatch_known [OF assms(1) found asm(5) call, of PR mem g d] asm(1,2) show ?thesis
      by simp
  qed
  with none show ?thesis by blast
qed

theorem syscall_captured_frame_witness:
  "let info = inst_trace_info_new\<lparr>fun_call := Some inst_fun_call_new\<rparr>; NR = row_number arm64_handlers in
   DispatchSyscall_dispatch_args NR (\<lambda>_. 0) (\<lambda>_. None) 8 \<lparr>captured_frame = Some 16\<rparr> info
     = Inl DanglingCapture"
proof -
  let ?NR = "row_number arm64_handlers"
  let ?info = "inst_trace_info_new\<lparr>fun_call := Some inst_fun_call_new\<rparr>"
  note inj = row_number_arm64_inj and row = io_setup_row
  have x8: "ucast (gpr_x (gpr_state (pre_status ?info)) 8) = ?NR ''__NR_io_setup''" by (rule io_setup_x8)
  have call: "fun_call ?info = Some inst_fun_call_new" by simp
  obtain infos where first: "dispatch_all ?NR (\<lambda>_. 0) (\<lambda>_. None) \<lparr>captured_frame = None\<rparr> [(16, ?info)]
      = Inr (\<lparr>captured_frame = Some 16\<rparr>, infos)"
    by (simp add: dispatch_known [OF inj row x8 call])
  have only: "\<forall>c \<in> set [(16::addr, ?info)]. fst c = 16" by simp
  have "DispatchSyscall_dispatch_args ?NR (\<lambda>_. 0) (\<lambda>_. None) 8 \<lparr>captured_frame = Some 16\<rparr> ?info
      = Inl DanglingCapture"
    by (rule conjunct2 [OF syscall_captured_frame [OF inj only], rule_format])
      (intro conjI, rule first, simp, simp, simp, rule row, rule x8)
  then show ?thesis by (simp add: Let_def)
qed

text \<open>
  The row of \<open>mq_unlink\<close> formats its string argument with a numeric specifier, so that
  every \<open>mq_unlink\<close> of a readable name that is traced ends in the exception of the formatting library.
\<close>

theorem syscall_mq_unlink_throws:
  assumes "inj_on NR (fst ` set arm64_handlers)"
    and "ucast (gpr_x (gpr_state (pre_status info)) 8) = NR ''__NR_mq_unlink''"
    and "fun_call info \<noteq> None" and "captured_frame d = None \<or> captured_frame d = Some frame"
    and "read_string_from_address mem (gpr_x (gpr_state (pre_status info)) 0) = Inr s"
  shows "DispatchSyscall_dispatch_args NR PR mem frame d info = Inl FormatError"
proof -
  have row: "find (\<lambda>row. fst row = ''__NR_mq_unlink'') arm64_handlers = Some (''__NR_mq_unlink'',
      ''mq_unlink'', Straight [PushStrHex ''name='' 0, SetRet kNumber])"
    unfolding arm64_handlers_def find_append by code_simp
  obtain call where "fun_call info = Some call" using assms(3) by blast
  from dispatch_known [OF assms(1) row assms(2) this, of PR mem frame d] assms(4,5) show ?thesis by auto
qed

theorem syscall_mq_unlink_throws_witness:
  "DispatchSyscall_dispatch_args
     (\<lambda>k. row_number arm64_handlers k - row_number arm64_handlers ''__NR_mq_unlink'')
     (\<lambda>_. 0) (\<lambda>_. None) 0 \<lparr>captured_frame = None\<rparr>
     (inst_trace_info_new\<lparr>fun_call := Some inst_fun_call_new\<rparr>) = Inl FormatError"
proof -
  have "inj_on (\<lambda>k. row_number arm64_handlers k - row_number arm64_handlers ''__NR_mq_unlink'')
      (fst ` set arm64_handlers)"
    using row_number_arm64_inj by (simp add: inj_on_def)
  from syscall_mq_unlink_throws [OF this] show ?thesis
    by (simp add: inst_trace_info_new_def zero_status_def zero_gpr_def read_string_from_address_def)
qed

text \<open>
  A number that no row has is reported as \<open>unknown\<close>, with no argument, and the dispatch
  answers false; this holds in every frame.
\<close>

theorem syscall_unknown_number:
  assumes "\<forall>row \<in> set arm64_handlers. NR (fst row) \<noteq> ucast (gpr_x (gpr_state (pre_status info)) 8)"
    and "fun_call info = Some call"
  shows "\<exists>d' call'. DispatchSyscall_dispatch_args NR PR mem frame d info
      = Inr (False, d', info\<lparr>fun_call := Some call'\<rparr>)
    \<and> fun_name call' = ''unknown'' \<and> args call' = [] \<and> ret_type call' = kNumber
    \<and> call_module_name call' = ''kernel_syscall'' \<and> is_svc call' = is_svc call"
  by (intro exI conjI, rule dispatch_unknown [OF assms]) simp_all

theorem syscall_unknown_number_witness:
  "\<exists>d' call'. DispatchSyscall_dispatch_args (\<lambda>_. 1) (\<lambda>_. 0) (\<lambda>_. None) 5 \<lparr>captured_frame = Some 3\<rparr>
      (inst_trace_info_new\<lparr>fun_call := Some inst_fun_call_new\<rparr>)
      = Inr (False, d', inst_trace_info_new\<lparr>fun_call := Some call'\<rparr>)
    \<and> fun_name call' = ''unknown''"
  using syscall_unknown_number [of "\<lambda>_. 1" "inst_trace_info_new\<lparr>fun_call := Some inst_fun_call_new\<rparr>"
      inst_fun_call_new "\<lambda>_. 0" "\<lambda>_. None" 5 "\<lparr>captured_frame = Some 3\<rparr>"]
  by (auto simp: inst_trace_info_new_def zero_status_def zero_gpr_def)

text \<open>
  C21: what \<open>dispatch_ret\<close> records of a system call on a fresh record of a call: a block
  exactly for an \<open>mmap\<close> or \<open>mmap2\<close> of non-zero length with a non-zero result, a release
  exactly for a \<open>munmap\<close> of a non-zero address. The results in the error range of the kernel
  (\<open>-4095\<close> to \<open>-1\<close>) are non-zero, so a failed \<open>mmap\<close> is recorded as a block at the error number.
\<close>

theorem syscall_memory_effects:
  assumes "fun_call info = Some call" and "memory_alloc_size call = 0" and "memory_free_address call = 0"
  shows "\<exists>call'. DispatchSyscall_dispatch_ret info ret = Inr (True, info\<lparr>fun_call := Some call'\<rparr>)
    \<and> ret_value call' = ''ret= 0x'' @ hex_digits (unat (gpr_x ret 0))
    \<and> (let gpr = gpr_state (pre_status info);
           maps = (fun_name call \<in> {''mmap'', ''mmap2''} \<and> gpr_x gpr 1 \<noteq> 0 \<and> gpr_x ret 0 \<noteq> 0)
       in memory_alloc_size call' = (if maps then gpr_x gpr 1 else 0)
        \<and> memory_alloc_address call' = (if maps then gpr_x ret 0 else memory_alloc_address call)
        \<and> (\<forall>e. fun_name call = ''mmap'' \<and> gpr_x gpr 1 \<noteq> 0 \<and> 1 \<le> e \<and> e \<le> 4095 \<and> gpr_x ret 0 = - of_nat e
             \<longrightarrow> memory_alloc_address call' = - of_nat e \<and> memory_alloc_size call' \<noteq> 0)
        \<and> memory_free_address call' = (if fun_name call = ''munmap'' then gpr_x gpr 0 else 0))"
proof -
  have "- of_nat e \<noteq> (0 :: addr)" if "1 \<le> e" "e \<le> 4095" for e :: nat
  proof -
    have "unat (of_nat e :: addr) = e" by (rule unat_of_nat_small) (use that in simp)
    with that show ?thesis by auto
  qed
  with assms show ?thesis
    by (auto simp: DispatchSyscall_dispatch_ret_def syscall_record_memory_info_def Let_def fmt_hex_def)
qed

theorem syscall_memory_effects_witness:
  "\<exists>call'. DispatchSyscall_dispatch_ret
      (inst_trace_info_new\<lparr>fun_call := Some (inst_fun_call_new\<lparr>fun_name := ''munmap''\<rparr>)\<rparr>) zero_gpr
      = Inr (True, inst_trace_info_new\<lparr>fun_call := Some call'\<rparr>)
    \<and> memory_free_address call' = 0 \<and> memory_alloc_size call' = 0"
  using syscall_memory_effects
    [of "inst_trace_info_new\<lparr>fun_call := Some (inst_fun_call_new\<lparr>fun_name := ''munmap''\<rparr>)\<rparr>"
        "inst_fun_call_new\<lparr>fun_name := ''munmap''\<rparr>" zero_gpr]
  by (auto simp: inst_trace_info_new_def inst_fun_call_new_def Let_def zero_status_def zero_gpr_def)

text \<open>
  The arm build reads the arguments beyond the fourth from the stack at addresses that
  are multiples of eight only: argument \<open>n\<close> comes from \<open>sp\<close> plus eight times the half of
  \<open>n - 4\<close>, rounded up. So the arguments five and six are the same word, and the word at
  \<open>sp + 4\<close>, where the procedure call standard passes argument five, is never read.
\<close>

theorem arm_stack_arguments:
  assumes "4 \<le> n" and "n < 20"
  shows "get_arg_register_value_arm mem st n
      = read_uintptr32 mem (gpr_sp32 st + of_nat (8 * ((n - 3) div 2)))
    \<and> get_arg_register_value_arm mem st 5 = get_arg_register_value_arm mem st 6
    \<and> get_arg_register_value_arm mem st 5 = read_uintptr32 mem (gpr_sp32 st + 8)"
proof -
  have "(if m * 4 mod 8 \<noteq> 0 then 8 - m * 4 mod 8 else 0) + m * 4 = 8 * ((m + 1) div 2)" for m :: nat
    by presburger
  moreover have "n - 3 = (n - 4) + 1" using assms by simp
  ultimately have "(n - 4) * 4 + (if (n - 4) * 4 mod 8 \<noteq> 0 then 8 - (n - 4) * 4 mod 8 else 0)
      = 8 * ((n - 3) div 2)"
    by (metis add.commute)
  moreover have "(8 * m) div 4 * 4 = 8 * m" for m :: nat by simp
  ultimately show ?thesis
    using assms by (simp add: get_arg_register_value_arm_def Let_def)
qed

theorem arm_stack_arguments_witness:
  "get_arg_register_value_arm (\<lambda>a. if a < 16 then Some (ucast a) else None)
     \<lparr>gpr_r = (\<lambda>_. 0), gpr_sp32 = 0\<rparr> 5 = Inr 0x0B0A0908"
proof -
  let ?mem = "\<lambda>a :: 32 word. if a < 16 then Some (ucast a :: byte) else None"
  have "?mem 8 = Some 8" "?mem 9 = Some 9" "?mem 10 = Some 10" "?mem 11 = Some 11" by simp_all
  then have "read_le (Suc (Suc (Suc (Suc 0)))) ?mem 8 = Inr 0x0B0A0908" by simp
  moreover have "Suc (Suc (Suc (Suc 0))) = 4" by simp
  ultimately have "read_le 4 ?mem 8 = Inr 0x0B0A0908" by (simp only:)
  then have "read_uintptr32 ?mem 8 = Inr 0x0B0A0908" by (simp add: read_uintptr32_def)
  then show ?thesis
    using arm_stack_arguments [of 5 ?mem "\<lparr>gpr_r = (\<lambda>_. 0), gpr_sp32 = 0\<rparr>"] by simp
qed

end
