(* ===== verification/Jni_Internal.thy ===== *)
theory Jni_Internal
  imports Dispatch_Base
begin

text \<open>
  \<^verbatim>\<open>trace/dispatch/jni_internal.cpp\<close>: the texts that the JNI dispatcher prints for classes,
  objects, methods and fields. The Java virtual machine is an argument: what it answers to
  the JNI functions that these texts are made of. A reference that it does not know aborts
  the process; a null \<^verbatim>\<open>JNIEnv\<close> pointer is dereferenced by the first call through it.
\<close>

section \<open>The virtual machine\<close>

text \<open>What \<^verbatim>\<open>isArray\<close>, \<^verbatim>\<open>getComponentType\<close>, \<^verbatim>\<open>isPrimitive\<close> and \<^verbatim>\<open>getName\<close> tell of a class.\<close>

datatype java_type =
    JPrimitive string
  | JReference string
  | JArray java_type

text \<open>\<^verbatim>\<open>Class.getName\<close>: an array class has the code of its element type behind a bracket.\<close>

definition primitive_code :: "string \<Rightarrow> string" where
  "primitive_code n =
     (if n = ''byte'' then ''B'' else if n = ''short'' then ''S'' else if n = ''int'' then ''I''
      else if n = ''boolean'' then ''Z'' else if n = ''char'' then ''C'' else if n = ''long'' then ''J''
      else if n = ''float'' then ''F'' else if n = ''double'' then ''D'' else ''V'')"

fun element_code :: "java_type \<Rightarrow> string" where
  "element_code (JPrimitive n) = primitive_code n"
| "element_code (JReference n) = ''L'' @ n @ '';''"
| "element_code (JArray t) = ''['' @ element_code t"

fun java_name :: "java_type \<Rightarrow> string" where
  "java_name (JPrimitive n) = n"
| "java_name (JReference n) = n"
| "java_name (JArray t) = ''['' @ element_code t"

record reflected_method =
  rm_class :: string
  rm_name :: string
  rm_params :: "java_type list"
  rm_return :: "java_type option"

record reflected_field =
  rf_name :: string
  rf_type :: "java_type option"

text \<open>
  The answers: the class that a class object stands for, the class of an object,
  \<^verbatim>\<open>toString\<close> of an object, the reflected methods and fields behind references and
  identifiers, the lengths of strings and arrays, and the \<^verbatim>\<open>JNIEnv\<close> of the thread. The last two
  are the formatting library's texts of an integer converted to a floating point number.
\<close>

record jvm =
  jv_class :: "addr \<Rightarrow> java_type option"
  jv_object_class :: "addr \<Rightarrow> java_type option"
  jv_to_string :: "addr \<Rightarrow> string option"
  jv_reflected_method :: "addr \<Rightarrow> reflected_method option"
  jv_reflected_field :: "addr \<Rightarrow> reflected_field option"
  jv_method :: "addr \<Rightarrow> reflected_method option"
  jv_field :: "addr \<Rightarrow> reflected_field option"
  jv_string_length :: "addr \<Rightarrow> int option"
  jv_string_utf_length :: "addr \<Rightarrow> int option"
  jv_array_length :: "addr \<Rightarrow> int option"
  jv_env :: addr
  jv_fmt_float :: "addr \<Rightarrow> string"
  jv_fmt_double :: "addr \<Rightarrow> string"

text \<open>A call through the environment pointer.\<close>

definition via_env :: "addr \<Rightarrow> 'a option \<Rightarrow> 'a result" where
  "via_env env r = (if env = 0 then Inl NullDeref else case r of None \<Rightarrow> Inl JniAbort | Some x \<Rightarrow> Inr x)"

section \<open>Texts\<close>

definition get_jni_class_or_java_class_name :: "jvm \<Rightarrow> addr \<Rightarrow> addr \<Rightarrow> string result" where
  "get_jni_class_or_java_class_name vm env clazz =
     (if clazz = 0 then Inr ''nullptr'' else map_result java_name (via_env env (jv_class vm clazz)))"

text \<open>
  \<open>get_jni_type\<close>: the descriptor of a class that is not null. Only primitive names are looked
  at, and only behind \<^verbatim>\<open>isPrimitive\<close>.
\<close>

fun get_jni_type :: "java_type \<Rightarrow> string" where
  "get_jni_type (JArray t) = ''['' @ get_jni_type t"
| "get_jni_type (JPrimitive name) =
     (if name = ''byte'' then ''B''
      else if name = ''short'' then ''S''
      else if name = ''int'' then ''I''
      else if name = ''boolean'' then ''Z''
      else if name = ''char'' then ''C''
      else if name = ''long'' then ''J''
      else if name = ''float'' then ''F''
      else if name = ''double'' then ''D''
      else if name = ''void'' then ''V''
      else if name = ''java.lang.String'' then ''Ljava/lang/String;''
      else if name = ''java.lang.Object'' then ''Ljava/lang/Object;''
      else if name = ''java.lang.Class'' then ''Ljava/lang/Class;''
      else if name = ''java.lang.Throwable'' then ''Ljava/lang/Throwable;''
      else ''L'' @ map (\<lambda>c. if c = CHR ''.'' then CHR ''/'' else c) name @ '';'')"
| "get_jni_type (JReference name) = []"

definition get_jni_type_ref :: "java_type option \<Rightarrow> string" where
  "get_jni_type_ref java_class = (case java_class of None \<Rightarrow> [] | Some t \<Rightarrow> get_jni_type t)"

definition reflected_method_text :: "reflected_method \<Rightarrow> string" where
  "reflected_method_text m =
     rm_name m @ ''('' @ concat (map get_jni_type (rm_params m)) @ '')''
     @ (if rm_class m = ''java.lang.reflect.Constructor'' then ''V'' else get_jni_type_ref (rm_return m))"

definition get_reflected_method_info :: "jvm \<Rightarrow> addr \<Rightarrow> addr \<Rightarrow> string result" where
  "get_reflected_method_info vm env method =
     (if method = 0 then Inr ''nullptr''
      else map_result reflected_method_text (via_env env (jv_reflected_method vm method)))"

definition get_jni_jobject_name :: "jvm \<Rightarrow> addr \<Rightarrow> addr \<Rightarrow> string result" where
  "get_jni_jobject_name vm env object =
     (if object = 0 then Inr ''nullptr''
      else if env = 0 then Inl NullDeref
      else if jv_class vm object \<noteq> None then get_jni_class_or_java_class_name vm env object
      else map_result java_name (via_env env (jv_object_class vm object)))"

text \<open>An identifier that \<^verbatim>\<open>ToReflectedMethod\<close> answers with null gives the empty text.\<close>

definition get_jni_method_signature :: "jvm \<Rightarrow> addr \<Rightarrow> addr \<Rightarrow> string result" where
  "get_jni_method_signature vm env method =
     (if method = 0 \<or> env = 0 then Inr []
      else (case jv_method vm method of None \<Rightarrow> Inr [] | Some m \<Rightarrow> Inr (reflected_method_text m)))"

definition reflected_field_text :: "reflected_field \<Rightarrow> string" where
  "reflected_field_text f = rf_name f @ '':'' @ get_jni_type_ref (rf_type f)"

definition get_reflected_field_info :: "jvm \<Rightarrow> addr \<Rightarrow> addr \<Rightarrow> string result" where
  "get_reflected_field_info vm env field =
     (if field = 0 then Inr ''nullptr''
      else map_result reflected_field_text (via_env env (jv_reflected_field vm field)))"

definition get_jni_field_signature :: "jvm \<Rightarrow> addr \<Rightarrow> addr \<Rightarrow> string result" where
  "get_jni_field_signature vm env field =
     (if field = 0 then Inr ''nullptr''
      else if env = 0 then Inl NullDeref
      else (case jv_field vm field of None \<Rightarrow> Inr ''nullptr'' | Some f \<Rightarrow> Inr (reflected_field_text f)))"

definition get_jni_object_to_string :: "jvm \<Rightarrow> addr \<Rightarrow> addr \<Rightarrow> string result" where
  "get_jni_object_to_string vm env obj =
     (if obj = 0 then Inr []
      else if env = 0 then Inl NullDeref
      else (case jv_to_string vm obj of None \<Rightarrow> Inr [] | Some s \<Rightarrow> Inr s))"

section \<open>Descriptors\<close>

text \<open>The descriptor of a type in the class file format.\<close>

fun descriptor :: "java_type \<Rightarrow> string" where
  "descriptor (JPrimitive n) = primitive_code n"
| "descriptor (JReference n) = ''L'' @ map (\<lambda>c. if c = CHR ''.'' then CHR ''/'' else c) n @ '';''"
| "descriptor (JArray t) = ''['' @ descriptor t"

definition primitive_names :: "string list" where
  "primitive_names =
     [''byte'', ''short'', ''int'', ''boolean'', ''char'', ''long'', ''float'', ''double'', ''void'']"

fun element_type :: "java_type \<Rightarrow> java_type" where
  "element_type (JArray t) = element_type t"
| "element_type t = t"

fun dimensions :: "java_type \<Rightarrow> nat" where
  "dimensions (JArray t) = Suc (dimensions t)"
| "dimensions t = 0"

fun java_ok :: "java_type \<Rightarrow> bool" where
  "java_ok (JPrimitive n) = (n \<in> set primitive_names)"
| "java_ok (JReference n) = True"
| "java_ok (JArray t) = java_ok t"

lemma get_jni_type_primitive:
  "java_ok t \<Longrightarrow> element_type t = JPrimitive n \<Longrightarrow> get_jni_type t = descriptor t"
  by (induction t) (auto simp: primitive_names_def primitive_code_def)

lemma get_jni_type_reference:
  "element_type t = JReference n \<Longrightarrow> get_jni_type t = replicate (dimensions t) CHR ''[''"
  by (induction t) auto

lemma descriptor_reference:
  "element_type t = JReference n \<Longrightarrow>
   descriptor t = replicate (dimensions t) CHR ''['' @ descriptor (JReference n)"
  by (induction t) auto

end
