(* ===== verification/Jni_Table.thy ===== *)
theory Jni_Table
  imports Jni_Internal
begin

text \<open>
  The handlers of \<^verbatim>\<open>dispatch_jni_env.cpp\<close>: for every static function and every instance of a
  macro its locals that call the virtual machine and then its pushed texts, in the order of
  the statements; the names that \<^verbatim>\<open>arg_handlers_\<close> registers; and the functions of the
  interface table in the order of \<^verbatim>\<open>init_env_fun_table\<close>.
\<close>

text \<open>
  The parts of a text. The first number is the index of the argument register, a second one
  the width in bits of the type that the value is converted to. \<open>JPtrHex\<close> formats a
  \<^verbatim>\<open>void *\<close> with \<^verbatim>\<open>{:#x}\<close>; \<open>JReadChars\<close> copies the \<^verbatim>\<open>jchar\<close> array of an argument.
\<close>

datatype jni_piece =
    JLit string
  | JClassName nat
  | JObjectName nat
  | JMethodInfo nat
  | JFieldInfo nat
  | JMethodSig nat
  | JFieldSig nat
  | JToString nat
  | JStringLength nat
  | JStringUTFLength nat
  | JArrayLength nat
  | JReadChars nat nat
  | JCStr nat
  | JHex nat
  | JDec nat
  | JSigned nat nat
  | JUnsigned nat nat
  | JBool nat nat
  | JFloat nat
  | JDouble nat
  | JPtrHex nat

datatype jni_handler =
    JHandler "jni_piece list" "jni_piece list list"
  | JRegisterNatives

definition jni_handlers_1 :: "(string \<times> jni_handler) list" where
  "jni_handlers_1 = [
   (''FindClass'',
      JHandler []
        [[JLit ''name='', JCStr 1]]),
   (''FromReflectedMethod'',
      JHandler [JMethodInfo 1]
        [[JLit ''method='', JMethodInfo 1, JLit '' '', JHex 1]]),
   (''FromReflectedField'',
      JHandler [JFieldInfo 1]
        [[JLit ''field='', JFieldInfo 1]]),
   (''ToReflectedField'',
      JHandler [JClassName 1, JFieldSig 2]
        [[JLit ''clazz='', JClassName 1], [JLit ''fid='', JFieldSig 2],
         [JLit ''isStatic='', JUnsigned 3 8]]),
   (''ToReflectedMethod'',
      JHandler [JClassName 1, JMethodSig 2]
        [[JLit ''clazz='', JClassName 1], [JLit ''mid='', JMethodSig 2],
         [JLit ''isStatic='', JUnsigned 3 8]]),
   (''GetObjectClass'',
      JHandler [JObjectName 1]
        [[JLit ''object='', JObjectName 1, JLit '' '', JHex 1]]),
   (''GetSuperclass'',
      JHandler [JClassName 1]
        [[JLit ''java_class='', JClassName 1, JLit '' '', JHex 1]]),
   (''IsAssignableFrom'',
      JHandler [JClassName 1, JClassName 2]
        [[JLit ''java_class1='', JClassName 1, JLit '' '', JHex 1],
         [JLit ''java_class2='', JClassName 2, JLit '' '', JHex 2]]),
   (''Throw'',
      JHandler [JObjectName 1]
        [[JLit ''java_exception='', JObjectName 1, JLit '' '', JHex 1]]),
   (''ThrowNew'',
      JHandler [JClassName 1]
        [[JLit ''java_class='', JClassName 1, JLit '' '', JHex 1], [JLit ''msg='', JCStr 2]]),
   (''PushLocalFrame'',
      JHandler []
        [[JLit ''capacity='', JDec 1]]),
   (''PopLocalFrame'',
      JHandler [JObjectName 1]
        [[JLit ''java_survivor='', JObjectName 1, JLit '' '', JHex 1]]),
   (''NewGlobalRef'',
      JHandler [JObjectName 1]
        [[JLit ''obj='', JObjectName 1, JLit '' '', JHex 1]]),
   (''DeleteGlobalRef'',
      JHandler [JObjectName 1]
        [[JLit ''obj='', JObjectName 1, JLit '' '', JHex 1]]),
   (''DeleteLocalRef'',
      JHandler [JObjectName 1]
        [[JLit ''obj='', JObjectName 1, JLit '' '', JHex 1]])]"

definition jni_handlers_2 :: "(string \<times> jni_handler) list" where
  "jni_handlers_2 = [
   (''IsSameObject'',
      JHandler [JObjectName 1, JObjectName 2]
        [[JLit ''obj1='', JObjectName 1, JLit '' '', JHex 1],
         [JLit ''obj2='', JObjectName 2, JLit '' '', JHex 2]]),
   (''NewLocalRef'',
      JHandler [JObjectName 1]
        [[JLit ''obj='', JObjectName 1, JLit '' '', JHex 1]]),
   (''EnsureLocalCapacity'',
      JHandler []
        [[JLit ''capacity='', JDec 1]]),
   (''AllocObject'',
      JHandler [JClassName 1]
        [[JLit ''java_class='', JClassName 1, JLit '' '', JHex 1]]),
   (''NewObject'',
      JHandler [JClassName 1, JMethodSig 2]
        [[JLit ''java_class='', JClassName 1, JLit '' '', JHex 1],
         [JLit ''mid='', JMethodSig 2, JLit '' '', JHex 2]]),
   (''NewObjectA'',
      JHandler [JClassName 1, JMethodSig 2]
        [[JLit ''java_class='', JClassName 1, JLit '' '', JHex 1],
         [JLit ''mid='', JMethodSig 2, JLit '' '', JHex 2]]),
   (''NewObjectV'',
      JHandler [JClassName 1, JMethodSig 2]
        [[JLit ''java_class='', JClassName 1, JLit '' '', JHex 1],
         [JLit ''mid='', JMethodSig 2, JLit '' '', JHex 2]]),
   (''IsInstanceOf'',
      JHandler [JClassName 2, JObjectName 1]
        [[JLit ''jobj='', JObjectName 1, JLit '' '', JHex 1],
         [JLit ''java_class='', JClassName 2, JLit '' '', JHex 2]]),
   (''GetMethodID'',
      JHandler [JClassName 1]
        [[JLit ''java_class='', JClassName 1, JLit '' '', JHex 1], [JLit ''name='', JCStr 2],
         [JLit ''sig='', JCStr 3]])]"

definition jni_handlers_3 :: "(string \<times> jni_handler) list" where
  "jni_handlers_3 = [
   (''CallObjectMethod'',
      JHandler [JObjectName 1, JMethodSig 2]
        [[JLit ''obj='', JObjectName 1, JLit '' '', JHex 1],
         [JLit ''mid='', JMethodSig 2, JLit '' '', JHex 2]]),
   (''CallObjectMethodV'',
      JHandler [JObjectName 1, JMethodSig 2]
        [[JLit ''obj='', JObjectName 1, JLit '' '', JHex 1],
         [JLit ''mid='', JMethodSig 2, JLit '' '', JHex 2]]),
   (''CallObjectMethodA'',
      JHandler [JObjectName 1, JMethodSig 2]
        [[JLit ''obj='', JObjectName 1, JLit '' '', JHex 1],
         [JLit ''mid='', JMethodSig 2, JLit '' '', JHex 2]]),
   (''CallBooleanMethod'',
      JHandler [JObjectName 1, JMethodSig 2]
        [[JLit ''obj='', JObjectName 1, JLit '' '', JHex 1],
         [JLit ''mid='', JMethodSig 2, JLit '' '', JHex 2]]),
   (''CallBooleanMethodV'',
      JHandler [JObjectName 1, JMethodSig 2]
        [[JLit ''obj='', JObjectName 1, JLit '' '', JHex 1],
         [JLit ''mid='', JMethodSig 2, JLit '' '', JHex 2]]),
   (''CallBooleanMethodA'',
      JHandler [JObjectName 1, JMethodSig 2]
        [[JLit ''obj='', JObjectName 1, JLit '' '', JHex 1],
         [JLit ''mid='', JMethodSig 2, JLit '' '', JHex 2]]),
   (''CallByteMethod'',
      JHandler [JObjectName 1, JMethodSig 2]
        [[JLit ''obj='', JObjectName 1, JLit '' '', JHex 1],
         [JLit ''mid='', JMethodSig 2, JLit '' '', JHex 2]]),
   (''CallByteMethodV'',
      JHandler [JObjectName 1, JMethodSig 2]
        [[JLit ''obj='', JObjectName 1, JLit '' '', JHex 1],
         [JLit ''mid='', JMethodSig 2, JLit '' '', JHex 2]]),
   (''CallByteMethodA'',
      JHandler [JObjectName 1, JMethodSig 2]
        [[JLit ''obj='', JObjectName 1, JLit '' '', JHex 1],
         [JLit ''mid='', JMethodSig 2, JLit '' '', JHex 2]]),
   (''CallCharMethod'',
      JHandler [JObjectName 1, JMethodSig 2]
        [[JLit ''obj='', JObjectName 1, JLit '' '', JHex 1],
         [JLit ''mid='', JMethodSig 2, JLit '' '', JHex 2]]),
   (''CallCharMethodV'',
      JHandler [JObjectName 1, JMethodSig 2]
        [[JLit ''obj='', JObjectName 1, JLit '' '', JHex 1],
         [JLit ''mid='', JMethodSig 2, JLit '' '', JHex 2]]),
   (''CallCharMethodA'',
      JHandler [JObjectName 1, JMethodSig 2]
        [[JLit ''obj='', JObjectName 1, JLit '' '', JHex 1],
         [JLit ''mid='', JMethodSig 2, JLit '' '', JHex 2]]),
   (''CallShortMethod'',
      JHandler [JObjectName 1, JMethodSig 2]
        [[JLit ''obj='', JObjectName 1, JLit '' '', JHex 1],
         [JLit ''mid='', JMethodSig 2, JLit '' '', JHex 2]]),
   (''CallShortMethodV'',
      JHandler [JObjectName 1, JMethodSig 2]
        [[JLit ''obj='', JObjectName 1, JLit '' '', JHex 1],
         [JLit ''mid='', JMethodSig 2, JLit '' '', JHex 2]]),
   (''CallShortMethodA'',
      JHandler [JObjectName 1, JMethodSig 2]
        [[JLit ''obj='', JObjectName 1, JLit '' '', JHex 1],
         [JLit ''mid='', JMethodSig 2, JLit '' '', JHex 2]]),
   (''CallIntMethod'',
      JHandler [JObjectName 1, JMethodSig 2]
        [[JLit ''obj='', JObjectName 1, JLit '' '', JHex 1],
         [JLit ''mid='', JMethodSig 2, JLit '' '', JHex 2]]),
   (''CallIntMethodV'',
      JHandler [JObjectName 1, JMethodSig 2]
        [[JLit ''obj='', JObjectName 1, JLit '' '', JHex 1],
         [JLit ''mid='', JMethodSig 2, JLit '' '', JHex 2]]),
   (''CallIntMethodA'',
      JHandler [JObjectName 1, JMethodSig 2]
        [[JLit ''obj='', JObjectName 1, JLit '' '', JHex 1],
         [JLit ''mid='', JMethodSig 2, JLit '' '', JHex 2]]),
   (''CallLongMethod'',
      JHandler [JObjectName 1, JMethodSig 2]
        [[JLit ''obj='', JObjectName 1, JLit '' '', JHex 1],
         [JLit ''mid='', JMethodSig 2, JLit '' '', JHex 2]]),
   (''CallLongMethodV'',
      JHandler [JObjectName 1, JMethodSig 2]
        [[JLit ''obj='', JObjectName 1, JLit '' '', JHex 1],
         [JLit ''mid='', JMethodSig 2, JLit '' '', JHex 2]]),
   (''CallLongMethodA'',
      JHandler [JObjectName 1, JMethodSig 2]
        [[JLit ''obj='', JObjectName 1, JLit '' '', JHex 1],
         [JLit ''mid='', JMethodSig 2, JLit '' '', JHex 2]]),
   (''CallFloatMethod'',
      JHandler [JObjectName 1, JMethodSig 2]
        [[JLit ''obj='', JObjectName 1, JLit '' '', JHex 1],
         [JLit ''mid='', JMethodSig 2, JLit '' '', JHex 2]]),
   (''CallFloatMethodV'',
      JHandler [JObjectName 1, JMethodSig 2]
        [[JLit ''obj='', JObjectName 1, JLit '' '', JHex 1],
         [JLit ''mid='', JMethodSig 2, JLit '' '', JHex 2]]),
   (''CallFloatMethodA'',
      JHandler [JObjectName 1, JMethodSig 2]
        [[JLit ''obj='', JObjectName 1, JLit '' '', JHex 1],
         [JLit ''mid='', JMethodSig 2, JLit '' '', JHex 2]]),
   (''CallDoubleMethod'',
      JHandler [JObjectName 1, JMethodSig 2]
        [[JLit ''obj='', JObjectName 1, JLit '' '', JHex 1],
         [JLit ''mid='', JMethodSig 2, JLit '' '', JHex 2]]),
   (''CallDoubleMethodV'',
      JHandler [JObjectName 1, JMethodSig 2]
        [[JLit ''obj='', JObjectName 1, JLit '' '', JHex 1],
         [JLit ''mid='', JMethodSig 2, JLit '' '', JHex 2]]),
   (''CallDoubleMethodA'',
      JHandler [JObjectName 1, JMethodSig 2]
        [[JLit ''obj='', JObjectName 1, JLit '' '', JHex 1],
         [JLit ''mid='', JMethodSig 2, JLit '' '', JHex 2]]),
   (''CallVoidMethod'',
      JHandler [JObjectName 1, JMethodSig 2]
        [[JLit ''obj='', JObjectName 1, JLit '' '', JHex 1],
         [JLit ''mid='', JMethodSig 2, JLit '' '', JHex 2]]),
   (''CallVoidMethodV'',
      JHandler [JObjectName 1, JMethodSig 2]
        [[JLit ''obj='', JObjectName 1, JLit '' '', JHex 1],
         [JLit ''mid='', JMethodSig 2, JLit '' '', JHex 2]]),
   (''CallVoidMethodA'',
      JHandler [JObjectName 1, JMethodSig 2]
        [[JLit ''obj='', JObjectName 1, JLit '' '', JHex 1],
         [JLit ''mid='', JMethodSig 2, JLit '' '', JHex 2]]),
   (''CallNonvirtualObjectMethod'',
      JHandler [JObjectName 1, JClassName 2, JMethodSig 3]
        [[JLit ''obj='', JObjectName 1, JLit '' '', JHex 1],
         [JLit ''clazz='', JClassName 2, JLit '' '', JHex 2],
         [JLit ''mid='', JMethodSig 3, JLit '' '', JHex 3]]),
   (''CallNonvirtualObjectMethodV'',
      JHandler [JObjectName 1, JClassName 2, JMethodSig 3]
        [[JLit ''obj='', JObjectName 1, JLit '' '', JHex 1],
         [JLit ''clazz='', JClassName 2, JLit '' '', JHex 2],
         [JLit ''mid='', JMethodSig 3, JLit '' '', JHex 3]]),
   (''CallNonvirtualObjectMethodA'',
      JHandler [JObjectName 1, JClassName 2, JMethodSig 3]
        [[JLit ''obj='', JObjectName 1, JLit '' '', JHex 1],
         [JLit ''clazz='', JClassName 2, JLit '' '', JHex 2],
         [JLit ''mid='', JMethodSig 3, JLit '' '', JHex 3]]),
   (''CallNonvirtualBooleanMethod'',
      JHandler [JObjectName 1, JClassName 2, JMethodSig 3]
        [[JLit ''obj='', JObjectName 1, JLit '' '', JHex 1],
         [JLit ''clazz='', JClassName 2, JLit '' '', JHex 2],
         [JLit ''mid='', JMethodSig 3, JLit '' '', JHex 3]]),
   (''CallNonvirtualBooleanMethodV'',
      JHandler [JObjectName 1, JClassName 2, JMethodSig 3]
        [[JLit ''obj='', JObjectName 1, JLit '' '', JHex 1],
         [JLit ''clazz='', JClassName 2, JLit '' '', JHex 2],
         [JLit ''mid='', JMethodSig 3, JLit '' '', JHex 3]]),
   (''CallNonvirtualBooleanMethodA'',
      JHandler [JObjectName 1, JClassName 2, JMethodSig 3]
        [[JLit ''obj='', JObjectName 1, JLit '' '', JHex 1],
         [JLit ''clazz='', JClassName 2, JLit '' '', JHex 2],
         [JLit ''mid='', JMethodSig 3, JLit '' '', JHex 3]]),
   (''CallNonvirtualByteMethod'',
      JHandler [JObjectName 1, JClassName 2, JMethodSig 3]
        [[JLit ''obj='', JObjectName 1, JLit '' '', JHex 1],
         [JLit ''clazz='', JClassName 2, JLit '' '', JHex 2],
         [JLit ''mid='', JMethodSig 3, JLit '' '', JHex 3]]),
   (''CallNonvirtualByteMethodV'',
      JHandler [JObjectName 1, JClassName 2, JMethodSig 3]
        [[JLit ''obj='', JObjectName 1, JLit '' '', JHex 1],
         [JLit ''clazz='', JClassName 2, JLit '' '', JHex 2],
         [JLit ''mid='', JMethodSig 3, JLit '' '', JHex 3]]),
   (''CallNonvirtualByteMethodA'',
      JHandler [JObjectName 1, JClassName 2, JMethodSig 3]
        [[JLit ''obj='', JObjectName 1, JLit '' '', JHex 1],
         [JLit ''clazz='', JClassName 2, JLit '' '', JHex 2],
         [JLit ''mid='', JMethodSig 3, JLit '' '', JHex 3]]),
   (''CallNonvirtualCharMethod'',
      JHandler [JObjectName 1, JClassName 2, JMethodSig 3]
        [[JLit ''obj='', JObjectName 1, JLit '' '', JHex 1],
         [JLit ''clazz='', JClassName 2, JLit '' '', JHex 2],
         [JLit ''mid='', JMethodSig 3, JLit '' '', JHex 3]]),
   (''CallNonvirtualCharMethodV'',
      JHandler [JObjectName 1, JClassName 2, JMethodSig 3]
        [[JLit ''obj='', JObjectName 1, JLit '' '', JHex 1],
         [JLit ''clazz='', JClassName 2, JLit '' '', JHex 2],
         [JLit ''mid='', JMethodSig 3, JLit '' '', JHex 3]]),
   (''CallNonvirtualCharMethodA'',
      JHandler [JObjectName 1, JClassName 2, JMethodSig 3]
        [[JLit ''obj='', JObjectName 1, JLit '' '', JHex 1],
         [JLit ''clazz='', JClassName 2, JLit '' '', JHex 2],
         [JLit ''mid='', JMethodSig 3, JLit '' '', JHex 3]]),
   (''CallNonvirtualShortMethod'',
      JHandler [JObjectName 1, JClassName 2, JMethodSig 3]
        [[JLit ''obj='', JObjectName 1, JLit '' '', JHex 1],
         [JLit ''clazz='', JClassName 2, JLit '' '', JHex 2],
         [JLit ''mid='', JMethodSig 3, JLit '' '', JHex 3]]),
   (''CallNonvirtualShortMethodV'',
      JHandler [JObjectName 1, JClassName 2, JMethodSig 3]
        [[JLit ''obj='', JObjectName 1, JLit '' '', JHex 1],
         [JLit ''clazz='', JClassName 2, JLit '' '', JHex 2],
         [JLit ''mid='', JMethodSig 3, JLit '' '', JHex 3]]),
   (''CallNonvirtualShortMethodA'',
      JHandler [JObjectName 1, JClassName 2, JMethodSig 3]
        [[JLit ''obj='', JObjectName 1, JLit '' '', JHex 1],
         [JLit ''clazz='', JClassName 2, JLit '' '', JHex 2],
         [JLit ''mid='', JMethodSig 3, JLit '' '', JHex 3]]),
   (''CallNonvirtualIntMethod'',
      JHandler [JObjectName 1, JClassName 2, JMethodSig 3]
        [[JLit ''obj='', JObjectName 1, JLit '' '', JHex 1],
         [JLit ''clazz='', JClassName 2, JLit '' '', JHex 2],
         [JLit ''mid='', JMethodSig 3, JLit '' '', JHex 3]]),
   (''CallNonvirtualIntMethodV'',
      JHandler [JObjectName 1, JClassName 2, JMethodSig 3]
        [[JLit ''obj='', JObjectName 1, JLit '' '', JHex 1],
         [JLit ''clazz='', JClassName 2, JLit '' '', JHex 2],
         [JLit ''mid='', JMethodSig 3, JLit '' '', JHex 3]]),
   (''CallNonvirtualIntMethodA'',
      JHandler [JObjectName 1, JClassName 2, JMethodSig 3]
        [[JLit ''obj='', JObjectName 1, JLit '' '', JHex 1],
         [JLit ''clazz='', JClassName 2, JLit '' '', JHex 2],
         [JLit ''mid='', JMethodSig 3, JLit '' '', JHex 3]]),
   (''CallNonvirtualLongMethod'',
      JHandler [JObjectName 1, JClassName 2, JMethodSig 3]
        [[JLit ''obj='', JObjectName 1, JLit '' '', JHex 1],
         [JLit ''clazz='', JClassName 2, JLit '' '', JHex 2],
         [JLit ''mid='', JMethodSig 3, JLit '' '', JHex 3]]),
   (''CallNonvirtualLongMethodV'',
      JHandler [JObjectName 1, JClassName 2, JMethodSig 3]
        [[JLit ''obj='', JObjectName 1, JLit '' '', JHex 1],
         [JLit ''clazz='', JClassName 2, JLit '' '', JHex 2],
         [JLit ''mid='', JMethodSig 3, JLit '' '', JHex 3]]),
   (''CallNonvirtualLongMethodA'',
      JHandler [JObjectName 1, JClassName 2, JMethodSig 3]
        [[JLit ''obj='', JObjectName 1, JLit '' '', JHex 1],
         [JLit ''clazz='', JClassName 2, JLit '' '', JHex 2],
         [JLit ''mid='', JMethodSig 3, JLit '' '', JHex 3]]),
   (''CallNonvirtualFloatMethod'',
      JHandler [JObjectName 1, JClassName 2, JMethodSig 3]
        [[JLit ''obj='', JObjectName 1, JLit '' '', JHex 1],
         [JLit ''clazz='', JClassName 2, JLit '' '', JHex 2],
         [JLit ''mid='', JMethodSig 3, JLit '' '', JHex 3]]),
   (''CallNonvirtualFloatMethodV'',
      JHandler [JObjectName 1, JClassName 2, JMethodSig 3]
        [[JLit ''obj='', JObjectName 1, JLit '' '', JHex 1],
         [JLit ''clazz='', JClassName 2, JLit '' '', JHex 2],
         [JLit ''mid='', JMethodSig 3, JLit '' '', JHex 3]]),
   (''CallNonvirtualFloatMethodA'',
      JHandler [JObjectName 1, JClassName 2, JMethodSig 3]
        [[JLit ''obj='', JObjectName 1, JLit '' '', JHex 1],
         [JLit ''clazz='', JClassName 2, JLit '' '', JHex 2],
         [JLit ''mid='', JMethodSig 3, JLit '' '', JHex 3]]),
   (''CallNonvirtualDoubleMethod'',
      JHandler [JObjectName 1, JClassName 2, JMethodSig 3]
        [[JLit ''obj='', JObjectName 1, JLit '' '', JHex 1],
         [JLit ''clazz='', JClassName 2, JLit '' '', JHex 2],
         [JLit ''mid='', JMethodSig 3, JLit '' '', JHex 3]]),
   (''CallNonvirtualDoubleMethodV'',
      JHandler [JObjectName 1, JClassName 2, JMethodSig 3]
        [[JLit ''obj='', JObjectName 1, JLit '' '', JHex 1],
         [JLit ''clazz='', JClassName 2, JLit '' '', JHex 2],
         [JLit ''mid='', JMethodSig 3, JLit '' '', JHex 3]]),
   (''CallNonvirtualDoubleMethodA'',
      JHandler [JObjectName 1, JClassName 2, JMethodSig 3]
        [[JLit ''obj='', JObjectName 1, JLit '' '', JHex 1],
         [JLit ''clazz='', JClassName 2, JLit '' '', JHex 2],
         [JLit ''mid='', JMethodSig 3, JLit '' '', JHex 3]]),
   (''CallNonvirtualVoidMethod'',
      JHandler [JObjectName 1, JClassName 2, JMethodSig 3]
        [[JLit ''obj='', JObjectName 1, JLit '' '', JHex 1],
         [JLit ''clazz='', JClassName 2, JLit '' '', JHex 2],
         [JLit ''mid='', JMethodSig 3, JLit '' '', JHex 3]]),
   (''CallNonvirtualVoidMethodV'',
      JHandler [JObjectName 1, JClassName 2, JMethodSig 3]
        [[JLit ''obj='', JObjectName 1, JLit '' '', JHex 1],
         [JLit ''clazz='', JClassName 2, JLit '' '', JHex 2],
         [JLit ''mid='', JMethodSig 3, JLit '' '', JHex 3]]),
   (''CallNonvirtualVoidMethodA'',
      JHandler [JObjectName 1, JClassName 2, JMethodSig 3]
        [[JLit ''obj='', JObjectName 1, JLit '' '', JHex 1],
         [JLit ''clazz='', JClassName 2, JLit '' '', JHex 2],
         [JLit ''mid='', JMethodSig 3, JLit '' '', JHex 3]]),
   (''GetFieldID'',
      JHandler [JClassName 1]
        [[JLit ''clazz='', JClassName 1, JLit '' '', JHex 1], [JLit ''name='', JCStr 2],
         [JLit ''sig='', JCStr 3]])]"

definition jni_handlers_4 :: "(string \<times> jni_handler) list" where
  "jni_handlers_4 = [
   (''GetObjectField'',
      JHandler [JObjectName 1, JFieldSig 2]
        [[JLit ''obj='', JObjectName 1, JLit '' '', JHex 1],
         [JLit ''fid='', JFieldSig 2, JLit '' '', JHex 2]]),
   (''GetBooleanField'',
      JHandler [JObjectName 1, JFieldSig 2]
        [[JLit ''obj='', JObjectName 1, JLit '' '', JHex 1],
         [JLit ''fid='', JFieldSig 2, JLit '' '', JHex 2]]),
   (''GetByteField'',
      JHandler [JObjectName 1, JFieldSig 2]
        [[JLit ''obj='', JObjectName 1, JLit '' '', JHex 1],
         [JLit ''fid='', JFieldSig 2, JLit '' '', JHex 2]]),
   (''GetCharField'',
      JHandler [JObjectName 1, JFieldSig 2]
        [[JLit ''obj='', JObjectName 1, JLit '' '', JHex 1],
         [JLit ''fid='', JFieldSig 2, JLit '' '', JHex 2]]),
   (''GetShortField'',
      JHandler [JObjectName 1, JFieldSig 2]
        [[JLit ''obj='', JObjectName 1, JLit '' '', JHex 1],
         [JLit ''fid='', JFieldSig 2, JLit '' '', JHex 2]]),
   (''GetIntField'',
      JHandler [JObjectName 1, JFieldSig 2]
        [[JLit ''obj='', JObjectName 1, JLit '' '', JHex 1],
         [JLit ''fid='', JFieldSig 2, JLit '' '', JHex 2]]),
   (''GetLongField'',
      JHandler [JObjectName 1, JFieldSig 2]
        [[JLit ''obj='', JObjectName 1, JLit '' '', JHex 1],
         [JLit ''fid='', JFieldSig 2, JLit '' '', JHex 2]]),
   (''GetFloatField'',
      JHandler [JObjectName 1, JFieldSig 2]
        [[JLit ''obj='', JObjectName 1, JLit '' '', JHex 1],
         [JLit ''fid='', JFieldSig 2, JLit '' '', JHex 2]]),
   (''GetDoubleField'',
      JHandler [JObjectName 1, JFieldSig 2]
        [[JLit ''obj='', JObjectName 1, JLit '' '', JHex 1],
         [JLit ''fid='', JFieldSig 2, JLit '' '', JHex 2]]),
   (''GetVoidField'',
      JHandler [JObjectName 1, JFieldSig 2]
        [[JLit ''obj='', JObjectName 1, JLit '' '', JHex 1],
         [JLit ''fid='', JFieldSig 2, JLit '' '', JHex 2]]),
   (''SetObjectField'',
      JHandler [JObjectName 1, JFieldSig 2, JToString 3]
        [[JLit ''obj='', JObjectName 1, JLit '' '', JHex 1],
         [JLit ''fid='', JFieldSig 2, JLit '' '', JHex 2],
         [JLit ''value='', JToString 3, JLit '' '', JHex 3]]),
   (''SetBooleanField'',
      JHandler [JObjectName 1, JFieldSig 2]
        [[JLit ''obj='', JObjectName 1, JLit '' '', JHex 1],
         [JLit ''fid='', JFieldSig 2, JLit '' '', JHex 2], [JLit ''value='', JBool 3 8]]),
   (''SetByteField'',
      JHandler [JObjectName 1, JFieldSig 2]
        [[JLit ''obj='', JObjectName 1, JLit '' '', JHex 1],
         [JLit ''fid='', JFieldSig 2, JLit '' '', JHex 2], [JLit ''value='', JSigned 3 8]]),
   (''SetCharField'',
      JHandler [JObjectName 1, JFieldSig 2]
        [[JLit ''obj='', JObjectName 1, JLit '' '', JHex 1],
         [JLit ''fid='', JFieldSig 2, JLit '' '', JHex 2], [JLit ''value='', JUnsigned 3 16]]),
   (''SetShortField'',
      JHandler [JObjectName 1, JFieldSig 2]
        [[JLit ''obj='', JObjectName 1, JLit '' '', JHex 1],
         [JLit ''fid='', JFieldSig 2, JLit '' '', JHex 2], [JLit ''value='', JSigned 3 16]]),
   (''SetIntField'',
      JHandler [JObjectName 1, JFieldSig 2]
        [[JLit ''obj='', JObjectName 1, JLit '' '', JHex 1],
         [JLit ''fid='', JFieldSig 2, JLit '' '', JHex 2], [JLit ''value='', JSigned 3 32]]),
   (''SetLongField'',
      JHandler [JObjectName 1, JFieldSig 2]
        [[JLit ''obj='', JObjectName 1, JLit '' '', JHex 1],
         [JLit ''fid='', JFieldSig 2, JLit '' '', JHex 2], [JLit ''value='', JSigned 3 64]]),
   (''SetFloatField'',
      JHandler [JObjectName 1, JFieldSig 2]
        [[JLit ''obj='', JObjectName 1, JLit '' '', JHex 1],
         [JLit ''fid='', JFieldSig 2, JLit '' '', JHex 2], [JLit ''value='', JFloat 3]])]"

definition jni_handlers_5 :: "(string \<times> jni_handler) list" where
  "jni_handlers_5 = [
   (''SetDoubleField'',
      JHandler [JObjectName 1, JFieldSig 2]
        [[JLit ''obj='', JObjectName 1, JLit '' '', JHex 1],
         [JLit ''fid='', JFieldSig 2, JLit '' '', JHex 2], [JLit ''value='', JDouble 3]]),
   (''GetStaticMethodID'',
      JHandler [JClassName 1]
        [[JLit ''java_class='', JClassName 1, JLit '' '', JHex 1], [JLit ''name='', JCStr 2],
         [JLit ''sig='', JCStr 3]]),
   (''CallStaticObjectMethod'',
      JHandler [JClassName 1, JMethodSig 2]
        [[JLit ''clazz='', JClassName 1, JLit '' '', JHex 1],
         [JLit ''mid='', JMethodSig 2, JLit '' '', JHex 2]]),
   (''CallStaticObjectMethodV'',
      JHandler [JClassName 1, JMethodSig 2]
        [[JLit ''clazz='', JClassName 1, JLit '' '', JHex 1],
         [JLit ''mid='', JMethodSig 2, JLit '' '', JHex 2]]),
   (''CallStaticObjectMethodA'',
      JHandler [JClassName 1, JMethodSig 2]
        [[JLit ''clazz='', JClassName 1, JLit '' '', JHex 1],
         [JLit ''mid='', JMethodSig 2, JLit '' '', JHex 2]]),
   (''CallStaticBooleanMethod'',
      JHandler [JClassName 1, JMethodSig 2]
        [[JLit ''clazz='', JClassName 1, JLit '' '', JHex 1],
         [JLit ''mid='', JMethodSig 2, JLit '' '', JHex 2]]),
   (''CallStaticBooleanMethodV'',
      JHandler [JClassName 1, JMethodSig 2]
        [[JLit ''clazz='', JClassName 1, JLit '' '', JHex 1],
         [JLit ''mid='', JMethodSig 2, JLit '' '', JHex 2]]),
   (''CallStaticBooleanMethodA'',
      JHandler [JClassName 1, JMethodSig 2]
        [[JLit ''clazz='', JClassName 1, JLit '' '', JHex 1],
         [JLit ''mid='', JMethodSig 2, JLit '' '', JHex 2]]),
   (''CallStaticByteMethod'',
      JHandler [JClassName 1, JMethodSig 2]
        [[JLit ''clazz='', JClassName 1, JLit '' '', JHex 1],
         [JLit ''mid='', JMethodSig 2, JLit '' '', JHex 2]]),
   (''CallStaticByteMethodV'',
      JHandler [JClassName 1, JMethodSig 2]
        [[JLit ''clazz='', JClassName 1, JLit '' '', JHex 1],
         [JLit ''mid='', JMethodSig 2, JLit '' '', JHex 2]]),
   (''CallStaticByteMethodA'',
      JHandler [JClassName 1, JMethodSig 2]
        [[JLit ''clazz='', JClassName 1, JLit '' '', JHex 1],
         [JLit ''mid='', JMethodSig 2, JLit '' '', JHex 2]]),
   (''CallStaticCharMethod'',
      JHandler [JClassName 1, JMethodSig 2]
        [[JLit ''clazz='', JClassName 1, JLit '' '', JHex 1],
         [JLit ''mid='', JMethodSig 2, JLit '' '', JHex 2]]),
   (''CallStaticCharMethodV'',
      JHandler [JClassName 1, JMethodSig 2]
        [[JLit ''clazz='', JClassName 1, JLit '' '', JHex 1],
         [JLit ''mid='', JMethodSig 2, JLit '' '', JHex 2]]),
   (''CallStaticCharMethodA'',
      JHandler [JClassName 1, JMethodSig 2]
        [[JLit ''clazz='', JClassName 1, JLit '' '', JHex 1],
         [JLit ''mid='', JMethodSig 2, JLit '' '', JHex 2]]),
   (''CallStaticShortMethod'',
      JHandler [JClassName 1, JMethodSig 2]
        [[JLit ''clazz='', JClassName 1, JLit '' '', JHex 1],
         [JLit ''mid='', JMethodSig 2, JLit '' '', JHex 2]]),
   (''CallStaticShortMethodV'',
      JHandler [JClassName 1, JMethodSig 2]
        [[JLit ''clazz='', JClassName 1, JLit '' '', JHex 1],
         [JLit ''mid='', JMethodSig 2, JLit '' '', JHex 2]]),
   (''CallStaticShortMethodA'',
      JHandler [JClassName 1, JMethodSig 2]
        [[JLit ''clazz='', JClassName 1, JLit '' '', JHex 1],
         [JLit ''mid='', JMethodSig 2, JLit '' '', JHex 2]]),
   (''CallStaticIntMethod'',
      JHandler [JClassName 1, JMethodSig 2]
        [[JLit ''clazz='', JClassName 1, JLit '' '', JHex 1],
         [JLit ''mid='', JMethodSig 2, JLit '' '', JHex 2]]),
   (''CallStaticIntMethodV'',
      JHandler [JClassName 1, JMethodSig 2]
        [[JLit ''clazz='', JClassName 1, JLit '' '', JHex 1],
         [JLit ''mid='', JMethodSig 2, JLit '' '', JHex 2]]),
   (''CallStaticIntMethodA'',
      JHandler [JClassName 1, JMethodSig 2]
        [[JLit ''clazz='', JClassName 1, JLit '' '', JHex 1],
         [JLit ''mid='', JMethodSig 2, JLit '' '', JHex 2]]),
   (''CallStaticLongMethod'',
      JHandler [JClassName 1, JMethodSig 2]
        [[JLit ''clazz='', JClassName 1, JLit '' '', JHex 1],
         [JLit ''mid='', JMethodSig 2, JLit '' '', JHex 2]]),
   (''CallStaticLongMethodV'',
      JHandler [JClassName 1, JMethodSig 2]
        [[JLit ''clazz='', JClassName 1, JLit '' '', JHex 1],
         [JLit ''mid='', JMethodSig 2, JLit '' '', JHex 2]]),
   (''CallStaticLongMethodA'',
      JHandler [JClassName 1, JMethodSig 2]
        [[JLit ''clazz='', JClassName 1, JLit '' '', JHex 1],
         [JLit ''mid='', JMethodSig 2, JLit '' '', JHex 2]]),
   (''CallStaticFloatMethod'',
      JHandler [JClassName 1, JMethodSig 2]
        [[JLit ''clazz='', JClassName 1, JLit '' '', JHex 1],
         [JLit ''mid='', JMethodSig 2, JLit '' '', JHex 2]]),
   (''CallStaticFloatMethodV'',
      JHandler [JClassName 1, JMethodSig 2]
        [[JLit ''clazz='', JClassName 1, JLit '' '', JHex 1],
         [JLit ''mid='', JMethodSig 2, JLit '' '', JHex 2]]),
   (''CallStaticFloatMethodA'',
      JHandler [JClassName 1, JMethodSig 2]
        [[JLit ''clazz='', JClassName 1, JLit '' '', JHex 1],
         [JLit ''mid='', JMethodSig 2, JLit '' '', JHex 2]]),
   (''CallStaticDoubleMethod'',
      JHandler [JClassName 1, JMethodSig 2]
        [[JLit ''clazz='', JClassName 1, JLit '' '', JHex 1],
         [JLit ''mid='', JMethodSig 2, JLit '' '', JHex 2]]),
   (''CallStaticDoubleMethodV'',
      JHandler [JClassName 1, JMethodSig 2]
        [[JLit ''clazz='', JClassName 1, JLit '' '', JHex 1],
         [JLit ''mid='', JMethodSig 2, JLit '' '', JHex 2]]),
   (''CallStaticDoubleMethodA'',
      JHandler [JClassName 1, JMethodSig 2]
        [[JLit ''clazz='', JClassName 1, JLit '' '', JHex 1],
         [JLit ''mid='', JMethodSig 2, JLit '' '', JHex 2]]),
   (''CallStaticVoidMethod'',
      JHandler [JClassName 1, JMethodSig 2]
        [[JLit ''clazz='', JClassName 1, JLit '' '', JHex 1],
         [JLit ''mid='', JMethodSig 2, JLit '' '', JHex 2]]),
   (''CallStaticVoidMethodV'',
      JHandler [JClassName 1, JMethodSig 2]
        [[JLit ''clazz='', JClassName 1, JLit '' '', JHex 1],
         [JLit ''mid='', JMethodSig 2, JLit '' '', JHex 2]]),
   (''CallStaticVoidMethodA'',
      JHandler [JClassName 1, JMethodSig 2]
        [[JLit ''clazz='', JClassName 1, JLit '' '', JHex 1],
         [JLit ''mid='', JMethodSig 2, JLit '' '', JHex 2]]),
   (''GetStaticFieldID'',
      JHandler [JClassName 1]
        [[JLit ''java_class='', JClassName 1, JLit '' '', JHex 1], [JLit ''name='', JCStr 2],
         [JLit ''sig='', JCStr 3]]),
   (''GetStaticObjectField'',
      JHandler [JClassName 1, JFieldSig 2]
        [[JLit ''clazz='', JClassName 1, JLit '' '', JHex 1],
         [JLit ''fid='', JFieldSig 2, JLit '' '', JHex 2]]),
   (''GetStaticBooleanField'',
      JHandler [JClassName 1, JFieldSig 2]
        [[JLit ''clazz='', JClassName 1, JLit '' '', JHex 1],
         [JLit ''fid='', JFieldSig 2, JLit '' '', JHex 2]]),
   (''GetStaticByteField'',
      JHandler [JClassName 1, JFieldSig 2]
        [[JLit ''clazz='', JClassName 1, JLit '' '', JHex 1],
         [JLit ''fid='', JFieldSig 2, JLit '' '', JHex 2]]),
   (''GetStaticCharField'',
      JHandler [JClassName 1, JFieldSig 2]
        [[JLit ''clazz='', JClassName 1, JLit '' '', JHex 1],
         [JLit ''fid='', JFieldSig 2, JLit '' '', JHex 2]]),
   (''GetStaticShortField'',
      JHandler [JClassName 1, JFieldSig 2]
        [[JLit ''clazz='', JClassName 1, JLit '' '', JHex 1],
         [JLit ''fid='', JFieldSig 2, JLit '' '', JHex 2]]),
   (''GetStaticIntField'',
      JHandler [JClassName 1, JFieldSig 2]
        [[JLit ''clazz='', JClassName 1, JLit '' '', JHex 1],
         [JLit ''fid='', JFieldSig 2, JLit '' '', JHex 2]]),
   (''GetStaticLongField'',
      JHandler [JClassName 1, JFieldSig 2]
        [[JLit ''clazz='', JClassName 1, JLit '' '', JHex 1],
         [JLit ''fid='', JFieldSig 2, JLit '' '', JHex 2]]),
   (''GetStaticFloatField'',
      JHandler [JClassName 1, JFieldSig 2]
        [[JLit ''clazz='', JClassName 1, JLit '' '', JHex 1],
         [JLit ''fid='', JFieldSig 2, JLit '' '', JHex 2]]),
   (''GetStaticDoubleField'',
      JHandler [JClassName 1, JFieldSig 2]
        [[JLit ''clazz='', JClassName 1, JLit '' '', JHex 1],
         [JLit ''fid='', JFieldSig 2, JLit '' '', JHex 2]]),
   (''SetStaticObjectField'',
      JHandler [JClassName 1, JFieldSig 2, JToString 3]
        [[JLit ''clazz='', JClassName 1, JLit '' '', JHex 1],
         [JLit ''fid='', JFieldSig 2, JLit '' '', JHex 2],
         [JLit ''value='', JToString 3, JLit '' '', JHex 3]])]"

definition jni_handlers_6 :: "(string \<times> jni_handler) list" where
  "jni_handlers_6 = [
   (''SetStaticBooleanField'',
      JHandler [JClassName 1, JFieldSig 2]
        [[JLit ''clazz='', JClassName 1, JLit '' '', JHex 1],
         [JLit ''fid='', JFieldSig 2, JLit '' '', JHex 2], [JLit ''value='', JBool 3 8]]),
   (''SetStaticByteField'',
      JHandler [JClassName 1, JFieldSig 2]
        [[JLit ''clazz='', JClassName 1, JLit '' '', JHex 1],
         [JLit ''fid='', JFieldSig 2, JLit '' '', JHex 2], [JLit ''value='', JSigned 3 8]]),
   (''SetStaticCharField'',
      JHandler [JClassName 1, JFieldSig 2]
        [[JLit ''clazz='', JClassName 1, JLit '' '', JHex 1],
         [JLit ''fid='', JFieldSig 2, JLit '' '', JHex 2], [JLit ''value='', JUnsigned 3 16]]),
   (''SetStaticShortField'',
      JHandler [JClassName 1, JFieldSig 2]
        [[JLit ''clazz='', JClassName 1, JLit '' '', JHex 1],
         [JLit ''fid='', JFieldSig 2, JLit '' '', JHex 2], [JLit ''value='', JSigned 3 16]]),
   (''SetStaticIntField'',
      JHandler [JClassName 1, JFieldSig 2]
        [[JLit ''clazz='', JClassName 1, JLit '' '', JHex 1],
         [JLit ''fid='', JFieldSig 2, JLit '' '', JHex 2], [JLit ''value='', JSigned 3 32]]),
   (''SetStaticLongField'',
      JHandler [JClassName 1, JFieldSig 2]
        [[JLit ''clazz='', JClassName 1, JLit '' '', JHex 1],
         [JLit ''fid='', JFieldSig 2, JLit '' '', JHex 2], [JLit ''value='', JSigned 3 64]]),
   (''SetStaticFloatField'',
      JHandler [JClassName 1, JFieldSig 2]
        [[JLit ''clazz='', JClassName 1, JLit '' '', JHex 1],
         [JLit ''fid='', JFieldSig 2, JLit '' '', JHex 2], [JLit ''value='', JFloat 3]]),
   (''SetStaticDoubleField'',
      JHandler [JClassName 1, JFieldSig 2]
        [[JLit ''clazz='', JClassName 1, JLit '' '', JHex 1],
         [JLit ''fid='', JFieldSig 2, JLit '' '', JHex 2], [JLit ''value='', JDouble 3]]),
   (''NewString'',
      JHandler [JReadChars 1 2]
        [[JLit ''str='', JPtrHex 1], [JLit ''str_len='', JSigned 2 32]]),
   (''GetStringLength'',
      JHandler [JStringLength 1]
        [[JLit ''str='', JHex 1], [JLit ''len='', JStringLength 1]]),
   (''GetStringChars'',
      JHandler [JStringLength 1]
        [[JLit ''str='', JHex 1], [JLit ''copy='', JUnsigned 2 8]]),
   (''ReleaseStringChars'',
      JHandler []
        [[JLit ''str='', JHex 1], [JLit ''chars='', JDec 2]])]"

definition jni_handlers_7 :: "(string \<times> jni_handler) list" where
  "jni_handlers_7 = [
   (''NewStringUTF'',
      JHandler []
        [[JLit ''str='', JCStr 1]]),
   (''GetStringUTFLength'',
      JHandler [JStringUTFLength 1]
        [[JLit ''str='', JHex 1], [JLit ''len='', JStringUTFLength 1]]),
   (''ReleaseStringUTFChars'',
      JHandler []
        [[JLit ''str='', JHex 1], [JLit ''chars='', JCStr 2]]),
   (''GetArrayLength'',
      JHandler [JArrayLength 1]
        [[JLit ''array='', JHex 1], [JLit ''len='', JArrayLength 1]]),
   (''NewObjectArray'',
      JHandler [JClassName 2]
        [[JLit ''len='', JSigned 1 32], [JLit ''elementClass='', JClassName 2],
         [JLit ''initialElement='', JHex 3]]),
   (''GetObjectArrayElement'',
      JHandler []
        [[JLit ''array='', JHex 1], [JLit ''index='', JSigned 2 32]]),
   (''SetObjectArrayElement'',
      JHandler [JToString 3]
        [[JLit ''array='', JHex 1], [JLit ''index='', JSigned 2 32], [JLit ''val='', JToString 3]]),
   (''NewBooleanArray'',
      JHandler []
        [[JLit ''len='', JSigned 1 32]]),
   (''NewByteArray'',
      JHandler []
        [[JLit ''len='', JSigned 1 32]]),
   (''NewCharArray'',
      JHandler []
        [[JLit ''len='', JSigned 1 32]]),
   (''NewShortArray'',
      JHandler []
        [[JLit ''len='', JSigned 1 32]]),
   (''NewIntArray'',
      JHandler []
        [[JLit ''len='', JSigned 1 32]]),
   (''NewLongArray'',
      JHandler []
        [[JLit ''len='', JSigned 1 32]]),
   (''NewFloatArray'',
      JHandler []
        [[JLit ''len='', JSigned 1 32]]),
   (''NewDoubleArray'',
      JHandler []
        [[JLit ''len='', JSigned 1 32]]),
   (''GetBooleanArrayElements'',
      JHandler []
        [[JLit ''array='', JHex 1], [JLit ''isCopy='', JBool 2 64]]),
   (''GetByteArrayElements'',
      JHandler []
        [[JLit ''array='', JHex 1], [JLit ''isCopy='', JBool 2 64]]),
   (''GetCharArrayElements'',
      JHandler []
        [[JLit ''array='', JHex 1], [JLit ''isCopy='', JBool 2 64]]),
   (''GetShortArrayElements'',
      JHandler []
        [[JLit ''array='', JHex 1], [JLit ''isCopy='', JBool 2 64]]),
   (''GetIntArrayElements'',
      JHandler []
        [[JLit ''array='', JHex 1], [JLit ''isCopy='', JBool 2 64]]),
   (''GetLongArrayElements'',
      JHandler []
        [[JLit ''array='', JHex 1], [JLit ''isCopy='', JBool 2 64]]),
   (''GetFloatArrayElements'',
      JHandler []
        [[JLit ''array='', JHex 1], [JLit ''isCopy='', JBool 2 64]]),
   (''GetDoubleArrayElements'',
      JHandler []
        [[JLit ''array='', JHex 1], [JLit ''isCopy='', JBool 2 64]]),
   (''ReleaseBooleanArrayElements'',
      JHandler []
        [[JLit ''array='', JHex 1], [JLit ''elems='', JHex 2], [JLit ''mode='', JSigned 3 32]])]"

definition jni_handlers_8 :: "(string \<times> jni_handler) list" where
  "jni_handlers_8 = [
   (''ReleaseByteArrayElements'',
      JHandler []
        [[JLit ''array='', JHex 1], [JLit ''elems='', JHex 2], [JLit ''mode='', JSigned 3 32]]),
   (''ReleaseCharArrayElements'',
      JHandler []
        [[JLit ''array='', JHex 1], [JLit ''elems='', JHex 2], [JLit ''mode='', JSigned 3 32]]),
   (''ReleaseShortArrayElements'',
      JHandler []
        [[JLit ''array='', JHex 1]]),
   (''ReleaseIntArrayElements'',
      JHandler []
        [[JLit ''array='', JHex 1], [JLit ''elems='', JHex 2], [JLit ''mode='', JSigned 3 32]]),
   (''ReleaseLongArrayElements'',
      JHandler []
        [[JLit ''array='', JHex 1], [JLit ''elems='', JHex 2], [JLit ''mode='', JSigned 3 32]]),
   (''ReleaseFloatArrayElements'',
      JHandler []
        [[JLit ''array='', JHex 1], [JLit ''elems='', JHex 2], [JLit ''mode='', JSigned 3 32]]),
   (''ReleaseDoubleArrayElements'',
      JHandler []
        [[JLit ''array='', JHex 1], [JLit ''elems='', JHex 2], [JLit ''mode='', JSigned 3 32]]),
   (''GetByteArrayRegion'',
      JHandler []
        [[JLit ''array='', JHex 1], [JLit ''start='', JSigned 2 32], [JLit ''len='', JSigned 3 32],
         [JLit ''buf='', JHex 4]]),
   (''GetBooleanArrayRegion'',
      JHandler []
        [[JLit ''array='', JHex 1], [JLit ''start='', JSigned 2 32], [JLit ''len='', JSigned 3 32],
         [JLit ''buf='', JHex 4]]),
   (''GetCharArrayRegion'',
      JHandler []
        [[JLit ''array='', JHex 1], [JLit ''start='', JSigned 2 32], [JLit ''len='', JSigned 3 32],
         [JLit ''buf='', JHex 4]]),
   (''GetShortArrayRegion'',
      JHandler []
        [[JLit ''array='', JHex 1], [JLit ''start='', JSigned 2 32], [JLit ''len='', JSigned 3 32],
         [JLit ''buf='', JHex 4]]),
   (''GetIntArrayRegion'',
      JHandler []
        [[JLit ''array='', JHex 1], [JLit ''start='', JSigned 2 32], [JLit ''len='', JSigned 3 32],
         [JLit ''buf='', JHex 4]])]"

definition jni_handlers_9 :: "(string \<times> jni_handler) list" where
  "jni_handlers_9 = [
   (''GetLongArrayRegion'',
      JHandler []
        [[JLit ''array='', JHex 1], [JLit ''start='', JSigned 2 32], [JLit ''len='', JSigned 3 32],
         [JLit ''buf='', JHex 4]]),
   (''GetFloatArrayRegion'',
      JHandler []
        [[JLit ''array='', JHex 1], [JLit ''start='', JSigned 2 32], [JLit ''len='', JSigned 3 32],
         [JLit ''buf='', JHex 4]]),
   (''GetDoubleArrayRegion'',
      JHandler []
        [[JLit ''array='', JHex 1], [JLit ''start='', JSigned 2 32], [JLit ''len='', JSigned 3 32],
         [JLit ''buf='', JHex 4]]),
   (''SetBooleanArrayRegion'',
      JHandler []
        [[JLit ''array='', JHex 1], [JLit ''start='', JSigned 2 32], [JLit ''len='', JSigned 3 32],
         [JLit ''buf='', JHex 4]]),
   (''SetByteArrayRegion'',
      JHandler []
        [[JLit ''array='', JHex 1], [JLit ''start='', JSigned 2 32], [JLit ''len='', JSigned 3 32],
         [JLit ''buf='', JHex 4]]),
   (''SetCharArrayRegion'',
      JHandler []
        [[JLit ''array='', JHex 1], [JLit ''start='', JSigned 2 32], [JLit ''len='', JSigned 3 32],
         [JLit ''buf='', JHex 4]]),
   (''SetShortArrayRegion'',
      JHandler []
        [[JLit ''array='', JHex 1], [JLit ''start='', JSigned 2 32], [JLit ''len='', JSigned 3 32],
         [JLit ''buf='', JHex 4]]),
   (''SetIntArrayRegion'',
      JHandler []
        [[JLit ''array='', JHex 1], [JLit ''start='', JSigned 2 32], [JLit ''len='', JSigned 3 32],
         [JLit ''buf='', JHex 4]]),
   (''SetLongArrayRegion'',
      JHandler []
        [[JLit ''array='', JHex 1], [JLit ''start='', JSigned 2 32], [JLit ''len='', JSigned 3 32],
         [JLit ''buf='', JHex 4]]),
   (''SetFloatArrayRegion'',
      JHandler []
        [[JLit ''array='', JHex 1], [JLit ''start='', JSigned 2 32], [JLit ''len='', JSigned 3 32],
         [JLit ''buf='', JHex 4]]),
   (''SetDoubleArrayRegion'',
      JHandler []
        [[JLit ''array='', JHex 1], [JLit ''start='', JSigned 2 32], [JLit ''len='', JSigned 3 32],
         [JLit ''buf='', JHex 4]])]"

definition jni_handlers_10 :: "(string \<times> jni_handler) list" where
  "jni_handlers_10 = [
   (''RegisterNatives'', JRegisterNatives),
   (''UnregisterNatives'',
      JHandler [JClassName 1]
        [[JLit ''clazz='', JClassName 1]])]"

definition jni_handlers :: "(string \<times> jni_handler) list" where
  "jni_handlers =
     jni_handlers_1 @ jni_handlers_2 @ jni_handlers_3 @ jni_handlers_4 @ jni_handlers_5 @ jni_handlers_6 @ jni_handlers_7 @ jni_handlers_8 @ jni_handlers_9 @ jni_handlers_10"

text \<open>The names that \<^verbatim>\<open>arg_handlers_\<close> maps to the function of that name.\<close>

definition arg_handlers_1 :: "string list" where
  "arg_handlers_1 =
     [''FindClass'', ''FromReflectedMethod'', ''FromReflectedField'', ''ToReflectedField'',
      ''ToReflectedMethod'', ''GetObjectClass'', ''GetSuperclass'', ''IsAssignableFrom'',
      ''Throw'', ''ThrowNew'', ''PushLocalFrame'', ''PopLocalFrame'', ''NewGlobalRef'',
      ''DeleteGlobalRef'', ''DeleteLocalRef'', ''IsSameObject'', ''NewLocalRef'',
      ''EnsureLocalCapacity'', ''AllocObject'', ''NewObject'', ''NewObjectV'', ''NewObjectA'',
      ''IsInstanceOf'', ''GetMethodID'', ''CallObjectMethod'', ''CallObjectMethodV'',
      ''CallObjectMethodA'', ''CallBooleanMethod'', ''CallBooleanMethodV'', ''CallBooleanMethodA'',
      ''CallByteMethod'', ''CallByteMethodV'', ''CallByteMethodA'', ''CallCharMethod'',
      ''CallCharMethodV'', ''CallCharMethodA'', ''CallShortMethod'', ''CallShortMethodV'',
      ''CallShortMethodA'', ''CallIntMethod'', ''CallIntMethodV'', ''CallIntMethodA'',
      ''CallLongMethod'', ''CallLongMethodV'', ''CallLongMethodA'', ''CallFloatMethod'',
      ''CallFloatMethodV'', ''CallFloatMethodA'', ''CallDoubleMethod'', ''CallDoubleMethodV'',
      ''CallDoubleMethodA'', ''CallVoidMethod'', ''CallVoidMethodV'', ''CallVoidMethodA'',
      ''CallNonvirtualObjectMethod'', ''CallNonvirtualObjectMethodV'',
      ''CallNonvirtualObjectMethodA'', ''CallNonvirtualBooleanMethod'',
      ''CallNonvirtualBooleanMethodV'', ''CallNonvirtualBooleanMethodA'',
      ''CallNonvirtualByteMethod'', ''CallNonvirtualByteMethodV'', ''CallNonvirtualByteMethodA'',
      ''CallNonvirtualCharMethod'', ''CallNonvirtualCharMethodV'', ''CallNonvirtualCharMethodA'',
      ''CallNonvirtualShortMethod'', ''CallNonvirtualShortMethodV'',
      ''CallNonvirtualShortMethodA'', ''CallNonvirtualIntMethod'', ''CallNonvirtualIntMethodV'',
      ''CallNonvirtualIntMethodA'', ''CallNonvirtualLongMethod'', ''CallNonvirtualLongMethodV'',
      ''CallNonvirtualLongMethodA'', ''CallNonvirtualFloatMethod'', ''CallNonvirtualFloatMethodV'',
      ''CallNonvirtualFloatMethodA'', ''CallNonvirtualDoubleMethod'',
      ''CallNonvirtualDoubleMethodV'', ''CallNonvirtualDoubleMethodA'',
      ''CallNonvirtualVoidMethod'', ''CallNonvirtualVoidMethodV'', ''CallNonvirtualVoidMethodA'',
      ''GetFieldID'', ''GetObjectField'', ''GetBooleanField'', ''GetByteField'', ''GetCharField'',
      ''GetShortField'', ''GetIntField'', ''GetLongField'', ''GetFloatField'', ''GetDoubleField'',
      ''SetObjectField'', ''SetBooleanField'', ''SetByteField'', ''SetCharField'',
      ''SetShortField'', ''SetIntField'', ''SetLongField'', ''SetFloatField'', ''SetDoubleField'',
      ''GetStaticMethodID'', ''CallStaticObjectMethod'', ''CallStaticObjectMethodV'',
      ''CallStaticObjectMethodA'', ''CallStaticBooleanMethod'', ''CallStaticBooleanMethodV'',
      ''CallStaticBooleanMethodA'', ''CallStaticByteMethod'', ''CallStaticByteMethodV'',
      ''CallStaticByteMethodA'', ''CallStaticCharMethod'', ''CallStaticCharMethodV'',
      ''CallStaticCharMethodA'', ''CallStaticShortMethod'', ''CallStaticShortMethodV'',
      ''CallStaticShortMethodA'', ''CallStaticIntMethod'', ''CallStaticIntMethodV'',
      ''CallStaticIntMethodA'', ''CallStaticLongMethod'', ''CallStaticLongMethodV'',
      ''CallStaticLongMethodA'', ''CallStaticFloatMethod'', ''CallStaticFloatMethodV'',
      ''CallStaticFloatMethodA'', ''CallStaticDoubleMethod'', ''CallStaticDoubleMethodV'',
      ''CallStaticDoubleMethodA'', ''CallStaticVoidMethod'', ''CallStaticVoidMethodV'',
      ''CallStaticVoidMethodA'', ''GetStaticFieldID'', ''GetStaticObjectField'',
      ''GetStaticBooleanField'', ''GetStaticByteField'', ''GetStaticCharField'',
      ''GetStaticShortField'', ''GetStaticIntField'', ''GetStaticLongField'',
      ''GetStaticFloatField'', ''GetStaticDoubleField'', ''SetStaticObjectField'',
      ''SetStaticBooleanField'', ''SetStaticByteField'', ''SetStaticCharField'',
      ''SetStaticShortField'', ''SetStaticIntField'']"

definition arg_handlers_2 :: "string list" where
  "arg_handlers_2 =
     [''SetStaticLongField'', ''SetStaticFloatField'', ''SetStaticDoubleField'', ''NewString'',
      ''GetStringLength'', ''GetStringChars'', ''ReleaseStringChars'', ''NewStringUTF'',
      ''GetStringUTFLength'', ''ReleaseStringUTFChars'', ''GetArrayLength'', ''NewObjectArray'',
      ''GetObjectArrayElement'', ''SetObjectArrayElement'', ''NewBooleanArray'', ''NewByteArray'',
      ''NewCharArray'', ''NewShortArray'', ''NewIntArray'', ''NewLongArray'', ''NewFloatArray'',
      ''NewDoubleArray'', ''GetBooleanArrayElements'', ''GetByteArrayElements'',
      ''GetCharArrayElements'', ''GetShortArrayElements'', ''GetIntArrayElements'',
      ''GetLongArrayElements'', ''GetFloatArrayElements'', ''GetDoubleArrayElements'',
      ''ReleaseBooleanArrayElements'', ''ReleaseByteArrayElements'', ''ReleaseCharArrayElements'',
      ''ReleaseShortArrayElements'', ''ReleaseIntArrayElements'', ''ReleaseLongArrayElements'',
      ''ReleaseFloatArrayElements'', ''ReleaseDoubleArrayElements'', ''GetBooleanArrayRegion'',
      ''GetByteArrayRegion'', ''GetCharArrayRegion'', ''GetShortArrayRegion'',
      ''GetIntArrayRegion'', ''GetLongArrayRegion'', ''GetFloatArrayRegion'',
      ''GetDoubleArrayRegion'', ''SetBooleanArrayRegion'', ''SetByteArrayRegion'',
      ''SetCharArrayRegion'', ''SetShortArrayRegion'', ''SetIntArrayRegion'',
      ''SetLongArrayRegion'', ''SetFloatArrayRegion'', ''SetDoubleArrayRegion'',
      ''RegisterNatives'', ''UnregisterNatives'']"

definition arg_handlers :: "string list" where
  "arg_handlers = arg_handlers_1 @ arg_handlers_2"

definition env_fun_names_1 :: "string list" where
  "env_fun_names_1 =
     [''GetVersion'', ''DefineClass'', ''FindClass'', ''FromReflectedMethod'',
      ''FromReflectedField'', ''ToReflectedMethod'', ''GetSuperclass'', ''IsAssignableFrom'',
      ''ToReflectedField'', ''Throw'', ''ThrowNew'', ''ExceptionOccurred'', ''ExceptionDescribe'',
      ''ExceptionClear'', ''FatalError'', ''PushLocalFrame'', ''PopLocalFrame'', ''NewGlobalRef'',
      ''DeleteGlobalRef'', ''DeleteLocalRef'', ''IsSameObject'', ''NewLocalRef'',
      ''EnsureLocalCapacity'', ''AllocObject'', ''NewObject'', ''NewObjectV'', ''NewObjectA'',
      ''GetObjectClass'', ''IsInstanceOf'', ''GetMethodID'', ''CallObjectMethod'',
      ''CallObjectMethodV'', ''CallObjectMethodA'', ''CallBooleanMethod'', ''CallBooleanMethodV'',
      ''CallBooleanMethodA'', ''CallByteMethod'', ''CallByteMethodV'', ''CallByteMethodA'',
      ''CallCharMethod'', ''CallCharMethodV'', ''CallCharMethodA'', ''CallShortMethod'',
      ''CallShortMethodV'', ''CallShortMethodA'', ''CallIntMethod'', ''CallIntMethodV'',
      ''CallIntMethodA'', ''CallLongMethod'', ''CallLongMethodV'', ''CallLongMethodA'',
      ''CallFloatMethod'', ''CallFloatMethodV'', ''CallFloatMethodA'', ''CallDoubleMethod'',
      ''CallDoubleMethodV'', ''CallDoubleMethodA'', ''CallVoidMethod'', ''CallVoidMethodV'',
      ''CallVoidMethodA'', ''CallNonvirtualObjectMethod'', ''CallNonvirtualObjectMethodV'',
      ''CallNonvirtualObjectMethodA'', ''CallNonvirtualBooleanMethod'',
      ''CallNonvirtualBooleanMethodV'', ''CallNonvirtualBooleanMethodA'',
      ''CallNonvirtualByteMethod'', ''CallNonvirtualByteMethodV'', ''CallNonvirtualByteMethodA'',
      ''CallNonvirtualCharMethod'', ''CallNonvirtualCharMethodV'', ''CallNonvirtualCharMethodA'',
      ''CallNonvirtualShortMethod'', ''CallNonvirtualShortMethodV'',
      ''CallNonvirtualShortMethodA'', ''CallNonvirtualIntMethod'', ''CallNonvirtualIntMethodV'',
      ''CallNonvirtualIntMethodA'', ''CallNonvirtualLongMethod'', ''CallNonvirtualLongMethodV'',
      ''CallNonvirtualLongMethodA'', ''CallNonvirtualFloatMethod'', ''CallNonvirtualFloatMethodV'',
      ''CallNonvirtualFloatMethodA'', ''CallNonvirtualDoubleMethod'',
      ''CallNonvirtualDoubleMethodV'', ''CallNonvirtualDoubleMethodA'',
      ''CallNonvirtualVoidMethod'', ''CallNonvirtualVoidMethodV'', ''CallNonvirtualVoidMethodA'',
      ''GetFieldID'', ''GetObjectField'', ''GetBooleanField'', ''GetByteField'', ''GetCharField'',
      ''GetShortField'', ''GetIntField'', ''GetLongField'', ''GetFloatField'', ''GetDoubleField'',
      ''SetObjectField'', ''SetBooleanField'', ''SetByteField'', ''SetCharField'',
      ''SetShortField'', ''SetIntField'', ''SetLongField'', ''SetFloatField'', ''SetDoubleField'',
      ''GetStaticMethodID'', ''CallStaticObjectMethod'', ''CallStaticObjectMethodV'',
      ''CallStaticObjectMethodA'', ''CallStaticBooleanMethod'', ''CallStaticBooleanMethodV'',
      ''CallStaticBooleanMethodA'', ''CallStaticByteMethod'', ''CallStaticByteMethodV'',
      ''CallStaticByteMethodA'', ''CallStaticCharMethod'', ''CallStaticCharMethodV'',
      ''CallStaticCharMethodA'', ''CallStaticShortMethod'', ''CallStaticShortMethodV'',
      ''CallStaticShortMethodA'', ''CallStaticIntMethod'', ''CallStaticIntMethodV'',
      ''CallStaticIntMethodA'', ''CallStaticLongMethod'', ''CallStaticLongMethodV'',
      ''CallStaticLongMethodA'', ''CallStaticFloatMethod'', ''CallStaticFloatMethodV'',
      ''CallStaticFloatMethodA'', ''CallStaticDoubleMethod'', ''CallStaticDoubleMethodV'',
      ''CallStaticDoubleMethodA'', ''CallStaticVoidMethod'', ''CallStaticVoidMethodV'',
      ''CallStaticVoidMethodA'', ''GetStaticFieldID'', ''GetStaticObjectField'',
      ''GetStaticBooleanField'', ''GetStaticByteField'', ''GetStaticCharField'',
      ''GetStaticShortField'', ''GetStaticIntField'', ''GetStaticLongField'',
      ''GetStaticFloatField'', ''GetStaticDoubleField'']"

definition env_fun_names_2 :: "string list" where
  "env_fun_names_2 =
     [''SetStaticObjectField'', ''SetStaticBooleanField'', ''SetStaticByteField'',
      ''SetStaticCharField'', ''SetStaticShortField'', ''SetStaticIntField'',
      ''SetStaticLongField'', ''SetStaticFloatField'', ''SetStaticDoubleField'', ''NewString'',
      ''GetStringLength'', ''GetStringChars'', ''ReleaseStringChars'', ''NewStringUTF'',
      ''GetStringUTFLength'', ''GetStringUTFChars'', ''ReleaseStringUTFChars'', ''GetArrayLength'',
      ''NewObjectArray'', ''GetObjectArrayElement'', ''SetObjectArrayElement'',
      ''NewBooleanArray'', ''NewByteArray'', ''NewCharArray'', ''NewShortArray'', ''NewIntArray'',
      ''NewLongArray'', ''NewFloatArray'', ''NewDoubleArray'', ''GetBooleanArrayElements'',
      ''ReleaseBooleanArrayElements'', ''GetByteArrayElements'', ''ReleaseByteArrayElements'',
      ''GetCharArrayElements'', ''ReleaseCharArrayElements'', ''GetShortArrayElements'',
      ''ReleaseShortArrayElements'', ''GetIntArrayElements'', ''ReleaseIntArrayElements'',
      ''GetLongArrayElements'', ''ReleaseLongArrayElements'', ''GetFloatArrayElements'',
      ''ReleaseFloatArrayElements'', ''GetDoubleArrayElements'', ''ReleaseDoubleArrayElements'',
      ''GetBooleanArrayRegion'', ''SetBooleanArrayRegion'', ''GetByteArrayRegion'',
      ''SetByteArrayRegion'', ''GetCharArrayRegion'', ''SetCharArrayRegion'',
      ''GetShortArrayRegion'', ''SetShortArrayRegion'', ''GetIntArrayRegion'',
      ''SetIntArrayRegion'', ''GetLongArrayRegion'', ''SetLongArrayRegion'',
      ''GetFloatArrayRegion'', ''SetFloatArrayRegion'', ''GetDoubleArrayRegion'',
      ''SetDoubleArrayRegion'', ''RegisterNatives'', ''UnregisterNatives'', ''MonitorEnter'',
      ''MonitorExit'', ''GetJavaVM'', ''GetStringRegion'', ''GetStringUTFRegion'',
      ''GetPrimitiveArrayCritical'', ''ReleasePrimitiveArrayCritical'', ''GetStringCritical'',
      ''ReleaseStringCritical'', ''NewWeakGlobalRef'', ''DeleteWeakGlobalRef'', ''ExceptionCheck'',
      ''NewDirectByteBuffer'', ''GetDirectBufferAddress'', ''GetDirectBufferCapacity'',
      ''GetObjectRefType'']"

definition env_fun_names :: "string list" where
  "env_fun_names = env_fun_names_1 @ env_fun_names_2"

lemmas jni_handlers_defs =
  jni_handlers_def jni_handlers_1_def jni_handlers_2_def jni_handlers_3_def jni_handlers_4_def jni_handlers_5_def jni_handlers_6_def jni_handlers_7_def jni_handlers_8_def jni_handlers_9_def jni_handlers_10_def

end
