(* ===== verification/Libc_Table.thy ===== *)
theory Libc_Table
  imports Dispatch_Base
begin

text \<open>
  The handlers that the constructor of \<^verbatim>\<open>DispatchLibc\<close> registers
  (\<^verbatim>\<open>dispatch_libc.cpp\<close>, from line 28): the symbol and the statements of its handler, in
  the order of registration.
\<close>

definition libc_rows_1 :: "(string \<times> action list) list" where
  "libc_rows_1 = [
   (''strlen'',
      [PushStr ''s='' 0, SetRet kNumber]),
   (''__strlen_chk'',
      [PushStr ''s='' 0, PushDec ''len='' 1, SetRet kNumber]),
   (''memccpy'',
      [PushHex ''dest='' 0, PushHex ''src='' 1, PushHex ''c='' 2, PushHex ''n='' 3,
       SetRet kPointer]),
   (''memchr'',
      [PushHex ''s='' 0, PushHex ''c='' 1, PushHex ''n='' 2, SetRet kPointer]),
   (''memcpy'',
      [PushHex ''dest='' 0, PushHex ''src='' 1, PushHex ''n='' 2, SetRet kPointer]),
   (''memcmp'',
      [PushHex ''s1='' 0, PushHex ''s2='' 1, PushHex ''n='' 2, SetRet kNumber]),
   (''memmove'',
      [PushHex ''dest='' 0, PushHex ''src='' 1, PushHex ''n='' 2, SetRet kPointer]),
   (''memset'',
      [PushHex ''s='' 0, PushHex ''c='' 1, PushHex ''n='' 2, SetRet kPointer]),
   (''memmem'',
      [PushHex ''haystack='' 0, PushHex ''haystacklen='' 1, PushHex ''needle='' 2,
       PushHex ''needlelen='' 3, SetRet kPointer]),
   (''strchr'',
      [PushStr ''s='' 0, PushHex ''c='' 1, SetRet kString]),
   (''__strchr_chk'',
      [PushStr ''s='' 0, PushHex ''c='' 1, PushHex ''n='' 2, SetRet kString]),
   (''strrchr'',
      [PushStr ''s='' 0, PushHex ''c='' 1, SetRet kString]),
   (''__strrchr_chk'',
      [PushStr ''s='' 0, PushHex ''c='' 1, PushHex ''n='' 2, SetRet kString]),
   (''strcmp'',
      [PushStr ''s1='' 0, PushStr ''s2='' 1, SetRet kNumber])]"

definition libc_rows_2 :: "(string \<times> action list) list" where
  "libc_rows_2 = [
   (''stpcpy'',
      [PushStr ''dest='' 0, PushStr ''src='' 1, SetRet kString]),
   (''strcpy'',
      [PushStr ''dest='' 0, PushStr ''src='' 1, SetRet kString]),
   (''strcat'',
      [PushStr ''dest='' 0, PushStr ''src='' 1, SetRet kString]),
   (''strdup'',
      [PushStr ''s='' 0, SetRet kString]),
   (''strstr'',
      [PushStr ''haystack='' 0, PushStr ''needle='' 1, SetRet kString]),
   (''strcasestr'',
      [PushStr ''haystack='' 0, PushStr ''needle='' 1, SetRet kString]),
   (''strncasestr'',
      [PushStr ''haystack='' 0, PushStr ''needle='' 1, PushHex ''len='' 2, SetRet kString]),
   (''strtok'',
      [PushStr ''s='' 0, PushStr ''delim='' 1, SetRet kString]),
   (''strtok_r'',
      [PushStr ''s='' 0, PushStr ''delim='' 1, PushHex ''lasts='' 2, SetRet kString]),
   (''strerror'',
      [PushHex ''errnum='' 0, SetRet kString]),
   (''strerror_r'',
      [PushHex ''errnum='' 0, PushHex ''buf='' 1, PushHex ''buflen='' 2, SetRet kNumber]),
   (''strnlen'',
      [PushStr ''s='' 0, PushHex ''maxlen='' 1, SetRet kNumber]),
   (''strncat'',
      [PushStr ''dest='' 0, PushStr ''src='' 1, PushHex ''maxlen='' 2, SetRet kString]),
   (''strndup'',
      [PushStr ''s='' 0, PushHex ''n='' 1, SetRet kString])]"

definition libc_rows_3 :: "(string \<times> action list) list" where
  "libc_rows_3 = [
   (''strncmp'',
      [PushStr ''s1='' 0, PushStr ''s2='' 1, PushHex ''n='' 2, SetRet kNumber]),
   (''stpncpy'',
      [PushStr ''dest='' 0, PushStr ''src='' 1, PushHex ''n='' 2, SetRet kString]),
   (''strncpy'',
      [PushStr ''dest='' 0, PushStr ''src='' 1, PushHex ''n='' 2, SetRet kString]),
   (''strlcat'',
      [PushStr ''dest='' 0, PushStr ''src='' 1, PushHex ''size='' 2, SetRet kNumber]),
   (''strlcpy'',
      [PushStr ''dest='' 0, PushStr ''src='' 1, PushHex ''size='' 2, SetRet kNumber]),
   (''strcspn'',
      [PushStr ''s='' 0, PushStr ''reject='' 1, SetRet kNumber]),
   (''strpbrk'',
      [PushStr ''s='' 0, PushStr ''accept='' 1, SetRet kString]),
   (''strsep'',
      [PushStr ''stringp='' 0, PushStr ''delim='' 1, SetRet kString]),
   (''strspn'',
      [PushStr ''s='' 0, PushStr ''accept='' 1, SetRet kNumber]),
   (''strsignal'',
      [PushHex ''sig='' 0, SetRet kString]),
   (''strcoll'',
      [PushStr ''s1='' 0, PushStr ''s2='' 1, SetRet kNumber]),
   (''strxfrm'',
      [PushStr ''dest='' 0, PushStr ''src='' 1, PushHex ''n='' 2, SetRet kNumber]),
   (''strcoll_l'',
      [PushStr ''s1='' 0, PushStr ''s2='' 1, PushHex ''l='' 2, SetRet kNumber]),
   (''strcasecmp'',
      [PushStr ''s1='' 0, PushStr ''s2='' 1, SetRet kNumber])]"

definition libc_rows_4 :: "(string \<times> action list) list" where
  "libc_rows_4 = [
   (''strncasecmp'',
      [PushStr ''s1='' 0, PushStr ''s2='' 1, PushHex ''n='' 2, SetRet kNumber]),
   (''malloc'',
      [PushHex ''size='' 0, SetRet kPointer]),
   (''calloc'',
      [PushHex ''nmemb='' 0, PushHex ''size='' 1, SetRet kNumber]),
   (''realloc'',
      [PushHex ''ptr='' 0, PushHex ''size='' 1, SetRet kPointer]),
   (''free'',
      [PushHex ''ptr='' 0, SetRet kVoid]),
   (''memalign'',
      [PushHex ''alignment='' 0, PushHex ''size='' 1, SetRet kPointer]),
   (''abort'',
      [SetRet kVoid]),
   (''exit'',
      [PushHex ''status='' 0, SetRet kVoid]),
   (''_Exit'',
      [PushHex ''status='' 0, SetRet kVoid]),
   (''atexit'',
      [PushHex ''func='' 0, SetRet kNumber]),
   (''at_quick_exit'',
      [PushHex ''func='' 0, SetRet kNumber]),
   (''quick_exit'',
      [PushHex ''status='' 0, SetRet kVoid]),
   (''getenv'',
      [PushStr ''name='' 0, SetRet kString]),
   (''setenv'',
      [PushStr ''name='' 0, PushStr ''value='' 1, PushHex ''replace='' 2, SetRet kNumber]),
   (''putenv'',
      [PushStr ''string='' 0, SetRet kNumber]),
   (''unsetenv'',
      [PushStr ''name='' 0, SetRet kNumber]),
   (''clearenv'',
      [SetRet kNumber]),
   (''mkdtemp'',
      [PushStr ''template='' 0, SetRet kString]),
   (''mktemp'',
      [PushStr ''template='' 0, SetRet kString])]"

definition libc_rows_5 :: "(string \<times> action list) list" where
  "libc_rows_5 = [
   (''mkstemp64'',
      [PushStr ''template='' 0, SetRet kNumber]),
   (''mkstemp'',
      [PushStr ''template='' 0, SetRet kNumber]),
   (''mkstemps'',
      [PushStr ''template='' 0, PushHex ''suffixlen='' 1, SetRet kNumber]),
   (''strtol'',
      [PushStr ''nptr='' 0, PushHex ''endptr='' 1, PushHex ''base='' 2, SetRet kNumber]),
   (''strtoll'',
      [PushStr ''s='' 0, PushHex ''end_ptr='' 1, PushHex ''base='' 2, SetRet kNumber]),
   (''strtoul'',
      [PushStr ''nptr='' 0, PushHex ''endptr='' 1, PushHex ''base='' 2, SetRet kNumber]),
   (''strtoull'',
      [PushStr ''nptr='' 0, PushHex ''endptr='' 1, PushHex ''base='' 2, SetRet kNumber]),
   (''posix_memalign'',
      [PushHex ''memptr='' 0, PushHex ''alignment='' 1, PushHex ''size='' 2, SetRet kNumber]),
   (''strtod'',
      [PushStr ''nptr='' 0, PushHex ''endptr='' 1, SetRet kNumber]),
   (''strtof'',
      [PushStr ''nptr='' 0, PushHex ''endptr='' 1, SetRet kNumber]),
   (''strtold'',
      [PushStr ''nptr='' 0, PushHex ''endptr='' 1, SetRet kNumber]),
   (''atoi'',
      [PushStr ''nptr='' 0, SetRet kNumber]),
   (''atol'',
      [PushStr ''nptr='' 0, SetRet kNumber]),
   (''atoll'',
      [PushStr ''nptr='' 0, SetRet kNumber]),
   (''realpath'',
      [PushStr ''name='' 0, PushHex ''resolved='' 1, SetRet kString])]"

definition libc_rows_6 :: "(string \<times> action list) list" where
  "libc_rows_6 = [
   (''bsearch'',
      [PushHex ''key='' 0, PushHex ''base='' 1, PushHex ''nmemb='' 2, PushHex ''size='' 3,
       PushHex ''compar='' 4, SetRet kPointer]),
   (''qsort'',
      [PushHex ''base='' 0, PushHex ''nmemb='' 1, PushHex ''size='' 2, PushHex ''compar='' 3,
       SetRet kVoid]),
   (''arc4random'',
      [SetRet kNumber]),
   (''arc4random_uniform'',
      [PushHex ''upper_bound='' 0, SetRet kNumber]),
   (''arc4random_buf'',
      [PushHex ''buf='' 0, PushHex ''nbytes='' 1, SetRet kVoid]),
   (''rand_r'',
      [PushHex ''seed='' 0, SetRet kNumber]),
   (''drand48'',
      [SetRet kNumber]),
   (''erand48'',
      [PushHex ''xsubi='' 0, SetRet kNumber]),
   (''jrand48'',
      [PushHex ''xsubi='' 0, SetRet kNumber]),
   (''lcong48'',
      [PushHex ''param='' 0, SetRet kVoid]),
   (''lrand48'',
      [SetRet kNumber]),
   (''mrand48'',
      [SetRet kNumber]),
   (''nrand48'',
      [PushHex ''xsubi='' 0, SetRet kNumber]),
   (''srand48'',
      [PushHex ''seedval='' 0, SetRet kVoid]),
   (''getprogname'',
      [SetRet kString]),
   (''setprogname'',
      [PushHex ''name='' 0, SetRet kVoid]),
   (''rand'',
      [SetRet kNumber]),
   (''srand'',
      [PushHex ''seed='' 0, SetRet kVoid]),
   (''random'',
      [SetRet kNumber]),
   (''srandom'',
      [PushHex ''seed='' 0, SetRet kVoid])]"

definition libc_rows_7 :: "(string \<times> action list) list" where
  "libc_rows_7 = [
   (''creat'',
      [PushStr ''path='' 0, PushHex ''mode='' 1, SetRet kNumber]),
   (''creat64'',
      [PushStr ''path='' 0, PushHex ''mode='' 1, SetRet kNumber]),
   (''openat'',
      [PushHex ''fd='' 0, PushStr ''path='' 1, PushHex ''oflag='' 2, PushHex ''mode='' 3,
       SetRet kNumber]),
   (''openat64'',
      [PushHex ''fd='' 0, PushStr ''path='' 1, PushHex ''oflag='' 2, PushHex ''mode='' 3,
       SetRet kNumber]),
   (''open'',
      [PushStr ''path='' 0, PushHex ''oflag='' 1, PushHex ''mode='' 2, SetRet kNumber]),
   (''open64'',
      [PushStr ''path='' 0, PushHex ''oflag='' 1, PushHex ''mode='' 2, SetRet kNumber]),
   (''fallocate'',
      [PushHex ''fd='' 0, PushHex ''mode='' 1, PushHex ''offset='' 2, PushHex ''len='' 3,
       SetRet kNumber]),
   (''fallocate64'',
      [PushHex ''fd='' 0, PushHex ''mode='' 1, PushHex ''offset='' 2, PushHex ''len='' 3,
       SetRet kNumber]),
   (''posix_fadvise'',
      [PushHex ''fd='' 0, PushHex ''offset='' 1, PushHex ''len='' 2, PushHex ''advise='' 3,
       SetRet kNumber]),
   (''posix_fadvise64'',
      [PushHex ''fd='' 0, PushHex ''offset='' 1, PushHex ''len='' 2, PushHex ''advise='' 3,
       SetRet kNumber]),
   (''posix_fallocate'',
      [PushHex ''fd='' 0, PushHex ''offset='' 1, PushHex ''len='' 2, SetRet kNumber]),
   (''posix_fallocate64'',
      [PushHex ''fd='' 0, PushHex ''offset='' 1, PushHex ''len='' 2, SetRet kNumber])]"

definition libc_rows_8 :: "(string \<times> action list) list" where
  "libc_rows_8 = [
   (''readahead'',
      [PushHex ''fd='' 0, PushHex ''offset='' 1, PushHex ''count='' 2, SetRet kNumber]),
   (''_exit'',
      [PushHex ''status='' 0, SetRet kNumber]),
   (''fork'',
      [SetRet kNumber]),
   (''getpid'',
      [SetRet kNumber]),
   (''gettid'',
      [SetRet kNumber]),
   (''setpgrp'',
      [SetRet kNumber]),
   (''getpgrp'',
      [SetRet kNumber]),
   (''getppid'',
      [SetRet kNumber]),
   (''getpgid'',
      [PushHex ''pid='' 0, SetRet kNumber]),
   (''setpgid'',
      [PushHex ''pid='' 0, PushHex ''pgid='' 1, SetRet kNumber]),
   (''access'',
      [PushDec ''path='' 0, PushHex ''mode='' 1, SetRet kNumber]),
   (''faccessat'',
      [PushHex ''dirfd='' 0, PushStr ''path='' 1, PushHex ''mode='' 2, PushHex ''flags='' 3,
       SetRet kNumber]),
   (''link'',
      [PushStr ''old_path='' 0, PushStr ''new_path='' 1, SetRet kNumber]),
   (''linkat'',
      [PushHex ''old_dir_fd='' 0, PushStr ''old_path='' 1, PushHex ''new_dir_fd='' 2,
       PushStr ''new_path='' 3, PushHex ''flags='' 4, SetRet kNumber]),
   (''unlink'',
      [PushStr ''path='' 0, SetRet kNumber]),
   (''unlinkat'',
      [PushHex ''dirfd='' 0, PushStr ''path='' 1, PushHex ''flags='' 2, SetRet kNumber]),
   (''chdir'',
      [PushStr ''path='' 0, SetRet kNumber])]"

definition libc_rows_9 :: "(string \<times> action list) list" where
  "libc_rows_9 = [
   (''fchdir'',
      [PushHex ''fd='' 0, SetRet kNumber]),
   (''rmdir'',
      [PushStr ''path='' 0, SetRet kNumber]),
   (''pipe'',
      [PushHex ''fds='' 0, SetRet kNumber]),
   (''pipe2'',
      [PushHex ''fds='' 0, PushHex ''flags='' 1, SetRet kNumber]),
   (''chroot'',
      [PushStr ''path='' 0, SetRet kNumber]),
   (''symlink'',
      [PushStr ''old_path='' 0, PushStr ''new_path='' 1, SetRet kNumber]),
   (''symlinkat'',
      [PushStr ''old_path='' 0, PushHex ''new_dir_fd='' 1, PushStr ''new_path='' 2, SetRet kNumber]),
   (''readlink'',
      [PushStr ''path='' 0, PushHex ''buf='' 1, PushHex ''buf_size='' 2, SetRet kNumber]),
   (''readlinkat'',
      [PushHex ''dir_fd='' 0, PushStr ''path='' 1, PushHex ''buf='' 2, PushHex ''buf_size='' 3,
       SetRet kNumber]),
   (''chown'',
      [PushStr ''path='' 0, PushHex ''owner='' 1, PushHex ''group='' 2, SetRet kNumber]),
   (''fchown'',
      [PushHex ''fd='' 0, PushHex ''owner='' 1, PushHex ''group='' 2, SetRet kNumber]),
   (''fchownat'',
      [PushHex ''dir_fd='' 0, PushStr ''path='' 1, PushHex ''owner='' 2, PushHex ''group='' 3,
       PushHex ''flags='' 4, SetRet kNumber]),
   (''lchown'',
      [PushStr ''path='' 0, PushHex ''owner='' 1, PushHex ''group='' 2, SetRet kNumber]),
   (''getcwd'',
      [PushHex ''buf='' 0, PushHex ''size='' 1, SetRet kString])]"

definition libc_rows_10 :: "(string \<times> action list) list" where
  "libc_rows_10 = [
   (''sync'',
      [SetRet kVoid]),
   (''syncfs'',
      [PushHex ''fd='' 0, SetRet kNumber]),
   (''close'',
      [PushHex ''fd='' 0, SetRet kNumber]),
   (''read'',
      [PushHex ''fd='' 0, PushHex ''buf='' 1, PushHex ''count='' 2, SetRet kNumber]),
   (''write'',
      [PushHex ''fd='' 0, PushHex ''buf='' 1, PushHex ''count='' 2, SetRet kNumber]),
   (''dup'',
      [PushHex ''old_fd='' 0, SetRet kNumber]),
   (''dup2'',
      [PushHex ''old_fd='' 0, PushHex ''new_fd='' 1, SetRet kNumber]),
   (''dup3'',
      [PushHex ''old_fd='' 0, PushHex ''new_fd='' 1, PushHex ''flags='' 2, SetRet kNumber]),
   (''fsync'',
      [PushHex ''fd='' 0, SetRet kNumber]),
   (''fdatasync'',
      [PushHex ''fd='' 0, SetRet kNumber]),
   (''lseek'',
      [PushHex ''fd='' 0, PushHex ''offset='' 1, PushHex ''whence='' 2, SetRet kNumber]),
   (''lseek64'',
      [PushHex ''fd='' 0, PushHex ''offset='' 1, PushHex ''whence='' 2, SetRet kNumber]),
   (''truncate'',
      [PushStr ''path='' 0, PushHex ''length='' 1, SetRet kNumber]),
   (''truncate64'',
      [PushStr ''path='' 0, PushHex ''length='' 1, SetRet kNumber]),
   (''pread'',
      [PushHex ''fd='' 0, PushHex ''buf='' 1, PushHex ''count='' 2, PushHex ''offset='' 3,
       SetRet kNumber]),
   (''pread64'',
      [PushHex ''fd='' 0, PushHex ''buf='' 1, PushHex ''count='' 2, PushHex ''offset='' 3,
       SetRet kNumber])]"

definition libc_rows_11 :: "(string \<times> action list) list" where
  "libc_rows_11 = [
   (''pwrite'',
      [PushHex ''fd='' 0, PushHex ''buf='' 1, PushHex ''count='' 2, PushHex ''offset='' 3,
       SetRet kNumber]),
   (''pwrite64'',
      [PushHex ''fd='' 0, PushHex ''buf='' 1, PushHex ''count='' 2, PushHex ''offset='' 3,
       SetRet kNumber]),
   (''ftruncate'',
      [PushHex ''fd='' 0, PushHex ''length='' 1, SetRet kNumber]),
   (''ftruncate64'',
      [PushHex ''fd='' 0, PushHex ''length='' 1, SetRet kNumber]),
   (''pause'',
      [SetRet kNumber]),
   (''alarm'',
      [PushHex ''seconds='' 0, SetRet kNumber]),
   (''sleep'',
      [PushHex ''seconds='' 0, SetRet kNumber]),
   (''usleep'',
      [PushHex ''microseconds='' 0, SetRet kNumber]),
   (''gethostname'',
      [PushHex ''buf='' 0, PushHex ''buf_size='' 1, SetRet kNumber]),
   (''sethostname'',
      [PushStr ''name='' 0, PushHex ''n='' 1, SetRet kNumber]),
   (''brk'',
      [PushHex ''addr='' 0, SetRet kNumber]),
   (''sbrk'',
      [PushHex ''increment='' 0, SetRet kPointer]),
   (''isatty'',
      [PushHex ''fd='' 0, SetRet kNumber]),
   (''ttyname'',
      [PushHex ''fd='' 0, SetRet kString]),
   (''ttyname_r'',
      [PushHex ''fd='' 0, PushHex ''buf='' 1, PushHex ''buf_size='' 2, SetRet kNumber]),
   (''acct'',
      [PushStr ''path='' 0, SetRet kNumber]),
   (''getpagesize'',
      [SetRet kNumber]),
   (''syscall'',
      [PushHex ''number='' 0, SetRet kNumber])]"

definition libc_rows_12 :: "(string \<times> action list) list" where
  "libc_rows_12 = [
   (''daemon'',
      [PushHex ''no_chdir='' 0, PushHex ''no_close='' 1, SetRet kNumber]),
   (''time'',
      [PushHex ''t='' 0, SetRet kNumber]),
   (''nanosleep'',
      [PushHex ''request='' 0, PushHex ''remainder='' 1, SetRet kNumber]),
   (''asctime'',
      [PushHex ''tm='' 0, SetRet kString]),
   (''asctime_r'',
      [PushHex ''tm='' 0, PushHex ''buf='' 1, SetRet kString]),
   (''difftime'',
      [PushHex ''lhs='' 0, PushHex ''rhs='' 1, SetRet kNumber]),
   (''mktime'',
      [PushHex ''tm='' 0, SetRet kNumber]),
   (''localtime'',
      [PushHex ''t='' 0, SetRet kPointer]),
   (''localtime_r'',
      [PushHex ''t='' 0, PushHex ''tm='' 1, SetRet kPointer]),
   (''gmtime'',
      [PushHex ''t='' 0, SetRet kPointer]),
   (''gmtime_r'',
      [PushHex ''t='' 0, PushHex ''tm='' 1, SetRet kPointer]),
   (''strptime'',
      [PushStr ''s='' 0, PushStr ''fmt='' 1, PushHex ''tm='' 2, SetRet kString]),
   (''strftime'',
      [PushHex ''buf='' 0, PushHex ''n='' 1, PushStr ''fmt='' 2, PushHex ''tm='' 3, SetRet kNumber]),
   (''strftime_l'',
      [PushHex ''buf='' 0, PushHex ''n='' 1, PushStr ''fmt='' 2, PushHex ''tm='' 3,
       PushHex ''l='' 4, SetRet kNumber]),
   (''ctime'',
      [PushHex ''t='' 0, SetRet kString]),
   (''ctime_r'',
      [PushHex ''t='' 0, PushHex ''buf='' 1, SetRet kString]),
   (''tzset'',
      [SetRet kVoid])]"

definition libc_rows_13 :: "(string \<times> action list) list" where
  "libc_rows_13 = [
   (''clock'',
      [SetRet kNumber]),
   (''clock_getcpuclockid'',
      [PushHex ''pid='' 0, PushHex ''clock='' 1, SetRet kNumber]),
   (''clock_getres'',
      [PushHex ''clock='' 0, PushHex ''resolution='' 1, SetRet kNumber]),
   (''clock_gettime'',
      [PushHex ''clock='' 0, PushHex ''ts='' 1, SetRet kNumber]),
   (''clock_nanosleep'',
      [PushHex ''clock='' 0, PushHex ''flags='' 1, PushHex ''request='' 2,
       PushHex ''remainder='' 3, SetRet kNumber]),
   (''clock_settime'',
      [PushHex ''clock='' 0, PushHex ''ts='' 1, SetRet kNumber]),
   (''timer_create'',
      [PushHex ''clock='' 0, PushHex ''event='' 1, PushHex ''timer_ptr='' 2, SetRet kNumber]),
   (''timer_delete'',
      [PushHex ''timer='' 0, SetRet kNumber]),
   (''timer_settime'',
      [PushHex ''timer='' 0, PushHex ''flags='' 1, PushHex ''new_value='' 2,
       PushHex ''old_value='' 3, SetRet kNumber]),
   (''timer_gettime'',
      [PushHex ''timer='' 0, PushHex ''ts='' 1, SetRet kNumber]),
   (''timer_getoverrun'',
      [PushHex ''timer='' 0, SetRet kNumber]),
   (''timelocal'',
      [PushHex ''tm='' 0, SetRet kNumber]),
   (''timegm'',
      [PushHex ''tm='' 0, SetRet kNumber]),
   (''pthread_atfork'',
      [PushHex ''prepare='' 0, PushHex ''parent='' 1, PushHex ''child='' 2, SetRet kNumber]),
   (''pthread_attr_destroy'',
      [PushHex ''attr='' 0, SetRet kNumber]),
   (''pthread_attr_getdetachstate'',
      [PushHex ''attr='' 0, PushHex ''state='' 1, SetRet kNumber])]"

definition libc_rows_14 :: "(string \<times> action list) list" where
  "libc_rows_14 = [
   (''pthread_attr_getguardsize'',
      [PushHex ''attr='' 0, PushHex ''size='' 1, SetRet kNumber]),
   (''pthread_attr_getschedparam'',
      [PushHex ''attr='' 0, PushHex ''param='' 1, SetRet kNumber]),
   (''pthread_attr_getschedpolicy'',
      [PushHex ''attr='' 0, PushHex ''policy='' 1, SetRet kNumber]),
   (''pthread_attr_getscope'',
      [PushHex ''attr='' 0, PushHex ''scope='' 1, SetRet kNumber]),
   (''pthread_attr_getstack'',
      [PushHex ''attr='' 0, PushHex ''addr='' 1, PushHex ''size='' 2, SetRet kNumber]),
   (''pthread_attr_getstacksize'',
      [PushHex ''attr='' 0, PushHex ''size='' 1, SetRet kNumber]),
   (''pthread_attr_init'',
      [PushHex ''attr='' 0, SetRet kNumber]),
   (''pthread_attr_setdetachstate'',
      [PushHex ''attr='' 0, PushHex ''state='' 1, SetRet kNumber]),
   (''pthread_attr_setguardsize'',
      [PushHex ''attr='' 0, PushHex ''size='' 1, SetRet kNumber]),
   (''pthread_attr_setschedparam'',
      [PushHex ''attr='' 0, PushHex ''param='' 1, SetRet kNumber]),
   (''pthread_attr_setschedpolicy'',
      [PushHex ''attr='' 0, PushHex ''policy='' 1, SetRet kNumber]),
   (''pthread_attr_setscope'',
      [PushHex ''attr='' 0, PushHex ''scope='' 1, SetRet kNumber]),
   (''pthread_attr_setstack'',
      [PushHex ''attr='' 0, PushHex ''addr='' 1, PushHex ''size='' 2, SetRet kNumber]),
   (''pthread_attr_setstacksize'',
      [PushHex ''attr='' 0, PushHex ''size='' 1, SetRet kNumber]),
   (''pthread_condattr_destroy'',
      [PushHex ''attr='' 0, SetRet kNumber]),
   (''pthread_condattr_getclock'',
      [PushHex ''attr='' 0, PushHex ''clock='' 1, SetRet kNumber])]"

definition libc_rows_15 :: "(string \<times> action list) list" where
  "libc_rows_15 = [
   (''pthread_condattr_getpshared'',
      [PushHex ''attr='' 0, PushHex ''shared='' 1, SetRet kNumber]),
   (''pthread_condattr_init'',
      [PushHex ''attr='' 0, SetRet kNumber]),
   (''pthread_condattr_setclock'',
      [PushHex ''attr='' 0, PushHex ''clock='' 1, SetRet kNumber]),
   (''pthread_condattr_setpshared'',
      [PushHex ''attr='' 0, PushHex ''shared='' 1, SetRet kNumber]),
   (''pthread_cond_broadcast'',
      [PushHex ''cond='' 0, SetRet kNumber]),
   (''pthread_cond_destroy'',
      [PushHex ''cond='' 0, SetRet kNumber]),
   (''pthread_cond_init'',
      [PushHex ''cond='' 0, PushHex ''attr='' 1, SetRet kNumber]),
   (''pthread_cond_signal'',
      [PushHex ''cond='' 0, SetRet kNumber]),
   (''pthread_cond_timedwait'',
      [PushHex ''cond='' 0, PushHex ''mutex='' 1, PushHex ''timeout='' 2, SetRet kNumber]),
   (''pthread_cond_wait'',
      [PushHex ''cond='' 0, PushHex ''mutex='' 1, SetRet kNumber]),
   (''pthread_create'',
      [PushHex ''thread_ptr='' 0, PushHex ''attr='' 1, PushHex ''start_routine='' 2,
       PushHex ''arg='' 3, SetRet kNumber]),
   (''pthread_mutex_lock'',
      [PushHex ''mutex='' 0, SetRet kNumber]),
   (''pthread_mutex_trylock'',
      [PushHex ''mutex='' 0, SetRet kNumber]),
   (''pthread_key_create'',
      [PushHex ''key_ptr='' 0, PushHex ''destructor='' 1, SetRet kNumber]),
   (''pthread_mutex_timedlock'',
      [PushHex ''mutex='' 0, PushHex ''timeout='' 1, SetRet kNumber]),
   (''pthread_getattr_np'',
      [PushHex ''thread='' 0, PushHex ''attr_ptr='' 1, SetRet kNumber])]"

definition libc_rows_16 :: "(string \<times> action list) list" where
  "libc_rows_16 = [
   (''pthread_cond_timedwait_relative_np'',
      [PushHex ''cond='' 0, PushHex ''mutex='' 1, PushHex ''rel_time='' 2, SetRet kNumber]),
   (''gettimeofday'',
      [PushHex ''tv='' 0, PushHex ''tz='' 1, SetRet kNumber]),
   (''settimeofday'',
      [PushHex ''tv='' 0, PushHex ''tz='' 1, SetRet kNumber]),
   (''getitimer'',
      [PushDec ''which='' 0, PushHex ''current_value='' 1, SetRet kNumber]),
   (''setitimer'',
      [PushDec ''which='' 0, PushHex ''new_value='' 1, PushHex ''old_value='' 2, SetRet kNumber]),
   (''utimes'',
      [PushCStr ''path=\"'' 0 ''\"'', PushHex ''times='' 1, SetRet kNumber]),
   (''statfs'',
      [PushCStr ''path=\"'' 0 ''\"'', PushHex ''buf='' 1, SetRet kNumber]),
   (''statfs64'',
      [PushCStr ''path=\"'' 0 ''\"'', PushHex ''buf='' 1, SetRet kNumber]),
   (''fstatfs'',
      [PushDec ''fd='' 0, PushHex ''buf='' 1, SetRet kNumber]),
   (''fstatfs64'',
      [PushDec ''fd='' 0, PushHex ''buf='' 1, SetRet kNumber]),
   (''wait'',
      [PushHex ''status='' 0, SetRet kNumber]),
   (''waitpid'',
      [PushDec ''pid='' 0, PushHex ''status='' 1, PushDec ''options='' 2, SetRet kNumber]),
   (''wait4'',
      [PushDec ''pid='' 0, PushHex ''status='' 1, PushDec ''options='' 2, PushHex ''rusage='' 3,
       SetRet kNumber])]"

definition libc_rows_17 :: "(string \<times> action list) list" where
  "libc_rows_17 = [
   (''waitid'',
      [PushDec ''type='' 0, PushDec ''id='' 1, PushHex ''info='' 2, PushDec ''options='' 3,
       SetRet kNumber]),
   (''clearerr'',
      [PushHex ''fp='' 0, SetRet kVoid]),
   (''fclose'',
      [PushHex ''fp='' 0, SetRet kNumber]),
   (''feof'',
      [PushHex ''fp='' 0, SetRet kNumber]),
   (''ferror'',
      [PushHex ''fp='' 0, SetRet kNumber]),
   (''fflush'',
      [PushHex ''fp='' 0, SetRet kNumber]),
   (''fgetc'',
      [PushHex ''fp='' 0, SetRet kNumber]),
   (''fgets'',
      [PushHex ''buf='' 0, PushDec ''size='' 1, PushHex ''fp='' 2, SetRet kPointer]),
   (''fprintf'',
      [PushHex ''fp='' 0, PushCStr ''fmt=\"'' 1 ''\"'', SetRet kNumber]),
   (''fputc'',
      [PushDec ''ch='' 0, PushHex ''fp='' 1, SetRet kNumber]),
   (''fputs'',
      [PushCStr ''s=\"'' 0 ''\"'', PushHex ''fp='' 1, SetRet kNumber]),
   (''fread'',
      [PushHex ''buf='' 0, PushDec ''size='' 1, PushDec ''count='' 2, PushHex ''fp='' 3,
       SetRet kNumber]),
   (''fscanf'',
      [PushHex ''fp='' 0, PushCStr ''fmt=\"'' 1 ''\"'', SetRet kNumber]),
   (''fwrite'',
      [PushHex ''buf='' 0, PushDec ''size='' 1, PushDec ''count='' 2, PushHex ''fp='' 3,
       SetRet kNumber])]"

definition libc_rows_18 :: "(string \<times> action list) list" where
  "libc_rows_18 = [
   (''getc'',
      [PushHex ''fp='' 0, SetRet kNumber]),
   (''getchar'',
      [SetRet kNumber]),
   (''getdelim'',
      [PushHex ''lineptr='' 0, PushHex ''line_length_ptr='' 1, PushHex ''delimiter='' 2,
       PushHex ''fp='' 3, SetRet kNumber]),
   (''getline'',
      [PushHex ''lineptr='' 0, PushHex ''line_length_ptr='' 1, PushHex ''fp='' 2, SetRet kNumber]),
   (''remove'',
      [PushCStr ''path='' 0 [], SetRet kNumber]),
   (''rewind'',
      [PushHex ''fp='' 0, SetRet kVoid]),
   (''scanf'',
      [PushCStr ''fmt='' 0 [], SetRet kNumber]),
   (''fseek'',
      [PushHex ''fp='' 0, PushHex ''offset='' 1, PushHex ''whence='' 2, SetRet kNumber]),
   (''ftell'',
      [PushHex ''fp='' 0, SetRet kNumber]),
   (''mmap'',
      [PushHex ''addr='' 0, PushHex ''size='' 1, PushHex ''prot='' 2, PushHex ''flags='' 3,
       PushHex ''fd='' 3, PushHex ''offset='' 4, SetRet kPointer]),
   (''mmap64'',
      [PushHex ''addr='' 0, PushHex ''size='' 1, PushHex ''prot='' 2, PushHex ''flags='' 3,
       PushHex ''fd='' 3, PushHex ''offset='' 4, SetRet kPointer]),
   (''munmap'',
      [PushHex ''addr='' 0, PushHex ''size='' 1, SetRet kNumber]),
   (''mprotect'',
      [PushHex ''addr='' 0, PushHex ''size='' 1, PushHex ''prot='' 2, SetRet kNumber])]"

definition libc_rows :: "(string \<times> action list) list" where
  "libc_rows =
     libc_rows_1 @ libc_rows_2 @ libc_rows_3 @ libc_rows_4 @ libc_rows_5 @ libc_rows_6
      @ libc_rows_7 @ libc_rows_8 @ libc_rows_9 @ libc_rows_10 @ libc_rows_11 @ libc_rows_12
      @ libc_rows_13 @ libc_rows_14 @ libc_rows_15 @ libc_rows_16 @ libc_rows_17 @ libc_rows_18"

lemmas libc_rows_defs =
  libc_rows_def libc_rows_1_def libc_rows_2_def libc_rows_3_def libc_rows_4_def
  libc_rows_5_def libc_rows_6_def libc_rows_7_def libc_rows_8_def libc_rows_9_def libc_rows_10_def
  libc_rows_11_def libc_rows_12_def libc_rows_13_def libc_rows_14_def libc_rows_15_def
  libc_rows_16_def libc_rows_17_def libc_rows_18_def

end
