(* ===== verification/Dispatch_Libc.thy ===== *)
theory Dispatch_Libc
  imports Handler_Facts Libc_Table
begin

text \<open>
  \<^verbatim>\<open>trace/dispatch/dispatch_libc.cpp\<close> and \<^verbatim>\<open>dispatch_libz.cpp\<close>: the dispatchers of calls into
  libc and libz. The constructor resolves the handlers and the exports of the loaded module;
  \<open>dispatch_args\<close> answers for addresses of the module and reports the call through its
  handler, else under the name of the export with the argument registers; \<open>dispatch_ret\<close>
  records what the call allocated or released and formats the result. The loaded module is a
  parameter (\<open>Library_view\<close>), as is the memory of the process.
\<close>

section \<open>The libc dispatcher\<close>

type_synonym dispatcher_state = "DispatchBase \<times> handler_map"

definition set_call :: "addr inst_fun_call \<Rightarrow> inst_trace_info \<Rightarrow> inst_trace_info" where
  "set_call call info = info\<lparr>fun_call := Some call\<rparr>"

text \<open>The constructor; \<open>None\<close> is a library that is not loaded, whose null handle is used.\<close>

definition DispatchLibc_new :: "Library_view option \<Rightarrow> dispatcher_state result" where
  "DispatchLibc_new module =
     (case module of
        None \<Rightarrow> Inl NullDeref
      | Some m \<Rightarrow>
          let d = \<lparr>symbol_info = (\<lambda>_. None), d_module_range = \<lparr>mr_base = lib_start m, mr_end = lib_end m\<rparr>\<rparr>;
              libc_handlers = fold (REGISTER_HANDLER m) libc_rows (\<lambda>_. None)
          in Inr (enumerate_exports m d, libc_handlers))"

definition DispatchLibc_dispatch_args ::
  "memory \<Rightarrow> dispatcher_state \<Rightarrow> inst_trace_info \<Rightarrow> (bool \<times> inst_trace_info) result" where
  "DispatchLibc_dispatch_args mem dh info =
     (case fun_call info of
        None \<Rightarrow> Inl NullDeref
      | Some call \<Rightarrow>
          if \<not> is_module_address (fst dh) (fun_address call) then Inr (False, info)
          else
            let call = call\<lparr>call_module_name := ''libc.so''\<rparr>;
                gpr = gpr_state (pre_status info)
            in (case snd dh (fun_address call) of
                  Some (name, body) \<Rightarrow>
                    map_result (\<lambda>call. (True, set_call call info))
                      (run_actions mem (get_arg_register_value mem gpr) body (call\<lparr>fun_name := name\<rparr>))
                | None \<Rightarrow>
                    let name = get_address_symbol (fst dh) (fun_address call) in
                    if name = [] then Inr (True, set_call call info)
                    else Inr (True, set_call (add_common_reg_values gpr (call\<lparr>fun_name := name\<rparr>)) info)))"

text \<open>
  \<open>get_format_result\<close>: the functions of the printf family, which have no handler of their
  own. \<open>None\<close> where the source answers false.
\<close>

definition get_format_result ::
  "memory \<Rightarrow> GPRState \<Rightarrow> addr inst_fun_call \<Rightarrow> (addr inst_fun_call option) result" where
  "get_format_result mem pre call =
     (let arg0 = gpr_x pre 0; arg1 = gpr_x pre 1; arg2 = gpr_x pre 2;
          f = fun_name call in
      if f = [] then Inr None
      else if f = ''sprintf'' \<or> f = ''vsprintf'' \<or> f = ''sscanf'' then
        if arg0 = 0 then Inr (Some call)
        else bind_result (read_string_from_address mem arg1) (\<lambda>format.
             bind_result (read_string_from_address mem arg0) (\<lambda>text.
               Inr (Some (call\<lparr>args := [''fmt='' @ format], ret_value := text\<rparr>))))
      else if f = ''snprintf'' then
        if arg0 = 0 then Inr (Some call)
        else bind_result (read_string_from_address mem arg2) (\<lambda>format.
             bind_result (read_string_from_address mem arg0) (\<lambda>text.
               Inr (Some (call\<lparr>args := [''size='' @ fmt_hex arg1, ''fmt='' @ format], ret_value := text\<rparr>))))
      else Inr None)"

definition libc_record_memory_info ::
  "memory \<Rightarrow> GPRState \<Rightarrow> GPRState \<Rightarrow> addr inst_fun_call \<Rightarrow> (addr inst_fun_call) result" where
  "libc_record_memory_info mem pre ret_status call =
     (let f = fun_name call; ret = gpr_x ret_status 0; arg0 = gpr_x pre 0; arg1 = gpr_x pre 1 in
      if f = [] then Inr call
      else if f = ''malloc'' then
        if arg0 = 0 \<or> ret = 0 then Inr call
        else Inr (call\<lparr>memory_alloc_address := ret, memory_alloc_size := arg0\<rparr>)
      else if f = ''strdup'' then
        if arg0 = 0 \<or> ret = 0 then Inr call
        else map_result (\<lambda>s. call\<lparr>memory_alloc_address := ret, memory_alloc_size := of_nat (length s)\<rparr>)
               (read_cstring mem arg0)
      else if f = ''free'' then
        if arg0 = 0 then Inr call else Inr (call\<lparr>memory_free_address := arg0\<rparr>)
      else if f = ''calloc'' then
        if arg0 = 0 \<or> ret = 0 \<or> arg1 = 0 then Inr call
        else Inr (call\<lparr>memory_alloc_address := ret, memory_alloc_size := arg0 * arg1\<rparr>)
      else if f = ''realloc'' then
        if arg1 = 0 then Inr (call\<lparr>memory_free_address := arg0\<rparr>)
        else let call = (if ret \<noteq> 0 \<or> arg0 \<noteq> 0 then call\<lparr>memory_free_address := arg0\<rparr> else call)
             in Inr (if ret \<noteq> 0 then call\<lparr>memory_alloc_address := ret, memory_alloc_size := arg1\<rparr> else call)
      else if f = ''mmap'' \<or> f = ''mmap64'' then
        if arg1 = 0 \<or> ret = 0 then Inr call
        else Inr (call\<lparr>memory_alloc_address := ret, memory_alloc_size := arg1\<rparr>)
      else if f = ''munmap'' then
        if arg0 = 0 then Inr call else Inr (call\<lparr>memory_free_address := arg0\<rparr>)
      else Inr call)"

definition DispatchLibc_dispatch_ret ::
  "memory \<Rightarrow> dispatcher_state \<Rightarrow> inst_trace_info \<Rightarrow> GPRState \<Rightarrow> (bool \<times> inst_trace_info) result" where
  "DispatchLibc_dispatch_ret mem dh info ret_status =
     (case fun_call info of
        None \<Rightarrow> Inl NullDeref
      | Some call0 \<Rightarrow>
          if \<not> is_module_address (fst dh) (fun_address call0) then Inr (False, info)
          else
            let pre = gpr_state (pre_status info); ret = gpr_x ret_status 0 in
            bind_result (libc_record_memory_info mem pre ret_status call0) (\<lambda>call.
              case ret_type call0 of
                kUnknown \<Rightarrow>
                  map_result (\<lambda>r. (True, set_call (case r of Some c \<Rightarrow> c | None \<Rightarrow> call) info))
                    (get_format_result mem pre call)
              | kPointer \<Rightarrow> Inr (True, set_call (call\<lparr>ret_value := ''ret='' @ fmt_hex ret\<rparr>) info)
              | kNumber \<Rightarrow> Inr (True, set_call (call\<lparr>ret_value := ''ret='' @ fmt_hex ret\<rparr>) info)
              | kString \<Rightarrow>
                  map_result (\<lambda>s. (True, set_call (call\<lparr>ret_value := ''ret='' @ s\<rparr>) info))
                    (read_string_from_address mem ret)
              | _ \<Rightarrow> Inr (True, set_call call info)))"

section \<open>The libz dispatcher\<close>

definition libz_rows :: "(string \<times> action list) list" where
  "libz_rows = [
   (''deflate'', [PushHex ''strm='' 0, PushHex ''flush='' 1, SetRet kNumber]),
   (''inflate'', [PushHex ''strm='' 0, PushHex ''flush='' 1, SetRet kNumber]),
   (''deflateEnd'', [PushHex ''strm='' 0, SetRet kNumber]),
   (''inflateEnd'', [PushHex ''strm='' 0, SetRet kNumber]),
   (''deflateReset'', [PushHex ''strm='' 0, SetRet kNumber]),
   (''deflateInit2_'',
      [PushHex ''strm='' 0, PushHex ''level='' 1, PushHex ''method='' 2, PushHex ''windowBits='' 3,
       PushHex ''memLevel='' 4, PushHex ''strategy='' 5, PushHex ''version='' 6,
       PushHex ''stream_size='' 7, SetRet kNumber]),
   (''inflateInit2_'',
      [PushHex ''strm='' 0, PushStr ''version='' 1, PushHex ''stream_size='' 2, SetRet kNumber]),
   (''inflateInit2_'',
      [PushHex ''strm='' 0, PushHex ''windowBits='' 1, PushStr ''version='' 2,
       PushHex ''stream_size='' 3, SetRet kNumber])]"

definition DispatchLibz_new :: "Library_view option \<Rightarrow> dispatcher_state result" where
  "DispatchLibz_new module =
     (case module of
        None \<Rightarrow> Inl NullDeref
      | Some m \<Rightarrow>
          let d = \<lparr>symbol_info = (\<lambda>_. None), d_module_range = \<lparr>mr_base = lib_start m, mr_end = lib_end m\<rparr>\<rparr>;
              libz_handlers = fold (REGISTER_HANDLER m) libz_rows (\<lambda>_. None)
          in Inr (enumerate_exports m d, libz_handlers))"

definition DispatchLibz_dispatch_args ::
  "memory \<Rightarrow> dispatcher_state \<Rightarrow> inst_trace_info \<Rightarrow> (bool \<times> inst_trace_info) result" where
  "DispatchLibz_dispatch_args mem dh info =
     (case fun_call info of
        None \<Rightarrow> Inl NullDeref
      | Some call \<Rightarrow>
          if \<not> is_module_address (fst dh) (fun_address call) then Inr (False, info)
          else
            let call = call\<lparr>call_module_name := ''libz.so''\<rparr>;
                gpr = gpr_state (pre_status info)
            in (case snd dh (fun_address call) of
                  Some (name, body) \<Rightarrow>
                    map_result (\<lambda>call. (True, set_call call info))
                      (run_actions mem (get_arg_register_value mem gpr) body (call\<lparr>fun_name := name\<rparr>))
                | None \<Rightarrow>
                    let name = get_address_symbol (fst dh) (fun_address call) in
                    if name = [] then Inr (True, set_call call info)
                    else Inr (True, set_call (add_common_reg_values gpr (call\<lparr>fun_name := name\<rparr>)) info)))"

definition DispatchLibz_dispatch_ret ::
  "memory \<Rightarrow> dispatcher_state \<Rightarrow> inst_trace_info \<Rightarrow> GPRState \<Rightarrow> (bool \<times> inst_trace_info) result" where
  "DispatchLibz_dispatch_ret mem dh info ret_status =
     (case fun_call info of
        None \<Rightarrow> Inl NullDeref
      | Some call \<Rightarrow>
          if \<not> is_module_address (fst dh) (fun_address call) then Inr (False, info)
          else
            let ret = gpr_x ret_status 0 in
            (case ret_type call of
               kUnknown \<Rightarrow> Inr (True, set_call (call\<lparr>ret_value := fmt_hex ret\<rparr>) info)
             | kNumber \<Rightarrow> Inr (True, set_call (call\<lparr>ret_value := fmt_hex ret\<rparr>) info)
             | kPointer \<Rightarrow>
                 map_result (\<lambda>s. (True, set_call (call\<lparr>ret_value := s\<rparr>) info))
                   (read_buffer_hexdump_from_address mem ret 16)
             | kString \<Rightarrow>
                 map_result (\<lambda>s. (True, set_call (call\<lparr>ret_value := s\<rparr>) info))
                   (read_string_from_address mem ret)
             | _ \<Rightarrow> Inr (True, info)))"

section \<open>The contract of a dispatcher\<close>

text \<open>
  What the dispatch manager relies on: outside its module a dispatcher answers false and
  leaves the call alone; inside it answers true, and never moves the call to another address
  or changes its kind.
\<close>

locale dispatcher =
  fixes in_module :: "addr \<Rightarrow> bool"
    and dispatch_args :: "inst_trace_info \<Rightarrow> (bool \<times> inst_trace_info) result"
    and dispatch_ret :: "inst_trace_info \<Rightarrow> GPRState \<Rightarrow> (bool \<times> inst_trace_info) result"
  assumes args_outside: "fun_call info = Some call \<Longrightarrow> \<not> in_module (fun_address call) \<Longrightarrow>
      dispatch_args info = Inr (False, info)"
    and args_inside: "fun_call info = Some call \<Longrightarrow> in_module (fun_address call) \<Longrightarrow>
      dispatch_args info = Inr (b, info') \<Longrightarrow>
      b \<and> (\<exists>call'. info' = set_call call' info \<and> fun_address call' = fun_address call
            \<and> is_svc call' = is_svc call)"
    and ret_outside: "fun_call info = Some call \<Longrightarrow> \<not> in_module (fun_address call) \<Longrightarrow>
      dispatch_ret info ret = Inr (False, info)"
    and ret_inside: "fun_call info = Some call \<Longrightarrow> in_module (fun_address call) \<Longrightarrow>
      dispatch_ret info ret = Inr (b, info') \<Longrightarrow>
      b \<and> (\<exists>call'. info' = set_call call' info \<and> is_svc call' = is_svc call)"
begin

lemma args_answer:
  "fun_call info = Some call \<Longrightarrow> dispatch_args info = Inr (b, info') \<Longrightarrow>
   b \<longleftrightarrow> in_module (fun_address call)"
  using args_outside args_inside by (cases "in_module (fun_address call)") fastforce+

lemma args_keeps_address:
  "fun_call info = Some call \<Longrightarrow> dispatch_args info = Inr (b, info') \<Longrightarrow>
   \<exists>call'. fun_call info' = Some call' \<and> fun_address call' = fun_address call"
  using args_outside args_inside by (cases "in_module (fun_address call)") (fastforce simp: set_call_def)+

text \<open>The answer of the return matches the answer of the arguments: one dispatcher does both.\<close>

lemma ret_matches_args:
  assumes "fun_call info = Some call" and "dispatch_args info = Inr (b, info')"
    and "dispatch_ret info' ret = Inr (b', info'')"
  shows "b' = b"
proof -
  obtain call' where "fun_call info' = Some call'" "fun_address call' = fun_address call"
    using args_keeps_address [OF assms(1,2)] by blast
  then have "b' \<longleftrightarrow> in_module (fun_address call)"
    using ret_outside [of info' call' ret] ret_inside [of info' call' ret b' info''] assms(3) by fastforce
  with args_answer [OF assms(1,2)] show ?thesis by simp
qed

end

section \<open>Both dispatchers keep the contract\<close>

lemma set_call_simps [simp]:
  "fun_call (set_call c info) = Some c"
  "pre_status (set_call c info) = pre_status info"
  "info_pc (set_call c info) = info_pc info"
  "set_call c (set_call c' info) = set_call c info"
  by (simp_all add: set_call_def)

lemma set_call_same: "fun_call info = Some c \<Longrightarrow> set_call c info = info"
  by (simp add: set_call_def)

lemma set_call_eq [simp]: "set_call c info = set_call c' info \<longleftrightarrow> c = c'"
  by (metis option.inject set_call_simps(1))

lemma run_actions_same_call:
  "run_actions mem argv acts call = Inr call' \<Longrightarrow> fun_address call' = fun_address call \<and> is_svc call' = is_svc call"
  using run_actions_address(1,2) by blast

lemma add_common_reg_values_address [simp]:
  "fun_address (add_common_reg_values st call) = fun_address call"
  "is_svc (add_common_reg_values st call) = is_svc call"
  "fun_name (add_common_reg_values st call) = fun_name call"
  by (simp_all add: add_common_reg_values_def Let_def)

lemma libc_record_memory_info_svc:
  "libc_record_memory_info mem pre ret call = Inr call' \<Longrightarrow> is_svc call' = is_svc call"
  by (auto simp: libc_record_memory_info_def Let_def map_result_eq_Inr split: if_splits)

lemma get_format_result_svc: "get_format_result mem pre call = Inr (Some call') \<Longrightarrow> is_svc call' = is_svc call"
  by (auto simp: get_format_result_def Let_def map_result_eq_Inr bind_result_eq_Inr split: if_splits)

interpretation libc: dispatcher "is_module_address (fst dh)" "DispatchLibc_dispatch_args mem dh"
  "DispatchLibc_dispatch_ret mem dh"
proof unfold_locales
  fix info info' :: inst_trace_info and call b ret
  assume call: "fun_call info = Some call"
  show "DispatchLibc_dispatch_args mem dh info = Inr (False, info)"
    if "\<not> is_module_address (fst dh) (fun_address call)"
    using call that by (simp add: DispatchLibc_dispatch_args_def)
  show "DispatchLibc_dispatch_ret mem dh info ret = Inr (False, info)"
    if "\<not> is_module_address (fst dh) (fun_address call)"
    using call that by (simp add: DispatchLibc_dispatch_ret_def)
  show "b \<and> (\<exists>call'. info' = set_call call' info \<and> fun_address call' = fun_address call
      \<and> is_svc call' = is_svc call)"
    if "is_module_address (fst dh) (fun_address call)" "DispatchLibc_dispatch_args mem dh info = Inr (b, info')"
    using call that
    by (auto simp: DispatchLibc_dispatch_args_def Let_def map_result_eq_Inr
        dest!: run_actions_same_call split: option.splits if_splits)
  show "b \<and> (\<exists>call'. info' = set_call call' info \<and> is_svc call' = is_svc call)" if "is_module_address (fst dh) (fun_address call)"
    "DispatchLibc_dispatch_ret mem dh info ret = Inr (b, info')"
    using call that set_call_same [OF call]
    by (cases "ret_type call")
      (auto simp: DispatchLibc_dispatch_ret_def Let_def map_result_eq_Inr bind_result_eq_Inr
        dest!: libc_record_memory_info_svc get_format_result_svc split: option.splits)
qed

interpretation libz: dispatcher "is_module_address (fst dh)" "DispatchLibz_dispatch_args mem dh"
  "DispatchLibz_dispatch_ret mem dh"
proof unfold_locales
  fix info info' :: inst_trace_info and call b ret
  assume call: "fun_call info = Some call"
  show "DispatchLibz_dispatch_args mem dh info = Inr (False, info)"
    if "\<not> is_module_address (fst dh) (fun_address call)"
    using call that by (simp add: DispatchLibz_dispatch_args_def)
  show "DispatchLibz_dispatch_ret mem dh info ret = Inr (False, info)"
    if "\<not> is_module_address (fst dh) (fun_address call)"
    using call that by (simp add: DispatchLibz_dispatch_ret_def)
  show "b \<and> (\<exists>call'. info' = set_call call' info \<and> fun_address call' = fun_address call
      \<and> is_svc call' = is_svc call)"
    if "is_module_address (fst dh) (fun_address call)" "DispatchLibz_dispatch_args mem dh info = Inr (b, info')"
    using call that
    by (auto simp: DispatchLibz_dispatch_args_def Let_def map_result_eq_Inr
        dest!: run_actions_same_call split: option.splits if_splits)
  show "b \<and> (\<exists>call'. info' = set_call call' info \<and> is_svc call' = is_svc call)" if "is_module_address (fst dh) (fun_address call)"
    "DispatchLibz_dispatch_ret mem dh info ret = Inr (b, info')"
    using call that set_call_same [OF call]
    by (cases "ret_type call") (auto simp: DispatchLibz_dispatch_ret_def Let_def map_result_eq_Inr intro: exI [of _ call])
qed

section \<open>The tables\<close>

text \<open>What the constructor builds, as searches of the rows and of the exports.\<close>

lemma DispatchLibc_new_tables:
  assumes "DispatchLibc_new (Some m) = Inr dh"
  shows "snd dh a = (if a = 0 then None else find (\<lambda>row. find_symbol m (fst row) = a) libc_rows)"
    and "symbol_info (fst dh) a =
      (if a = 0 then None else Option.bind (find (\<lambda>e. fst e \<noteq> None \<and> snd e = a) (lib_exports m)) fst)"
    and "is_module_address (fst dh) a \<longleftrightarrow> lib_start m \<le> a \<and> a \<le> lib_end m"
  using assms
  by (auto simp: DispatchLibc_new_def Let_def REGISTER_HANDLER_fold enumerate_exports_def export_fold
      is_module_address_iff export_range [unfolded enumerate_exports_def])

lemma DispatchLibz_new_tables:
  assumes "DispatchLibz_new (Some m) = Inr dh"
  shows "snd dh a = (if a = 0 then None else find (\<lambda>row. find_symbol m (fst row) = a) libz_rows)"
    and "is_module_address (fst dh) a \<longleftrightarrow> lib_start m \<le> a \<and> a \<le> lib_end m"
  using assms
  by (auto simp: DispatchLibz_new_def Let_def REGISTER_HANDLER_fold enumerate_exports_def
      is_module_address_iff export_range [unfolded enumerate_exports_def])

text \<open>Every row but those of \<open>mmap\<close> prints the argument registers in their order.\<close>

lemma libc_in_order:
  "list_all (\<lambda>(name, acts). name \<in> {''mmap'', ''mmap64''} \<or> in_order (Straight acts)) libc_rows"
  unfolding libc_rows_def list_all_append by (intro conjI; code_simp)

lemma libc_plain: "list_all (\<lambda>(name, acts). list_all plain acts) libc_rows"
  unfolding libc_rows_def list_all_append by (intro conjI; code_simp)

lemma libc_register_args:
  "list_all (\<lambda>(name, acts). list_all (\<lambda>a. list_all (\<lambda>n. n < 8) (arg_indices a)) acts) libc_rows"
  unfolding libc_rows_def list_all_append by (intro conjI; code_simp)

lemma libc_row_registers:
  assumes "(name, acts) \<in> set libc_rows"
  shows "run_actions mem (get_arg_register_value mem gpr) acts call
    = run_actions mem (\<lambda>n. Inr (gpr_x gpr n)) acts call"
proof (rule run_actions_argv_cong)
  fix a n assume "a \<in> set acts" "n \<in> set (arg_indices a)"
  with libc_register_args assms have "n < 8" by (force simp: list_all_iff)
  then show "get_arg_register_value mem gpr n = Inr (gpr_x gpr n)" by simp
qed

lemma libc_dispatch_row:
  assumes "DispatchLibc_new (Some m) = Inr dh" and "fun_call info = Some call"
    and "fun_address call \<noteq> 0" and "lib_start m \<le> fun_address call" and "fun_address call \<le> lib_end m"
    and "find (\<lambda>row. find_symbol m (fst row) = fun_address call) libc_rows = Some (name, acts)"
  shows "DispatchLibc_dispatch_args mem dh info =
    map_result (\<lambda>call. (True, set_call call info))
      (run_actions mem (\<lambda>n. Inr (gpr_x (gpr_state (pre_status info)) n)) acts
        (call\<lparr>call_module_name := ''libc.so'', fun_name := name\<rparr>))"
proof -
  have "(name, acts) \<in> set libc_rows" using assms(6) by (auto simp: find_Some_iff)
  with assms DispatchLibc_new_tables [OF assms(1)] show ?thesis
    by (simp add: DispatchLibc_dispatch_args_def Let_def libc_row_registers)
qed

section \<open>Properties\<close>

text \<open>
  C22: a call into libc is reported through the first registered handler whose symbol resolves
  to the called address: the reported name is the symbol of that row, and after the arguments
  that were there the \<open>i\<close>-th text is the label of the \<open>i\<close>-th statement with the value of \<open>x\<close>\<open>i\<close>.
  It holds for every row but the two of \<open>mmap\<close>.
\<close>

theorem libc_reports_arguments:
  assumes "DispatchLibc_new (Some m) = Inr dh" and "fun_call info = Some call"
    and "fun_address call \<noteq> 0" and "lib_start m \<le> fun_address call" and "fun_address call \<le> lib_end m"
    and "find (\<lambda>row. find_symbol m (fst row) = fun_address call) libc_rows = Some (name, acts)"
    and "name \<notin> {''mmap'', ''mmap64''}"
    and "DispatchLibc_dispatch_args mem dh info = Inr (b, info')"
  shows "\<exists>call'. info' = set_call call' info \<and> b \<and> fun_name call' = name
    \<and> call_module_name call' = ''libc.so'' \<and> fun_address call' = fun_address call
    \<and> (let pushes = filter (\<lambda>a. printed_arg a \<noteq> None) acts; old = length (args call) in
        length (args call') = old + length pushes \<and> take old (args call') = args call \<and>
        (\<forall>i < length pushes. printed_arg (pushes ! i) = Some i
           \<and> renders mem (pushes ! i) (gpr_x (gpr_state (pre_status info)) i) (args call' ! (old + i))))"
proof -
  have row: "(name, acts) \<in> set libc_rows" using assms(6) by (auto simp: find_Some_iff)
  let ?start = "call\<lparr>call_module_name := ''libc.so'', fun_name := name\<rparr>"
  obtain call' where run: "run_actions mem (\<lambda>n. Inr (gpr_x (gpr_state (pre_status info)) n)) acts ?start
      = Inr call'" and res: "b" "info' = set_call call' info"
    using assms(8) unfolding libc_dispatch_row [OF assms(1-6)] by (auto simp: map_result_eq_Inr)
  have "list_all plain acts" "in_order (Straight acts)"
    using libc_plain libc_in_order row assms(7) by (auto simp: list_all_iff)
  from run_actions_in_order [OF run this] run_actions_address [OF run] res show ?thesis
    by (auto simp: Let_def)
qed

text \<open>A module with one symbol at one address, for the witnesses.\<close>

definition one_symbol :: "string \<Rightarrow> Library_view" where
  "one_symbol s = \<lparr>lib_start = 0x1000, lib_end = 0x2000,
     find_symbol = (\<lambda>t. if t = s then 0x1100 else 0), lib_exports = [(Some s, 0x1100)]\<rparr>"

lemma one_symbol_simps [simp]:
  "lib_start (one_symbol s) = 0x1000" "lib_end (one_symbol s) = 0x2000"
  "find_symbol (one_symbol s) t = 0x1100 \<longleftrightarrow> t = s"
  "lib_exports (one_symbol s) = [(Some s, 0x1100)]"
  by (auto simp: one_symbol_def)

definition call_at :: "addr \<Rightarrow> inst_trace_info" where
  "call_at a = inst_trace_info_new\<lparr>fun_call := Some (inst_fun_call_new\<lparr>fun_address := a\<rparr>)\<rparr>"

lemma call_at_simps [simp]:
  "fun_call (call_at a) = Some (inst_fun_call_new\<lparr>fun_address := a\<rparr>)"
  "gpr_x (gpr_state (pre_status (call_at a))) n = 0"
  by (simp_all add: call_at_def inst_trace_info_new_def zero_status_def zero_gpr_def)

lemma DispatchLibc_new_ok: "\<exists>dh. DispatchLibc_new (Some m) = Inr dh"
  by (simp add: DispatchLibc_new_def Let_def)

lemma strlen_row:
  "find (\<lambda>row. fst row = ''strlen'') libc_rows = Some (''strlen'', [PushStr ''s='' 0, SetRet kNumber])"
  by (simp add: libc_rows_def libc_rows_1_def)

theorem libc_reports_arguments_witness:
  "\<exists>dh info' call'. DispatchLibc_new (Some (one_symbol ''strlen'')) = Inr dh
     \<and> DispatchLibc_dispatch_args (\<lambda>_. None) dh (call_at 0x1100) = Inr (True, info')
     \<and> fun_call info' = Some call' \<and> fun_name call' = ''strlen'' \<and> length (args call') = 1"
proof -
  obtain dh where dh: "DispatchLibc_new (Some (one_symbol ''strlen'')) = Inr dh"
    using DispatchLibc_new_ok by blast
  let ?call = "inst_fun_call_new\<lparr>fun_address := 0x1100\<rparr> :: addr inst_fun_call"
  have row: "find (\<lambda>row. find_symbol (one_symbol ''strlen'') (fst row) = fun_address ?call) libc_rows
      = Some (''strlen'', [PushStr ''s='' 0, SetRet kNumber])"
    using strlen_row by simp
  have call: "fun_call (call_at 0x1100) = Some ?call" by simp
  obtain info' where run: "DispatchLibc_dispatch_args (\<lambda>_. None) dh (call_at 0x1100) = Inr (True, info')"
    using libc_dispatch_row [OF dh call _ _ _ row, of "\<lambda>_. None"]
    by (simp add: read_string_from_address_def)
  show ?thesis
    using libc_reports_arguments [OF dh call _ _ _ row _ run] dh run
    by (auto simp: Let_def inst_fun_call_new_def)
qed

text \<open>
  A function of libc that has no handler is reported under the first exported name of
  its address with the eight argument registers, and one without a name with the module only;
  neither fails, whatever the memory holds.
\<close>

theorem libc_fallback:
  assumes "DispatchLibc_new (Some m) = Inr dh" and "fun_call info = Some call"
    and "fun_address call \<noteq> 0" and "lib_start m \<le> fun_address call" and "fun_address call \<le> lib_end m"
    and "\<forall>row \<in> set libc_rows. find_symbol m (fst row) \<noteq> fun_address call"
  shows "\<exists>call'. DispatchLibc_dispatch_args mem dh info = Inr (True, set_call call' info)
    \<and> call_module_name call' = ''libc.so''
    \<and> (case Option.bind (find (\<lambda>e. fst e \<noteq> None \<and> snd e = fun_address call) (lib_exports m)) fst of
         Some s \<Rightarrow> s \<noteq> [] \<longrightarrow> fun_name call' = s \<and> args call' = args call @
           map (\<lambda>i. CHR ''X'' # dec_digits i @ ''=0x'' @ hex_digits (unat (gpr_x (gpr_state (pre_status info)) i))) [0..<8]
       | None \<Rightarrow> fun_name call' = fun_name call \<and> args call' = args call)"
proof -
  have none: "find (\<lambda>row. find_symbol m (fst row) = fun_address call) libc_rows = None"
    using assms(6) by (auto simp: find_None_iff)
  have mod: "call_module_name (add_common_reg_values g c) = call_module_name c" for g c
    by (simp add: add_common_reg_values_def Let_def)
  show ?thesis
    using assms(2-5) DispatchLibc_new_tables [OF assms(1)] none
    by (auto simp: DispatchLibc_dispatch_args_def Let_def get_address_symbol_def
        add_common_reg_values_args mod fmt_hex_def split: option.split)
qed

theorem libc_fallback_witness:
  "\<exists>dh call'. DispatchLibc_new (Some (one_symbol ''qux'')) = Inr dh
     \<and> DispatchLibc_dispatch_args (\<lambda>_. None) dh (call_at 0x1100) = Inr (True, set_call call' (call_at 0x1100))
     \<and> fun_name call' = ''qux'' \<and> length (args call') = 8"
proof -
  obtain dh where dh: "DispatchLibc_new (Some (one_symbol ''qux'')) = Inr dh"
    using DispatchLibc_new_ok by blast
  have names: "list_all (\<lambda>row. fst row \<noteq> ''qux'') libc_rows"
    unfolding libc_rows_def list_all_append by (intro conjI; code_simp)
  have call: "fun_call (call_at 0x1100) = Some (inst_fun_call_new\<lparr>fun_address := 0x1100\<rparr>)" by simp
  show ?thesis
    using libc_fallback [OF dh call, of "\<lambda>_. None"] dh names
    by (auto simp: list_all_iff inst_fun_call_new_def)
qed

text \<open>
  The handlers of \<open>mmap\<close> and \<open>mmap64\<close> report the register of the flags as the file
  descriptor and the register of the descriptor as the offset; \<open>x5\<close>, which holds the offset, is
  not reported at all.
\<close>

theorem libc_mmap_misreports:
  assumes "DispatchLibc_new (Some m) = Inr dh" and "fun_call info = Some call"
    and "fun_address call \<noteq> 0" and "lib_start m \<le> fun_address call" and "fun_address call \<le> lib_end m"
    and "find (\<lambda>row. find_symbol m (fst row) = fun_address call) libc_rows = Some (name, acts)"
    and "name = ''mmap'' \<or> name = ''mmap64''"
  shows "\<exists>call'. DispatchLibc_dispatch_args mem dh info = Inr (True, set_call call' info)
    \<and> (let reg = (\<lambda>n. fmt_hex (gpr_x (gpr_state (pre_status info)) n)) in
       args call' = args call @ [''addr='' @ reg 0, ''size='' @ reg 1, ''prot='' @ reg 2,
         ''flags='' @ reg 3, ''fd='' @ reg 3, ''offset='' @ reg 4])"
proof -
  have rows: "list_all (\<lambda>row. fst row \<in> {''mmap'', ''mmap64''} \<longrightarrow> snd row =
      [PushHex ''addr='' 0, PushHex ''size='' 1, PushHex ''prot='' 2, PushHex ''flags='' 3,
       PushHex ''fd='' 3, PushHex ''offset='' 4, SetRet kPointer]) libc_rows"
    unfolding libc_rows_def list_all_append by (intro conjI; code_simp)
  have "(name, acts) \<in> set libc_rows" using assms(6) by (auto simp: find_Some_iff)
  with rows assms(7) have acts: "acts = [PushHex ''addr='' 0, PushHex ''size='' 1, PushHex ''prot='' 2,
      PushHex ''flags='' 3, PushHex ''fd='' 3, PushHex ''offset='' 4, SetRet kPointer]"
    by (fastforce simp: list_all_iff)
  show ?thesis by (simp add: libc_dispatch_row [OF assms(1-6)] acts)
qed

theorem libc_mmap_misreports_witness:
  "\<exists>dh call'. DispatchLibc_new (Some (one_symbol ''mmap'')) = Inr dh
     \<and> DispatchLibc_dispatch_args (\<lambda>_. None) dh (call_at 0x1100) = Inr (True, set_call call' (call_at 0x1100))
     \<and> length (args call') = 6"
proof -
  obtain dh where dh: "DispatchLibc_new (Some (one_symbol ''mmap'')) = Inr dh"
    using DispatchLibc_new_ok by blast
  have "find (\<lambda>row. fst row = ''mmap'') libc_rows \<noteq> None"
    unfolding libc_rows_def find_append by code_simp
  then obtain name acts where row: "find (\<lambda>row. fst row = ''mmap'') libc_rows = Some (name, acts)"
    by force
  moreover from row have "name = ''mmap''" by (auto simp: find_Some_iff) (metis fst_conv)
  ultimately show ?thesis
    using libc_mmap_misreports [OF dh, of "call_at 0x1100" "inst_fun_call_new\<lparr>fun_address := 0x1100\<rparr>"
        name acts "\<lambda>_. None"] dh
    by (auto simp: inst_fun_call_new_def Let_def)
qed

text \<open>
  C23: what a returned libc call is recorded to have done to the heap, on a fresh record. With
  \<open>a\<close> and \<open>b\<close> for the first two arguments and \<open>r\<close> for the result: a block is recorded at
  \<open>r\<close> exactly when \<open>r\<close> is not null and the call is \<open>malloc\<close> of \<open>a\<close> bytes, \<open>calloc\<close> of \<open>a * b\<close>
  bytes, \<open>realloc\<close>, \<open>mmap\<close> or \<open>mmap64\<close> of \<open>b\<close> bytes, neither factor zero, or \<open>strdup\<close> of a
  string of that many characters, without the terminator that the copy has too. A release of \<open>a\<close> is recorded
  exactly for \<open>free\<close>, \<open>munmap\<close> and \<open>realloc\<close>. The recording faults exactly for a successful
  \<open>strdup\<close> of a string that is not readable. So a failed \<open>realloc\<close>, which leaves its block alone,
  is recorded as a release, and a failed \<open>mmap\<close>, which answers \<open>-1\<close>, as a block.
\<close>

theorem libc_memory_effects:
  assumes "memory_alloc_address call = 0" and "memory_alloc_size call = 0" and "memory_free_address call = 0"
    and "a = gpr_x pre 0" and "b = gpr_x pre 1" and "r = gpr_x ret 0" and "f = fun_name call"
  shows "((\<exists>call'. libc_record_memory_info mem pre ret call = Inr call')
      \<longleftrightarrow> f = ''strdup'' \<and> a \<noteq> 0 \<and> r \<noteq> 0 \<longrightarrow> (\<exists>s. read_cstring mem a = Inr s))
    \<and> (\<forall>call'. libc_record_memory_info mem pre ret call = Inr call' \<longrightarrow>
        (memory_alloc_address call', memory_alloc_size call') =
          (if r = 0 then (0, 0)
           else if f = ''malloc'' \<and> a \<noteq> 0 then (r, a)
           else if f = ''calloc'' \<and> a \<noteq> 0 \<and> b \<noteq> 0 then (r, a * b)
           else if f \<in> {''realloc'', ''mmap'', ''mmap64''} \<and> b \<noteq> 0 then (r, b)
           else if f = ''strdup'' \<and> a \<noteq> 0 then (r, of_nat (length (projr (read_cstring mem a))))
           else (0, 0))
        \<and> memory_free_address call' = (if f \<in> {''free'', ''munmap'', ''realloc''} then a else 0)
        \<and> (f = ''realloc'' \<and> r = 0 \<and> b \<noteq> 0 \<longrightarrow> memory_free_address call' = a \<and> memory_alloc_size call' = 0)
        \<and> (f = ''mmap'' \<and> r = - 1 \<and> b \<noteq> 0 \<longrightarrow> memory_alloc_address call' = - 1 \<and> memory_alloc_size call' = b)
        \<and> call'\<lparr>memory_alloc_address := 0, memory_alloc_size := 0, memory_free_address := 0\<rparr> = call)"
proof
  show "(\<exists>call'. libc_record_memory_info mem pre ret call = Inr call')
      \<longleftrightarrow> f = ''strdup'' \<and> a \<noteq> 0 \<and> r \<noteq> 0 \<longrightarrow> (\<exists>s. read_cstring mem a = Inr s)"
    unfolding assms(4-7) by (auto simp: libc_record_memory_info_def Let_def map_result_eq_Inr)
qed (use assms(1-3) in \<open>auto simp: assms(4-7) libc_record_memory_info_def Let_def map_result_eq_Inr split: if_splits\<close>)

text \<open>Three kinds of calls: an allocation, a failed \<open>realloc\<close>, and a copy of a string of one character.\<close>

theorem libc_memory_effects_witness:
  "(\<exists>call'. libc_record_memory_info (\<lambda>_. None) (zero_gpr\<lparr>gpr_x := (\<lambda>n. 0x20)\<rparr>) (zero_gpr\<lparr>gpr_x := (\<lambda>n. 0x5000)\<rparr>)
        (inst_fun_call_new\<lparr>fun_name := ''malloc''\<rparr>) = Inr call'
      \<and> memory_alloc_address call' = 0x5000 \<and> memory_alloc_size call' = 0x20)
   \<and> (\<exists>call'. libc_record_memory_info (\<lambda>_. None) (zero_gpr\<lparr>gpr_x := (\<lambda>n. 0x5000)\<rparr>) zero_gpr
        (inst_fun_call_new\<lparr>fun_name := ''realloc''\<rparr>) = Inr call'
      \<and> memory_free_address call' = 0x5000 \<and> memory_alloc_size call' = 0)"
proof -
  let ?m = "inst_fun_call_new\<lparr>fun_name := ''malloc''\<rparr> :: addr inst_fun_call"
  let ?r = "inst_fun_call_new\<lparr>fun_name := ''realloc''\<rparr> :: addr inst_fun_call"
  have fresh: "memory_alloc_address ?m = 0" "memory_alloc_size ?m = 0" "memory_free_address ?m = 0"
    "memory_alloc_address ?r = 0" "memory_alloc_size ?r = 0" "memory_free_address ?r = 0"
    by (simp_all add: inst_fun_call_new_def)
  show ?thesis
    using libc_memory_effects [OF fresh(1-3) refl refl refl refl, of "\<lambda>_. None" "zero_gpr\<lparr>gpr_x := (\<lambda>n. 0x20)\<rparr>"
        "zero_gpr\<lparr>gpr_x := (\<lambda>n. 0x5000)\<rparr>"]
      libc_memory_effects [OF fresh(4-6) refl refl refl refl, of "\<lambda>_. None" "zero_gpr\<lparr>gpr_x := (\<lambda>n. 0x5000)\<rparr>" zero_gpr]
    by (auto simp: zero_gpr_def)
qed

text \<open>
  The text of the result that \<open>dispatch_ret\<close> of libc stores, per type of the result: the
  hexadecimal value for numbers and pointers, the string for strings (empty for null), the
  formatted buffer for the \<open>printf\<close> family when the type is unknown, nothing for \<open>void\<close>.
\<close>

theorem libc_return_text:
  assumes "fun_call info = Some call" and "is_module_address (fst dh) (fun_address call)"
    and "DispatchLibc_dispatch_ret mem dh info ret = Inr (b, info')"
  shows "b \<and> (\<exists>call'. info' = set_call call' info
    \<and> (ret_type call \<in> {kNumber, kPointer} \<longrightarrow> ret_value call' = ''ret=0x'' @ hex_digits (unat (gpr_x ret 0)))
    \<and> (ret_type call = kString \<longrightarrow> (if gpr_x ret 0 = 0 then ret_value call' = ''ret=''
         else \<exists>s. read_cstring mem (gpr_x ret 0) = Inr s \<and> ret_value call' = ''ret='' @ s))
    \<and> (ret_type call = kUnknown \<and> fun_name call \<in> {''sprintf'', ''vsprintf'', ''snprintf'', ''sscanf''}
         \<and> gpr_x (gpr_state (pre_status info)) 0 \<noteq> 0
         \<longrightarrow> read_cstring mem (gpr_x (gpr_state (pre_status info)) 0) = Inr (ret_value call'))
    \<and> (ret_type call \<in> {kVoid, kVariadic} \<longrightarrow> ret_value call' = ret_value call))"
proof -
  have b: b using libc.ret_inside [OF assms(1,2,3)] by blast
  obtain mid where mid: "libc_record_memory_info mem (gpr_state (pre_status info)) ret call = Inr mid"
    using assms by (auto simp: DispatchLibc_dispatch_ret_def bind_result_eq_Inr Let_def)
  have same: "ret_value mid = ret_value call" "fun_name mid = fun_name call"
    using mid by (auto simp: libc_record_memory_info_def Let_def map_result_eq_Inr split: if_splits)
  show ?thesis
    using assms b same mid
    by (cases "ret_type call")
      (auto simp: DispatchLibc_dispatch_ret_def Let_def map_result_eq_Inr bind_result_eq_Inr
        get_format_result_def read_string_from_address_def fmt_hex_def split: if_splits)
qed

theorem libc_return_text_witness:
  "\<exists>info'. DispatchLibc_dispatch_ret (\<lambda>_. None)
      (\<lparr>symbol_info = (\<lambda>_. None), d_module_range = \<lparr>mr_base = 0x1000, mr_end = 0x2000\<rparr>\<rparr>, \<lambda>_. None)
      (set_call (inst_fun_call_new\<lparr>fun_address := 0x1100, ret_type := kString\<rparr>) inst_trace_info_new) zero_gpr
      = Inr (True, info')
    \<and> (\<exists>call'. fun_call info' = Some call' \<and> ret_value call' = ''ret='')"
proof -
  let ?call = "inst_fun_call_new\<lparr>fun_address := 0x1100, ret_type := kString\<rparr> :: addr inst_fun_call"
  let ?dh = "(\<lparr>symbol_info = (\<lambda>_. None), d_module_range = \<lparr>mr_base = 0x1000, mr_end = 0x2000\<rparr>\<rparr>,
      \<lambda>_. None) :: dispatcher_state"
  let ?info = "set_call ?call inst_trace_info_new"
  have inside: "is_module_address (fst ?dh) (fun_address ?call)" by (simp add: is_module_address_def)
  obtain info' where run: "DispatchLibc_dispatch_ret (\<lambda>_. None) ?dh ?info zero_gpr = Inr (True, info')"
    by (simp add: DispatchLibc_dispatch_ret_def is_module_address_def inst_fun_call_new_def
        libc_record_memory_info_def Let_def zero_gpr_def read_string_from_address_def)
  from libc_return_text [OF _ inside run] run show ?thesis
    by (auto simp: zero_gpr_def)
qed

text \<open>
  The handler that is in force for \<open>inflateInit2_\<close> is the first of two registrations, and it
  reads the window size as a string: in a process where that small address is not mapped,
  tracing a call of \<open>inflateInit2_\<close> faults.
\<close>

theorem libz_inflateInit2_faults:
  assumes "DispatchLibz_new (Some m) = Inr dh" and "fun_call info = Some call"
    and "fun_address call \<noteq> 0" and "lib_start m \<le> fun_address call" and "fun_address call \<le> lib_end m"
    and "find_symbol m ''inflateInit2_'' = fun_address call"
    and "\<forall>s. find_symbol m s = fun_address call \<longrightarrow> s = ''inflateInit2_''"
    and "gpr_x (gpr_state (pre_status info)) 1 = windowBits" and "windowBits \<noteq> 0"
    and "mem windowBits = None"
  shows "DispatchLibz_dispatch_args mem dh info = Inl (SegFault (unat windowBits))"
proof -
  have row: "find (\<lambda>row. find_symbol m (fst row) = fun_address call) libz_rows = Some (''inflateInit2_'',
      [PushHex ''strm='' 0, PushStr ''version='' 1, PushHex ''stream_size='' 2, SetRet kNumber])"
  proof -
    have "(find_symbol m s = fun_address call) = (s = ''inflateInit2_'')" for s
      using assms(6,7) by blast
    then show ?thesis by (simp add: libz_rows_def)
  qed
  from assms(2-5,8-10) DispatchLibz_new_tables [OF assms(1)] row show ?thesis
    by (simp add: DispatchLibz_dispatch_args_def Let_def read_string_from_address_def read_cstring_unmapped)
qed

theorem libz_inflateInit2_faults_witness:
  "\<exists>dh. DispatchLibz_new (Some (one_symbol ''inflateInit2_'')) = Inr dh
     \<and> DispatchLibz_dispatch_args (\<lambda>_. None) dh
         ((call_at 0x1100)\<lparr>pre_status := zero_status\<lparr>gpr_state := zero_gpr\<lparr>gpr_x := (\<lambda>_. 31)\<rparr>\<rparr>\<rparr>)
       = Inl (SegFault 31)"
proof -
  let ?info = "(call_at 0x1100)\<lparr>pre_status := zero_status\<lparr>gpr_state := zero_gpr\<lparr>gpr_x := (\<lambda>_. 31)\<rparr>\<rparr>\<rparr>"
  obtain dh where dh: "DispatchLibz_new (Some (one_symbol ''inflateInit2_'')) = Inr dh"
    by (simp add: DispatchLibz_new_def Let_def)
  have call: "fun_call ?info = Some (inst_fun_call_new\<lparr>fun_address := 0x1100\<rparr>)" by simp
  show ?thesis
    using libz_inflateInit2_faults [OF dh call, of 31 "\<lambda>_. None"] dh by simp
qed

end
