(* ===== verification/Dispatch_Jni.thy ===== *)
theory Dispatch_Jni
  imports Jni_Table Dispatch_Libc
begin

text \<open>
  \<^verbatim>\<open>trace/dispatch/dispatch_jni_env.cpp\<close>: calls into \<^verbatim>\<open>libart.so\<close> that go through the function
  table of the Java native interface. The handlers are the tables of \<open>Jni_Table\<close>; here they
  are executed, and the dispatcher is shown to keep the contract that the dispatch manager
  relies on.
\<close>

section \<open>Executing a handler\<close>

text \<open>The low \<open>w\<close> bits of a register as a signed number, and its decimal text.\<close>

definition signed_low :: "nat \<Rightarrow> addr \<Rightarrow> int" where
  "signed_low w v =
     (let u = unat v mod 2 ^ w in if u < 2 ^ (w - 1) then int u else int u - 2 ^ w)"

definition fmt_int :: "int \<Rightarrow> string" where
  "fmt_int i = (if i < 0 then CHR ''-'' # dec_digits (nat (- i)) else dec_digits (nat i))"

text \<open>
  The formatting library checks a specification against the type of its argument when it
  runs: the alternate form \<^verbatim>\<open>#\<close> is for numbers, the type \<^verbatim>\<open>x\<close> for integers, and a pointer
  has no type but its own. Where the check fails it throws. \<^verbatim>\<open>{:#x}\<close> is \<open>fmt_spec True AsHex\<close>.
  The copy of the library in \<^verbatim>\<open>external/libcore\<close> has the checks as \<^verbatim>\<open>check_int_type_spec\<close>,
  \<^verbatim>\<open>check_pointer_type_spec\<close> and \<^verbatim>\<open>specs_checker::on_hash\<close>.
\<close>

datatype fmt_arg = FmtUnsigned addr | FmtPointer addr

datatype fmt_type = AsDefault | AsHex | AsPointer

fun spec_allowed :: "bool \<Rightarrow> fmt_type \<Rightarrow> fmt_arg \<Rightarrow> bool" where
  "spec_allowed alt typ (FmtUnsigned v) \<longleftrightarrow> typ \<noteq> AsPointer"
| "spec_allowed alt typ (FmtPointer v) \<longleftrightarrow> \<not> alt \<and> typ \<noteq> AsHex"

fun spec_text :: "bool \<Rightarrow> fmt_type \<Rightarrow> fmt_arg \<Rightarrow> string" where
  "spec_text alt AsHex (FmtUnsigned v) = (if alt then fmt_hex v else hex_digits (unat v))"
| "spec_text alt typ (FmtUnsigned v) = fmt_dec v"
| "spec_text alt typ (FmtPointer v) = fmt_hex v"

definition fmt_spec :: "bool \<Rightarrow> fmt_type \<Rightarrow> fmt_arg \<Rightarrow> string result" where
  "fmt_spec alt typ a = (if spec_allowed alt typ a then Inr (spec_text alt typ a) else Inl FormatError)"

text \<open>The text of a part. \<open>argv 0\<close> is the environment pointer.\<close>

fun run_piece :: "jvm \<Rightarrow> memory \<Rightarrow> (nat \<Rightarrow> addr result) \<Rightarrow> jni_piece \<Rightarrow> string result" where
  "run_piece vm mem argv (JLit s) = Inr s"
| "run_piece vm mem argv (JClassName n) =
     bind_result (argv 0) (\<lambda>env. bind_result (argv n) (get_jni_class_or_java_class_name vm env))"
| "run_piece vm mem argv (JObjectName n) =
     bind_result (argv 0) (\<lambda>env. bind_result (argv n) (get_jni_jobject_name vm env))"
| "run_piece vm mem argv (JMethodInfo n) =
     bind_result (argv 0) (\<lambda>env. bind_result (argv n) (get_reflected_method_info vm env))"
| "run_piece vm mem argv (JFieldInfo n) =
     bind_result (argv 0) (\<lambda>env. bind_result (argv n) (get_reflected_field_info vm env))"
| "run_piece vm mem argv (JMethodSig n) =
     bind_result (argv 0) (\<lambda>env. bind_result (argv n) (get_jni_method_signature vm env))"
| "run_piece vm mem argv (JFieldSig n) =
     bind_result (argv 0) (\<lambda>env. bind_result (argv n) (get_jni_field_signature vm env))"
| "run_piece vm mem argv (JToString n) =
     bind_result (argv 0) (\<lambda>env. bind_result (argv n) (get_jni_object_to_string vm env))"
| "run_piece vm mem argv (JStringLength n) =
     bind_result (argv 0) (\<lambda>env. bind_result (argv n) (\<lambda>s.
       map_result fmt_int (via_env env (jv_string_length vm s))))"
| "run_piece vm mem argv (JStringUTFLength n) =
     bind_result (argv 0) (\<lambda>env. bind_result (argv n) (\<lambda>s.
       map_result fmt_int (via_env env (jv_string_utf_length vm s))))"
| "run_piece vm mem argv (JArrayLength n) =
     bind_result (argv 0) (\<lambda>env. bind_result (argv n) (\<lambda>s.
       map_result fmt_int (via_env env (jv_array_length vm s))))"
| "run_piece vm mem argv (JReadChars p n) =
     bind_result (argv p) (\<lambda>str. bind_result (argv n) (\<lambda>len.
       if signed_low 32 len < 0 then Inl OutOfRange
       else map_result (\<lambda>_. []) (read_bytes (2 * nat (signed_low 32 len)) mem str)))"
| "run_piece vm mem argv (JCStr n) = bind_result (argv n) (format_cstr mem)"
| "run_piece vm mem argv (JHex n) = bind_result (argv n) (\<lambda>v. fmt_spec True AsHex (FmtUnsigned v))"
| "run_piece vm mem argv (JDec n) = bind_result (argv n) (\<lambda>v. fmt_spec False AsDefault (FmtUnsigned v))"
| "run_piece vm mem argv (JSigned n w) = map_result (\<lambda>v. fmt_int (signed_low w v)) (argv n)"
| "run_piece vm mem argv (JUnsigned n w) = map_result (\<lambda>v. dec_digits (unat v mod 2 ^ w)) (argv n)"
| "run_piece vm mem argv (JBool n w) =
     map_result (\<lambda>v. if unat v mod 2 ^ w \<noteq> 0 then ''true'' else ''false'') (argv n)"
| "run_piece vm mem argv (JFloat n) = map_result (jv_fmt_float vm) (argv n)"
| "run_piece vm mem argv (JDouble n) = map_result (jv_fmt_double vm) (argv n)"
| "run_piece vm mem argv (JPtrHex n) = bind_result (argv n) (\<lambda>v. fmt_spec True AsHex (FmtPointer v))"

text \<open>One \<^verbatim>\<open>fmt::format\<close>: the texts of its parts in a row.\<close>

fun run_pieces :: "jvm \<Rightarrow> memory \<Rightarrow> (nat \<Rightarrow> addr result) \<Rightarrow> jni_piece list \<Rightarrow> string result" where
  "run_pieces vm mem argv [] = Inr []"
| "run_pieces vm mem argv (p # ps) =
     bind_result (run_piece vm mem argv p) (\<lambda>s. map_result (\<lambda>r. s @ r) (run_pieces vm mem argv ps))"

text \<open>
  \<open>RegisterNatives\<close>: the loop over the entries of three words each. Every iteration logs the
  two strings, for which null is allowed, and then formats them, for which it is not, and
  the function pointer, a \<^verbatim>\<open>void *\<close>.
\<close>

definition native_method_text :: "memory \<Rightarrow> string \<Rightarrow> addr \<Rightarrow> string result" where
  "native_method_text mem clazz_info entry =
     bind_result (read_uintptr64 mem entry) (\<lambda>name.
     bind_result (read_uintptr64 mem (entry + 8)) (\<lambda>signature.
     bind_result (read_uintptr64 mem (entry + 16)) (\<lambda>fnPtr.
     bind_result (read_string_from_address mem name) (\<lambda>_.
     bind_result (read_string_from_address mem signature) (\<lambda>_.
     bind_result (format_cstr mem name) (\<lambda>n.
     bind_result (format_cstr mem signature) (\<lambda>s.
     map_result (\<lambda>f. ''method: '' @ clazz_info @ '' '' @ n @ s @ '' '' @ f)
       (fmt_spec True AsHex (FmtPointer fnPtr)))))))))"

fun natives_loop :: "memory \<Rightarrow> string \<Rightarrow> addr \<Rightarrow> nat \<Rightarrow> addr inst_fun_call \<Rightarrow> addr inst_fun_call result" where
  "natives_loop mem clazz_info entry 0 call = Inr call"
| "natives_loop mem clazz_info entry (Suc n) call =
     bind_result (native_method_text mem clazz_info entry) (\<lambda>method.
       natives_loop mem clazz_info (entry + 24) n (push_arg method call))"

definition run_RegisterNatives ::
  "jvm \<Rightarrow> memory \<Rightarrow> (nat \<Rightarrow> addr result) \<Rightarrow> addr inst_fun_call \<Rightarrow> addr inst_fun_call result" where
  "run_RegisterNatives vm mem argv call =
     bind_result (argv 2) (\<lambda>methods.
     bind_result (argv 3) (\<lambda>nMethods.
     bind_result (run_piece vm mem argv (JClassName 1)) (\<lambda>clazz_info.
       natives_loop mem clazz_info methods (nat (signed_low 32 nMethods)) call)))"

fun run_jni_handler ::
  "jvm \<Rightarrow> memory \<Rightarrow> (nat \<Rightarrow> addr result) \<Rightarrow> jni_handler \<Rightarrow> addr inst_fun_call \<Rightarrow> addr inst_fun_call result" where
  "run_jni_handler vm mem argv (JHandler locs pushes) call =
     bind_result (run_pieces vm mem argv locs) (\<lambda>_.
       fold_result (\<lambda>ps call. map_result (\<lambda>s. push_arg s call) (run_pieces vm mem argv ps)) pushes call)"
| "run_jni_handler vm mem argv JRegisterNatives call = run_RegisterNatives vm mem argv call"

section \<open>The dispatcher\<close>

type_synonym jni_state = "DispatchBase \<times> (addr \<Rightarrow> string option)"

definition dispatch_env_call ::
  "jvm \<Rightarrow> memory \<Rightarrow> GPRState \<Rightarrow> string \<Rightarrow> addr inst_fun_call \<Rightarrow> addr inst_fun_call result" where
  "dispatch_env_call vm mem gpr name call =
     (let argv = get_arg_register_value mem gpr in
      bind_result (argv 0) (\<lambda>env_ptr.
        let call = push_arg (''env='' @ fmt_hex env_ptr) call in
        if name \<in> set arg_handlers
        then (case map_of jni_handlers name of
                Some h \<Rightarrow> run_jni_handler vm mem argv h call
              | None \<Rightarrow> Inr call)
        else Inr call))"

text \<open>\<^verbatim>\<open>JNI_TABLE_FUN\<close>: \<^verbatim>\<open>emplace\<close> leaves an entry that is there. \<open>fun_table\<close> is the interface table.\<close>

definition JNI_TABLE_FUN ::
  "(string \<Rightarrow> addr) \<Rightarrow> string \<Rightarrow> (addr \<Rightarrow> string option) \<Rightarrow> (addr \<Rightarrow> string option)" where
  "JNI_TABLE_FUN fun_table name env_fun_table =
     (case env_fun_table (fun_table name) of
        None \<Rightarrow> env_fun_table(fun_table name \<mapsto> name)
      | Some _ \<Rightarrow> env_fun_table)"

definition init_env_fun_table :: "(string \<Rightarrow> addr) \<Rightarrow> (addr \<Rightarrow> string option)" where
  "init_env_fun_table fun_table = fold (JNI_TABLE_FUN fun_table) env_fun_names (\<lambda>_. None)"

definition DispatchJNIEnv_new :: "(string \<Rightarrow> addr) \<Rightarrow> Library_view option \<Rightarrow> jni_state result" where
  "DispatchJNIEnv_new fun_table module =
     (let env_fun_table = init_env_fun_table fun_table in
      case module of
        None \<Rightarrow> Inl NullDeref
      | Some m \<Rightarrow>
          let d = \<lparr>symbol_info = (\<lambda>_. None), d_module_range = \<lparr>mr_base = lib_start m, mr_end = lib_end m\<rparr>\<rparr>
          in Inr (enumerate_exports m d, env_fun_table))"

definition DispatchJNIEnv_dispatch_args ::
  "jvm \<Rightarrow> memory \<Rightarrow> jni_state \<Rightarrow> inst_trace_info \<Rightarrow> (bool \<times> inst_trace_info) result" where
  "DispatchJNIEnv_dispatch_args vm mem d info =
     (case fun_call info of
        None \<Rightarrow> Inl NullDeref
      | Some call \<Rightarrow>
          if \<not> is_module_address (fst d) (fun_address call) then Inr (False, info)
          else
            let call = call\<lparr>call_module_name := ''libart.so''\<rparr> in
            (case snd d (fun_address call) of
               Some name \<Rightarrow>
                 map_result (\<lambda>call. (True, set_call call info))
                   (dispatch_env_call vm mem (gpr_state (pre_status info)) name (call\<lparr>fun_name := name\<rparr>))
             | None \<Rightarrow> Inr (True, set_call call info)))"

definition DispatchJNIEnv_dispatch_ret ::
  "jvm \<Rightarrow> jni_state \<Rightarrow> inst_trace_info \<Rightarrow> GPRState \<Rightarrow> (bool \<times> inst_trace_info) result" where
  "DispatchJNIEnv_dispatch_ret vm d info ret_status =
     (case fun_call info of
        None \<Rightarrow> Inl NullDeref
      | Some call \<Rightarrow>
          if \<not> is_module_address (fst d) (fun_address call) then Inr (False, info)
          else
            let ret = gpr_x ret_status 0 in
            if fun_name call = ''GetSuperclass''
            then map_result (\<lambda>s. (True, set_call (call\<lparr>ret_value := ''ret class='' @ s @ '':'' @ fmt_hex ret\<rparr>) info))
                   (get_jni_class_or_java_class_name vm (jv_env vm) ret)
            else Inr (True, set_call (add_common_return_value ret_status call) info))"

section \<open>What a handler does to the call\<close>

lemma push_texts:
  assumes "fold_result (\<lambda>ps call. map_result (\<lambda>s. push_arg s call) (run_pieces vm mem argv ps)) pushes call
      = Inr call'"
  shows "\<exists>texts. length texts = length pushes
    \<and> (\<forall>i < length pushes. run_pieces vm mem argv (pushes ! i) = Inr (texts ! i))
    \<and> call' = call\<lparr>args := args call @ texts\<rparr>"
  using assms
proof (induction pushes arbitrary: call)
  case Nil
  then show ?case by (auto intro!: exI [of _ "[]"])
next
  case (Cons ps pushes)
  then obtain s where s: "run_pieces vm mem argv ps = Inr s"
    and rest: "fold_result (\<lambda>ps call. map_result (\<lambda>s. push_arg s call) (run_pieces vm mem argv ps)) pushes
        (push_arg s call) = Inr call'"
    by (auto simp: bind_result_eq_Inr map_result_eq_Inr)
  from Cons.IH [OF rest] obtain texts where "length texts = length pushes"
    and t: "\<forall>i < length pushes. run_pieces vm mem argv (pushes ! i) = Inr (texts ! i)"
    and c: "call' = (push_arg s call)\<lparr>args := args (push_arg s call) @ texts\<rparr>" by blast
  moreover have "run_pieces vm mem argv ((ps # pushes) ! i) = Inr ((s # texts) ! i)" if "i < length (ps # pushes)" for i
    using that s t by (cases i) auto
  ultimately show ?case by (intro exI [of _ "s # texts"]) (auto simp: push_arg_def)
qed

lemma fmt_spec_simps [simp]:
  "fmt_spec True AsHex (FmtUnsigned v) = Inr (fmt_hex v)" "fmt_spec False AsDefault (FmtUnsigned v) = Inr (fmt_dec v)"
  "fmt_spec True typ (FmtPointer v) = Inl FormatError" "fmt_spec alt AsHex (FmtPointer v) = Inl FormatError"
  by (simp_all add: fmt_spec_def)

lemma natives_loop_args:
  "natives_loop mem clazz_info entry n call = Inr call' \<Longrightarrow> \<exists>texts. call' = call\<lparr>args := args call @ texts\<rparr>"
proof (induction n arbitrary: entry call)
  case 0
  then show ?case by (auto intro!: exI [of _ "[]"])
next
  case (Suc n)
  then obtain m texts where "call' = (push_arg m call)\<lparr>args := args (push_arg m call) @ texts\<rparr>"
    by (fastforce simp: bind_result_eq_Inr)
  then show ?case by (intro exI [of _ "m # texts"]) (simp add: push_arg_def)
qed

lemma run_jni_handler_args:
  assumes "run_jni_handler vm mem argv h call = Inr call'"
  shows "\<exists>texts. call' = call\<lparr>args := args call @ texts\<rparr>"
proof (cases h)
  case (JHandler locs pushes)
  then show ?thesis using assms push_texts by (fastforce simp: bind_result_eq_Inr)
next
  case JRegisterNatives
  then show ?thesis using assms natives_loop_args by (auto simp: run_RegisterNatives_def bind_result_eq_Inr)
qed

lemma dispatch_env_call_args:
  assumes "dispatch_env_call vm mem gpr name call = Inr call'"
  shows "\<exists>texts. call' = call\<lparr>args := args call @ (''env='' @ fmt_hex (gpr_x gpr 0)) # texts\<rparr>"
  using assms
  by (auto simp: dispatch_env_call_def push_arg_def Let_def split: if_splits option.splits dest!: run_jni_handler_args)

interpretation jni: dispatcher "is_module_address (fst d)" "DispatchJNIEnv_dispatch_args vm mem d"
  "DispatchJNIEnv_dispatch_ret vm d"
proof unfold_locales
  fix info info' :: inst_trace_info and call b ret
  assume call: "fun_call info = Some call"
  show "DispatchJNIEnv_dispatch_args vm mem d info = Inr (False, info)"
    if "\<not> is_module_address (fst d) (fun_address call)"
    using call that by (simp add: DispatchJNIEnv_dispatch_args_def)
  show "DispatchJNIEnv_dispatch_ret vm d info ret = Inr (False, info)"
    if "\<not> is_module_address (fst d) (fun_address call)"
    using call that by (simp add: DispatchJNIEnv_dispatch_ret_def)
  show "b \<and> (\<exists>call'. info' = set_call call' info \<and> fun_address call' = fun_address call
      \<and> is_svc call' = is_svc call)"
    if "is_module_address (fst d) (fun_address call)" "DispatchJNIEnv_dispatch_args vm mem d info = Inr (b, info')"
    using call that
    by (auto simp: DispatchJNIEnv_dispatch_args_def Let_def map_result_eq_Inr
        dest!: dispatch_env_call_args split: option.splits)
  show "b \<and> (\<exists>call'. info' = set_call call' info \<and> is_svc call' = is_svc call)" if "is_module_address (fst d) (fun_address call)"
    "DispatchJNIEnv_dispatch_ret vm d info ret = Inr (b, info')"
    using call that
    by (auto simp: DispatchJNIEnv_dispatch_ret_def Let_def map_result_eq_Inr add_common_return_value_def split: if_splits)
qed

section \<open>The tables\<close>

text \<open>The argument registers that a part shows, besides the environment pointer.\<close>

fun piece_args :: "jni_piece \<Rightarrow> nat list" where
  "piece_args (JLit s) = []"
| "piece_args (JClassName n) = [n]"
| "piece_args (JObjectName n) = [n]"
| "piece_args (JMethodInfo n) = [n]"
| "piece_args (JFieldInfo n) = [n]"
| "piece_args (JMethodSig n) = [n]"
| "piece_args (JFieldSig n) = [n]"
| "piece_args (JToString n) = [n]"
| "piece_args (JStringLength n) = [n]"
| "piece_args (JStringUTFLength n) = [n]"
| "piece_args (JArrayLength n) = [n]"
| "piece_args (JReadChars p n) = [p, n]"
| "piece_args (JCStr n) = [n]"
| "piece_args (JHex n) = [n]"
| "piece_args (JDec n) = [n]"
| "piece_args (JSigned n w) = [n]"
| "piece_args (JUnsigned n w) = [n]"
| "piece_args (JBool n w) = [n]"
| "piece_args (JFloat n) = [n]"
| "piece_args (JDouble n) = [n]"
| "piece_args (JPtrHex n) = [n]"

text \<open>The \<open>i\<close>-th push shows register \<open>k + i\<close> and no other.\<close>

fun pushes_in_order :: "nat \<Rightarrow> jni_piece list list \<Rightarrow> bool" where
  "pushes_in_order k [] = True"
| "pushes_in_order k (ps # pss) =
     (list_all (\<lambda>p. list_all (\<lambda>n. n = k) (piece_args p)) ps
      \<and> list_ex (\<lambda>p. piece_args p \<noteq> []) ps \<and> pushes_in_order (Suc k) pss)"

definition length_queries :: "string list" where
  "length_queries = [''GetStringLength'', ''GetStringUTFLength'', ''GetArrayLength'']"

fun handler_in_order :: "string \<times> jni_handler \<Rightarrow> bool" where
  "handler_in_order (name, JHandler locs pushes) =
     (if name \<in> set length_queries then length pushes = 2 \<and> list_all (\<lambda>ps. pushes_in_order 1 [ps]) pushes
      else pushes_in_order 1 pushes)"
| "handler_in_order (name, JRegisterNatives) = True"

lemma jni_in_order: "list_all handler_in_order jni_handlers"
  unfolding jni_handlers_def list_all_append by (intro conjI; code_simp)

lemma pushes_in_order_nth:
  "pushes_in_order k pss \<Longrightarrow> i < length pss \<Longrightarrow> (\<Union>p \<in> set (pss ! i). set (piece_args p)) = {k + i}"
proof (induction k pss arbitrary: i rule: pushes_in_order.induct)
  case (2 k ps pss)
  have "(\<Union>p \<in> set ps. set (piece_args p)) = {k}"
  proof
    show "(\<Union>p \<in> set ps. set (piece_args p)) \<subseteq> {k}" using "2.prems"(1) by (auto simp: list_all_iff)
    obtain p n where "p \<in> set ps" "n \<in> set (piece_args p)"
      using "2.prems"(1) by (auto simp: list_ex_iff) (metis list.set_sel(1))
    with "2.prems"(1) show "{k} \<subseteq> (\<Union>p \<in> set ps. set (piece_args p))" by (force simp: list_all_iff)
  qed
  with 2 show ?case by (cases i) auto
qed simp

lemma handler_in_order_nth:
  assumes "handler_in_order (name, JHandler locs pushes)" and "i < length pushes"
  shows "(\<Union>p \<in> set (pushes ! i). set (piece_args p)) = {if name \<in> set length_queries then 1 else Suc i}"
proof (cases "name \<in> set length_queries")
  case True
  then have "list_all (\<lambda>ps. pushes_in_order 1 [ps]) pushes" using assms(1) by (simp del: pushes_in_order.simps)
  then have "pushes_in_order 1 [pushes ! i]" using nth_mem [OF assms(2)] unfolding list_all_iff by blast
  from pushes_in_order_nth [OF this, of 0] True show ?thesis by simp
next
  case False
  then show ?thesis using assms pushes_in_order_nth [of 1 pushes i] by simp
qed

lemma init_env_fun_table_find:
  "init_env_fun_table fun_table a = find (\<lambda>n. fun_table n = a) env_fun_names"
proof -
  have "fold (JNI_TABLE_FUN fun_table) names t a =
      (case t a of Some n \<Rightarrow> Some n | None \<Rightarrow> find (\<lambda>n. fun_table n = a) names)" for names t
    by (induction names arbitrary: t) (auto simp: JNI_TABLE_FUN_def split: option.splits)
  then show ?thesis by (simp add: init_env_fun_table_def)
qed

lemma DispatchJNIEnv_new_tables:
  assumes "DispatchJNIEnv_new fun_table (Some m) = Inr d"
  shows "snd d a = find (\<lambda>n. fun_table n = a) env_fun_names"
    and "is_module_address (fst d) a \<longleftrightarrow> lib_start m \<le> a \<and> a \<le> lib_end m"
  using assms
  by (auto simp: DispatchJNIEnv_new_def Let_def init_env_fun_table_find is_module_address_iff)

text \<open>A call whose target is the first function of the table at that address.\<close>

lemma jni_dispatch_row:
  assumes "DispatchJNIEnv_new fun_table (Some m) = Inr d" and "fun_call info = Some call"
    and "lib_start m \<le> fun_address call" and "fun_address call \<le> lib_end m"
    and "find (\<lambda>n. fun_table n = fun_address call) env_fun_names = Some name"
    and "name \<in> set arg_handlers" and "map_of jni_handlers name = Some h"
  shows "DispatchJNIEnv_dispatch_args vm mem d info =
    map_result (\<lambda>call. (True, set_call call info))
      (run_jni_handler vm mem (get_arg_register_value mem (gpr_state (pre_status info))) h
        (push_arg (''env='' @ fmt_hex (gpr_x (gpr_state (pre_status info)) 0))
          (call\<lparr>call_module_name := ''libart.so'', fun_name := name\<rparr>)))"
  using assms DispatchJNIEnv_new_tables [OF assms(1)]
  by (simp add: DispatchJNIEnv_dispatch_args_def dispatch_env_call_def Let_def)

text \<open>Two handlers format a pointer as a number in every run.\<close>

lemma jni_bad_rows:
  "map_of jni_handlers ''NewString'' = Some (JHandler [JReadChars 1 2]
     [[JLit ''str='', JPtrHex 1], [JLit ''str_len='', JSigned 2 32]])"
  "map_of jni_handlers ''RegisterNatives'' = Some JRegisterNatives"
  by code_simp+

lemma jni_registered: "''NewString'' \<in> set arg_handlers" "''RegisterNatives'' \<in> set arg_handlers"
  "''FindClass'' \<in> set arg_handlers" "''ThrowNew'' \<in> set arg_handlers"
  by code_simp+

section \<open>Properties\<close>

text \<open>
  C24: a call through the function table of the native interface, to a function whose handler is
  a list of pushes, is reported under the name of the first function of the table at the
  called address, with the environment pointer and then one text for every push of its
  handler: the \<open>i\<close>-th text shows register \<open>x\<close>\<open>i+1\<close> and no other. The exception is
  \<open>GetStringLength\<close>, \<open>GetStringUTFLength\<close> and \<open>GetArrayLength\<close>: they have two texts, which
  both show register \<open>x1\<close>, the second as the length that the virtual machine answers.
\<close>

theorem jni_reports_arguments:
  assumes "DispatchJNIEnv_new fun_table (Some m) = Inr d" and "fun_call info = Some call"
    and "lib_start m \<le> fun_address call" and "fun_address call \<le> lib_end m"
    and "find (\<lambda>n. fun_table n = fun_address call) env_fun_names = Some name"
    and "name \<in> set arg_handlers" and "map_of jni_handlers name = Some (JHandler locs pushes)"
    and "DispatchJNIEnv_dispatch_args vm mem d info = Inr (b, info')"
  shows "b \<and> (\<exists>call' texts. fun_call info' = Some call' \<and> call_module_name call' = ''libart.so''
    \<and> fun_name call' = name
    \<and> args call' = args call @ (''env='' @ fmt_hex (gpr_x (gpr_state (pre_status info)) 0)) # texts
    \<and> length texts = length pushes
    \<and> (\<forall>i < length pushes.
         run_pieces vm mem (get_arg_register_value mem (gpr_state (pre_status info))) (pushes ! i) = Inr (texts ! i)
         \<and> (\<Union>p \<in> set (pushes ! i). set (piece_args p)) = {if name \<in> set length_queries then 1 else Suc i})
    \<and> (name \<in> set length_queries \<longrightarrow> length pushes = 2))"
proof -
  let ?argv = "get_arg_register_value mem (gpr_state (pre_status info))"
  let ?call = "push_arg (''env='' @ fmt_hex (gpr_x (gpr_state (pre_status info)) 0))
      (call\<lparr>call_module_name := ''libart.so'', fun_name := name\<rparr>)"
  obtain call' where b: "b" and info': "info' = set_call call' info"
    and fold: "fold_result (\<lambda>ps call. map_result (\<lambda>s. push_arg s call) (run_pieces vm mem ?argv ps)) pushes ?call
        = Inr call'"
    using assms(8) unfolding jni_dispatch_row [OF assms(1-7)]
    by (auto simp: map_result_eq_Inr bind_result_eq_Inr)
  obtain texts where len: "length texts = length pushes"
    and texts: "\<forall>i < length pushes. run_pieces vm mem ?argv (pushes ! i) = Inr (texts ! i)"
    and call': "call' = ?call\<lparr>args := args ?call @ texts\<rparr>" using push_texts [OF fold] by blast
  have ord: "handler_in_order (name, JHandler locs pushes)"
    using jni_in_order map_of_SomeD [OF assms(7)] by (force simp: list_all_iff)
  have "name \<in> set length_queries \<Longrightarrow> length pushes = 2" using ord by simp
  with b info' len texts call' handler_in_order_nth [OF ord] show ?thesis by auto
qed

definition demo_jvm :: jvm where
  "demo_jvm = \<lparr>jv_class = (\<lambda>r. if r = 0x70 then Some (JReference ''java.lang.Error'') else None),
     jv_object_class = (\<lambda>_. None), jv_to_string = (\<lambda>_. None), jv_reflected_method = (\<lambda>_. None),
     jv_reflected_field = (\<lambda>_. None), jv_method = (\<lambda>_. None), jv_field = (\<lambda>_. None),
     jv_string_length = (\<lambda>_. None), jv_string_utf_length = (\<lambda>_. None), jv_array_length = (\<lambda>_. None),
     jv_env = 0x60, jv_fmt_float = (\<lambda>_. []), jv_fmt_double = (\<lambda>_. [])\<rparr>"

definition demo_fun_table :: "string \<Rightarrow> addr" where
  "demo_fun_table n = (if n = ''ThrowNew'' then 0x1100 else if n = ''RegisterNatives'' then 0x1200 else 0)"

text \<open>A call at an address of the demonstration table with three argument registers.\<close>

definition jni_call_at :: "addr \<Rightarrow> addr \<Rightarrow> addr \<Rightarrow> addr \<Rightarrow> inst_trace_info" where
  "jni_call_at a x1 x2 x3 = inst_trace_info_new
     \<lparr>pre_status := zero_status\<lparr>gpr_state := zero_gpr\<lparr>gpr_x := (\<lambda>_. 0)(0 := 0x60, 1 := x1, 2 := x2, 3 := x3)\<rparr>\<rparr>,
      fun_call := Some (inst_fun_call_new\<lparr>fun_address := a\<rparr>)\<rparr>"

lemma jni_call_at_simps [simp]:
  "fun_call (jni_call_at a x1 x2 x3) = Some (inst_fun_call_new\<lparr>fun_address := a\<rparr>)"
  "gpr_x (gpr_state (pre_status (jni_call_at a x1 x2 x3))) = (\<lambda>_. 0)(0 := 0x60, 1 := x1, 2 := x2, 3 := x3)"
  by (simp_all add: jni_call_at_def)

lemma demo_rows:
  "find (\<lambda>n. demo_fun_table n = 0x1100) env_fun_names = Some ''ThrowNew''"
  "find (\<lambda>n. demo_fun_table n = 0x1200) env_fun_names = Some ''RegisterNatives''"
  "map_of jni_handlers ''ThrowNew'' = Some (JHandler [JClassName 1]
     [[JLit ''java_class='', JClassName 1, JLit '' '', JHex 1], [JLit ''msg='', JCStr 2]])"
  by code_simp+

lemma demo_new: "\<exists>d. DispatchJNIEnv_new demo_fun_table (Some (one_symbol s)) = Inr d"
  by (simp add: DispatchJNIEnv_new_def Let_def)

lemma demo_throw_texts:
  "run_jni_handler demo_jvm ((\<lambda>_. None)(0x80 \<mapsto> 0x45, 0x81 \<mapsto> 0))
     (get_arg_register_value mem (gpr_state (pre_status (jni_call_at a 0x70 0x80 0))))
     (JHandler [JClassName 1] [[JLit ''java_class='', JClassName 1, JLit '' '', JHex 1], [JLit ''msg='', JCStr 2]]) c
   = Inr (c\<lparr>args := args c @ [''java_class=java.lang.Error 0x70'', ''msg=E'']\<rparr>)"
proof -
  have cstr: "format_cstr ((\<lambda>_. None)(0x80 \<mapsto> 0x45, 0x81 \<mapsto> 0)) (0x80 :: addr) = Inr ''E''" by code_simp
  have hex: "fmt_hex (0x70 :: addr) = ''0x70''" by code_simp
  have cls: "get_jni_class_or_java_class_name demo_jvm 0x60 0x70 = Inr ''java.lang.Error''" by code_simp
  show ?thesis by (simp add: cstr hex cls push_arg_def)
qed

theorem jni_reports_arguments_witness:
  "\<exists>d info' call'. DispatchJNIEnv_new demo_fun_table (Some (one_symbol ''art'')) = Inr d
     \<and> DispatchJNIEnv_dispatch_args demo_jvm ((\<lambda>_. None)(0x80 \<mapsto> 0x45, 0x81 \<mapsto> 0)) d
         (jni_call_at 0x1100 0x70 0x80 0) = Inr (True, info')
     \<and> fun_call info' = Some call' \<and> fun_name call' = ''ThrowNew'' \<and> length (args call') = 3"
proof -
  obtain d where d: "DispatchJNIEnv_new demo_fun_table (Some (one_symbol ''art'')) = Inr d"
    using demo_new by blast
  let ?call = "inst_fun_call_new\<lparr>fun_address := 0x1100\<rparr> :: addr inst_fun_call"
  have call: "fun_call (jni_call_at 0x1100 0x70 0x80 0) = Some ?call" by simp
  have row: "find (\<lambda>n. demo_fun_table n = fun_address ?call) env_fun_names = Some ''ThrowNew''"
    using demo_rows(1) by simp
  obtain info' where run: "DispatchJNIEnv_dispatch_args demo_jvm ((\<lambda>_. None)(0x80 \<mapsto> 0x45, 0x81 \<mapsto> 0)) d
      (jni_call_at 0x1100 0x70 0x80 0) = Inr (True, info')"
    using jni_dispatch_row [OF d call _ _ row jni_registered(4) demo_rows(3)] demo_throw_texts by simp
  show ?thesis
    using jni_reports_arguments [OF d call _ _ row jni_registered(4) demo_rows(3) run] d run
    by (auto simp: inst_fun_call_new_def)
qed

text \<open>
  C25: the type texts of methods and fields are the descriptors of the class file format exactly
  for the primitive types and the arrays of them; a reference type is printed as the brackets
  of its dimensions and nothing else. So the text of a method does not show which reference
  types it takes: the reference parameters leave no trace in it.
\<close>

theorem jni_type_descriptors:
  assumes "java_ok t"
  shows "(get_jni_type t = descriptor t \<longleftrightarrow> (\<exists>n. element_type t = JPrimitive n))
    \<and> (\<forall>n. element_type t = JReference n \<longrightarrow> get_jni_type t = replicate (dimensions t) CHR ''['')
    \<and> reflected_method_text m =
        reflected_method_text (m\<lparr>rm_params := filter (\<lambda>t. \<forall>n. t \<noteq> JReference n) (rm_params m)\<rparr>)"
proof (intro conjI)
  have el: "(\<exists>n. element_type t = JPrimitive n) \<or> (\<exists>n. element_type t = JReference n)" for t
    by (induction t) auto
  show "get_jni_type t = descriptor t \<longleftrightarrow> (\<exists>n. element_type t = JPrimitive n)"
  proof
    assume eq: "get_jni_type t = descriptor t"
    show "\<exists>n. element_type t = JPrimitive n"
    proof (rule ccontr)
      assume "\<not> ?thesis"
      then obtain n where "element_type t = JReference n" using el [of t] by blast
      with eq get_jni_type_reference descriptor_reference show False by fastforce
    qed
  qed (use assms get_jni_type_primitive in blast)
  show "\<forall>n. element_type t = JReference n \<longrightarrow> get_jni_type t = replicate (dimensions t) CHR ''[''"
    using get_jni_type_reference by blast
  have "concat (map get_jni_type ts) = concat (map get_jni_type (filter (\<lambda>t. \<forall>n. t \<noteq> JReference n) ts))" for ts
    by (induction ts) auto
  then show "reflected_method_text m =
      reflected_method_text (m\<lparr>rm_params := filter (\<lambda>t. \<forall>n. t \<noteq> JReference n) (rm_params m)\<rparr>)"
    by (simp add: reflected_method_text_def)
qed

theorem jni_type_descriptors_witness:
  "get_jni_type (JArray (JPrimitive ''int'')) = ''[I''
   \<and> reflected_method_text \<lparr>rm_class = ''java.lang.reflect.Method'', rm_name = ''f'',
       rm_params = [JReference ''java.lang.String'', JPrimitive ''int''], rm_return = Some (JPrimitive ''void'')\<rparr>
     = ''f(I)V''"
proof -
  have ok: "java_ok (JArray (JPrimitive ''int''))" by (simp add: primitive_names_def)
  show ?thesis
    using jni_type_descriptors [OF ok, of "\<lparr>rm_class = ''java.lang.reflect.Method'', rm_name = ''f'',
       rm_params = [JReference ''java.lang.String'', JPrimitive ''int''], rm_return = Some (JPrimitive ''void'')\<rparr>"]
    by (simp add: reflected_method_text_def get_jni_type_ref_def)
qed

text \<open>
  C26: tracing a call of \<open>NewString\<close> or \<open>RegisterNatives\<close> ends in the exception of the formatting
  library, since the handlers hand a \<^verbatim>\<open>void *\<close> to \<^verbatim>\<open>{:#x}\<close>. For \<open>NewString\<close> with readable
  characters, and for \<open>RegisterNatives\<close> on a class with at least one method whose entry and strings are readable,
  the exception is the outcome; where they are not readable the handler faults
  before, so that with a method it never returns. \<open>RegisterNatives\<close> with a count that is not positive returns
  and reports the environment pointer alone.
\<close>

theorem jni_pointer_format_throws:
  assumes "DispatchJNIEnv_new fun_table (Some m) = Inr d" and "fun_call info = Some call"
    and "lib_start m \<le> fun_address call" and "fun_address call \<le> lib_end m"
    and "find (\<lambda>n. fun_table n = fun_address call) env_fun_names = Some name"
    and "x = gpr_x (gpr_state (pre_status info))"
  shows "(name = ''NewString'' \<and> 0 \<le> signed_low 32 (x 2)
        \<and> read_bytes (2 * nat (signed_low 32 (x 2))) mem (x 1) = Inr chars
      \<longrightarrow> DispatchJNIEnv_dispatch_args vm mem d info = Inl FormatError)
    \<and> (name = ''RegisterNatives'' \<and> 0 < signed_low 32 (x 3)
      \<longrightarrow> (\<exists>e. DispatchJNIEnv_dispatch_args vm mem d info = Inl e))
    \<and> (name = ''RegisterNatives'' \<and> 0 < signed_low 32 (x 3)
        \<and> get_jni_class_or_java_class_name vm (x 0) (x 1) = Inr clazz_info
        \<and> read_uintptr64 mem (x 2) = Inr np \<and> read_uintptr64 mem (x 2 + 8) = Inr sp \<and> read_uintptr64 mem (x 2 + 16) = Inr fp
        \<and> read_cstring mem np = Inr n \<and> read_cstring mem sp = Inr s
      \<longrightarrow> DispatchJNIEnv_dispatch_args vm mem d info = Inl FormatError)
    \<and> (name = ''RegisterNatives'' \<and> signed_low 32 (x 3) \<le> 0
        \<and> get_jni_class_or_java_class_name vm (x 0) (x 1) = Inr clazz_info
      \<longrightarrow> DispatchJNIEnv_dispatch_args vm mem d info = Inr (True, set_call (push_arg (''env='' @ fmt_hex (x 0))
            (call\<lparr>call_module_name := ''libart.so'', fun_name := name\<rparr>)) info))"
proof (intro conjI impI; elim conjE)
  let ?argv = "get_arg_register_value mem (gpr_state (pre_status info))"
  note row = jni_dispatch_row [OF assms(1-5)]
  have rows: "name = ''NewString'' \<Longrightarrow> name \<in> set arg_handlers" "name = ''RegisterNatives'' \<Longrightarrow> name \<in> set arg_handlers"
    "name = ''NewString'' \<Longrightarrow> map_of jni_handlers name = Some (JHandler [JReadChars 1 2]
       [[JLit ''str='', JPtrHex 1], [JLit ''str_len='', JSigned 2 32]])"
    "name = ''RegisterNatives'' \<Longrightarrow> map_of jni_handlers name = Some JRegisterNatives"
    using jni_registered(1,2) jni_bad_rows by simp_all
  have six [simp]: "?argv 0 = Inr (x 0)" "?argv (Suc 0) = Inr (x (Suc 0))" "?argv 2 = Inr (x 2)" "?argv 3 = Inr (x 3)"
    by (simp_all add: assms(6))
  {
    assume ns: "name = ''NewString''" and chars: "0 \<le> signed_low 32 (x 2)"
      "read_bytes (2 * nat (signed_low 32 (x 2))) mem (x 1) = Inr chars"
    show "DispatchJNIEnv_dispatch_args vm mem d info = Inl FormatError"
      unfolding row [OF rows(1,3) [OF ns]] using chars by (simp add: assms(6) not_less)
  next
    assume rn: "name = ''RegisterNatives''" and pos: "0 < signed_low 32 (x 3)"
    obtain k where k: "nat (signed_low 32 (x 3)) = Suc k" using pos by (metis gr0_implies_Suc zero_less_nat_eq)
    have "\<exists>e. native_method_text mem ci a = Inl e" for ci a
      by (auto simp: native_method_text_def bind_result_def map_result_def split: sum.split)
    then have "\<exists>e. run_RegisterNatives vm mem ?argv c = Inl e" for c
      using k by (auto simp: run_RegisterNatives_def bind_result_def split: sum.split) (metis sum.distinct(1))
    then obtain err where "run_RegisterNatives vm mem ?argv (push_arg (''env='' @ fmt_hex (x 0))
        (call\<lparr>call_module_name := ''libart.so'', fun_name := name\<rparr>)) = Inl err" by blast
    then show "\<exists>e. DispatchJNIEnv_dispatch_args vm mem d info = Inl e"
      unfolding row [OF rows(2,4) [OF rn]] assms(6) [symmetric] by simp
    assume cls: "get_jni_class_or_java_class_name vm (x 0) (x 1) = Inr clazz_info"
      and entry: "read_uintptr64 mem (x 2) = Inr np" "read_uintptr64 mem (x 2 + 8) = Inr sp"
      "read_uintptr64 mem (x 2 + 16) = Inr fp" "read_cstring mem np = Inr n" "read_cstring mem sp = Inr s"
    have "native_method_text mem clazz_info (x 2) = Inl FormatError"
      using entry by (simp add: native_method_text_def read_string_from_address_def format_cstr_def)
    then have "run_RegisterNatives vm mem ?argv c = Inl FormatError" for c
      using cls k by (simp add: run_RegisterNatives_def)
    then show "DispatchJNIEnv_dispatch_args vm mem d info = Inl FormatError"
      unfolding row [OF rows(2,4) [OF rn]] by simp
  next
    assume rn: "name = ''RegisterNatives''" and none: "signed_low 32 (x 3) \<le> 0"
      "get_jni_class_or_java_class_name vm (x 0) (x 1) = Inr clazz_info"
    show "DispatchJNIEnv_dispatch_args vm mem d info = Inr (True, set_call (push_arg (''env='' @ fmt_hex (x 0))
        (call\<lparr>call_module_name := ''libart.so'', fun_name := name\<rparr>)) info)"
      unfolding row [OF rows(2,4) [OF rn]] assms(6) [symmetric] using none by (simp add: run_RegisterNatives_def)
  }
qed

text \<open>One native method, whose name and signature are empty strings at \<open>0x100\<close>; all is readable.\<close>

definition demo_natives :: memory where
  "demo_natives a = (if a = 0x81 \<or> a = 0x89 then Some 1 else Some 0)"

theorem jni_pointer_format_throws_witness:
  "\<exists>d. DispatchJNIEnv_new demo_fun_table (Some (one_symbol ''art'')) = Inr d
     \<and> DispatchJNIEnv_dispatch_args demo_jvm demo_natives d (jni_call_at 0x1200 0x70 0x80 1) = Inl FormatError"
proof -
  obtain d where d: "DispatchJNIEnv_new demo_fun_table (Some (one_symbol ''art'')) = Inr d"
    using demo_new by blast
  let ?call = "inst_fun_call_new\<lparr>fun_address := 0x1200\<rparr> :: addr inst_fun_call"
  have call: "fun_call (jni_call_at 0x1200 0x70 0x80 1) = Some ?call" by simp
  have row: "find (\<lambda>n. demo_fun_table n = fun_address ?call) env_fun_names = Some ''RegisterNatives''"
    using demo_rows(2) by simp
  have "signed_low 32 1 = 1" by (simp add: signed_low_def)
  moreover have "get_jni_class_or_java_class_name demo_jvm 0x60 0x70 = Inr ''java.lang.Error''" by code_simp
  moreover have "read_uintptr64 demo_natives 0x80 = Inr 0x100" "read_uintptr64 demo_natives 0x88 = Inr 0x100"
    "read_uintptr64 demo_natives 0x90 = Inr 0" "read_cstring demo_natives 0x100 = Inr []" by code_simp+
  ultimately show ?thesis
    using jni_pointer_format_throws [OF d call _ _ row refl, of demo_natives _ demo_jvm] d by simp
qed

end
