(* ===== verification/Dispatch_Manager.thy ===== *)
theory Dispatch_Manager
  imports Dispatch_Syscall Dispatch_Jni
begin

text \<open>
  \<^verbatim>\<open>trace/instruction_dispatch_manager.cpp\<close>: a system call goes to its dispatcher, any other
  call to the first of the libc, libz and JNI dispatchers that answers true.
\<close>

section \<open>Model\<close>

text \<open>What the kernel headers and the Java virtual machine contribute.\<close>

record dispatch_env =
  env_NR :: "string \<Rightarrow> 32 word"
  env_PR :: "string \<Rightarrow> nat"
  env_jvm :: jvm

record InstructionDispatchManager =
  dm_syscall :: DispatchSyscall
  dm_libc :: dispatcher_state
  dm_libz :: dispatcher_state
  dm_jni :: jni_state

text \<open>The loop over \<open>dispatch_list\<close>.\<close>

fun dispatch_first ::
  "(inst_trace_info \<Rightarrow> (bool \<times> inst_trace_info) result) list \<Rightarrow> inst_trace_info
   \<Rightarrow> (bool \<times> inst_trace_info) result" where
  "dispatch_first [] call = Inr (False, call)"
| "dispatch_first (item # items) call =
     bind_result (item call) (\<lambda>(b, call). if b then Inr (True, call) else dispatch_first items call)"

definition is_svc_call :: "inst_trace_info \<Rightarrow> bool" where
  "is_svc_call call = (case fun_call call of Some c \<Rightarrow> is_svc c | None \<Rightarrow> False)"

definition dispatch_manager_args ::
  "dispatch_env \<Rightarrow> memory \<Rightarrow> addr \<Rightarrow> InstructionDispatchManager \<Rightarrow> inst_trace_info
   \<Rightarrow> (bool \<times> InstructionDispatchManager \<times> inst_trace_info) result" where
  "dispatch_manager_args env mem frame dm call =
     (if is_svc_call call then
        map_result (\<lambda>(b, d, call). (True, dm\<lparr>dm_syscall := d\<rparr>, call))
          (DispatchSyscall_dispatch_args (env_NR env) (env_PR env) mem frame (dm_syscall dm) call)
      else
        map_result (\<lambda>(b, call). (b, dm, call))
          (dispatch_first
             [DispatchLibc_dispatch_args mem (dm_libc dm), DispatchLibz_dispatch_args mem (dm_libz dm),
              DispatchJNIEnv_dispatch_args (env_jvm env) mem (dm_jni dm)] call))"

definition dispatch_manager_ret ::
  "dispatch_env \<Rightarrow> memory \<Rightarrow> InstructionDispatchManager \<Rightarrow> inst_trace_info \<Rightarrow> GPRState
   \<Rightarrow> (bool \<times> inst_trace_info) result" where
  "dispatch_manager_ret env mem dm call ret_status =
     (if is_svc_call call then
        map_result (\<lambda>(b, call). (True, call)) (DispatchSyscall_dispatch_ret call ret_status)
      else
        dispatch_first
          [\<lambda>call. DispatchLibc_dispatch_ret mem (dm_libc dm) call ret_status,
           \<lambda>call. DispatchLibz_dispatch_ret mem (dm_libz dm) call ret_status,
           \<lambda>call. DispatchJNIEnv_dispatch_ret (env_jvm env) (dm_jni dm) call ret_status] call)"

text \<open>The constructor registers the three dispatchers.\<close>

definition InstructionDispatchManager_new ::
  "Library_view option \<Rightarrow> Library_view option \<Rightarrow> (string \<Rightarrow> addr) \<Rightarrow> Library_view option
   \<Rightarrow> InstructionDispatchManager result" where
  "InstructionDispatchManager_new libc_module libz_module fun_table libart_module =
     bind_result (DispatchLibc_new libc_module) (\<lambda>lc.
       bind_result (DispatchLibz_new libz_module) (\<lambda>lz.
         map_result (\<lambda>j. \<lparr>dm_syscall = \<lparr>captured_frame = None\<rparr>, dm_libc = lc, dm_libz = lz, dm_jni = j\<rparr>)
           (DispatchJNIEnv_new fun_table libart_module)))"

section \<open>Clients of the contract\<close>

context dispatcher
begin

text \<open>A dispatcher in front of others takes the calls of its module and lets the rest pass.\<close>

lemma dispatch_first_takes:
  assumes "fun_call call = Some c"
  shows "dispatch_first (dispatch_args # items) call =
    (if in_module (fun_address c) then dispatch_args call else dispatch_first items call)"
proof (cases "in_module (fun_address c)")
  case True
  show ?thesis
  proof (cases "dispatch_args call")
    case (Inr r)
    obtain b call' where r: "r = (b, call')" by force
    have b using args_inside [OF assms True] Inr r by blast
    with True Inr r show ?thesis by simp
  qed (simp add: True)
next
  case False
  then show ?thesis using args_outside [OF assms False] by simp
qed

lemma dispatch_first_ret_takes:
  assumes "fun_call call = Some c"
  shows "dispatch_first ((\<lambda>call. dispatch_ret call ret) # items) call =
    (if in_module (fun_address c)
     then map_result (\<lambda>(b, call). (True, call)) (dispatch_ret call ret) else dispatch_first items call)"
proof (cases "in_module (fun_address c)")
  case True
  show ?thesis
  proof (cases "dispatch_ret call ret")
    case (Inr r)
    obtain b call' where r: "r = (b, call')" by force
    have b using ret_inside [OF assms True] Inr r by blast
    with True Inr r show ?thesis by simp
  qed (simp add: True)
next
  case False
  then show ?thesis using ret_outside [OF assms False] by simp
qed

end

section \<open>Only the call changes\<close>

text \<open>A dispatch changes the call of the record only, and neither its target nor its kind.\<close>

context dispatcher
begin

lemma args_only_call:
  assumes "fun_call info = Some call" and "dispatch_args info = Inr (b, info')"
  shows "\<exists>c. info' = set_call c info \<and> (fun_address c, is_svc c) = (fun_address call, is_svc call)"
  using args_outside [OF assms(1)] args_inside [OF assms(1)] assms(2) set_call_same [OF assms(1)]
  by (cases "in_module (fun_address call)") (auto intro: exI [of _ call])

lemma ret_only_call:
  assumes "fun_call info = Some call" and "dispatch_ret info ret = Inr (b, info')"
  shows "\<exists>c. info' = set_call c info \<and> is_svc c = is_svc call"
  using ret_outside [OF assms(1)] ret_inside [OF assms(1)] assms(2) set_call_same [OF assms(1)]
  by (cases "in_module (fun_address call)") (auto intro: exI [of _ call])

end

lemma dispatch_first_only_call:
  assumes "dispatch_first items info = Inr (b, info')" and "fun_call info = Some call"
    and "\<And>item info b info' call. item \<in> set items \<Longrightarrow> fun_call info = Some call \<Longrightarrow>
      item info = Inr (b, info') \<Longrightarrow> \<exists>c. info' = set_call c info \<and> f c = f call"
  shows "\<exists>c. info' = set_call c info \<and> f c = f call"
  using assms
proof (induction items arbitrary: info call)
  case Nil
  then show ?case using set_call_same by (auto intro!: exI [of _ call])
next
  case (Cons item items)
  obtain b1 info1 where item: "item info = Inr (b1, info1)"
    and rest: "(if b1 then Inr (True, info1) else dispatch_first items info1) = Inr (b, info')"
    using Cons.prems(1) by (auto simp: bind_result_eq_Inr)
  obtain c1 where c1: "info1 = set_call c1 info" "f c1 = f call"
    using Cons.prems(3) [OF list.set_intros(1) Cons.prems(2) item] by blast
  show ?case
  proof (cases b1)
    case True
    with rest c1 show ?thesis by auto
  next
    case False
    have "\<exists>c. info' = set_call c info1 \<and> f c = f c1"
    proof (rule Cons.IH)
      show "dispatch_first items info1 = Inr (b, info')" using rest False by simp
      show "fun_call info1 = Some c1" using c1 by simp
    qed (use Cons.prems(3) in \<open>meson list.set_intros(2)\<close>)
    with c1 show ?thesis by auto
  qed
qed

lemma run_handler_same_call:
  "run_handler cst mem argv h call = Inr call' \<Longrightarrow> fun_address call' = fun_address call \<and> is_svc call' = is_svc call"
  by (cases h) (auto simp: bind_result_eq_Inr dest: run_actions_same_call)

lemma syscall_args_only_call:
  assumes "DispatchSyscall_dispatch_args NR PR mem frame d info = Inr (b, d', info')" and "fun_call info = Some call"
  shows "\<exists>c. info' = set_call c info \<and> (fun_address c, is_svc c) = (fun_address call, is_svc call)"
  using assms
  by (auto simp: DispatchSyscall_dispatch_args_def Let_def map_result_eq_Inr set_call_def [symmetric]
      dest!: run_handler_same_call split: option.splits if_splits)

lemma dispatch_manager_args_only_call:
  assumes "dispatch_manager_args env mem frame dm info = Inr (b, dm', info')" and "fun_call info = Some call"
  shows "\<exists>c. info' = set_call c info \<and> (fun_address c, is_svc c) = (fun_address call, is_svc call)"
proof (cases "is_svc call")
  case True
  with assms obtain b1 d where "DispatchSyscall_dispatch_args (env_NR env) (env_PR env) mem frame (dm_syscall dm) info
      = Inr (b1, d, info')"
    by (auto simp: dispatch_manager_args_def is_svc_call_def map_result_eq_Inr)
  then show ?thesis using assms(2) by (rule syscall_args_only_call)
next
  case False
  with assms(1,2) have "dispatch_first [DispatchLibc_dispatch_args mem (dm_libc dm),
      DispatchLibz_dispatch_args mem (dm_libz dm), DispatchJNIEnv_dispatch_args (env_jvm env) mem (dm_jni dm)] info = Inr (b, info')"
    by (auto simp: dispatch_manager_args_def is_svc_call_def map_result_eq_Inr)
  then show ?thesis
    by (rule dispatch_first_only_call [OF _ assms(2)])
      (auto dest: libc.args_only_call libz.args_only_call jni.args_only_call)
qed

lemma dispatch_manager_ret_only_call:
  assumes "dispatch_manager_ret env mem dm info ret = Inr (b, info')" and "fun_call info = Some call"
  shows "\<exists>c. info' = set_call c info \<and> is_svc c = is_svc call"
proof (cases "is_svc call")
  case True
  with assms(1,2) show ?thesis
    by (auto simp: dispatch_manager_ret_def is_svc_call_def map_result_eq_Inr
        DispatchSyscall_dispatch_ret_def syscall_record_memory_info_def Let_def set_call_def)
next
  case False
  with assms(1,2) have "dispatch_first [\<lambda>call. DispatchLibc_dispatch_ret mem (dm_libc dm) call ret,
      \<lambda>call. DispatchLibz_dispatch_ret mem (dm_libz dm) call ret, \<lambda>call. DispatchJNIEnv_dispatch_ret (env_jvm env) (dm_jni dm) call ret] info
      = Inr (b, info')"
    by (auto simp: dispatch_manager_ret_def is_svc_call_def)
  then show ?thesis
    by (rule dispatch_first_only_call [OF _ assms(2)])
      (auto dest: libc.ret_only_call libz.ret_only_call jni.ret_only_call)
qed

section \<open>Routes\<close>

text \<open>Which dispatcher a call belongs to: its kind and its target decide, and the ranges of the modules.\<close>

datatype route = ToSyscall | ToLibc | ToLibz | ToJni | ToNobody

definition route :: "InstructionDispatchManager \<Rightarrow> addr inst_fun_call \<Rightarrow> route" where
  "route dm c =
     (if is_svc c then ToSyscall
      else if is_module_address (fst (dm_libc dm)) (fun_address c) then ToLibc
      else if is_module_address (fst (dm_libz dm)) (fun_address c) then ToLibz
      else if is_module_address (fst (dm_jni dm)) (fun_address c) then ToJni
      else ToNobody)"

lemma route_cong:
  assumes "dm_libc dm' = dm_libc dm" and "dm_libz dm' = dm_libz dm" and "dm_jni dm' = dm_jni dm"
    and "fun_address c' = fun_address c" and "is_svc c' = is_svc c"
  shows "route dm' c' = route dm c"
  unfolding route_def assms ..

lemma dispatch_manager_args_route:
  assumes "fun_call call = Some c"
  shows "dispatch_manager_args env mem frame dm call =
    (case route dm c of
       ToSyscall \<Rightarrow> map_result (\<lambda>(b, d, call). (True, dm\<lparr>dm_syscall := d\<rparr>, call))
         (DispatchSyscall_dispatch_args (env_NR env) (env_PR env) mem frame (dm_syscall dm) call)
     | ToLibc \<Rightarrow> map_result (\<lambda>(b, call). (b, dm, call)) (DispatchLibc_dispatch_args mem (dm_libc dm) call)
     | ToLibz \<Rightarrow> map_result (\<lambda>(b, call). (b, dm, call)) (DispatchLibz_dispatch_args mem (dm_libz dm) call)
     | ToJni \<Rightarrow> map_result (\<lambda>(b, call). (b, dm, call))
         (DispatchJNIEnv_dispatch_args (env_jvm env) mem (dm_jni dm) call)
     | ToNobody \<Rightarrow> Inr (False, dm, call))"
  using assms
  by (auto simp: dispatch_manager_args_def is_svc_call_def route_def
      libc.dispatch_first_takes [OF assms] libz.dispatch_first_takes [OF assms] jni.dispatch_first_takes [OF assms]
      simp del: dispatch_first.simps(2))

lemma dispatch_manager_ret_route:
  assumes "fun_call call = Some c"
  shows "dispatch_manager_ret env mem dm call ret =
    map_result (\<lambda>(b, call). (route dm c \<noteq> ToNobody, call))
      (case route dm c of
         ToSyscall \<Rightarrow> DispatchSyscall_dispatch_ret call ret
       | ToLibc \<Rightarrow> DispatchLibc_dispatch_ret mem (dm_libc dm) call ret
       | ToLibz \<Rightarrow> DispatchLibz_dispatch_ret mem (dm_libz dm) call ret
       | ToJni \<Rightarrow> DispatchJNIEnv_dispatch_ret (env_jvm env) (dm_jni dm) call ret
       | ToNobody \<Rightarrow> Inr (False, call))"
  using assms
  by (auto simp: dispatch_manager_ret_def is_svc_call_def route_def
      libc.dispatch_first_ret_takes [OF assms] libz.dispatch_first_ret_takes [OF assms]
      jni.dispatch_first_ret_takes [OF assms] simp del: dispatch_first.simps(2))

lemma dispatch_manager_args_answer:
  assumes "fun_call call = Some c" and "dispatch_manager_args env mem frame dm call = Inr (b, dm', call')"
  shows "b \<longleftrightarrow> route dm c \<noteq> ToNobody"
    and "dm_libc dm' = dm_libc dm \<and> dm_libz dm' = dm_libz dm \<and> dm_jni dm' = dm_jni dm"
proof -
  show "b \<longleftrightarrow> route dm c \<noteq> ToNobody"
    using assms(2) libc.args_inside [OF assms(1), of "dm_libc dm"] libz.args_inside [OF assms(1), of "dm_libz dm"]
      jni.args_inside [OF assms(1), of "dm_jni dm"]
    unfolding dispatch_manager_args_route [OF assms(1)] route_def by (auto simp: map_result_eq_Inr split: if_splits)
  show "dm_libc dm' = dm_libc dm \<and> dm_libz dm' = dm_libz dm \<and> dm_jni dm' = dm_jni dm"
    using assms(2) unfolding dispatch_manager_args_route [OF assms(1)]
    by (auto simp: map_result_eq_Inr split: route.splits)
qed

section \<open>Properties\<close>

text \<open>
  C31: routing. A system call is handled by the dispatcher of system calls alone, its arguments
  and its return, and the manager answers true whether the number is known or not. Another
  call is handled by libc when the target lies in libc, else by libz when it lies in libz, else
  by the JNI dispatcher when it lies in libart, and is left alone otherwise. The manager
  answers whether there was a dispatcher. The return of a call takes the route of its
  arguments: what the dispatch of the arguments leaves in the record and in the manager leads to
  the same dispatcher.
\<close>

theorem dispatch_routes:
  assumes "fun_call call = Some c"
  shows "dispatch_manager_args env mem frame dm call =
      (case route dm c of
         ToSyscall \<Rightarrow> map_result (\<lambda>(b, d, call). (True, dm\<lparr>dm_syscall := d\<rparr>, call))
           (DispatchSyscall_dispatch_args (env_NR env) (env_PR env) mem frame (dm_syscall dm) call)
       | ToLibc \<Rightarrow> map_result (\<lambda>(b, call). (b, dm, call)) (DispatchLibc_dispatch_args mem (dm_libc dm) call)
       | ToLibz \<Rightarrow> map_result (\<lambda>(b, call). (b, dm, call)) (DispatchLibz_dispatch_args mem (dm_libz dm) call)
       | ToJni \<Rightarrow> map_result (\<lambda>(b, call). (b, dm, call))
           (DispatchJNIEnv_dispatch_args (env_jvm env) mem (dm_jni dm) call)
       | ToNobody \<Rightarrow> Inr (False, dm, call))
    \<and> dispatch_manager_ret env mem dm call ret =
      map_result (\<lambda>(b, call). (route dm c \<noteq> ToNobody, call))
        (case route dm c of
           ToSyscall \<Rightarrow> DispatchSyscall_dispatch_ret call ret
         | ToLibc \<Rightarrow> DispatchLibc_dispatch_ret mem (dm_libc dm) call ret
         | ToLibz \<Rightarrow> DispatchLibz_dispatch_ret mem (dm_libz dm) call ret
         | ToJni \<Rightarrow> DispatchJNIEnv_dispatch_ret (env_jvm env) (dm_jni dm) call ret
         | ToNobody \<Rightarrow> Inr (False, call))
    \<and> (\<forall>b dm' call'. dispatch_manager_args env mem frame dm call = Inr (b, dm', call') \<longrightarrow>
        (b \<longleftrightarrow> route dm c \<noteq> ToNobody) \<and> (\<exists>c'. fun_call call' = Some c' \<and> route dm' c' = route dm c))"
proof (intro conjI allI impI)
  fix b dm' call' assume run: "dispatch_manager_args env mem frame dm call = Inr (b, dm', call')"
  show "b \<longleftrightarrow> route dm c \<noteq> ToNobody" by (rule dispatch_manager_args_answer [OF assms run])
  obtain c' where "call' = set_call c' call" "fun_address c' = fun_address c" "is_svc c' = is_svc c"
    using dispatch_manager_args_only_call [OF run assms] by blast
  then show "\<exists>c'. fun_call call' = Some c' \<and> route dm' c' = route dm c"
    using route_cong [of dm' dm c' c] dispatch_manager_args_answer(2) [OF assms run] by simp
qed (rule dispatch_manager_args_route [OF assms] dispatch_manager_ret_route [OF assms])+

theorem dispatch_routes_witness:
  "\<exists>dm. InstructionDispatchManager_new (Some (one_symbol ''strlen'')) (Some (one_symbol ''inflate''))
         demo_fun_table (Some (one_symbol ''art'')) = Inr dm
     \<and> dispatch_manager_args \<lparr>env_NR = (\<lambda>_. 0), env_PR = (\<lambda>_. 0), env_jvm = demo_jvm\<rparr>
         (\<lambda>_. None) 0 dm (call_at 0x9000) = Inr (False, dm, call_at 0x9000)"
proof -
  let ?env = "\<lparr>env_NR = (\<lambda>_. 0), env_PR = (\<lambda>_. 0), env_jvm = demo_jvm\<rparr> :: dispatch_env"
  obtain lc where lc: "DispatchLibc_new (Some (one_symbol ''strlen'')) = Inr lc"
    using DispatchLibc_new_ok by blast
  obtain lz where lz: "DispatchLibz_new (Some (one_symbol ''inflate'')) = Inr lz"
    by (simp add: DispatchLibz_new_def Let_def)
  obtain j where j: "DispatchJNIEnv_new demo_fun_table (Some (one_symbol ''art'')) = Inr j"
    using demo_new by blast
  let ?dm = "\<lparr>dm_syscall = \<lparr>captured_frame = None\<rparr>, dm_libc = lc, dm_libz = lz, dm_jni = j\<rparr>"
  have call: "fun_call (call_at 0x9000) = Some (inst_fun_call_new\<lparr>fun_address := 0x9000\<rparr>)" by simp
  have "route ?dm (inst_fun_call_new\<lparr>fun_address := 0x9000\<rparr>) = ToNobody"
    using DispatchLibc_new_tables(3) [OF lc, of "0x9000"] DispatchLibz_new_tables(2) [OF lz, of "0x9000"]
      DispatchJNIEnv_new_tables(2) [OF j, of "0x9000"]
    by (simp add: route_def inst_fun_call_new_def)
  then have "dispatch_manager_args ?env (\<lambda>_. None) 0 ?dm (call_at 0x9000) = Inr (False, ?dm, call_at 0x9000)"
    by (subst conjunct1 [OF dispatch_routes [OF call]]) simp
  then show ?thesis by (simp add: InstructionDispatchManager_new_def lc lz j)
qed

end
