(* ===== verification/Handler_Types.thy ===== *)
theory Handler_Types
  imports Dispatch_Manager
begin

text \<open>
  The handlers of the system calls against the types of the parameters in the interface of the
  kernel: a handler reads memory where it takes an argument for a string, and it is safe when
  it does so for the strings of the interface only.
\<close>

section \<open>The interface of the kernel\<close>

text \<open>
  The parameters of type \<^verbatim>\<open>const char *\<close> that the kernel reads as terminated strings, counted
  from zero, for the system calls that have any (section 2 of the Linux manual).
\<close>

definition kernel_strings :: "(string \<times> nat list) list" where
  "kernel_strings =
     [(''__NR_setxattr'', [0, 1]), (''__NR_lsetxattr'', [0, 1]), (''__NR_fsetxattr'', [1]),
      (''__NR_getxattr'', [0, 1]), (''__NR_lgetxattr'', [0, 1]), (''__NR_fgetxattr'', [1]),
      (''__NR_listxattr'', [0]), (''__NR_llistxattr'', [0]), (''__NR_removexattr'', [0, 1]),
      (''__NR_lremovexattr'', [0, 1]), (''__NR_fremovexattr'', [1]), (''__NR_inotify_add_watch'', [1]),
      (''__NR_mknodat'', [1]), (''__NR_mkdirat'', [1]), (''__NR_unlinkat'', [1]),
      (''__NR_symlinkat'', [0, 2]), (''__NR_linkat'', [1, 3]), (''__NR_renameat'', [1, 3]),
      (''__NR_umount2'', [0]), (''__NR_mount'', [0, 1, 2]), (''__NR_pivot_root'', [0, 1]),
      (''__NR3264_statfs'', [0]), (''__NR3264_truncate'', [0]), (''__NR_faccessat'', [1]),
      (''__NR_chdir'', [0]), (''__NR_chroot'', [0]), (''__NR_fchmodat'', [1]), (''__NR_fchownat'', [1]),
      (''__NR_openat'', [1]), (''__NR_quotactl'', [1]), (''__NR_readlinkat'', [1]),
      (''__NR3264_fstatat'', [1]), (''__NR_utimensat'', [1]), (''__NR_acct'', [0]),
      (''__NR_init_module'', [2]), (''__NR_delete_module'', [0]), (''__NR_mq_open'', [0]),
      (''__NR_mq_unlink'', [0]), (''__NR_add_key'', [0, 1]), (''__NR_request_key'', [0, 1, 2]),
      (''__NR_execve'', [0]), (''__NR_swapon'', [0]), (''__NR_swapoff'', [0]),
      (''__NR_fanotify_mark'', [4]), (''__NR_name_to_handle_at'', [1]), (''__NR_finit_module'', [1]),
      (''__NR_renameat2'', [1, 3]), (''__NR_memfd_create'', [0]), (''__NR_execveat'', [1]),
      (''__NR_statx'', [1])]"

definition string_params :: "string \<Rightarrow> nat list" where
  "string_params k = (case map_of kernel_strings k of Some ns \<Rightarrow> ns | None \<Rightarrow> [])"

text \<open>
  Rows that take more for a string than the interface does: a buffer for output
  (\<open>listxattr\<close> and its variants), data of the file system (\<open>mount\<close>), a name with a length and
  without a terminator (\<open>sethostname\<close>, \<open>setdomainname\<close>), the number of a key ring
  (\<open>request_key\<close>); \<open>mq_unlink\<close> formats a string as a number, and what \<open>prctl\<close> reads depends on
  its first argument.
\<close>

definition overread_rows :: "string list" where
  "overread_rows =
     [''__NR_listxattr'', ''__NR_llistxattr'', ''__NR_flistxattr'', ''__NR_mount'', ''__NR_sethostname'',
      ''__NR_setdomainname'', ''__NR_request_key'', ''__NR_mq_unlink'', ''__NR_prctl'']"

definition output_rows :: "string list" where
  "output_rows = [''__NR_listxattr'', ''__NR_llistxattr'', ''__NR_flistxattr'']"

text \<open>Rows that do not show a string of the interface as a string.\<close>

definition underread_rows :: "string list" where
  "underread_rows =
     [''__NR_setxattr'', ''__NR_lgetxattr'', ''__NR_fanotify_mark'', ''__NR_name_to_handle_at'',
      ''__NR_finit_module'', ''__NR_renameat2'', ''__NR_memfd_create'', ''__NR_execveat'', ''__NR_statx'']"

section \<open>What the handlers read\<close>

definition is_string :: "memory \<Rightarrow> addr \<Rightarrow> bool" where
  "is_string mem v \<longleftrightarrow> v = 0 \<or> (\<exists>s. read_cstring mem v = Inr s)"

fun string_args :: "action \<Rightarrow> nat list" where
  "string_args (PushStr l n) = [n]"
| "string_args _ = []"

fun reads_plainly :: "action \<Rightarrow> bool" where
  "reads_plainly (PushCStr l n r) = False"
| "reads_plainly (PushStrHex l n) = False"
| "reads_plainly _ = True"

lemma run_actions_reads:
  assumes "list_all reads_plainly acts"
  shows "(\<exists>call'. run_actions mem (\<lambda>n. Inr (val n)) acts call = Inr call') \<longleftrightarrow>
    (\<forall>n \<in> set (concat (map string_args acts)). is_string mem (val n))"
  using assms
proof (induction acts arbitrary: call)
  case (Cons a acts)
  have "(\<exists>c. run_action mem (\<lambda>n. Inr (val n)) a call = Inr c) \<longleftrightarrow> (\<forall>n \<in> set (string_args a). is_string mem (val n))"
    using Cons.prems
    by (cases a) (auto simp: read_string_from_address_def is_string_def map_result_eq_Inr)
  moreover have "(\<exists>c. run_actions mem (\<lambda>n. Inr (val n)) (a # acts) call = Inr c) \<longleftrightarrow>
      (\<exists>mid. run_action mem (\<lambda>n. Inr (val n)) a call = Inr mid
        \<and> (\<exists>c. run_actions mem (\<lambda>n. Inr (val n)) acts mid = Inr c))"
    by (auto simp: bind_result_eq_Inr)
  moreover have "list_all reads_plainly acts" using Cons.prems by simp
  ultimately show ?case unfolding Cons.IH [OF \<open>list_all reads_plainly acts\<close>] by auto
qed simp

text \<open>The table against the interface.\<close>

fun row_reads :: "string \<times> string \<times> handler \<Rightarrow> bool" where
  "row_reads (k, name, Straight acts) =
     (let shown = concat (map string_args acts); params = string_params k; plain = list_all reads_plainly acts in
      if k \<in> set overread_rows then (if k \<in> set output_rows then plain \<and> 1 \<in> set shown else True)
      else plain \<and> list_all (\<lambda>n. n \<in> set params) shown
        \<and> (if list_all (\<lambda>n. n \<in> set shown) params then True else k \<in> set underread_rows))"
| "row_reads (k, name, SwitchOn n cases dflt) = (k = ''__NR_prctl'')"

lemma output_rows_in_overread: "k \<in> set output_rows \<Longrightarrow> k \<in> set overread_rows"
  by (auto simp: output_rows_def overread_rows_def)

lemma arm64_rows_read: "list_all row_reads arm64_handlers"
  unfolding arm64_handlers_def list_all_append by (intro conjI; code_simp)

lemma dispatch_straight_row:
  assumes "inj_on NR (fst ` set arm64_handlers)"
    and "find (\<lambda>row. fst row = k) arm64_handlers = Some (k, name, Straight acts)"
    and "ucast (gpr_x (gpr_state (pre_status info)) 8) = NR k" and "fun_call info = Some call"
    and "captured_frame d = None \<or> captured_frame d = Some frame" and "list_all reads_plainly acts"
  shows "(\<exists>r. DispatchSyscall_dispatch_args NR PR mem frame d info = Inr r) \<longleftrightarrow>
    (\<forall>n \<in> set (concat (map string_args acts)). is_string mem (gpr_x (gpr_state (pre_status info)) n))"
proof -
  have row: "(k, name, Straight acts) \<in> set arm64_handlers" using find_row_in_table [OF assms(2)] by simp
  have frame: "\<not> (captured_frame d \<noteq> None \<and> captured_frame d \<noteq> Some frame)" using assms(5) by auto
  have ok: "(\<exists>r. map_result f m = Inr r) \<longleftrightarrow> (\<exists>x. m = Inr x)" for f :: "'x \<Rightarrow> 'y" and m
    by (auto simp: map_result_eq_Inr)
  show ?thesis
    unfolding dispatch_known [OF assms(1-4)] if_not_P [OF frame] run_handler.simps arm64_row_registers [OF row] ok
    by (rule run_actions_reads [OF assms(6)])
qed

section \<open>Property\<close>

text \<open>
  C19: the handlers of the arm64 table respect the types of the interface of the kernel. A system
  call from the frame that the closures captured is dispatched without a fault whenever
  every parameter that the interface declares as a string is null or a readable, terminated
  string, for all rows but the nine that take more for a string; and, for all rows but those and the nine that
  do not show a string as one, only then. Of the former, \<open>listxattr\<close> and its variants fault
  whenever their buffer for output, which is not yet written, holds no terminated string.
\<close>

theorem syscall_typed:
  assumes "inj_on NR (fst ` set arm64_handlers)"
    and "find (\<lambda>row. fst row = k) arm64_handlers = Some (k, name, h)"
    and "ucast (gpr_x (gpr_state (pre_status info)) 8) = NR k" and "fun_call info = Some call"
    and "captured_frame d = None \<or> captured_frame d = Some frame" and "x = gpr_x (gpr_state (pre_status info))"
    and "ok \<longleftrightarrow> (\<exists>r. DispatchSyscall_dispatch_args NR PR mem frame d info = Inr r)"
  shows "(k \<notin> set overread_rows \<and> (\<forall>n \<in> set (string_params k). is_string mem (x n)) \<longrightarrow> ok)
    \<and> (k \<notin> set overread_rows \<and> k \<notin> set underread_rows \<and> ok \<longrightarrow> (\<forall>n \<in> set (string_params k). is_string mem (x n)))
    \<and> (k \<in> set output_rows \<and> \<not> is_string mem (x 1) \<longrightarrow> \<not> ok)"
proof -
  have "(k, name, h) \<in> set arm64_handlers" using find_row_in_table [OF assms(2)] by simp
  then have row: "row_reads (k, name, h)" using arm64_rows_read by (force simp: list_all_iff)
  show ?thesis
  proof (cases h)
    case (Straight acts)
    from dispatch_straight_row [OF assms(1) assms(2) [unfolded Straight] assms(3-5)]
    have "list_all reads_plainly acts \<Longrightarrow> ok \<longleftrightarrow> (\<forall>n \<in> set (concat (map string_args acts)). is_string mem (x n))"
      unfolding assms(6,7) by blast
    with row show ?thesis unfolding Straight row_reads.simps Let_def list_all_iff [of "\<lambda>n. n \<in> _"]
      by (cases "k \<in> set overread_rows"; cases "k \<in> set output_rows") (auto simp: output_rows_in_overread split: if_splits)
  next
    case (SwitchOn n cases dflt)
    with row have "k = ''__NR_prctl''" by simp
    then show ?thesis by (simp add: overread_rows_def output_rows_def)
  qed
qed

text \<open>\<open>lsetxattr\<close> of a path that is null and a name at an address that is not mapped.\<close>

theorem syscall_typed_witness:
  "\<not> (\<exists>r. DispatchSyscall_dispatch_args (row_number arm64_handlers) (\<lambda>_. 0) (\<lambda>_. None) 7 \<lparr>captured_frame = None\<rparr>
      (inst_trace_info_new\<lparr>fun_call := Some inst_fun_call_new,
        pre_status := zero_status\<lparr>gpr_state := zero_gpr\<lparr>gpr_x := (\<lambda>n. if n = 8 then 6 else if n = 1 then 0x10 else 0)\<rparr>\<rparr>\<rparr>) = Inr r)"
proof -
  let ?info = "inst_trace_info_new\<lparr>fun_call := Some inst_fun_call_new,
    pre_status := zero_status\<lparr>gpr_state := zero_gpr\<lparr>gpr_x := (\<lambda>n. if n = 8 then 6 else if n = 1 then 0x10 else 0)\<rparr>\<rparr>\<rparr>"
  have row: "find (\<lambda>row. fst row = ''__NR_lsetxattr'') arm64_handlers = Some (''__NR_lsetxattr'', ''lgetxattr'',
      Straight [PushStr ''path='' 0, PushStr ''name='' 1, PushHex ''value='' 2, PushHex ''size='' 3,
        PushHex ''flags='' 4, SetRet kNumber])"
    by (simp add: arm64_handlers_def arm64_handlers_1_def)
  have "row_number arm64_handlers ''__NR_lsetxattr'' = 6"
    by (simp add: row_number_def arm64_handlers_def arm64_handlers_1_def)
  then have x8: "ucast (gpr_x (gpr_state (pre_status ?info)) 8) = row_number arm64_handlers ''__NR_lsetxattr''" by simp
  have call: "fun_call ?info = Some inst_fun_call_new" by simp
  have "\<not> is_string (\<lambda>_. None) 0x10" by (simp add: is_string_def read_cstring.simps)
  moreover have "1 \<in> set (string_params ''__NR_lsetxattr'')" "''__NR_lsetxattr'' \<notin> set overread_rows"
    "''__NR_lsetxattr'' \<notin> set underread_rows" by code_simp+
  ultimately show ?thesis
    using syscall_typed [OF row_number_arm64_inj row x8 call, of "\<lparr>captured_frame = None\<rparr>" 7 _ _ "\<lambda>_. 0" "\<lambda>_. None"]
    by fastforce
qed

end
