(* ===== verification/Info_Manager.thy ===== *)
theory Info_Manager
  imports Dispatch_Manager Logger_Manager
begin

text \<open>
  \<^verbatim>\<open>trace/instruction_info_manager.cpp\<close>: the records of the current and of the previous
  traced instruction. A new instruction makes the current record the previous one and frees
  the one before; a call that the current instruction makes is dispatched on the current
  record, its return on the previous one.
\<close>

section \<open>Model\<close>

record InstructionInfoManager =
  im_module_name :: string
  im_module_range :: module_range
  pre_info :: "inst_trace_info option"
  cur_info :: "inst_trace_info option"
  im_dispatch :: InstructionDispatchManager
  im_logger :: LoggerManager

text \<open>What the callbacks see of the process besides its memory.\<close>

record tracer_env =
  te_dispatch :: dispatch_env
  te_heap :: heap_env
  te_gpr_get :: "GPRState \<Rightarrow> nat \<Rightarrow> addr"

definition InstructionInfoManager_new ::
  "InstructionDispatchManager \<Rightarrow> string list \<Rightarrow> string \<Rightarrow> module_range \<Rightarrow> InstructionInfoManager" where
  "InstructionInfoManager_new dispatch_manager reg name module_base =
     \<lparr>im_module_name = name, im_module_range = module_base, pre_info = None, cur_info = None,
      im_dispatch = dispatch_manager, im_logger = LoggerManager_new reg name module_base\<rparr>"

definition alloc_inst_trace_info :: "addr \<Rightarrow> InstructionInfoManager \<Rightarrow> InstructionInfoManager" where
  "alloc_inst_trace_info pc im =
     (case cur_info im of
        None \<Rightarrow> im\<lparr>cur_info := Some (inst_trace_info_new\<lparr>info_pc := pc\<rparr>)\<rparr>
      | Some cur \<Rightarrow>
          im\<lparr>pre_info := Some cur, cur_info := Some (inst_trace_info_new\<lparr>info_pc := pc\<rparr>)\<rparr>)"

text \<open>\<open>alloc_fun_call\<close>: the answer is false where the source returns a null pointer.\<close>

definition alloc_fun_call :: "addr \<Rightarrow> InstructionInfoManager \<Rightarrow> bool \<times> InstructionInfoManager" where
  "alloc_fun_call pc im =
     (let im = (if cur_info im = None then alloc_inst_trace_info pc im else im);
          cur = the (cur_info im);
          cur = (if fun_call cur = None then cur\<lparr>fun_call := Some inst_fun_call_new\<rparr> else cur)
      in (info_pc cur = pc, im\<lparr>cur_info := Some cur\<rparr>))"

definition dispatch_fun_call_args ::
  "tracer_env \<Rightarrow> memory \<Rightarrow> addr \<Rightarrow> addr \<Rightarrow> InstructionInfoManager \<Rightarrow> InstructionInfoManager result" where
  "dispatch_fun_call_args env mem frame pc im =
     (case cur_info im of
        None \<Rightarrow> Inl NullDeref
      | Some cur \<Rightarrow>
          (case fun_call cur of
             None \<Rightarrow> Inl NullDeref
           | Some call \<Rightarrow>
               map_result (\<lambda>(_, dm, info). im\<lparr>cur_info := Some info, im_dispatch := dm\<rparr>)
                 (dispatch_manager_args (te_dispatch env) mem frame (im_dispatch im)
                    (set_call (call\<lparr>fun_address := pc\<rparr>) cur))))"

definition dispatch_fun_call_return ::
  "tracer_env \<Rightarrow> memory \<Rightarrow> GPRState \<Rightarrow> InstructionInfoManager \<Rightarrow> InstructionInfoManager result" where
  "dispatch_fun_call_return env mem state im =
     (case pre_info im of
        None \<Rightarrow> Inl NullDeref
      | Some pre \<Rightarrow>
          map_result (\<lambda>(_, info). im\<lparr>pre_info := Some info\<rparr>)
            (dispatch_manager_ret (te_dispatch env) mem (im_dispatch im) pre state))"

definition dispatch_fun_call_common_args ::
  "addr \<Rightarrow> InstructionInfoManager \<Rightarrow> InstructionInfoManager result" where
  "dispatch_fun_call_common_args pc im =
     (case cur_info im of
        None \<Rightarrow> Inl NullDeref
      | Some cur \<Rightarrow>
          (case fun_call cur of
             None \<Rightarrow> Inl NullDeref
           | Some call \<Rightarrow>
               let call = call\<lparr>fun_address := pc, call_module_name := im_module_name im,
                               fun_name := fmt_hex (pc - mr_base (im_module_range im))\<rparr>;
                   call = add_common_reg_values (gpr_state (pre_status cur)) call
               in Inr (im\<lparr>cur_info := Some (set_call call cur)\<rparr>)))"

definition dispatch_fun_call_common_return ::
  "GPRState \<Rightarrow> InstructionInfoManager \<Rightarrow> InstructionInfoManager result" where
  "dispatch_fun_call_common_return state im =
     (case pre_info im of
        None \<Rightarrow> Inl NullDeref
      | Some pre \<Rightarrow>
          (case fun_call pre of
             None \<Rightarrow> Inl NullDeref
           | Some call \<Rightarrow>
               Inr (im\<lparr>pre_info := Some (set_call
                 (call\<lparr>ret_type := kUnknown, ret_value := ''ret='' @ fmt_hex (gpr_x state 0)\<rparr>) pre)\<rparr>)))"

text \<open>
  \<open>write_trace_info\<close>: every one of the two records whose program counter is the address of
  the instruction is written. The analysis is dereferenced when there is a record at all.
\<close>

definition write_if_at ::
  "tracer_env \<Rightarrow> memory \<Rightarrow> inst_trace_info option \<Rightarrow> InstAnalysis option \<Rightarrow> MemoryAccess list
   \<Rightarrow> LoggerManager \<Rightarrow> LoggerManager result" where
  "write_if_at env mem info_o inst_o accesses lg =
     (case info_o of
        None \<Rightarrow> Inr lg
      | Some info \<Rightarrow>
          (case inst_o of
             None \<Rightarrow> Inl NullDeref
           | Some inst \<Rightarrow>
               if info_pc info = ia_address inst
               then logger_write_trace_info (te_gpr_get env) (te_heap env) mem info inst accesses lg
               else Inr lg))"

definition info_write_trace_info ::
  "tracer_env \<Rightarrow> memory \<Rightarrow> InstAnalysis option \<Rightarrow> MemoryAccess list \<Rightarrow> InstructionInfoManager
   \<Rightarrow> InstructionInfoManager result" where
  "info_write_trace_info env mem inst accesses im =
     bind_result (write_if_at env mem (pre_info im) inst accesses (im_logger im)) (\<lambda>lg.
       map_result (\<lambda>lg. im\<lparr>im_logger := lg\<rparr>) (write_if_at env mem (cur_info im) inst accesses lg))"

definition info_flush :: "memory \<Rightarrow> InstructionInfoManager \<Rightarrow> InstructionInfoManager result" where
  "info_flush mem im = map_result (\<lambda>lg. im\<lparr>im_logger := lg\<rparr>) (LoggerManager_flush mem (im_logger im))"

definition info_in_module_range :: "InstructionInfoManager \<Rightarrow> addr \<Rightarrow> bool" where
  "info_in_module_range im a =
     (if a < mr_base (im_module_range im) then False
      else if mr_end (im_module_range im) < a then False
      else True)"

section \<open>Lines of the log\<close>

text \<open>The program counters of the lines that a sink has got.\<close>

definition line_pc :: "string \<Rightarrow> nat" where
  "line_pc line = read_hex (drop 2 (column 1 line))"

definition log_pcs :: "LoggerManager \<Rightarrow> nat list" where
  "log_pcs lg = (case logcat lg of Some ls \<Rightarrow> map line_pc ls | None \<Rightarrow> [])"

lemma logger_write_log_pcs:
  assumes "logger_write_trace_info g he mem info inst accesses lg = Inr lg'" and "logcat lg \<noteq> None"
  shows "log_pcs lg' = log_pcs lg @ [unat (info_pc info)] \<and> logcat lg' \<noteq> None"
proof -
  obtain line rest where line: "line = ''|'' @ fmt_hex (info_pc info) @ ''|'' @ rest"
    and sink: "logcat lg' = map_option (\<lambda>ls. ls @ [line]) (logcat lg)"
    using logger_write_line [OF assms(1)] assms(2) by blast
  have "line_pc line = unat (info_pc info)"
    unfolding line_pc_def line column_pc by (simp add: fmt_hex_def read_hex_digits)
  with sink assms(2) show ?thesis by (auto simp: log_pcs_def)
qed

lemma write_if_at_log_pcs:
  assumes "write_if_at env mem info_o (Some inst) accesses lg = Inr lg'" and "logcat lg \<noteq> None"
  shows "log_pcs lg' = log_pcs lg @ (case info_o of
      Some info \<Rightarrow> if info_pc info = ia_address inst then [unat (info_pc info)] else [] | None \<Rightarrow> [])
    \<and> logcat lg' \<noteq> None"
  using assms logger_write_log_pcs
  by (auto simp: write_if_at_def split: option.splits if_splits)

lemma info_write_log_pcs:
  assumes "info_write_trace_info env mem (Some inst) accesses im = Inr im'"
    and "logcat (im_logger im) \<noteq> None"
  shows "log_pcs (im_logger im') = log_pcs (im_logger im)
      @ (case pre_info im of Some info \<Rightarrow> if info_pc info = ia_address inst then [unat (info_pc info)] else [] | None \<Rightarrow> [])
      @ (case cur_info im of Some info \<Rightarrow> if info_pc info = ia_address inst then [unat (info_pc info)] else [] | None \<Rightarrow> [])
    \<and> logcat (im_logger im') \<noteq> None \<and> pre_info im' = pre_info im \<and> cur_info im' = cur_info im"
proof -
  from assms(1) obtain lg where lg: "write_if_at env mem (pre_info im) (Some inst) accesses (im_logger im) = Inr lg"
    and rest: "\<exists>lg'. write_if_at env mem (cur_info im) (Some inst) accesses lg = Inr lg' \<and> im' = im\<lparr>im_logger := lg'\<rparr>"
    by (auto simp: info_write_trace_info_def bind_result_eq_Inr map_result_eq_Inr)
  from rest obtain lg' where lg': "write_if_at env mem (cur_info im) (Some inst) accesses lg = Inr lg'"
    and im': "im' = im\<lparr>im_logger := lg'\<rparr>" by blast
  note one = write_if_at_log_pcs [OF lg assms(2)]
  note two = write_if_at_log_pcs [OF lg' conjunct2 [OF one]]
  from one two im' show ?thesis by simp
qed

end
