(* ===== verification/Register_Utils.thy ===== *)
theory Register_Utils
  imports Logger_Manager
begin

text \<open>
  \<^verbatim>\<open>trace/instruction_register_utils.cpp\<close> in the arm64 build: copying registers between the
  context of the hooking library and the state of the virtual machine, and what that context
  holds when the library calls a hook. Register \<open>x29\<close> is the frame pointer and \<open>x30\<close> the link
  register.
\<close>

section \<open>Model\<close>

text \<open>
  The context is memory on the stack: \<open>dc_q i\<close> is what the sixteen bytes at the place of the
  \<open>i\<close>-th vector register hold, whether a register was saved there or not.
\<close>

record DobbyRegisterContext =
  dc_sp :: addr
  dc_x :: "nat \<Rightarrow> addr"
  dc_fp :: addr
  dc_lr :: addr
  dc_q :: "nat \<Rightarrow> 128 word"

text \<open>
  The bridge of the hooking library saves the registers and calls the hook with the address of
  what it saved. \<open>full\<close> is its build option \<^verbatim>\<open>FullFloatingPointRegisterPack\<close>, which is off by
  default and in this build: then only \<open>q0\<close> to \<open>q7\<close> are saved, and the context is 24 * 16 bytes
  shorter than its type. What lies behind it are the sixteen bytes that the trampoline
  reserved (\<open>entry\<close>) and then the stack of the interrupted function (\<open>stack k\<close> are the sixteen
  bytes at its stack pointer plus \<open>16 * k\<close>).
\<close>

definition closure_bridge_context ::
  "bool \<Rightarrow> GPRState \<Rightarrow> (nat \<Rightarrow> 128 word) \<Rightarrow> 128 word \<Rightarrow> (nat \<Rightarrow> 128 word) \<Rightarrow> DobbyRegisterContext" where
  "closure_bridge_context full regs q entry stack =
     (let saved = (if full then 32 else 8) in
      \<lparr>dc_sp = gpr_sp regs, dc_x = gpr_x regs, dc_fp = gpr_x regs 29, dc_lr = gpr_x regs 30,
       dc_q = (\<lambda>i. if i < saved then q i else if i = saved then entry else stack (i - saved - 1))\<rparr>)"

definition qbdi_to_doby :: "GPRState \<Rightarrow> DobbyRegisterContext \<Rightarrow> DobbyRegisterContext" where
  "qbdi_to_doby status ic =
     (let ic = fold (\<lambda>i ic. ic\<lparr>dc_x := (dc_x ic)(i := gpr_x status i)\<rparr>) [0..<29] ic;
          ic = ic\<lparr>dc_sp := gpr_sp status\<rparr>
      in ic\<lparr>dc_lr := gpr_x status 30\<rparr>)"

definition doby_to_qbdi :: "DobbyRegisterContext \<Rightarrow> GPRState \<Rightarrow> GPRState" where
  "doby_to_qbdi ic status =
     (let status = fold (\<lambda>i status. status\<lparr>gpr_x := (gpr_x status)(i := dc_x ic i)\<rparr>) [0..<29] status;
          status = status\<lparr>gpr_x := (gpr_x status)(30 := dc_lr ic)\<rparr>
      in status\<lparr>gpr_x := (gpr_x status)(29 := dc_fp ic)\<rparr>)"

text \<open>A vector register takes sixteen bytes of the floating point state, the lowest first.\<close>

definition set_vector :: "nat \<Rightarrow> 128 word \<Rightarrow> FPRState \<Rightarrow> FPRState" where
  "set_vector i v st = (\<lambda>k. if 16 * i \<le> k \<and> k < 16 * i + 16 then ucast (drop_bit (8 * (k - 16 * i)) v) else st k)"

definition doby_to_qbdi_fpr :: "DobbyRegisterContext \<Rightarrow> FPRState \<Rightarrow> FPRState" where
  "doby_to_qbdi_fpr ic status = fold (\<lambda>i. set_vector i (dc_q ic i)) [0..<32] status"

section \<open>Lemmas\<close>

lemma fold_set_x:
  "fold (\<lambda>i ic. ic\<lparr>dc_x := (dc_x ic)(i := f i)\<rparr>) [0..<n] ic
     = ic\<lparr>dc_x := (\<lambda>i. if i < n then f i else dc_x ic i)\<rparr>"
  by (induction n) (auto simp: fun_eq_iff)

lemma fold_set_gpr:
  "fold (\<lambda>i st. st\<lparr>gpr_x := (gpr_x st)(i := f i)\<rparr>) [0..<n] st
     = st\<lparr>gpr_x := (\<lambda>i. if i < n then f i else gpr_x st i)\<rparr>"
  by (induction n) (auto simp: fun_eq_iff)

lemma fold_set_vector:
  "fold (\<lambda>i. set_vector i (q i)) [0..<n] st k =
     (if k < 16 * n then ucast (drop_bit (8 * (k mod 16)) (q (k div 16))) else st k)"
proof (induction n)
  case (Suc n)
  show ?case
  proof (cases "16 * n \<le> k \<and> k < 16 * n + 16")
    case True
    then have "k div 16 = n" by linarith
    moreover have "k mod 16 = k - 16 * (k div 16)" by (simp add: minus_mult_div_eq_mod)
    ultimately have "k div 16 = n" "k mod 16 = k - 16 * n" by simp_all
    with True show ?thesis by (simp add: set_vector_def)
  next
    case False
    then have "set_vector n (q n) st' k = st' k" for st' by (auto simp: set_vector_def)
    with Suc False show ?thesis by auto
  qed
qed simp

text \<open>Reading a word back from its bytes.\<close>

lemma fpr_le_bytes:
  assumes "\<And>j. j < n \<Longrightarrow> st (i + j) = (ucast (drop_bit (8 * j) v) :: byte)"
  shows "fpr_le n st i = unat v mod 256 ^ n"
  using assms
proof (induction n arbitrary: st i v)
  case (Suc n)
  have head: "unat (st i) = unat v mod 256"
    using Suc.prems [of 0] by (simp add: unsigned_ucast_eq unsigned_take_bit_eq take_bit_eq_mod)
  have "fpr_le n st (Suc i) = unat (drop_bit 8 v) mod 256 ^ n"
    by (rule Suc.IH) (use Suc.prems in \<open>force simp: algebra_simps\<close>)
  then show ?case
    using head by (simp add: unat_drop_bit_eq mod_mult2_eq drop_bit_eq_div [where 'a = nat])
qed simp

text \<open>The two copies as functions of all registers.\<close>

lemma qbdi_to_doby_fields:
  "dc_x (qbdi_to_doby st ic) = (\<lambda>i. if i < 29 then gpr_x st i else dc_x ic i)"
  "dc_sp (qbdi_to_doby st ic) = gpr_sp st" "dc_lr (qbdi_to_doby st ic) = gpr_x st 30"
  "dc_fp (qbdi_to_doby st ic) = dc_fp ic" "dc_q (qbdi_to_doby st ic) = dc_q ic"
  by (simp_all add: qbdi_to_doby_def Let_def fold_set_x)

lemma doby_to_qbdi_fields:
  "gpr_x (doby_to_qbdi ic st) =
     (\<lambda>i. if i < 29 then dc_x ic i else if i = 29 then dc_fp ic else if i = 30 then dc_lr ic else gpr_x st i)"
  "gpr_sp (doby_to_qbdi ic st) = gpr_sp st" "gpr_pc (doby_to_qbdi ic st) = gpr_pc st"
  by (auto simp: doby_to_qbdi_def Let_def fold_set_gpr fun_eq_iff)

lemma doby_to_qbdi_fpr_vector:
  assumes "i < 32"
  shows "QBDI_FPR_GET_V (doby_to_qbdi_fpr ic st) i = unat (dc_q ic i)"
proof -
  have "fpr_le 16 (doby_to_qbdi_fpr ic st) (16 * i) = unat (dc_q ic i) mod 256 ^ 16"
    by (rule fpr_le_bytes) (use assms in \<open>simp add: doby_to_qbdi_fpr_def fold_set_vector\<close>)
  also have "\<dots> = unat (dc_q ic i)"
  proof (rule mod_less)
    have "unat (dc_q ic i) < 2 ^ LENGTH(128)" by (rule unsigned_less)
    then show "unat (dc_q ic i) < 256 ^ 16" by simp
  qed
  finally show ?thesis by (simp add: QBDI_FPR_GET_V_def)
qed

section \<open>Properties\<close>


definition demo_context :: DobbyRegisterContext where
  "demo_context = \<lparr>dc_sp = 0x8000, dc_x = (\<lambda>i. of_nat i), dc_fp = 0x7000, dc_lr = 0x1004, dc_q = (\<lambda>i. of_nat i)\<rparr>"


end
