(* ===== verification/Tracer_Manager.thy ===== *)
theory Tracer_Manager
  imports Info_Manager Register_Utils
begin

text \<open>
  \<^verbatim>\<open>trace/instruction_tracer_manager.cpp\<close> and \<^verbatim>\<open>instruction_call_back.cpp\<close>: the tracer and the
  callbacks that the virtual machine runs before and after every instruction. The virtual
  machine is an argument: what it reports of an instruction, its registers and memory
  accesses are inputs of the callbacks, its registers and the callbacks registered with it are
  state. User hooks are functions on the registers.
\<close>

section \<open>The tracer\<close>

type_synonym trace_hook = "addr \<Rightarrow> GPRState \<Rightarrow> FPRState option \<Rightarrow> GPRState \<times> FPRState option"

text \<open>An attach condition sees the address, the number of arguments and the register arrays.\<close>

type_synonym attach_cond = "addr \<Rightarrow> nat \<Rightarrow> (nat \<Rightarrow> addr) \<Rightarrow> (nat \<Rightarrow> 128 word) \<Rightarrow> bool"

text \<open>The state of the virtual machine that the tracer sets.\<close>

record vm_state =
  vm_gpr :: GPRState
  vm_fpr :: FPRState
  vm_pre_cbs :: nat
  vm_post_cbs :: nat
  vm_svc_cbs :: nat

record InstructionTracerManager =
  pre_hook_callbacks :: "addr \<Rightarrow> trace_hook option"
  post_hook_callbacks :: "addr \<Rightarrow> trace_hook option"
  inst_at_cond_list :: "addr \<Rightarrow> attach_cond option"
  tm_vm :: vm_state
  record_ranges :: "module_range list"
  target_trace_address :: addr
  tm_module_name :: string
  symbol_name :: string
  tm_module_range :: module_range
  info_manager :: "InstructionInfoManager option"
  stack_base :: addr

definition is_need_record :: "InstructionTracerManager \<Rightarrow> addr \<Rightarrow> bool" where
  "is_need_record t a =
     (if record_ranges t = [] then True
      else list_ex (\<lambda>r. mr_base r \<le> a \<and> a < mr_end r) (record_ranges t))"

definition tracer_in_module_range :: "InstructionTracerManager \<Rightarrow> addr \<Rightarrow> bool" where
  "tracer_in_module_range t a =
     (if a < mr_base (tm_module_range t) then False
      else if mr_end (tm_module_range t) < a then False
      else True)"

definition is_address_in_stack_range :: "InstructionTracerManager \<Rightarrow> addr \<Rightarrow> bool" where
  "is_address_in_stack_range t a =
     (let stack_low = stack_base t; stack_high = stack_low + 0x1000000 in
      if stack_low \<le> a \<and> a < stack_high then True else False)"

definition add_record_range_size :: "addr \<Rightarrow> addr \<Rightarrow> InstructionTracerManager \<Rightarrow> bool \<times> InstructionTracerManager" where
  "add_record_range_size offset sz t =
     (let b = mr_base (tm_module_range t) + offset;
          r = \<lparr>mr_base = b, mr_end = b + sz\<rparr>
      in if \<not> tracer_in_module_range t (mr_base r) then (False, t)
         else if \<not> tracer_in_module_range t (mr_end r) then (False, t)
         else (True, t\<lparr>record_ranges := record_ranges t @ [r]\<rparr>))"

definition add_record_range :: "addr \<Rightarrow> addr \<Rightarrow> InstructionTracerManager \<Rightarrow> bool \<times> InstructionTracerManager" where
  "add_record_range offset offset_end t =
     (let r = \<lparr>mr_base = mr_base (tm_module_range t) + offset,
               mr_end = mr_base (tm_module_range t) + offset_end\<rparr>
      in if \<not> tracer_in_module_range t (mr_base r) then (False, t)
         else if \<not> tracer_in_module_range t (mr_end r) then (False, t)
         else (True, t\<lparr>record_ranges := record_ranges t @ [r]\<rparr>))"

text \<open>Hooks and conditions: \<^verbatim>\<open>emplace\<close> leaves an entry that is there.\<close>

definition emplace :: "'k \<Rightarrow> 'v \<Rightarrow> ('k \<Rightarrow> 'v option) \<Rightarrow> ('k \<Rightarrow> 'v option)" where
  "emplace k v m = (case m k of None \<Rightarrow> m(k \<mapsto> v) | Some _ \<Rightarrow> m)"

definition add_trace_callback_pre_hook ::
  "addr \<Rightarrow> trace_hook \<Rightarrow> InstructionTracerManager \<Rightarrow> bool \<times> InstructionTracerManager" where
  "add_trace_callback_pre_hook offset cb t =
     (True, t\<lparr>pre_hook_callbacks := emplace offset cb (pre_hook_callbacks t)\<rparr>)"

definition add_trace_callback_post_hook ::
  "addr \<Rightarrow> trace_hook \<Rightarrow> InstructionTracerManager \<Rightarrow> bool \<times> InstructionTracerManager" where
  "add_trace_callback_post_hook offset cb t =
     (True, t\<lparr>post_hook_callbacks := emplace offset cb (post_hook_callbacks t)\<rparr>)"

definition trace_callback_pre ::
  "InstructionTracerManager \<Rightarrow> addr \<Rightarrow> GPRState \<Rightarrow> FPRState option \<Rightarrow> GPRState \<times> FPRState option" where
  "trace_callback_pre t offset gpr fpr =
     (case pre_hook_callbacks t offset of Some cb \<Rightarrow> cb offset gpr fpr | None \<Rightarrow> (gpr, fpr))"

definition trace_callback_post ::
  "InstructionTracerManager \<Rightarrow> addr \<Rightarrow> GPRState \<Rightarrow> FPRState option \<Rightarrow> GPRState \<times> FPRState option" where
  "trace_callback_post t offset gpr fpr =
     (case post_hook_callbacks t offset of Some cb \<Rightarrow> cb offset gpr fpr | None \<Rightarrow> (gpr, fpr))"

definition check_attach_cond ::
  "InstructionTracerManager \<Rightarrow> addr \<Rightarrow> nat \<Rightarrow> (nat \<Rightarrow> addr) \<Rightarrow> (nat \<Rightarrow> 128 word) \<Rightarrow> bool" where
  "check_attach_cond t a max_arg_count state fpr =
     (case inst_at_cond_list t a of Some cond \<Rightarrow> cond a max_arg_count state fpr | None \<Rightarrow> True)"

text \<open>
  \<open>alloc_fix_stack\<close>: the stack is mapped once; \<open>mmap_result\<close> is what \<^verbatim>\<open>mmap\<close> returns. A null
  result is an error; every other value becomes the stack.
\<close>

definition set_vm_stack :: "InstructionTracerManager \<Rightarrow> InstructionTracerManager" where
  "set_vm_stack t =
     (let top = stack_base t + 0x1000000; gpr = vm_gpr (tm_vm t);
          gpr = gpr\<lparr>gpr_sp := top\<rparr>; gpr = gpr\<lparr>gpr_x := (gpr_x gpr)(29 := gpr_sp gpr)\<rparr>
      in t\<lparr>tm_vm := (tm_vm t)\<lparr>vm_gpr := gpr\<rparr>\<rparr>)"

definition alloc_fix_stack :: "addr \<Rightarrow> InstructionTracerManager \<Rightarrow> InstructionTracerManager" where
  "alloc_fix_stack mmap_result t =
     (if stack_base t \<noteq> 0 then set_vm_stack t
      else let t = t\<lparr>stack_base := mmap_result\<rparr> in
        if stack_base t = 0 then t else set_vm_stack t)"

text \<open>The three ways to initialise the tracer; \<open>module\<close> is the result of \<open>find_library\<close>.\<close>

definition new_info_manager ::
  "InstructionDispatchManager \<Rightarrow> string list \<Rightarrow> InstructionTracerManager \<Rightarrow> InstructionTracerManager" where
  "new_info_manager dm reg t =
     t\<lparr>info_manager := Some (InstructionInfoManager_new dm reg (tm_module_name t) (tm_module_range t))\<rparr>"

definition init_symbol ::
  "InstructionDispatchManager \<Rightarrow> string list \<Rightarrow> addr \<Rightarrow> Library_view option \<Rightarrow> string \<Rightarrow> string
   \<Rightarrow> InstructionTracerManager \<Rightarrow> bool \<times> InstructionTracerManager" where
  "init_symbol dm reg mmap_result module name symbol t =
     (let t = alloc_fix_stack mmap_result (t\<lparr>tm_module_name := name, symbol_name := symbol\<rparr>) in
      case module of
        None \<Rightarrow> (False, t)
      | Some m \<Rightarrow>
          if find_symbol m symbol = 0 then (False, t)
          else let t = t\<lparr>target_trace_address := find_symbol m symbol,
                         tm_module_range := \<lparr>mr_base = lib_start m, mr_end = lib_start m + lib_end m\<rparr>\<rparr>
               in (True, new_info_manager dm reg t))"

definition init_offset ::
  "InstructionDispatchManager \<Rightarrow> string list \<Rightarrow> addr \<Rightarrow> Library_view option \<Rightarrow> string \<Rightarrow> addr
   \<Rightarrow> InstructionTracerManager \<Rightarrow> bool \<times> InstructionTracerManager" where
  "init_offset dm reg mmap_result module name offset t =
     (let t = alloc_fix_stack mmap_result (t\<lparr>tm_module_name := name\<rparr>) in
      case module of
        None \<Rightarrow> (False, t)
      | Some m \<Rightarrow>
          let t = t\<lparr>tm_module_range := \<lparr>mr_base = lib_start m, mr_end = lib_end m\<rparr>\<rparr> in
          if lib_end m - lib_start m < offset then (False, t)
          else let t = t\<lparr>target_trace_address := lib_start m + offset\<rparr>
               in (True, new_info_manager dm reg t))"

text \<open>\<open>lib_name\<close> is the base name of the library, \<open>symbol_at\<close> its symbol lookup by address.\<close>

definition init_address ::
  "InstructionDispatchManager \<Rightarrow> string list \<Rightarrow> addr \<Rightarrow> Library_view option \<Rightarrow> string \<Rightarrow> (addr \<Rightarrow> string)
   \<Rightarrow> addr \<Rightarrow> InstructionTracerManager \<Rightarrow> bool \<times> InstructionTracerManager" where
  "init_address dm reg mmap_result module lib_name symbol_at address t =
     (let t = alloc_fix_stack mmap_result (t\<lparr>target_trace_address := address\<rparr>) in
      case module of
        None \<Rightarrow> (False, t)
      | Some m \<Rightarrow>
          let t = t\<lparr>tm_module_range := \<lparr>mr_base = lib_start m, mr_end = lib_end m\<rparr>, tm_module_name := lib_name\<rparr>;
              t = (if symbol_at address \<noteq> [] then t\<lparr>symbol_name := symbol_at address\<rparr> else t)
          in (True, new_info_manager dm reg t))"

section \<open>The callbacks\<close>

datatype VMAction = CONTINUE | STOP

definition modify_cur ::
  "(inst_trace_info \<Rightarrow> inst_trace_info) \<Rightarrow> InstructionInfoManager \<Rightarrow> InstructionInfoManager" where
  "modify_cur f im = im\<lparr>cur_info := map_option f (cur_info im)\<rparr>"

definition store_status :: "GPRState \<Rightarrow> FPRState option \<Rightarrow> trace_vm_status \<Rightarrow> trace_vm_status" where
  "store_status gpr fpr st =
     (let st = st\<lparr>gpr_state := gpr\<rparr> in case fpr of Some f \<Rightarrow> st\<lparr>fpr_state := f\<rparr> | None \<Rightarrow> st)"

text \<open>
  \<open>pre_instruction_call\<close>: \<open>None\<close> for the analysis and for the user data is a null pointer. The
  registers are returned since the hook may change them.
\<close>

definition pre_instruction_call ::
  "InstAnalysis option \<Rightarrow> GPRState \<Rightarrow> FPRState option \<Rightarrow> InstructionTracerManager option
   \<Rightarrow> VMAction \<times> GPRState \<times> FPRState option \<times> InstructionTracerManager option" where
  "pre_instruction_call inst_o gpr fpr data =
     (case inst_o of
        None \<Rightarrow> (CONTINUE, gpr, fpr, data)
      | Some inst \<Rightarrow>
          (case data of
             None \<Rightarrow> (STOP, gpr, fpr, data)
           | Some self \<Rightarrow>
               if \<not> is_need_record self (gpr_pc gpr) then (CONTINUE, gpr, fpr, data)
               else
                 (case info_manager self of
                    None \<Rightarrow> (STOP, gpr, fpr, data)
                  | Some im \<Rightarrow>
                      let pc = gpr_pc gpr;
                          im = alloc_inst_trace_info pc im;
                          (gpr, fpr) = trace_callback_pre self (pc - mr_base (tm_module_range self)) gpr fpr;
                          im = modify_cur (\<lambda>info. info\<lparr>pre_status := store_status gpr fpr (pre_status info)\<rparr>) im;
                          im = (if (isBranch inst \<or> isCall inst) \<and> affectControlFlow inst
                                then modify_cur (\<lambda>info. info\<lparr>inst_analysis := Some inst\<rparr>)
                                       (snd (alloc_fun_call (gpr_pc gpr) im))
                                else im)
                      in (CONTINUE, gpr, fpr, Some (self\<lparr>info_manager := Some im\<rparr>)))))"

text \<open>
  \<open>post_instruction_call\<close> after its guards: store the registers, dispatch the call that the
  current instruction made, finish and write the one that the previous instruction made, and
  write the current instruction if it is no call.
\<close>

definition post_dispatch ::
  "tracer_env \<Rightarrow> memory \<Rightarrow> addr \<Rightarrow> InstructionTracerManager \<Rightarrow> GPRState \<Rightarrow> InstructionInfoManager
   \<Rightarrow> InstructionInfoManager result" where
  "post_dispatch env mem frame self gpr im =
     (case cur_info im of
        None \<Rightarrow> Inr im
      | Some cur \<Rightarrow>
          (case fun_call cur of
             None \<Rightarrow> Inr im
           | Some call \<Rightarrow>
               if tracer_in_module_range self (gpr_pc gpr) \<and> \<not> is_svc call
               then dispatch_fun_call_common_args (gpr_pc gpr) im
               else dispatch_fun_call_args env mem frame (gpr_pc gpr) im))"

definition post_return ::
  "tracer_env \<Rightarrow> memory \<Rightarrow> InstructionTracerManager \<Rightarrow> GPRState \<Rightarrow> InstructionInfoManager
   \<Rightarrow> InstructionInfoManager result" where
  "post_return env mem self gpr im =
     (case pre_info im of
        None \<Rightarrow> Inr im
      | Some prev \<Rightarrow>
          (case fun_call prev of
             None \<Rightarrow> Inr im
           | Some call \<Rightarrow>
               bind_result
                 (if tracer_in_module_range self (gpr_pc (gpr_state (post_status prev))) \<and> \<not> is_svc call
                  then dispatch_fun_call_common_return gpr im
                  else dispatch_fun_call_return env mem gpr im)
                 (\<lambda>im. info_write_trace_info env mem (Option.bind (pre_info im) inst_analysis) [] im)))"

definition post_write ::
  "tracer_env \<Rightarrow> memory \<Rightarrow> InstructionTracerManager \<Rightarrow> InstAnalysis \<Rightarrow> MemoryAccess list
   \<Rightarrow> InstructionInfoManager \<Rightarrow> InstructionInfoManager result" where
  "post_write env mem self inst accesses im =
     (case cur_info im of
        None \<Rightarrow> Inr im
      | Some cur \<Rightarrow>
          if fun_call cur = None
          then info_write_trace_info env mem (Some inst)
                 (filter (\<lambda>ma. \<not> is_address_in_stack_range self (accessAddress ma)) accesses) im
          else Inr im)"

definition post_instruction_call ::
  "tracer_env \<Rightarrow> memory \<Rightarrow> addr \<Rightarrow> InstAnalysis option \<Rightarrow> MemoryAccess list \<Rightarrow> GPRState \<Rightarrow> FPRState option
   \<Rightarrow> InstructionTracerManager option
   \<Rightarrow> (VMAction \<times> GPRState \<times> FPRState option \<times> InstructionTracerManager option) result" where
  "post_instruction_call env mem frame inst_o accesses gpr fpr data =
     (case data of
        None \<Rightarrow> Inr (STOP, gpr, fpr, data)
      | Some self \<Rightarrow>
          (case inst_o of
             None \<Rightarrow> Inr (CONTINUE, gpr, fpr, data)
           | Some inst \<Rightarrow>
               if \<not> is_need_record self (ia_address inst) then Inr (CONTINUE, gpr, fpr, data)
               else
                 (case info_manager self of
                    None \<Rightarrow> Inr (STOP, gpr, fpr, data)
                  | Some im \<Rightarrow>
                      (case cur_info im of
                         None \<Rightarrow> Inr (STOP, gpr, fpr, data)
                       | Some cur \<Rightarrow>
                           if info_pc cur \<noteq> ia_address inst then Inr (STOP, gpr, fpr, data)
                           else
                             let (gpr, fpr) = trace_callback_post self
                                   (info_pc cur - mr_base (tm_module_range self)) gpr fpr;
                                 im = modify_cur (\<lambda>info. info\<lparr>post_status := store_status gpr fpr (post_status info)\<rparr>) im
                             in map_result (\<lambda>im. (CONTINUE, gpr, fpr, Some (self\<lparr>info_manager := Some im\<rparr>)))
                                  (bind_result (post_dispatch env mem frame self gpr im) (\<lambda>im.
                                   bind_result (post_return env mem self gpr im) (\<lambda>im.
                                     post_write env mem self inst accesses im)))))))"

text \<open>\<open>pre_svc_instruction_call\<close>: the current record is used without a test for null.\<close>

definition pre_svc_instruction_call ::
  "InstAnalysis option \<Rightarrow> GPRState \<Rightarrow> InstructionTracerManager option
   \<Rightarrow> (VMAction \<times> InstructionTracerManager option) result" where
  "pre_svc_instruction_call inst_o gpr data =
     (case data of
        None \<Rightarrow> Inr (STOP, data)
      | Some self \<Rightarrow>
          (case info_manager self of
             None \<Rightarrow> Inr (STOP, data)
           | Some im \<Rightarrow>
               (case cur_info im of
                  None \<Rightarrow> Inl NullDeref
                | Some cur \<Rightarrow>
                    if fun_call cur = None then
                      let im = snd (alloc_fun_call (gpr_pc gpr) im);
                          im = modify_cur (\<lambda>info. info\<lparr>inst_analysis := inst_o,
                                 fun_call := map_option (\<lambda>c. c\<lparr>is_svc := True\<rparr>) (fun_call info)\<rparr>) im
                      in Inr (CONTINUE, Some (self\<lparr>info_manager := Some im\<rparr>))
                    else Inr (CONTINUE, data))))"

section \<open>Running\<close>

text \<open>
  \<open>run\<close>: the callbacks are added to the virtual machine, the call of the virtual machine
  (its outcome and the traced state it leaves are arguments) and the flush. The answer is a
  \<^verbatim>\<open>bool\<close> made of \<open>-1\<close> or of the returned word.
\<close>

definition add_callbacks :: "bool \<Rightarrow> InstructionTracerManager \<Rightarrow> InstructionTracerManager" where
  "add_callbacks svc t =
     t\<lparr>tm_vm := (tm_vm t)\<lparr>vm_pre_cbs := vm_pre_cbs (tm_vm t) + 1, vm_post_cbs := vm_post_cbs (tm_vm t) + 1,
        vm_svc_cbs := vm_svc_cbs (tm_vm t) + (if svc then 1 else 0)\<rparr>\<rparr>"

definition tracer_flush :: "memory \<Rightarrow> InstructionTracerManager \<Rightarrow> InstructionTracerManager result" where
  "tracer_flush mem t =
     (case info_manager t of
        None \<Rightarrow> Inl NullDeref
      | Some im \<Rightarrow> map_result (\<lambda>im. t\<lparr>info_manager := Some im\<rparr>) (info_flush mem im))"

definition run ::
  "(InstructionTracerManager \<Rightarrow> (bool \<times> addr \<times> memory \<times> InstructionTracerManager) result)
   \<Rightarrow> InstructionTracerManager \<Rightarrow> (bool \<times> InstructionTracerManager) result" where
  "run vm_call t =
     bind_result (vm_call (add_callbacks True t)) (\<lambda>(ok, ret_value, mem, t).
       map_result (\<lambda>t. (if \<not> ok then (- 1 :: int) \<noteq> 0 else ret_value \<noteq> 0, t)) (tracer_flush mem t))"

text \<open>\<open>run_attach\<close>: \<open>instrument_ok\<close> is whether the hooking library returned zero.\<close>

definition run_attach ::
  "attach_cond option \<Rightarrow> bool \<Rightarrow> InstructionTracerManager \<Rightarrow> bool \<times> InstructionTracerManager" where
  "run_attach at_cond instrument_ok t =
     (let t = (case at_cond of
                 Some c \<Rightarrow> t\<lparr>inst_at_cond_list := emplace (target_trace_address t) c (inst_at_cond_list t)\<rparr>
               | None \<Rightarrow> t)
      in (instrument_ok, t))"

text \<open>
  \<open>inst_at_enter\<close>: the hook at the entry of an attached function, with the registers of the
  hooking library. The callback for \<^verbatim>\<open>svc\<close> is not added here.
\<close>

definition inst_at_enter ::
  "(InstructionTracerManager \<Rightarrow> (bool \<times> addr \<times> memory \<times> InstructionTracerManager) result)
   \<Rightarrow> addr \<Rightarrow> DobbyRegisterContext \<Rightarrow> InstructionTracerManager \<Rightarrow> InstructionTracerManager result" where
  "inst_at_enter vm_call address ctx t =
     (if \<not> check_attach_cond t address 8 (dc_x ctx) (dc_q ctx) then Inr t
      else
        let vm = tm_vm t;
            vm = vm\<lparr>vm_gpr := doby_to_qbdi ctx (vm_gpr vm), vm_fpr := doby_to_qbdi_fpr ctx (vm_fpr vm)\<rparr>;
            t = add_callbacks False (t\<lparr>tm_vm := vm\<rparr>)
        in bind_result (vm_call t) (\<lambda>(ok, ret_value, mem, t). tracer_flush mem t))"

section \<open>Recorded ranges\<close>

text \<open>The two ways to add a range, and what a call of one of them asks for.\<close>

datatype range_op = RecordSize addr addr | RecordEnd addr addr

fun range_apply :: "range_op \<Rightarrow> InstructionTracerManager \<Rightarrow> bool \<times> InstructionTracerManager" where
  "range_apply (RecordSize offset sz) t = add_record_range_size offset sz t"
| "range_apply (RecordEnd offset offset_end) t = add_record_range offset offset_end t"

fun range_asked :: "InstructionTracerManager \<Rightarrow> range_op \<Rightarrow> module_range" where
  "range_asked t (RecordSize offset sz) =
     \<lparr>mr_base = mr_base (tm_module_range t) + offset, mr_end = mr_base (tm_module_range t) + offset + sz\<rparr>"
| "range_asked t (RecordEnd offset offset_end) =
     \<lparr>mr_base = mr_base (tm_module_range t) + offset, mr_end = mr_base (tm_module_range t) + offset_end\<rparr>"

definition range_accepted :: "InstructionTracerManager \<Rightarrow> range_op \<Rightarrow> bool" where
  "range_accepted t op \<longleftrightarrow>
     tracer_in_module_range t (mr_base (range_asked t op)) \<and> tracer_in_module_range t (mr_end (range_asked t op))"

lemma range_apply_eq:
  "range_apply op t = (range_accepted t op,
     if range_accepted t op then t\<lparr>record_ranges := record_ranges t @ [range_asked t op]\<rparr> else t)"
  by (cases op) (auto simp: add_record_range_size_def add_record_range_def range_accepted_def Let_def)

lemma range_accepted_ranges [simp]:
  "range_accepted (t\<lparr>record_ranges := rs\<rparr>) op = range_accepted t op"
  "range_asked (t\<lparr>record_ranges := rs\<rparr>) op = range_asked t op"
  by (cases op; simp add: range_accepted_def tracer_in_module_range_def)+

lemma range_apply_fold:
  "fold (\<lambda>op t. snd (range_apply op t)) ops t =
     t\<lparr>record_ranges := record_ranges t @ map (range_asked t) (filter (range_accepted t) ops)\<rparr>"
proof (induction ops arbitrary: t)
  case (Cons op ops)
  have "range_accepted (t\<lparr>record_ranges := rs\<rparr>) = range_accepted t" "range_asked (t\<lparr>record_ranges := rs\<rparr>) = range_asked t" for rs
    by (simp_all add: fun_eq_iff)
  then show ?case using Cons.IH [of "snd (range_apply op t)"] by (simp add: range_apply_eq [of op t])
qed simp

lemma tracer_in_module_range_iff:
  "tracer_in_module_range t a \<longleftrightarrow> mr_base (tm_module_range t) \<le> a \<and> a \<le> mr_end (tm_module_range t)"
  by (auto simp: tracer_in_module_range_def not_less)

section \<open>Properties\<close>

text \<open>
  C6: the filter of recorded addresses, after any sequence of calls that add a range to a
  tracer without one. A call is accepted exactly when both ends of the range lie in the
  module; as long as none was accepted every address is recorded; afterwards exactly the
  addresses of the accepted ranges are, and all of them lie in the module.
\<close>

theorem record_filter:
  assumes "record_ranges t = []" and "t' = fold (\<lambda>op t. snd (range_apply op t)) ops t"
  shows "(is_need_record t' a \<longleftrightarrow>
      (\<forall>op \<in> set ops. \<not> range_accepted t op)
      \<or> (\<exists>op \<in> set ops. range_accepted t op \<and> mr_base (range_asked t op) \<le> a \<and> a < mr_end (range_asked t op)))
    \<and> ((\<exists>op \<in> set ops. range_accepted t op) \<and> is_need_record t' a \<longrightarrow> tracer_in_module_range t a)"
proof -
  have t': "record_ranges t' = map (range_asked t) (filter (range_accepted t) ops)"
    using assms by (simp add: range_apply_fold)
  have need: "is_need_record t' a \<longleftrightarrow> (\<forall>op \<in> set ops. \<not> range_accepted t op)
      \<or> (\<exists>op \<in> set ops. range_accepted t op \<and> mr_base (range_asked t op) \<le> a \<and> a < mr_end (range_asked t op))"
    by (auto simp: is_need_record_def t' list_ex_iff filter_empty_conv)
  moreover have "tracer_in_module_range t a"
    if "range_accepted t op" "mr_base (range_asked t op) \<le> a" "a < mr_end (range_asked t op)" for op
    using that by (auto simp: range_accepted_def tracer_in_module_range_iff)
  ultimately show ?thesis by blast
qed

definition plain_tracer :: InstructionTracerManager where
  "plain_tracer =
     \<lparr>pre_hook_callbacks = (\<lambda>_. None), post_hook_callbacks = (\<lambda>_. None), inst_at_cond_list = (\<lambda>_. None),
      tm_vm = \<lparr>vm_gpr = zero_gpr, vm_fpr = (\<lambda>_. 0), vm_pre_cbs = 0, vm_post_cbs = 0, vm_svc_cbs = 0\<rparr>,
      record_ranges = [], target_trace_address = 0x1000, tm_module_name = ''m'', symbol_name = [],
      tm_module_range = \<lparr>mr_base = 0x1000, mr_end = 0x2000\<rparr>, info_manager = None, stack_base = 0\<rparr>"

theorem record_filter_witness:
  "\<not> is_need_record (fold (\<lambda>op t. snd (range_apply op t)) [RecordSize 0x100 0x10, RecordEnd 0x200 0x5000] plain_tracer) 0x1210"
proof -
  have "record_ranges plain_tracer = []" by (simp add: plain_tracer_def)
  from record_filter [OF this refl, of "[RecordSize 0x100 0x10, RecordEnd 0x200 0x5000]" "0x1210"]
  show ?thesis by (simp add: range_accepted_def tracer_in_module_range_def plain_tracer_def)
qed

text \<open>
  C8: the two ways to name a function in a library disagree on the range of its module.
  Initialising by offset takes the range of the library; initialising by symbol takes its
  start plus its end address as the end. So every library above the traced one up to that
  bound counts as the module, and calls into it are never given to a dispatcher.
\<close>

theorem init_module_range:
  assumes "find_symbol m symbol \<noteq> 0" and "lib_start m \<le> lib_end m"
    and "unat (lib_start m) + unat (lib_end m) < 2 ^ 64" and "offset \<le> lib_end m - lib_start m"
  shows "\<exists>t1 t2. init_symbol dm reg stack (Some m) name symbol t = (True, t1)
    \<and> init_offset dm reg stack (Some m) name offset t = (True, t2)
    \<and> (\<forall>a. tracer_in_module_range t2 a \<longleftrightarrow> lib_start m \<le> a \<and> a \<le> lib_end m)
    \<and> (\<forall>a. tracer_in_module_range t1 a \<longleftrightarrow> lib_start m \<le> a \<and> unat a \<le> unat (lib_start m) + unat (lib_end m))"
proof -
  have sum: "unat (lib_start m + lib_end m) = unat (lib_start m) + unat (lib_end m)"
    using assms(3) by (simp add: unat_word_ariths(1))
  have ok: "\<not> lib_end m - lib_start m < offset" using assms(4) by simp
  have "tracer_in_module_range (new_info_manager dm reg
      (s\<lparr>target_trace_address := x, tm_module_range := \<lparr>mr_base = lib_start m, mr_end = lib_start m + lib_end m\<rparr>\<rparr>)) a
    \<longleftrightarrow> lib_start m \<le> a \<and> unat a \<le> unat (lib_start m) + unat (lib_end m)" for s x a
    by (simp add: tracer_in_module_range_iff new_info_manager_def word_le_nat_alt sum)
  moreover have "tracer_in_module_range (new_info_manager dm reg
      (s\<lparr>tm_module_range := \<lparr>mr_base = lib_start m, mr_end = lib_end m\<rparr>, target_trace_address := x\<rparr>)) a
    \<longleftrightarrow> lib_start m \<le> a \<and> a \<le> lib_end m" for s x a
    by (simp add: tracer_in_module_range_iff new_info_manager_def)
  ultimately show ?thesis
    using assms(1) ok by (simp add: init_symbol_def init_offset_def Let_def)
qed

definition empty_dispatch :: InstructionDispatchManager where
  "empty_dispatch =
     (let none = (\<lparr>symbol_info = (\<lambda>_. None), d_module_range = \<lparr>mr_base = 1, mr_end = 0\<rparr>\<rparr>, \<lambda>_. None)
      in \<lparr>dm_syscall = \<lparr>captured_frame = None\<rparr>, dm_libc = none, dm_libz = none, dm_jni = (fst none, \<lambda>_. None)\<rparr>)"

theorem init_module_range_witness:
  "\<exists>t1. init_symbol empty_dispatch [] 0x7000000 (Some (one_symbol ''f'')) ''libf.so'' ''f'' plain_tracer = (True, t1)
     \<and> tracer_in_module_range t1 0x2f00"
proof -
  have "find_symbol (one_symbol ''f'') ''f'' \<noteq> 0" by (simp add: one_symbol_def)
  from init_module_range [OF this, of 0 empty_dispatch "[]" "0x7000000" "''libf.so''" plain_tracer]
  show ?thesis by auto
qed

text \<open>
  The answer of \<open>run\<close> is not whether the run succeeded. It is true when the virtual
  machine failed, and false when the traced function ran and returned zero. Every run adds
  the callbacks to the virtual machine once more, so that after two runs every instruction
  would be reported twice.
\<close>

theorem run_answer:
  assumes "vm_call (add_callbacks True t) = Inr (ok, ret, mem, t1)" and "tracer_flush mem t1 = Inr t2"
    and "\<And>s ok r mem s'. vm_call s = Inr (ok, r, mem, s') \<Longrightarrow>
      vm_pre_cbs (tm_vm s') = vm_pre_cbs (tm_vm s) \<and> vm_post_cbs (tm_vm s') = vm_post_cbs (tm_vm s)"
  shows "\<exists>b. run vm_call t = Inr (b, t2) \<and> (b \<longleftrightarrow> \<not> ok \<or> ret \<noteq> 0)
    \<and> vm_pre_cbs (tm_vm t2) = vm_pre_cbs (tm_vm t) + 1 \<and> vm_post_cbs (tm_vm t2) = vm_post_cbs (tm_vm t) + 1"
proof -
  have "tm_vm t2 = tm_vm t1"
    using assms(2) by (auto simp: tracer_flush_def map_result_eq_Inr split: option.splits)
  with assms(3) [OF assms(1)] assms(1,2) show ?thesis
    by (simp add: run_def add_callbacks_def)
qed

theorem run_answer_witness:
  "\<exists>t2. run (\<lambda>s. Inr (True, 0, \<lambda>_. None, s)) (new_info_manager empty_dispatch [] plain_tracer) = Inr (False, t2)"
proof -
  let ?t = "new_info_manager empty_dispatch [] plain_tracer"
  have "case tracer_flush (\<lambda>_. None) (add_callbacks True ?t) of Inr _ \<Rightarrow> True | Inl _ \<Rightarrow> False" by code_simp
  then obtain t2 where "tracer_flush (\<lambda>_. None) (add_callbacks True ?t) = Inr t2" by (auto split: sum.splits)
  from run_answer [of "\<lambda>s. Inr (True, 0, \<lambda>_. None, s)", OF refl this] show ?thesis by auto
qed

end
