(* ===== verification/Trace_Run.thy ===== *)
theory Trace_Run
  imports Tracer_Manager
begin

text \<open>
  Runs of the tracer: the sequences of callbacks that the virtual machine makes, one group for
  every executed instruction, and the log that they leave. The abstract view of a run is the
  list of recorded instructions with their program counter and whether they are a call; it
  determines the program counters of the lines of the log.
\<close>

section \<open>Runs\<close>

text \<open>
  One executed instruction: its analysis, whether it is \<^verbatim>\<open>svc\<close>, the registers before and
  after it, its memory accesses, the memory after it and the stack frame of the dispatch.
\<close>

record trace_event =
  ev_inst :: InstAnalysis
  ev_svc :: bool
  ev_pre_gpr :: GPRState
  ev_pre_fpr :: "FPRState option"
  ev_post_gpr :: GPRState
  ev_post_fpr :: "FPRState option"
  ev_accesses :: "MemoryAccess list"
  ev_mem :: memory
  ev_frame :: addr

text \<open>
  The callbacks before an instruction in the order of their registration in \<open>run\<close>, which
  registers them with one priority; \<^verbatim>\<open>STOP\<close> ends the execution. The headers of the virtual
  machine order callbacks by priority and do not say how it orders callbacks of the same
  priority: the model is the case that it keeps their order.
\<close>

definition run_event ::
  "tracer_env \<Rightarrow> trace_event \<Rightarrow> InstructionTracerManager \<Rightarrow> (VMAction \<times> InstructionTracerManager) result" where
  "run_event env ev t =
     (let inst = Some (ev_inst ev);
          (act, gpr, fpr, data) = pre_instruction_call inst (ev_pre_gpr ev) (ev_pre_fpr ev) (Some t)
      in if act = STOP then Inr (STOP, the data)
         else bind_result
           (if ev_svc ev then pre_svc_instruction_call inst gpr data else Inr (CONTINUE, data))
           (\<lambda>(act, data). if act = STOP then Inr (STOP, the data)
              else map_result (\<lambda>(act, gpr, fpr, data). (act, the data))
                     (post_instruction_call env (ev_mem ev) (ev_frame ev) inst (ev_accesses ev)
                        (ev_post_gpr ev) (ev_post_fpr ev) data)))"

fun run_events ::
  "tracer_env \<Rightarrow> trace_event list \<Rightarrow> InstructionTracerManager \<Rightarrow> (VMAction \<times> InstructionTracerManager) result" where
  "run_events env [] t = Inr (CONTINUE, t)"
| "run_events env (ev # evs) t =
     bind_result (run_event env ev t) (\<lambda>(act, t). if act = STOP then Inr (STOP, t) else run_events env evs t)"

section \<open>The abstract view\<close>

definition event_pc :: "trace_event \<Rightarrow> addr" where
  "event_pc ev = gpr_pc (ev_pre_gpr ev)"

definition event_call :: "trace_event \<Rightarrow> bool" where
  "event_call ev \<longleftrightarrow>
     (isBranch (ev_inst ev) \<or> isCall (ev_inst ev)) \<and> affectControlFlow (ev_inst ev) \<or> ev_svc ev"

definition event_step :: "trace_event \<Rightarrow> addr \<times> bool" where
  "event_step ev = (event_pc ev, event_call ev)"

text \<open>The lines that an instruction adds to the log, given the one that was recorded before it.\<close>

definition step_lines :: "(addr \<times> bool) option \<Rightarrow> addr \<times> bool \<Rightarrow> addr list" where
  "step_lines prev cur =
     (let (pc, call) = cur in
      (case prev of
         None \<Rightarrow> []
       | Some (p, c) \<Rightarrow> if c then p # (if pc = p then [pc] else []) else [])
      @ (if call then []
         else (case prev of None \<Rightarrow> [] | Some (p, c) \<Rightarrow> if p = pc then [p] else []) @ [pc]))"

fun trace_lines :: "(addr \<times> bool) option \<Rightarrow> (addr \<times> bool) list \<Rightarrow> addr list" where
  "trace_lines prev [] = []"
| "trace_lines prev (s # ss) = step_lines prev s @ trace_lines (Some s) ss"

text \<open>
  What the virtual machine guarantees of the events: the analysis is the one of the
  instruction at the program counter.
\<close>

definition event_ok :: "trace_event \<Rightarrow> bool" where
  "event_ok ev \<longleftrightarrow> ia_address (ev_inst ev) = event_pc ev"

section \<open>The records between the callbacks\<close>

definition record_is :: "inst_trace_info option \<Rightarrow> (addr \<times> bool) option \<Rightarrow> bool" where
  "record_is info s \<longleftrightarrow>
     (case s of
        None \<Rightarrow> info = None
      | Some (pc, c) \<Rightarrow> (\<exists>cur. info = Some cur \<and> info_pc cur = pc \<and> (fun_call cur \<noteq> None \<longleftrightarrow> c)
          \<and> (c \<longrightarrow> (\<exists>i. inst_analysis cur = Some i \<and> ia_address i = pc))))"

lemma record_is_set_call:
  assumes "record_is (Some cur) (Some (pc, True))"
  shows "record_is (Some (set_call c cur)) (Some (pc, True))"
  using assms by (auto simp: record_is_def set_call_def)

lemma record_is_written:
  assumes "record_is info_o (Some (p, c))"
  shows "(case info_o of Some info \<Rightarrow> if info_pc info = a then [unat (info_pc info)] else [] | None \<Rightarrow> [])
    = (if p = a then [unat p] else [])"
  using assms by (auto simp: record_is_def)

section \<open>The callbacks on the records\<close>

lemma pre_instruction_call_records:
  assumes "info_manager t = Some im" and "is_need_record t (gpr_pc gpr)" and "ia_address inst = gpr_pc gpr"
    and "record_is (cur_info im) prev" and "prev = None \<Longrightarrow> pre_info im = None"
  shows "\<exists>gpr' fpr' im'. pre_instruction_call (Some inst) gpr fpr (Some t)
      = (CONTINUE, gpr', fpr', Some (t\<lparr>info_manager := Some im'\<rparr>))
    \<and> record_is (pre_info im') prev
    \<and> record_is (cur_info im') (Some (gpr_pc gpr, (isBranch inst \<or> isCall inst) \<and> affectControlFlow inst))
    \<and> im_logger im' = im_logger im"
proof -
  obtain gpr' fpr' where hook: "trace_callback_pre t (gpr_pc gpr - mr_base (tm_module_range t)) gpr fpr = (gpr', fpr')"
    by force
  have alloc: "cur_info (alloc_inst_trace_info (gpr_pc gpr) im) = Some (inst_trace_info_new\<lparr>info_pc := gpr_pc gpr\<rparr>)
      \<and> record_is (pre_info (alloc_inst_trace_info (gpr_pc gpr) im)) prev
      \<and> im_logger (alloc_inst_trace_info (gpr_pc gpr) im) = im_logger im"
    using assms(4,5)
    by (cases "cur_info im") (auto simp: alloc_inst_trace_info_def record_is_def split: option.splits)
  let ?call = "(isBranch inst \<or> isCall inst) \<and> affectControlFlow inst"
  define im1 where "im1 = modify_cur (\<lambda>info. info\<lparr>pre_status := store_status gpr' fpr' (pre_status info)\<rparr>)
      (alloc_inst_trace_info (gpr_pc gpr) im)"
  define im2 where "im2 = (if ?call
      then modify_cur (\<lambda>info. info\<lparr>inst_analysis := Some inst\<rparr>) (snd (alloc_fun_call (gpr_pc gpr') im1)) else im1)"
  have "pre_instruction_call (Some inst) gpr fpr (Some t)
      = (CONTINUE, gpr', fpr', Some (t\<lparr>info_manager := Some im2\<rparr>))"
    using assms(1,2) by (simp add: pre_instruction_call_def hook Let_def im1_def im2_def)
  moreover have "pre_info im2 = pre_info (alloc_inst_trace_info (gpr_pc gpr) im)" "im_logger im2 = im_logger im"
    using alloc by (simp_all add: im1_def im2_def modify_cur_def alloc_fun_call_def Let_def)
  moreover have "record_is (cur_info im2) (Some (gpr_pc gpr, ?call))"
    using alloc assms(3)
    by (auto simp: im1_def im2_def modify_cur_def alloc_fun_call_def record_is_def inst_trace_info_new_def Let_def)
  ultimately show ?thesis using alloc by auto
qed

lemma pre_svc_instruction_call_records:
  assumes "info_manager t = Some im" and "ia_address inst = pc" and "record_is (cur_info im) (Some (pc, c))"
  shows "\<exists>im'. pre_svc_instruction_call (Some inst) gpr (Some t) = Inr (CONTINUE, Some (t\<lparr>info_manager := Some im'\<rparr>))
    \<and> pre_info im' = pre_info im \<and> record_is (cur_info im') (Some (pc, True)) \<and> im_logger im' = im_logger im"
proof -
  obtain cur where cur: "cur_info im = Some cur" using assms(3) by (auto simp: record_is_def)
  show ?thesis
  proof (cases "fun_call cur")
    case None
    then show ?thesis using assms cur
      by (auto simp: pre_svc_instruction_call_def Let_def alloc_fun_call_def modify_cur_def record_is_def)
  next
    case (Some f)
    have "t\<lparr>info_manager := Some im\<rparr> = t" using assms(1) by simp
    then show ?thesis using Some assms cur
      by (auto simp: pre_svc_instruction_call_def record_is_def intro!: exI [of _ im])
  qed
qed

text \<open>The dispatch changes at most the call of the current record, the return that of the previous one.\<close>

lemma post_dispatch_shape:
  assumes "post_dispatch env mem frame self gpr im = Inr im'"
  shows "im' = im \<or> (\<exists>cur call c dm. cur_info im = Some cur \<and> fun_call cur = Some call
    \<and> im' = im\<lparr>cur_info := Some (set_call c cur), im_dispatch := dm\<rparr> \<and> is_svc c = is_svc call)"
proof (cases "\<exists>cur call. cur_info im = Some cur \<and> fun_call cur = Some call")
  case False
  then show ?thesis using assms by (auto simp: post_dispatch_def split: option.splits)
next
  case True
  then obtain cur call where cur: "cur_info im = Some cur" and call: "fun_call cur = Some call" by blast
  show ?thesis
  proof (cases "tracer_in_module_range self (gpr_pc gpr) \<and> \<not> is_svc call")
    case True
    with assms cur call obtain c where "im' = im\<lparr>cur_info := Some (set_call c cur)\<rparr>" "is_svc c = is_svc call"
      by (auto simp: post_dispatch_def dispatch_fun_call_common_args_def Let_def)
    then have "im' = im\<lparr>cur_info := Some (set_call c cur), im_dispatch := im_dispatch im\<rparr>" "is_svc c = is_svc call" by simp_all
    with cur call show ?thesis by blast
  next
    case False
    with assms cur call obtain b dm info where
      run: "dispatch_manager_args (te_dispatch env) mem frame (im_dispatch im)
          (set_call (call\<lparr>fun_address := gpr_pc gpr\<rparr>) cur) = Inr (b, dm, info)"
      and im': "im' = im\<lparr>cur_info := Some info, im_dispatch := dm\<rparr>"
      by (auto simp: post_dispatch_def dispatch_fun_call_args_def map_result_eq_Inr split: if_splits)
    from dispatch_manager_args_only_call [OF run] im' cur call show ?thesis by auto
  qed
qed

lemma post_return_shape:
  assumes "post_return env mem self gpr im = Inr im'" and "pre_info im = Some pre" and "fun_call pre = Some call"
  shows "\<exists>c. is_svc c = is_svc call
    \<and> info_write_trace_info env mem (inst_analysis pre) [] (im\<lparr>pre_info := Some (set_call c pre)\<rparr>) = Inr im'"
proof -
  obtain im1 where ret: "(if tracer_in_module_range self (gpr_pc (gpr_state (post_status pre))) \<and> \<not> is_svc call
        then dispatch_fun_call_common_return gpr im else dispatch_fun_call_return env mem gpr im) = Inr im1"
    and wr: "info_write_trace_info env mem (Option.bind (pre_info im1) inst_analysis) [] im1 = Inr im'"
    using assms by (auto simp: post_return_def bind_result_eq_Inr)
  have "\<exists>c. im1 = im\<lparr>pre_info := Some (set_call c pre)\<rparr> \<and> is_svc c = is_svc call"
  proof (cases "tracer_in_module_range self (gpr_pc (gpr_state (post_status pre))) \<and> \<not> is_svc call")
    case True
    with ret assms(2,3) show ?thesis by (auto simp: dispatch_fun_call_common_return_def)
  next
    case False
    with ret assms(2) obtain b info where
      run: "dispatch_manager_ret (te_dispatch env) mem (im_dispatch im) pre gpr = Inr (b, info)"
      and im1: "im1 = im\<lparr>pre_info := Some info\<rparr>"
      by (auto simp: dispatch_fun_call_return_def map_result_eq_Inr)
    from dispatch_manager_ret_only_call [OF run assms(3)] im1 show ?thesis by auto
  qed
  with wr show ?thesis by (auto simp: set_call_def)
qed

lemma post_dispatch_records:
  assumes "post_dispatch env mem frame self gpr im = Inr im'" and "record_is (cur_info im) s"
  shows "pre_info im' = pre_info im \<and> record_is (cur_info im') s \<and> im_logger im' = im_logger im"
  using post_dispatch_shape [OF assms(1)] assms(2)
  by (auto simp: record_is_def set_call_def split: option.splits)

text \<open>The lines of one instruction in two parts: the call before it, and itself.\<close>

definition call_lines :: "(addr \<times> bool) option \<Rightarrow> addr \<Rightarrow> addr list" where
  "call_lines prev pc =
     (case prev of None \<Rightarrow> [] | Some (p, c) \<Rightarrow> if c then p # (if pc = p then [pc] else []) else [])"

definition own_lines :: "(addr \<times> bool) option \<Rightarrow> addr \<times> bool \<Rightarrow> addr list" where
  "own_lines prev cur =
     (let (pc, call) = cur in
      if call then [] else (case prev of None \<Rightarrow> [] | Some (p, c) \<Rightarrow> if p = pc then [p] else []) @ [pc])"

lemma step_lines_parts: "step_lines prev (pc, c) = call_lines prev pc @ own_lines prev (pc, c)"
  by (auto simp: step_lines_def call_lines_def own_lines_def split: option.splits)

lemma info_write_records:
  assumes "info_write_trace_info env mem (Some inst) accesses im = Inr im'"
    and "logcat (im_logger im) \<noteq> None"
    and "record_is (pre_info im) prev" and "record_is (cur_info im) (Some (pc, c))"
  shows "log_pcs (im_logger im') = log_pcs (im_logger im)
      @ map unat ((case prev of None \<Rightarrow> [] | Some (p, c) \<Rightarrow> if p = ia_address inst then [p] else [])
                  @ (if pc = ia_address inst then [pc] else []))
    \<and> logcat (im_logger im') \<noteq> None \<and> pre_info im' = pre_info im \<and> cur_info im' = cur_info im"
proof -
  note w = info_write_log_pcs [OF assms(1,2)]
  have "(case pre_info im of Some info \<Rightarrow> if info_pc info = ia_address inst then [unat (info_pc info)] else []
        | None \<Rightarrow> []) = map unat (case prev of None \<Rightarrow> [] | Some (p, c) \<Rightarrow> if p = ia_address inst then [p] else [])"
    using assms(3) by (auto simp: record_is_def split: option.splits)
  with w record_is_written [OF assms(4), of "ia_address inst"] show ?thesis by simp
qed

lemma post_return_records:
  assumes "post_return env mem self gpr im = Inr im'" and "logcat (im_logger im) \<noteq> None"
    and "record_is (pre_info im) prev" and "record_is (cur_info im) (Some (pc, c))"
  shows "log_pcs (im_logger im') = log_pcs (im_logger im) @ map unat (call_lines prev pc)
    \<and> logcat (im_logger im') \<noteq> None \<and> record_is (pre_info im') prev \<and> cur_info im' = cur_info im"
proof (cases "\<exists>p. prev = Some (p, True)")
  case False
  then have "im' = im" "call_lines prev pc = []"
    using assms(1,3) by (auto simp: post_return_def record_is_def call_lines_def split: option.splits)
  with assms show ?thesis by simp
next
  case True
  then obtain p pre call i where prev: "prev = Some (p, True)" and pre: "pre_info im = Some pre"
    and call: "fun_call pre = Some call" and i: "inst_analysis pre = Some i" "ia_address i = p"
    using assms(3) by (auto simp: record_is_def)
  obtain c1 where wr: "info_write_trace_info env mem (Some i) [] (im\<lparr>pre_info := Some (set_call c1 pre)\<rparr>) = Inr im'"
    using post_return_shape [OF assms(1) pre call] i(1) by auto
  have pre1: "record_is (pre_info (im\<lparr>pre_info := Some (set_call c1 pre)\<rparr>)) prev"
    using record_is_set_call [of pre p c1] assms(3) prev pre by simp
  show ?thesis
    using info_write_records [OF wr _ pre1, of pc c] assms(2,4) pre1 prev i(2) by (simp add: call_lines_def)
qed

lemma post_write_records:
  assumes "post_write env mem self inst accesses im = Inr im'" and "logcat (im_logger im) \<noteq> None"
    and "record_is (pre_info im) prev" and "record_is (cur_info im) (Some (pc, c))" and "ia_address inst = pc"
  shows "log_pcs (im_logger im') = log_pcs (im_logger im) @ map unat (own_lines prev (pc, c))
    \<and> logcat (im_logger im') \<noteq> None \<and> cur_info im' = cur_info im"
proof -
  obtain cur where cur: "cur_info im = Some cur" "(fun_call cur \<noteq> None) = c"
    using assms(4) by (auto simp: record_is_def)
  show ?thesis
  proof (cases c)
    case True
    with assms cur have "im' = im" by (auto simp: post_write_def split: if_splits)
    with assms True show ?thesis by (simp add: own_lines_def)
  next
    case False
    with assms cur have w: "info_write_trace_info env mem (Some inst)
        (filter (\<lambda>ma. \<not> is_address_in_stack_range self (accessAddress ma)) accesses) im = Inr im'"
      by (auto simp: post_write_def)
    show ?thesis
      using info_write_records [OF w assms(2-4)] assms(5) False
      by (auto simp: own_lines_def split: option.splits)
  qed
qed

lemma post_instruction_call_records:
  assumes "info_manager t = Some im" and "is_need_record t pc" and "ia_address inst = pc"
    and "logcat (im_logger im) \<noteq> None" and "record_is (pre_info im) prev" and "record_is (cur_info im) (Some (pc, c))"
    and "post_instruction_call env mem frame (Some inst) accesses gpr fpr (Some t) = Inr (act, gpr', fpr', data)"
  shows "act = CONTINUE \<and> (\<exists>im'. data = Some (t\<lparr>info_manager := Some im'\<rparr>) \<and> logcat (im_logger im') \<noteq> None
    \<and> log_pcs (im_logger im') = log_pcs (im_logger im) @ map unat (step_lines prev (pc, c))
    \<and> record_is (cur_info im') (Some (pc, c)))"
proof -
  obtain cur where cur: "cur_info im = Some cur" "info_pc cur = pc" using assms(6) by (auto simp: record_is_def)
  obtain gpr1 fpr1 where hook: "trace_callback_post t (pc - mr_base (tm_module_range t)) gpr fpr = (gpr1, fpr1)"
    by force
  define im0 where "im0 = modify_cur (\<lambda>info. info\<lparr>post_status := store_status gpr1 fpr1 (post_status info)\<rparr>) im"
  have im0: "pre_info im0 = pre_info im" "im_logger im0 = im_logger im" "record_is (cur_info im0) (Some (pc, c))"
    using assms(6) by (auto simp: im0_def modify_cur_def record_is_def)
  obtain im1 im2 im3 where d: "post_dispatch env mem frame t gpr1 im0 = Inr im1"
    and r: "post_return env mem t gpr1 im1 = Inr im2" and w: "post_write env mem t inst accesses im2 = Inr im3"
    and out: "act = CONTINUE" "data = Some (t\<lparr>info_manager := Some im3\<rparr>)"
    using assms(1-3,7) cur hook
    by (auto simp: post_instruction_call_def im0_def map_result_eq_Inr bind_result_eq_Inr Let_def)
  note one = post_dispatch_records [OF d im0(3)]
  note two = post_return_records [OF r, of prev pc c]
  have "record_is (pre_info im2) prev" "logcat (im_logger im2) \<noteq> None" "cur_info im2 = cur_info im1"
    "log_pcs (im_logger im2) = log_pcs (im_logger im) @ map unat (call_lines prev pc)"
    using one two im0 assms(4,5) by auto
  moreover note three = post_write_records [OF w this(2,1), of pc c]
  ultimately show ?thesis using one out assms(3) by (auto simp: step_lines_parts)
qed

section \<open>Runs follow the abstract view\<close>

text \<open>The relation between the tracer and the abstract view, between two instructions.\<close>

definition tracks :: "InstructionTracerManager \<Rightarrow> (addr \<times> bool) option \<Rightarrow> nat list \<Rightarrow> bool" where
  "tracks t prev log \<longleftrightarrow>
     (\<exists>im. info_manager t = Some im \<and> logcat (im_logger im) \<noteq> None \<and> log_pcs (im_logger im) = log
        \<and> record_is (cur_info im) prev \<and> (prev = None \<longrightarrow> pre_info im = None))"

lemma is_need_record_info [simp]:
  "is_need_record (t\<lparr>info_manager := im\<rparr>) a = is_need_record t a"
  by (simp add: is_need_record_def)

lemma run_event_skips:
  assumes "\<not> is_need_record t (event_pc ev)" and "event_ok ev" and "\<not> ev_svc ev"
  shows "run_event env ev t = Inr (CONTINUE, t)"
  using assms
  by (simp add: run_event_def pre_instruction_call_def post_instruction_call_def event_pc_def event_ok_def)

lemma run_event_records:
  assumes "run_event env ev t = Inr (act, t')" and "tracks t prev log"
    and "is_need_record t (event_pc ev)" and "event_ok ev"
  shows "act = CONTINUE \<and> (\<exists>im. t' = t\<lparr>info_manager := Some im\<rparr>)
    \<and> tracks t' (Some (event_step ev)) (log @ map unat (step_lines prev (event_step ev)))"
proof -
  let ?inst = "ev_inst ev" and ?pc = "event_pc ev"
  let ?branch = "(isBranch ?inst \<or> isCall ?inst) \<and> affectControlFlow ?inst"
  obtain im where im: "info_manager t = Some im" "logcat (im_logger im) \<noteq> None" "log_pcs (im_logger im) = log"
    "record_is (cur_info im) prev" "prev = None \<Longrightarrow> pre_info im = None"
    using assms(2) by (auto simp: tracks_def)
  have ok: "ia_address ?inst = ?pc" using assms(4) by (simp add: event_ok_def)
  obtain gpr fpr im1 where pre: "pre_instruction_call (Some ?inst) (ev_pre_gpr ev) (ev_pre_fpr ev) (Some t)
      = (CONTINUE, gpr, fpr, Some (t\<lparr>info_manager := Some im1\<rparr>))"
    and im1: "record_is (pre_info im1) prev" "record_is (cur_info im1) (Some (?pc, ?branch))"
      "im_logger im1 = im_logger im"
    using pre_instruction_call_records [OF im(1) assms(3) [unfolded event_pc_def] ok [unfolded event_pc_def] im(4,5)]
    unfolding event_pc_def by blast
  let ?svc = "if ev_svc ev then pre_svc_instruction_call (Some ?inst) gpr (Some (t\<lparr>info_manager := Some im1\<rparr>))
      else Inr (CONTINUE, Some (t\<lparr>info_manager := Some im1\<rparr>))"
  obtain im2 where svc: "?svc = Inr (CONTINUE, Some (t\<lparr>info_manager := Some im2\<rparr>))"
    and im2: "record_is (pre_info im2) prev" "record_is (cur_info im2) (Some (?pc, event_call ev))"
      "im_logger im2 = im_logger im"
  proof (cases "ev_svc ev")
    case True
    then have "event_call ev" by (simp add: event_call_def)
    with True im1 pre_svc_instruction_call_records [of "t\<lparr>info_manager := Some im1\<rparr>" im1, OF _ ok im1(2), of gpr]
    show ?thesis by (auto intro: that)
  next
    case False
    then have "event_call ev = ?branch" by (simp add: event_call_def)
    with False im1 show ?thesis by (auto intro: that)
  qed
  obtain gpr' fpr' data where post: "post_instruction_call env (ev_mem ev) (ev_frame ev) (Some ?inst) (ev_accesses ev)
      (ev_post_gpr ev) (ev_post_fpr ev) (Some (t\<lparr>info_manager := Some im2\<rparr>)) = Inr (act, gpr', fpr', data)"
    and t': "t' = the data"
    using assms(1) unfolding run_event_def Let_def pre by (auto simp: svc map_result_eq_Inr)
  have logger: "logcat (im_logger im2) \<noteq> None" using im(2) im2(3) by simp
  have "is_need_record (t\<lparr>info_manager := Some im2\<rparr>) ?pc" using assms(3) by simp
  from post_instruction_call_records [OF _ this ok logger im2(1,2) post] im2(3) im(3) t' show ?thesis
    by (auto simp: tracks_def event_step_def)
qed

lemma run_events_records:
  assumes "run_events env evs t = Inr (act, t')" and "tracks t prev log"
    and "\<And>ev. ev \<in> set evs \<Longrightarrow> event_ok ev \<and> (ev_svc ev \<longrightarrow> is_need_record t (event_pc ev))"
  shows "act = CONTINUE \<and> (\<exists>prev'. tracks t' prev' (log @ map unat (trace_lines prev
    (map event_step (filter (\<lambda>ev. is_need_record t (event_pc ev)) evs)))))"
  using assms
proof (induction evs arbitrary: t prev log)
  case Nil
  then show ?case by auto
next
  case (Cons ev evs)
  obtain act1 t1 where one: "run_event env ev t = Inr (act1, t1)"
    and rest: "(if act1 = STOP then Inr (STOP, t1) else run_events env evs t1) = Inr (act, t')"
    using Cons.prems(1) by (auto simp: bind_result_eq_Inr)
  have ok: "event_ok ev" "ev_svc ev \<Longrightarrow> is_need_record t (event_pc ev)" using Cons.prems(3) by simp_all
  show ?case
  proof (cases "is_need_record t (event_pc ev)")
    case True
    obtain im where step: "act1 = CONTINUE" "t1 = t\<lparr>info_manager := Some im\<rparr>"
      "tracks t1 (Some (event_step ev)) (log @ map unat (step_lines prev (event_step ev)))"
      using run_event_records [OF one Cons.prems(2) True ok(1)] by blast
    have "run_events env evs t1 = Inr (act, t')" using rest step(1) by simp
    from Cons.IH [OF this step(3)] Cons.prems(3) step(2) True show ?thesis by auto
  next
    case False
    have "\<not> ev_svc ev" using ok(2) False by blast
    with run_event_skips [OF False ok(1)] one have "act1 = CONTINUE" "t1 = t" by auto
    with rest have "run_events env evs t = Inr (act, t')" by simp
    from Cons.IH [OF this Cons.prems(2)] Cons.prems(3) False show ?thesis by auto
  qed
qed

text \<open>A run over instructions whose program counters change at every step.\<close>

lemma trace_lines_distinct:
  assumes "distinct_adj (map fst ss)" and "ss \<noteq> [] \<Longrightarrow> prev = Some (p, c) \<Longrightarrow> p \<noteq> fst (hd ss)"
    and "prev = Some (p, c) \<or> prev = None \<and> \<not> c"
  shows "ss \<noteq> [] \<Longrightarrow> trace_lines prev ss =
    (if c then [p] else []) @ (if snd (last ss) then butlast (map fst ss) else map fst ss)"
  using assms
proof (induction ss arbitrary: prev p c)
  case (Cons s ss)
  obtain pc call where s: "s = (pc, call)" by force
  have lines: "step_lines prev s = (if c then [p] else []) @ (if call then [] else [pc])"
    using Cons.prems(3,4) s by (auto simp: step_lines_def)
  show ?case
  proof (cases "ss = []")
    case True
    then show ?thesis using lines s by simp
  next
    case False
    have adj: "distinct_adj (map fst ss)" "pc \<noteq> fst (hd ss)"
      using Cons.prems(2) False s by (cases ss; simp)+
    have "trace_lines (Some (pc, call)) ss =
        (if call then [pc] else []) @ (if snd (last ss) then butlast (map fst ss) else map fst ss)"
      by (rule Cons.IH [OF False adj(1)]) (use adj in simp_all)
    then show ?thesis using lines False s by auto
  qed
qed simp

section \<open>An example\<close>

text \<open>A small tracer and instructions for the witnesses: a module at \<open>0x1000\<close>, its log enabled.\<close>

definition demo_info_manager :: InstructionInfoManager where
  "demo_info_manager =
     (let im = InstructionInfoManager_new empty_dispatch [] ''m'' \<lparr>mr_base = 0x1000, mr_end = 0x2000\<rparr>
      in im\<lparr>im_logger := (im_logger im)\<lparr>logcat := Some []\<rparr>\<rparr>)"

definition demo_tracer :: "module_range list \<Rightarrow> InstructionTracerManager" where
  "demo_tracer ranges = plain_tracer\<lparr>record_ranges := ranges, info_manager := Some demo_info_manager\<rparr>"

definition demo_trace_env :: tracer_env where
  "demo_trace_env = \<lparr>te_dispatch = \<lparr>env_NR = (\<lambda>_. 0), env_PR = (\<lambda>_. 0), env_jvm = demo_jvm\<rparr>,
     te_heap = \<lparr>he_iterate = None, he_maps = []\<rparr>, te_gpr_get = gpr_x\<rparr>"

definition demo_event :: "addr \<Rightarrow> bool \<Rightarrow> bool \<Rightarrow> addr \<Rightarrow> trace_event" where
  "demo_event pc branch svc target =
     \<lparr>ev_inst = \<lparr>ia_address = pc, disassembly = ''x'', isBranch = branch, isCall = False,
        affectControlFlow = branch, operands = []\<rparr>, ev_svc = svc,
      ev_pre_gpr = zero_gpr\<lparr>gpr_pc := pc\<rparr>, ev_pre_fpr = None, ev_post_gpr = zero_gpr\<lparr>gpr_pc := target\<rparr>,
      ev_post_fpr = None, ev_accesses = [], ev_mem = (\<lambda>_. None), ev_frame = 0\<rparr>"

definition demo_events :: "trace_event list" where
  "demo_events = [demo_event 0x1004 False False 0x1008, demo_event 0x1008 True False 0x100c]"

lemma demo_run: "case run_events demo_trace_env demo_events (demo_tracer []) of Inr _ \<Rightarrow> True | Inl _ \<Rightarrow> False"
  by code_simp

lemma demo_simps [simp]:
  "info_manager (demo_tracer rs) = Some demo_info_manager" "record_ranges (demo_tracer rs) = rs"
  "cur_info demo_info_manager = None" "pre_info demo_info_manager = None"
  "logcat (im_logger demo_info_manager) = Some []"
  "event_pc (demo_event pc b s a) = pc" "event_ok (demo_event pc b s a)" "ev_svc (demo_event pc b s a) = s"
  "event_call (demo_event pc b s a) \<longleftrightarrow> b \<or> s"
  by (auto simp: demo_tracer_def demo_info_manager_def InstructionInfoManager_new_def Let_def event_pc_def event_ok_def event_call_def demo_event_def)

lemma demo_is_need_record [simp]: "is_need_record (demo_tracer []) a"
  by (simp add: is_need_record_def)

section \<open>Properties\<close>

text \<open>
  C1: a run of the tracer refines the abstract view. Started with no record and an enabled
  log, a run over any sequence of instructions that does not fault never stops the virtual
  machine, and the program counters of the lines it adds to the log are those of the abstract
  view of the recorded instructions: an instruction that is no call is written when it has
  run, a call when the next recorded instruction has run. Instructions outside the recorded
  ranges leave no line.
\<close>

theorem trace_refines:
  assumes "info_manager t = Some im" and "cur_info im = None" and "pre_info im = None"
    and "logcat (im_logger im) \<noteq> None"
    and "\<And>ev. ev \<in> set evs \<Longrightarrow> event_ok ev \<and> (ev_svc ev \<longrightarrow> is_need_record t (event_pc ev))"
    and "run_events env evs t = Inr (act, t')"
  shows "act = CONTINUE \<and> (\<exists>im'. info_manager t' = Some im'
    \<and> log_pcs (im_logger im') = log_pcs (im_logger im) @ map unat (trace_lines None
        (map event_step (filter (\<lambda>ev. is_need_record t (event_pc ev)) evs))))"
proof -
  have "tracks t None (log_pcs (im_logger im))" using assms(1-4) by (auto simp: tracks_def record_is_def)
  from run_events_records [OF assms(6) this] assms(5) show ?thesis by (fastforce simp: tracks_def)
qed

theorem trace_refines_witness:
  "\<exists>t' im'. run_events demo_trace_env demo_events (demo_tracer []) = Inr (CONTINUE, t')
     \<and> info_manager t' = Some im' \<and> log_pcs (im_logger im') = [0x1004]"
proof -
  obtain act t' where run: "run_events demo_trace_env demo_events (demo_tracer []) = Inr (act, t')"
    using demo_run by (auto split: sum.splits)
  have "\<And>ev. ev \<in> set demo_events \<Longrightarrow>
      event_ok ev \<and> (ev_svc ev \<longrightarrow> is_need_record (demo_tracer []) (event_pc ev))"
    by (auto simp: demo_events_def)
  from trace_refines [OF _ _ _ _ this run] run show ?thesis
    by (auto simp: demo_events_def log_pcs_def event_step_def step_lines_def)
qed

text \<open>
  C2: the log is in program order and complete up to its end. If no two recorded instructions
  in a row have the same address, the lines of a run are the recorded instructions in the
  order of their execution, one line each, except that a call at the very end is missing:
  only a further instruction would have written it. Flushing adds no line.
\<close>

theorem trace_log_order:
  assumes "info_manager t = Some im" and "cur_info im = None" and "pre_info im = None"
    and "logcat (im_logger im) = Some []"
    and "\<And>ev. ev \<in> set evs \<Longrightarrow> event_ok ev \<and> (ev_svc ev \<longrightarrow> is_need_record t (event_pc ev))"
    and "rec = filter (\<lambda>ev. is_need_record t (event_pc ev)) evs" and "rec \<noteq> []"
    and "distinct_adj (map event_pc rec)"
    and "run_events env evs t = Inr (act, t')" and "tracer_flush mem t' = Inr t''"
  shows "\<exists>im'. info_manager t'' = Some im' \<and> log_pcs (im_logger im') =
    map unat (if event_call (last rec) then butlast (map event_pc rec) else map event_pc rec)"
proof -
  have "tracks t None []" using assms(1-4) by (auto simp: tracks_def record_is_def log_pcs_def)
  from run_events_records [OF assms(9) this] assms(5) obtain im1 where
    im1: "info_manager t' = Some im1" "log_pcs (im_logger im1) = map unat (trace_lines None (map event_step rec))"
    unfolding assms(6) by (fastforce simp: tracks_def)
  have fst: "map fst (map event_step rec) = map event_pc rec" by (simp add: event_step_def)
  have snd: "snd (last (map event_step rec)) = event_call (last rec)"
    using assms(7) by (simp add: last_map event_step_def)
  have "trace_lines None (map event_step rec) =
      (if event_call (last rec) then butlast (map event_pc rec) else map event_pc rec)"
    using trace_lines_distinct [of "map event_step rec" None _ False] assms(7,8) unfolding fst snd by simp
  moreover obtain im' where "info_manager t'' = Some im'" "logcat (im_logger im') = logcat (im_logger im1)"
    using assms(10) im1(1)
    by (auto simp: tracer_flush_def info_flush_def LoggerManager_flush_def map_result_eq_Inr split: option.splits)
  ultimately show ?thesis using im1(2) by (auto simp: log_pcs_def)
qed

theorem trace_log_order_witness:
  "\<exists>t' t'' im'. run_events demo_trace_env demo_events (demo_tracer []) = Inr (CONTINUE, t')
     \<and> tracer_flush (\<lambda>_. None) t' = Inr t'' \<and> info_manager t'' = Some im'
     \<and> log_pcs (im_logger im') = [0x1004]"
proof -
  have flush: "case run_events demo_trace_env demo_events (demo_tracer []) of
      Inr (CONTINUE, t') \<Rightarrow> (case tracer_flush (\<lambda>_. None) t' of Inr _ \<Rightarrow> True | Inl _ \<Rightarrow> False) | _ \<Rightarrow> False"
    by code_simp
  obtain act t' where any: "run_events demo_trace_env demo_events (demo_tracer []) = Inr (act, t')"
    using demo_run by (auto split: sum.splits)
  obtain t'' where "act = CONTINUE" and flush: "tracer_flush (\<lambda>_. None) t' = Inr t''"
    using flush unfolding any by (cases act; cases "tracer_flush (\<lambda>_. None) t'") auto
  with any have run: "run_events demo_trace_env demo_events (demo_tracer []) = Inr (CONTINUE, t')" by simp
  have ok: "\<And>ev. ev \<in> set demo_events \<Longrightarrow>
      event_ok ev \<and> (ev_svc ev \<longrightarrow> is_need_record (demo_tracer []) (event_pc ev))"
    by (auto simp: demo_events_def)
  from trace_log_order [OF _ _ _ _ ok refl _ _ run flush] run flush show ?thesis
    by (auto simp: demo_events_def)
qed

text \<open>
  C7: the callback for system calls does not look at the recorded ranges. What a system call
  outside of them does depends on the last recorded instruction alone: if nothing was recorded before, the
  null record is dereferenced; if the last recorded instruction is no call, it is marked as a system
  call, with the analysis of the one that was not to be recorded; if it is a call, nothing changes.
\<close>

theorem unrecorded_svc:
  assumes "info_manager t = Some im" and "ev_svc ev" and "event_ok ev" and "\<not> is_need_record t (event_pc ev)"
  shows "(cur_info im = None \<longrightarrow> run_event env ev t = Inl NullDeref)
    \<and> (\<forall>cur. cur_info im = Some cur \<and> fun_call cur = None \<longrightarrow>
        run_event env ev t = Inr (CONTINUE, t\<lparr>info_manager := Some (im\<lparr>cur_info := Some (cur\<lparr>
          fun_call := Some (inst_fun_call_new\<lparr>is_svc := True\<rparr>), inst_analysis := Some (ev_inst ev)\<rparr>)\<rparr>)\<rparr>))
    \<and> (\<forall>cur. cur_info im = Some cur \<and> fun_call cur \<noteq> None \<longrightarrow> run_event env ev t = Inr (CONTINUE, t))"
proof -
  have pre: "pre_instruction_call (Some (ev_inst ev)) (ev_pre_gpr ev) (ev_pre_fpr ev) (Some t)
      = (CONTINUE, ev_pre_gpr ev, ev_pre_fpr ev, Some t)"
    using assms(4) by (simp add: pre_instruction_call_def event_pc_def)
  have post: "post_instruction_call env mem frame (Some (ev_inst ev)) accesses gpr fpr (Some (t\<lparr>info_manager := i\<rparr>))
      = Inr (CONTINUE, gpr, fpr, Some (t\<lparr>info_manager := i\<rparr>))" for mem frame accesses gpr fpr i
    using assms(3,4) by (simp add: post_instruction_call_def event_ok_def)
  have same: "t\<lparr>info_manager := Some im\<rparr> = t" using assms(1) by simp
  show ?thesis
    using assms(1,2) post [of _ _ _ _ _ "Some im"] unfolding same
    by (auto simp: run_event_def Let_def pre pre_svc_instruction_call_def alloc_fun_call_def modify_cur_def post)
qed

theorem unrecorded_svc_witness:
  "run_event demo_trace_env (demo_event 0x3000 False True 0x3004) (demo_tracer [\<lparr>mr_base = 0x1000, mr_end = 0x1010\<rparr>])
   = Inl NullDeref"
proof -
  have "\<not> is_need_record (demo_tracer [\<lparr>mr_base = 0x1000, mr_end = 0x1010\<rparr>]) 0x3000"
    by (simp add: is_need_record_def)
  with unrecorded_svc [of "demo_tracer [\<lparr>mr_base = 0x1000, mr_end = 0x1010\<rparr>]" demo_info_manager
      "demo_event 0x3000 False True 0x3004"] show ?thesis by simp
qed

end
