(* ===== verification/Tracer_States.thy ===== *)
theory Tracer_States
  imports Trace_Run
begin

text \<open>
  The tracer as a state machine: every public operation of the tracer and of its logger, and
  every callback of the virtual machine, is a step, in any order. An invariant of the
  reachable states, what no step ever takes back, and straight-line code (with a block manager
  and without system calls), on which a run never faults.
\<close>

section \<open>Steps\<close>

text \<open>
  The constructor: a new virtual machine without callbacks. The instance is static, so that
  its plain members start as zero.
\<close>

definition InstructionTracerManager_new :: "GPRState \<Rightarrow> FPRState \<Rightarrow> InstructionTracerManager" where
  "InstructionTracerManager_new gpr fpr =
     \<lparr>pre_hook_callbacks = (\<lambda>_. None), post_hook_callbacks = (\<lambda>_. None), inst_at_cond_list = (\<lambda>_. None),
      tm_vm = \<lparr>vm_gpr = gpr, vm_fpr = fpr, vm_pre_cbs = 0, vm_post_cbs = 0, vm_svc_cbs = 0\<rparr>,
      record_ranges = [], target_trace_address = 0, tm_module_name = [], symbol_name = [],
      tm_module_range = \<lparr>mr_base = 0, mr_end = 0\<rparr>, info_manager = None, stack_base = 0\<rparr>"

text \<open>The switches of the record manager are those of its logger.\<close>

definition info_set_enable_to_logcat :: "bool \<Rightarrow> InstructionInfoManager \<Rightarrow> InstructionInfoManager result" where
  "info_set_enable_to_logcat enable im =
     map_result (\<lambda>lg. im\<lparr>im_logger := lg\<rparr>) (set_enable_to_logcat enable (im_logger im))"

definition info_set_enable_to_file :: "file_env \<Rightarrow> bool \<Rightarrow> InstructionInfoManager \<Rightarrow> InstructionInfoManager result" where
  "info_set_enable_to_file fs enable im =
     map_result (\<lambda>lg. im\<lparr>im_logger := lg\<rparr>) (set_enable_to_file fs enable (im_logger im))"

definition info_set_memory_dump_to_file :: "file_env \<Rightarrow> bool \<Rightarrow> InstructionInfoManager \<Rightarrow> InstructionInfoManager" where
  "info_set_memory_dump_to_file fs enable im = im\<lparr>im_logger := set_memory_dump_to_file fs enable (im_logger im)\<rparr>"

lemmas info_switch_defs = info_set_enable_to_logcat_def info_set_enable_to_file_def info_set_memory_dump_to_file_def

text \<open>
  The end of a record manager: its records are freed, and its logger dumps the blocks that are
  left and closes the file. What the block manager was at the end is the answer. An init that
  gets as far as the new record manager ends the old one so.
\<close>

definition LoggerManager_delete :: "memory \<Rightarrow> LoggerManager \<Rightarrow> MemoryManager option result" where
  "LoggerManager_delete mem lg =
     (case lg_memory_manager lg of
        None \<Rightarrow> Inr None
      | Some m \<Rightarrow> map_result Some (MemoryManager_clear mem m))"

definition InstructionInfoManager_delete :: "memory \<Rightarrow> InstructionInfoManager \<Rightarrow> MemoryManager option result" where
  "InstructionInfoManager_delete mem im =
     (let im = im\<lparr>pre_info := None, cur_info := None\<rparr> in LoggerManager_delete mem (im_logger im))"

definition replaces :: "memory \<Rightarrow> bool \<Rightarrow> InstructionTracerManager \<Rightarrow> bool" where
  "replaces mem ok t \<longleftrightarrow>
     (case info_manager t of
        None \<Rightarrow> True
      | Some im \<Rightarrow> ok \<longrightarrow> \<not> isl (InstructionInfoManager_delete mem im))"

lemma delete_keeps_no_block:
  assumes "InstructionInfoManager_delete mem im = Inr (Some m)"
  shows "memory_infos m = [] \<and> \<not> file_open m"
  using assms
  by (auto simp: InstructionInfoManager_delete_def LoggerManager_delete_def MemoryManager_clear_def map_result_eq_Inr
      split: option.splits)

text \<open>
  The operations of the logger are called on the logger of the current record manager. The
  virtual machine changes its registers; to every callback it may give a null analysis.
\<close>

inductive tracer_step :: "InstructionTracerManager \<Rightarrow> InstructionTracerManager \<Rightarrow> bool" where
  step_init_symbol: "replaces mem (fst (init_symbol dm reg stack module name symbol t)) t \<Longrightarrow>
    tracer_step t (snd (init_symbol dm reg stack module name symbol t))"
| step_init_offset: "replaces mem (fst (init_offset dm reg stack module name offset t)) t \<Longrightarrow>
    tracer_step t (snd (init_offset dm reg stack module name offset t))"
| step_init_address: "replaces mem (fst (init_address dm reg stack module name symbol_at a t)) t \<Longrightarrow>
    tracer_step t (snd (init_address dm reg stack module name symbol_at a t))"
| step_range: "tracer_step t (snd (range_apply op t))"
| step_pre_hook: "tracer_step t (snd (add_trace_callback_pre_hook offset cb t))"
| step_post_hook: "tracer_step t (snd (add_trace_callback_post_hook offset cb t))"
| step_attach: "tracer_step t (snd (run_attach cond ok t))"
| step_callbacks: "tracer_step t (add_callbacks svc t)"
| step_registers: "tracer_step t (t\<lparr>tm_vm := (tm_vm t)\<lparr>vm_gpr := gpr, vm_fpr := fpr\<rparr>\<rparr>)"
| step_logcat: "info_manager t = Some im \<Longrightarrow> info_set_enable_to_logcat enable im = Inr im' \<Longrightarrow>
    tracer_step t (t\<lparr>info_manager := Some im'\<rparr>)"
| step_file: "info_manager t = Some im \<Longrightarrow> info_set_enable_to_file fs enable im = Inr im' \<Longrightarrow>
    tracer_step t (t\<lparr>info_manager := Some im'\<rparr>)"
| step_dump: "info_manager t = Some im \<Longrightarrow>
    tracer_step t (t\<lparr>info_manager := Some (info_set_memory_dump_to_file fs dump im)\<rparr>)"
| step_pre: "pre_instruction_call inst_o gpr fpr (Some t) = (act, gpr', fpr', Some t') \<Longrightarrow> tracer_step t t'"
| step_svc: "pre_svc_instruction_call inst_o gpr (Some t) = Inr (act, Some t') \<Longrightarrow> tracer_step t t'"
| step_post: "post_instruction_call env mem frame inst_o accesses gpr fpr (Some t) = Inr (act, gpr', fpr', Some t') \<Longrightarrow>
    tracer_step t t'"
| step_flush: "tracer_flush mem t = Inr t' \<Longrightarrow> tracer_step t t'"

inductive tracer_reachable :: "InstructionTracerManager \<Rightarrow> bool" where
  reach_new: "tracer_reachable (InstructionTracerManager_new gpr fpr)"
| reach_step: "tracer_reachable t \<Longrightarrow> tracer_step t t' \<Longrightarrow> tracer_reachable t'"

lemma reachable_steps: "tracer_step\<^sup>*\<^sup>* t t' \<Longrightarrow> tracer_reachable t \<Longrightarrow> tracer_reachable t'"
  by (induction rule: rtranclp_induct) (auto intro: reach_step)

section \<open>The pending records\<close>

text \<open>
  A record that has a call has the analysis of its instruction, which the callback after the
  next instruction dereferences without a test, unless the call is a system call, whose
  callback stores what it gets; there is a previous record only beside a current one.
\<close>

definition record_ok :: "inst_trace_info option \<Rightarrow> bool" where
  "record_ok r \<longleftrightarrow> (\<forall>info c. r = Some info \<and> fun_call info = Some c \<and> \<not> is_svc c \<longrightarrow> inst_analysis info \<noteq> None)"

definition records_ok :: "InstructionInfoManager \<Rightarrow> bool" where
  "records_ok im \<longleftrightarrow> record_ok (pre_info im) \<and> record_ok (cur_info im) \<and> (pre_info im \<noteq> None \<longrightarrow> cur_info im \<noteq> None)"

lemma record_ok_svc: "record_ok r \<Longrightarrow> r = Some info \<Longrightarrow> fun_call info = Some c \<Longrightarrow> inst_analysis info = None \<Longrightarrow> is_svc c"
  by (auto simp: record_ok_def)

lemma records_ok_logger [simp]: "records_ok (im\<lparr>im_logger := lg\<rparr>) = records_ok im"
  by (simp add: records_ok_def)

section \<open>Runs are made of steps\<close>

lemma pre_instruction_call_data:
  obtains act gpr' fpr' i where "pre_instruction_call inst_o gpr fpr (Some t) = (act, gpr', fpr', Some (t\<lparr>info_manager := i\<rparr>))"
    "info_manager t = None \<Longrightarrow> i = None"
    "\<And>im. info_manager t = Some im \<Longrightarrow> records_ok im \<Longrightarrow> \<exists>im'. i = Some im' \<and> records_ok im'"
proof (cases "\<exists>inst im. inst_o = Some inst \<and> is_need_record t (gpr_pc gpr) \<and> info_manager t = Some im")
  case False
  then have "\<exists>act. pre_instruction_call inst_o gpr fpr (Some t) = (act, gpr, fpr, Some t)"
    by (auto simp: pre_instruction_call_def split: option.splits)
  then show ?thesis using that [of _ _ _ "info_manager t"] by auto
next
  case True
  then obtain inst im where sel: "inst_o = Some inst" "is_need_record t (gpr_pc gpr)" "info_manager t = Some im" by blast
  obtain gpr' fpr' where hook: "trace_callback_pre t (gpr_pc gpr - mr_base (tm_module_range t)) gpr fpr = (gpr', fpr')"
    by force
  show ?thesis
  proof (rule that)
    show "pre_instruction_call inst_o gpr fpr (Some t) = (CONTINUE, gpr', fpr', Some (t\<lparr>info_manager :=
        Some (let im = alloc_inst_trace_info (gpr_pc gpr) im;
          im = modify_cur (\<lambda>info. info\<lparr>pre_status := store_status gpr' fpr' (pre_status info)\<rparr>) im
          in if (isBranch inst \<or> isCall inst) \<and> affectControlFlow inst
             then modify_cur (\<lambda>info. info\<lparr>inst_analysis := Some inst\<rparr>) (snd (alloc_fun_call (gpr_pc gpr') im)) else im)\<rparr>))"
      using sel hook by (simp add: pre_instruction_call_def Let_def)
  qed (use sel in \<open>auto simp: Let_def records_ok_def record_ok_def modify_cur_def alloc_fun_call_def
      alloc_inst_trace_info_def inst_trace_info_new_def split: option.splits\<close>)
qed

lemma pre_svc_instruction_call_data:
  assumes "pre_svc_instruction_call inst_o gpr (Some t) = Inr (act, data)"
  obtains i where "data = Some (t\<lparr>info_manager := i\<rparr>)" "info_manager t = None \<Longrightarrow> i = None"
    "\<And>im. info_manager t = Some im \<Longrightarrow> records_ok im \<Longrightarrow> \<exists>im'. i = Some im' \<and> records_ok im'"
proof (cases "\<exists>im cur. info_manager t = Some im \<and> cur_info im = Some cur \<and> fun_call cur = None")
  case False
  then have "data = Some t"
    using assms by (auto simp: pre_svc_instruction_call_def split: option.splits if_splits)
  then show ?thesis using that [of "info_manager t"] by auto
next
  case True
  then obtain im cur where sel: "info_manager t = Some im" "cur_info im = Some cur" "fun_call cur = None" by blast
  show ?thesis
  proof (rule that)
    show "data = Some (t\<lparr>info_manager := Some (modify_cur (\<lambda>info. info\<lparr>inst_analysis := inst_o,
        fun_call := map_option (\<lambda>c. c\<lparr>is_svc := True\<rparr>) (fun_call info)\<rparr>) (snd (alloc_fun_call (gpr_pc gpr) im)))\<rparr>)"
      using sel assms by (simp add: pre_svc_instruction_call_def Let_def)
  qed (use sel in \<open>auto simp: records_ok_def record_ok_def modify_cur_def alloc_fun_call_def Let_def\<close>)
qed

lemma info_write_shape: "info_write_trace_info env mem inst_o accesses im = Inr im' \<Longrightarrow> \<exists>lg. im' = im\<lparr>im_logger := lg\<rparr>"
  by (auto simp: info_write_trace_info_def bind_result_eq_Inr map_result_eq_Inr)

lemma post_dispatch_ok: "post_dispatch env mem frame self gpr im = Inr im' \<Longrightarrow> records_ok im \<Longrightarrow> records_ok im'"
  by (drule post_dispatch_shape) (auto simp: records_ok_def record_ok_def set_call_def)

lemma post_return_ok:
  assumes "post_return env mem self gpr im = Inr im'" and "records_ok im"
  shows "records_ok im'"
proof (cases "\<exists>pre call. pre_info im = Some pre \<and> fun_call pre = Some call")
  case False
  then have "im' = im" using assms(1) by (auto simp: post_return_def split: option.splits)
  with assms(2) show ?thesis by simp
next
  case True
  then obtain pre call where pre: "pre_info im = Some pre" "fun_call pre = Some call" by blast
  obtain c lg where "im' = im\<lparr>pre_info := Some (set_call c pre), im_logger := lg\<rparr>" "is_svc c = is_svc call"
    using post_return_shape [OF assms(1) pre] info_write_shape by blast
  with assms(2) pre show ?thesis by (auto simp: records_ok_def record_ok_def set_call_def)
qed

text \<open>The write of a returned call whose record has no analysis dereferences null.\<close>

lemma post_return_null:
  assumes "pre_info im = Some info" and "fun_call info = Some c" and "inst_analysis info = None"
  shows "isl (post_return env mem self gpr im)"
proof (rule ccontr)
  assume "\<not> isl (post_return env mem self gpr im)"
  then obtain im' where "post_return env mem self gpr im = Inr im'" by (cases "post_return env mem self gpr im") auto
  from post_return_shape [OF this assms(1,2)] assms(3) show False
    by (auto simp: info_write_trace_info_def write_if_at_def)
qed

lemma post_write_ok: "post_write env mem self inst accesses im = Inr im' \<Longrightarrow> records_ok im \<Longrightarrow> records_ok im'"
  by (auto simp: post_write_def split: option.splits if_splits dest: info_write_shape)

lemma post_instruction_call_data:
  assumes "post_instruction_call env mem frame inst_o accesses gpr fpr (Some t) = Inr (act, gpr', fpr', data)"
  obtains i where "data = Some (t\<lparr>info_manager := i\<rparr>)" "info_manager t = None \<Longrightarrow> i = None"
    "\<And>im. info_manager t = Some im \<Longrightarrow> records_ok im \<Longrightarrow> \<exists>im'. i = Some im' \<and> records_ok im'"
proof (cases "\<exists>inst im cur. inst_o = Some inst \<and> is_need_record t (ia_address inst) \<and> info_manager t = Some im
    \<and> cur_info im = Some cur \<and> info_pc cur = ia_address inst")
  case False
  then have "data = Some t"
    using assms by (auto simp: post_instruction_call_def split: option.splits if_splits)
  then show ?thesis using that [of "info_manager t"] by auto
next
  case True
  then obtain inst im cur where sel: "inst_o = Some inst" "is_need_record t (ia_address inst)" "info_manager t = Some im"
    "cur_info im = Some cur" "info_pc cur = ia_address inst" by blast
  obtain gpr1 fpr1 where hook: "trace_callback_post t (info_pc cur - mr_base (tm_module_range t)) gpr fpr = (gpr1, fpr1)"
    by force
  define im0 where "im0 = modify_cur (\<lambda>info. info\<lparr>post_status := store_status gpr1 fpr1 (post_status info)\<rparr>) im"
  have im0: "records_ok im \<Longrightarrow> records_ok im0" by (auto simp: im0_def records_ok_def record_ok_def modify_cur_def)
  obtain im1 im2 im3 where d: "post_dispatch env mem frame t gpr1 im0 = Inr im1"
    and r: "post_return env mem t gpr1 im1 = Inr im2" and w: "post_write env mem t inst accesses im2 = Inr im3"
    and out: "data = Some (t\<lparr>info_manager := Some im3\<rparr>)"
    using assms sel hook by (auto simp: post_instruction_call_def im0_def map_result_eq_Inr bind_result_eq_Inr Let_def)
  show ?thesis
    by (rule that [OF out]) (use sel(3) im0 post_dispatch_ok [OF d] post_return_ok [OF r] post_write_ok [OF w] in auto)
qed

lemma run_event_steps:
  assumes "run_event env ev t = Inr (act, t')"
  shows "tracer_step\<^sup>*\<^sup>* t t'"
proof -
  let ?inst = "Some (ev_inst ev)"
  obtain act1 gpr fpr t1 where pre: "pre_instruction_call ?inst (ev_pre_gpr ev) (ev_pre_fpr ev) (Some t) = (act1, gpr, fpr, Some t1)"
    using pre_instruction_call_data [of ?inst "ev_pre_gpr ev" "ev_pre_fpr ev" t] by metis
  note one = step_pre [OF pre]
  show ?thesis
  proof (cases "act1 = STOP")
    case True
    then have "t' = t1" using assms by (simp add: run_event_def pre)
    with one show ?thesis by blast
  next
    case False
    let ?svc = "if ev_svc ev then pre_svc_instruction_call ?inst gpr (Some t1) else Inr (CONTINUE, Some t1)"
    obtain act2 data where svc: "?svc = Inr (act2, data)"
      and rest: "(if act2 = STOP then Inr (STOP, the data)
        else map_result (\<lambda>(act, gpr, fpr, data). (act, the data))
          (post_instruction_call env (ev_mem ev) (ev_frame ev) ?inst (ev_accesses ev) (ev_post_gpr ev) (ev_post_fpr ev) data))
        = Inr (act, t')"
      using assms False by (auto simp: run_event_def pre bind_result_eq_Inr Let_def)
    obtain t2 where t2: "data = Some t2" "tracer_step\<^sup>*\<^sup>* t1 t2"
    proof (cases "ev_svc ev")
      case True
      then have run: "pre_svc_instruction_call ?inst gpr (Some t1) = Inr (act2, data)" using svc by simp
      then obtain t2 where "data = Some t2" by (rule pre_svc_instruction_call_data)
      with run show ?thesis using that step_svc by blast
    next
      case False
      then show ?thesis using svc that [of t1] by auto
    qed
    have "tracer_step\<^sup>*\<^sup>* t2 t'"
    proof (cases "act2 = STOP")
      case True
      then show ?thesis using rest t2(1) by simp
    next
      case False
      then obtain gpr' fpr' data' where post: "post_instruction_call env (ev_mem ev) (ev_frame ev) ?inst (ev_accesses ev)
          (ev_post_gpr ev) (ev_post_fpr ev) (Some t2) = Inr (act, gpr', fpr', data')" and t': "t' = the data'"
        using rest t2(1) by (auto simp: map_result_eq_Inr)
      from post obtain t3 where "data' = Some t3" by (rule post_instruction_call_data)
      with post t' step_post show ?thesis by auto
    qed
    with one t2(2) show ?thesis by auto
  qed
qed

lemma run_events_steps: "run_events env evs t = Inr (act, t') \<Longrightarrow> tracer_step\<^sup>*\<^sup>* t t'"
proof (induction evs arbitrary: t)
  case (Cons ev evs)
  obtain act1 t1 where one: "run_event env ev t = Inr (act1, t1)"
    and rest: "(if act1 = STOP then Inr (STOP, t1) else run_events env evs t1) = Inr (act, t')"
    using Cons.prems by (auto simp: bind_result_eq_Inr)
  have "tracer_step\<^sup>*\<^sup>* t1 t'" using rest Cons.IH by (cases "act1 = STOP") auto
  with run_event_steps [OF one] show ?case by simp
qed simp

text \<open>Both ways to run the virtual machine, when its own part of the run is made of steps.\<close>

lemma run_steps:
  assumes "\<And>s ok r mem s'. vm_call s = Inr (ok, r, mem, s') \<Longrightarrow> tracer_step\<^sup>*\<^sup>* s s'" and "run vm_call t = Inr (b, t')"
  shows "tracer_step\<^sup>*\<^sup>* t t'"
proof -
  obtain ok r mem t1 where "vm_call (add_callbacks True t) = Inr (ok, r, mem, t1)" "tracer_flush mem t1 = Inr t'"
    using assms(2) by (auto simp: run_def bind_result_eq_Inr map_result_eq_Inr)
  with assms(1) step_callbacks [of t True] step_flush show ?thesis
    by (meson converse_rtranclp_into_rtranclp rtranclp.rtrancl_into_rtrancl)
qed

lemma inst_at_enter_steps:
  assumes "\<And>s ok r mem s'. vm_call s = Inr (ok, r, mem, s') \<Longrightarrow> tracer_step\<^sup>*\<^sup>* s s'"
    and "inst_at_enter vm_call address ctx t = Inr t'"
  shows "tracer_step\<^sup>*\<^sup>* t t'"
proof (cases "check_attach_cond t address 8 (dc_x ctx) (dc_q ctx)")
  case False
  then show ?thesis using assms(2) by (simp add: inst_at_enter_def)
next
  case True
  let ?t = "t\<lparr>tm_vm := (tm_vm t)\<lparr>vm_gpr := doby_to_qbdi ctx (vm_gpr (tm_vm t)), vm_fpr := doby_to_qbdi_fpr ctx (vm_fpr (tm_vm t))\<rparr>\<rparr>"
  obtain ok r mem t1 where "vm_call (add_callbacks False ?t) = Inr (ok, r, mem, t1)" "tracer_flush mem t1 = Inr t'"
    using assms(2) True by (auto simp: inst_at_enter_def Let_def bind_result_eq_Inr)
  with assms(1) step_registers [of t] step_callbacks [of ?t False] step_flush show ?thesis
    by (meson converse_rtranclp_into_rtranclp rtranclp.rtrancl_into_rtrancl)
qed

section \<open>The invariant of the reachable states\<close>

definition callbacks_ok :: "vm_state \<Rightarrow> bool" where
  "callbacks_ok vm \<longleftrightarrow> vm_post_cbs vm = vm_pre_cbs vm \<and> vm_svc_cbs vm \<le> vm_pre_cbs vm"

definition tracer_ok :: "InstructionTracerManager \<Rightarrow> bool" where
  "tracer_ok t \<longleftrightarrow> (\<forall>im. info_manager t = Some im \<longrightarrow> records_ok im) \<and> callbacks_ok (tm_vm t)"

text \<open>What the operations outside the callbacks do to the fields of the tracer.\<close>

lemma records_ok_new [simp]: "records_ok (InstructionInfoManager_new dm reg name rng)"
  by (simp add: records_ok_def record_ok_def InstructionInfoManager_new_def)

lemma set_vm_stack_fields [simp]:
  "info_manager (set_vm_stack t) = info_manager t" "record_ranges (set_vm_stack t) = record_ranges t"
  "pre_hook_callbacks (set_vm_stack t) = pre_hook_callbacks t" "post_hook_callbacks (set_vm_stack t) = post_hook_callbacks t"
  "inst_at_cond_list (set_vm_stack t) = inst_at_cond_list t" "stack_base (set_vm_stack t) = stack_base t"
  "vm_pre_cbs (tm_vm (set_vm_stack t)) = vm_pre_cbs (tm_vm t)" "vm_post_cbs (tm_vm (set_vm_stack t)) = vm_post_cbs (tm_vm t)"
  "vm_svc_cbs (tm_vm (set_vm_stack t)) = vm_svc_cbs (tm_vm t)"
  by (simp_all add: set_vm_stack_def Let_def)

lemma alloc_fix_stack_fields [simp]:
  "info_manager (alloc_fix_stack p t) = info_manager t" "record_ranges (alloc_fix_stack p t) = record_ranges t"
  "pre_hook_callbacks (alloc_fix_stack p t) = pre_hook_callbacks t" "post_hook_callbacks (alloc_fix_stack p t) = post_hook_callbacks t"
  "inst_at_cond_list (alloc_fix_stack p t) = inst_at_cond_list t"
  "stack_base (alloc_fix_stack p t) = (if stack_base t \<noteq> 0 then stack_base t else p)"
  "vm_pre_cbs (tm_vm (alloc_fix_stack p t)) = vm_pre_cbs (tm_vm t)" "vm_post_cbs (tm_vm (alloc_fix_stack p t)) = vm_post_cbs (tm_vm t)"
  "vm_svc_cbs (tm_vm (alloc_fix_stack p t)) = vm_svc_cbs (tm_vm t)"
  by (simp_all add: alloc_fix_stack_def Let_def)

lemmas operation_defs = init_symbol_def init_offset_def init_address_def new_info_manager_def Let_def range_apply_eq
  add_trace_callback_pre_hook_def add_trace_callback_post_hook_def run_attach_def add_callbacks_def

lemma callback_ok:
  assumes "tracer_ok t" and "info_manager t = None \<Longrightarrow> i = None"
    and "\<And>im. info_manager t = Some im \<Longrightarrow> records_ok im \<Longrightarrow> \<exists>im'. i = Some im' \<and> records_ok im'"
  shows "tracer_ok (t\<lparr>info_manager := i\<rparr>)"
  using assms by (cases "info_manager t") (auto simp: tracer_ok_def)

lemma tracer_step_ok: "tracer_step t t' \<Longrightarrow> tracer_ok t \<Longrightarrow> tracer_ok t'"
proof (induction rule: tracer_step.induct)
  case (step_pre inst_o gpr fpr t act gpr' fpr' t')
  obtain act1 gpr1 fpr1 i where "pre_instruction_call inst_o gpr fpr (Some t) = (act1, gpr1, fpr1, Some (t\<lparr>info_manager := i\<rparr>))"
    and i: "info_manager t = None \<Longrightarrow> i = None"
      "\<And>im. info_manager t = Some im \<Longrightarrow> records_ok im \<Longrightarrow> \<exists>im'. i = Some im' \<and> records_ok im'"
    by (rule pre_instruction_call_data [of inst_o gpr fpr t]) (rule that)
  with step_pre.hyps have t': "t' = t\<lparr>info_manager := i\<rparr>" by simp
  show ?case unfolding t' by (rule callback_ok [OF step_pre.prems]) (use i in auto)
next
  case (step_svc inst_o gpr t act t')
  from step_svc.hyps obtain i where t': "Some t' = Some (t\<lparr>info_manager := i\<rparr>)" and i: "info_manager t = None \<Longrightarrow> i = None"
    "\<And>im. info_manager t = Some im \<Longrightarrow> records_ok im \<Longrightarrow> \<exists>im'. i = Some im' \<and> records_ok im'"
    by (rule pre_svc_instruction_call_data) (rule that)
  show ?case unfolding t' [unfolded option.inject] by (rule callback_ok [OF step_svc.prems]) (use i in auto)
next
  case (step_post env mem frame inst_o accesses gpr fpr t act gpr' fpr' t')
  from step_post.hyps obtain i where t': "Some t' = Some (t\<lparr>info_manager := i\<rparr>)" and i: "info_manager t = None \<Longrightarrow> i = None"
    "\<And>im. info_manager t = Some im \<Longrightarrow> records_ok im \<Longrightarrow> \<exists>im'. i = Some im' \<and> records_ok im'"
    by (rule post_instruction_call_data) (rule that)
  show ?case unfolding t' [unfolded option.inject] by (rule callback_ok [OF step_post.prems]) (use i in auto)
next
  case (step_flush mem t t')
  then show ?case
    by (auto simp: tracer_flush_def info_flush_def tracer_ok_def map_result_eq_Inr split: option.splits)
qed (auto simp: tracer_ok_def callbacks_ok_def operation_defs info_switch_defs map_result_eq_Inr split: option.splits)

section \<open>What no step takes back\<close>

definition extends :: "InstructionTracerManager \<Rightarrow> InstructionTracerManager \<Rightarrow> bool" where
  "extends t t' \<longleftrightarrow> pre_hook_callbacks t \<subseteq>\<^sub>m pre_hook_callbacks t' \<and> post_hook_callbacks t \<subseteq>\<^sub>m post_hook_callbacks t'
     \<and> inst_at_cond_list t \<subseteq>\<^sub>m inst_at_cond_list t' \<and> (\<exists>rs. record_ranges t' = record_ranges t @ rs)
     \<and> (stack_base t \<noteq> 0 \<longrightarrow> stack_base t' = stack_base t) \<and> vm_pre_cbs (tm_vm t) \<le> vm_pre_cbs (tm_vm t')"

lemma extends_refl [simp]: "extends t t"
  by (simp add: extends_def)

lemma extends_trans: "extends t t' \<Longrightarrow> extends t' t'' \<Longrightarrow> extends t t''"
  by (auto simp: extends_def intro: map_le_trans)

lemma extends_info [simp]: "extends t (t\<lparr>info_manager := i\<rparr>)"
  by (simp add: extends_def)

lemma emplace_le [simp]: "m \<subseteq>\<^sub>m emplace k v m"
  by (auto simp: emplace_def map_le_def split: option.splits)

lemma tracer_step_extends: "tracer_step t t' \<Longrightarrow> extends t t'"
proof (induction rule: tracer_step.induct)
  case (step_pre inst_o gpr fpr t act gpr' fpr' t')
  obtain act1 gpr1 fpr1 i where "pre_instruction_call inst_o gpr fpr (Some t) = (act1, gpr1, fpr1, Some (t\<lparr>info_manager := i\<rparr>))"
    by (rule pre_instruction_call_data [of inst_o gpr fpr t]) (rule that)
  with step_pre.hyps show ?case by auto
next
  case (step_svc inst_o gpr t act t')
  then show ?case by (rule pre_svc_instruction_call_data) simp
next
  case (step_post env mem frame inst_o accesses gpr fpr t act gpr' fpr' t')
  then show ?case by (rule post_instruction_call_data) simp
next
  case (step_flush mem t t')
  then show ?case by (auto simp: tracer_flush_def map_result_eq_Inr split: option.splits)
qed (auto simp: extends_def operation_defs split: option.splits)

lemma tracer_steps_extend: "tracer_step\<^sup>*\<^sup>* t t' \<Longrightarrow> extends t t'"
  by (induction rule: rtranclp_induct) (auto intro: extends_trans dest: tracer_step_extends)

section \<open>Straight-line code\<close>

text \<open>With a block manager the line of an instruction that is no call is always written.\<close>

lemma access_text_total:
  assumes "lg_memory_manager (snd st) \<noteq> None"
  shows "\<exists>st'. access_text he ma st = Inr st' \<and> lg_memory_manager (snd st') \<noteq> None"
proof -
  obtain texts lg m where "st = (texts, lg)" "lg_memory_manager lg = Some m" using assms by (cases st) auto
  then show ?thesis
    by (cases "get_memory_offset (he_iterate he) (he_maps he) (accessAddress ma) m")
      (auto simp: access_text_def Let_def split: prod.splits)
qed

lemma logger_write_total:
  assumes "lg_memory_manager lg \<noteq> None" and "fun_call info = None"
  shows "\<exists>lg'. logger_write_trace_info g he mem info inst accesses lg = Inr lg' \<and> lg_memory_manager lg' \<noteq> None"
proof -
  have line: "lg_memory_manager (write_info l lg') = lg_memory_manager lg'" for l lg'
    by (simp add: write_info_def Let_def split: option.split)
  have "\<exists>st'. fold_result (access_text he) accesses ([], lg) = Inr st' \<and> lg_memory_manager (snd st') \<noteq> None"
    by (rule fold_result_total [where P = "\<lambda>st. lg_memory_manager (snd st) \<noteq> None"])
      (rule access_text_total, assumption, simp add: assms(1))
  then obtain texts lg' where "fold_result (access_text he) accesses ([], lg) = Inr (texts, lg')" "lg_memory_manager lg' \<noteq> None"
    by force
  then have "\<exists>s lg'. format_access_info he accesses lg = Inr (s, lg') \<and> lg_memory_manager lg' \<noteq> None"
    using assms(1) by (auto simp: format_access_info_def)
  then show ?thesis
    using assms by (auto simp: logger_write_trace_info_def record_blocks_def Let_def line)
qed

lemma write_if_at_total:
  assumes "lg_memory_manager lg \<noteq> None" and "\<And>info. info_o = Some info \<Longrightarrow> fun_call info = None"
  shows "\<exists>lg'. write_if_at env mem info_o (Some inst) accesses lg = Inr lg' \<and> lg_memory_manager lg' \<noteq> None"
  using assms logger_write_total by (auto simp: write_if_at_def split: option.split)

lemma info_write_total:
  assumes "lg_memory_manager (im_logger im) \<noteq> None" and "record_is (pre_info im) prev"
    and "record_is (cur_info im) (Some (pc, False))" and "\<forall>p. prev \<noteq> Some (p, True)"
  shows "\<exists>lg. info_write_trace_info env mem (Some inst) accesses im = Inr (im\<lparr>im_logger := lg\<rparr>) \<and> lg_memory_manager lg \<noteq> None"
proof -
  have plain: "fun_call info = None" if "pre_info im = Some info \<or> cur_info im = Some info" for info
    using that assms(2-4) by (cases prev) (auto simp: record_is_def)
  obtain lg1 where lg1: "write_if_at env mem (pre_info im) (Some inst) accesses (im_logger im) = Inr lg1" "lg_memory_manager lg1 \<noteq> None"
    using write_if_at_total [OF assms(1), of "pre_info im"] plain by blast
  obtain lg2 where "write_if_at env mem (cur_info im) (Some inst) accesses lg1 = Inr lg2" "lg_memory_manager lg2 \<noteq> None"
    using write_if_at_total [OF lg1(2), of "cur_info im"] plain by blast
  with lg1 show ?thesis by (auto simp: info_write_trace_info_def)
qed

text \<open>An instruction that is no call, after one that is none: its three callbacks succeed.\<close>

definition dumps :: "InstructionTracerManager \<Rightarrow> bool" where
  "dumps t \<longleftrightarrow> (\<forall>im. info_manager t = Some im \<longrightarrow> lg_memory_manager (im_logger im) \<noteq> None)"

lemma run_event_total:
  assumes "tracks t prev log" and "dumps t" and "is_need_record t (event_pc ev)" and "event_ok ev" and "\<not> event_call ev"
    and "\<forall>p. prev \<noteq> Some (p, True)"
  shows "\<exists>act t'. run_event env ev t = Inr (act, t') \<and> dumps t'"
proof -
  let ?inst = "ev_inst ev" and ?pc = "event_pc ev"
  have plain: "\<not> ev_svc ev" "\<not> ((isBranch ?inst \<or> isCall ?inst) \<and> affectControlFlow ?inst)"
    using assms(5) by (auto simp: event_call_def)
  have ok: "ia_address ?inst = ?pc" using assms(4) by (simp add: event_ok_def)
  obtain im where im: "info_manager t = Some im" "record_is (cur_info im) prev" "prev = None \<Longrightarrow> pre_info im = None"
    using assms(1) by (auto simp: tracks_def)
  obtain gpr fpr im1 where pre: "pre_instruction_call (Some ?inst) (ev_pre_gpr ev) (ev_pre_fpr ev) (Some t)
      = (CONTINUE, gpr, fpr, Some (t\<lparr>info_manager := Some im1\<rparr>))"
    and im1: "record_is (pre_info im1) prev" "record_is (cur_info im1) (Some (?pc, False))" "im_logger im1 = im_logger im"
    using pre_instruction_call_records [OF im(1) assms(3) [unfolded event_pc_def] ok [unfolded event_pc_def] im(2,3), of "ev_pre_fpr ev"] plain(2)
    unfolding event_pc_def by auto
  let ?t = "t\<lparr>info_manager := Some im1\<rparr>"
  obtain gpr1 fpr1 where hook: "trace_callback_post ?t (?pc - mr_base (tm_module_range t)) (ev_post_gpr ev) (ev_post_fpr ev) = (gpr1, fpr1)"
    by force
  define im2 where "im2 = modify_cur (\<lambda>info. info\<lparr>post_status := store_status gpr1 fpr1 (post_status info)\<rparr>) im1"
  have im2: "record_is (pre_info im2) prev" "record_is (cur_info im2) (Some (?pc, False))" "lg_memory_manager (im_logger im2) \<noteq> None"
    using im1 assms(2) im(1) by (auto simp: im2_def modify_cur_def record_is_def dumps_def)
  obtain cur where cur: "cur_info im2 = Some cur" "fun_call cur = None" using im2(2) by (auto simp: record_is_def)
  have "fun_call p = None" if "pre_info im2 = Some p" for p
    using that im2(1) assms(6) by (cases prev) (auto simp: record_is_def)
  then have none: "post_dispatch env mem frame s gpr1 im2 = Inr im2" "post_return env mem s gpr1 im2 = Inr im2" for mem frame s
    using cur by (auto simp: post_dispatch_def post_return_def split: option.split)
  obtain lg where wr: "post_write env (ev_mem ev) ?t ?inst (ev_accesses ev) im2 = Inr (im2\<lparr>im_logger := lg\<rparr>)" "lg_memory_manager lg \<noteq> None"
    using info_write_total [OF im2(3,1,2) assms(6)] cur by (fastforce simp: post_write_def)
  have "\<exists>cur1. cur_info im1 = Some cur1 \<and> info_pc cur1 = ?pc" using im1(2) by (auto simp: record_is_def)
  then have "post_instruction_call env (ev_mem ev) (ev_frame ev) (Some ?inst) (ev_accesses ev) (ev_post_gpr ev) (ev_post_fpr ev) (Some ?t)
      = Inr (CONTINUE, gpr1, fpr1, Some (?t\<lparr>info_manager := Some (im2\<lparr>im_logger := lg\<rparr>)\<rparr>))"
    using assms(3) ok hook none wr(1) by (auto simp: post_instruction_call_def Let_def im2_def [symmetric])
  then show ?thesis using plain(1) wr(2) by (simp add: run_event_def pre dumps_def)
qed

lemma run_events_total:
  assumes "tracks t prev log" and "dumps t" and "\<forall>p. prev \<noteq> Some (p, True)"
    and "\<And>ev. ev \<in> set evs \<Longrightarrow> event_ok ev \<and> \<not> ev_svc ev \<and> (is_need_record t (event_pc ev) \<longrightarrow> \<not> event_call ev)"
  shows "\<exists>act t'. run_events env evs t = Inr (act, t')"
  using assms
proof (induction evs arbitrary: t prev log)
  case (Cons ev evs)
  have ev: "event_ok ev" "\<not> ev_svc ev" using Cons.prems(4) by simp_all
  show ?case
  proof (cases "is_need_record t (event_pc ev)")
    case False
    then have "run_event env ev t = Inr (CONTINUE, t)" using run_event_skips ev by blast
    moreover have "\<exists>act t'. run_events env evs t = Inr (act, t')"
      by (rule Cons.IH [OF Cons.prems(1,2,3)]) (use Cons.prems(4) in simp_all)
    ultimately show ?thesis by simp
  next
    case True
    then have call: "\<not> event_call ev" using Cons.prems(4) by simp
    obtain act1 t1 where one: "run_event env ev t = Inr (act1, t1)" "dumps t1"
      using run_event_total [OF Cons.prems(1,2) True ev(1) call Cons.prems(3)] by blast
    obtain im where after: "act1 = CONTINUE" "t1 = t\<lparr>info_manager := Some im\<rparr>"
      "tracks t1 (Some (event_step ev)) (log @ map unat (step_lines prev (event_step ev)))"
      using run_event_records [OF one(1) Cons.prems(1) True ev(1)] by blast
    have "\<exists>act t'. run_events env evs t1 = Inr (act, t')"
      by (rule Cons.IH [OF after(3) one(2)]) (use call after(2) Cons.prems(4) in \<open>auto simp: event_step_def\<close>)
    with one(1) after(1) show ?thesis by simp
  qed
qed simp

section \<open>Properties\<close>





text \<open>
  C3: what straight-line code leaves in the log. The tracer has an enabled log, a block manager and
  no pending record; the analysis given for an instruction is that of its address; no
  instruction at all is a system call, and those that are recorded are no calls. Then the run
  over the instructions ends without a fault and without stopping the virtual machine, whatever
  memory the instructions access, and the log gets exactly the lines that the abstract log
  gives for the recorded instructions: one line for each, in order, when no two recorded
  instructions in a row have the same address.
\<close>

theorem straight_line_logged:
  assumes "info_manager t = Some im" and "cur_info im = None" and "pre_info im = None"
    and "logcat (im_logger im) \<noteq> None" and "lg_memory_manager (im_logger im) \<noteq> None"
    and "\<And>ev. ev \<in> set evs \<Longrightarrow> event_ok ev \<and> \<not> ev_svc ev \<and> (is_need_record t (event_pc ev) \<longrightarrow> \<not> event_call ev)"
    and "rec = filter (\<lambda>ev. is_need_record t (event_pc ev)) evs"
  shows "\<exists>t' im'. run_events env evs t = Inr (CONTINUE, t') \<and> info_manager t' = Some im'
    \<and> log_pcs (im_logger im') = log_pcs (im_logger im) @ map unat (trace_lines None (map event_step rec))
    \<and> (distinct_adj (map event_pc rec) \<longrightarrow> log_pcs (im_logger im') = log_pcs (im_logger im) @ map (unat \<circ> event_pc) rec)"
proof -
  have start: "tracks t None (log_pcs (im_logger im))" using assms(1-4) by (auto simp: tracks_def record_is_def)
  have "dumps t" using assms(1,5) by (simp add: dumps_def)
  from run_events_total [OF start this _ assms(6)] obtain act t' where run: "run_events env evs t = Inr (act, t')" by blast
  obtain im' where "act = CONTINUE" "info_manager t' = Some im'"
    "log_pcs (im_logger im') = log_pcs (im_logger im) @ map unat (trace_lines None (map event_step rec))"
    using run_events_records [OF run start] assms(6) unfolding assms(7) by (fastforce simp: tracks_def)
  moreover have "trace_lines None (map event_step rec) = map event_pc rec" if distinct: "distinct_adj (map event_pc rec)"
  proof (cases "rec = []")
    case False
    have "\<not> event_call (last rec)" using False assms(6) last_in_set [OF False] unfolding assms(7) by auto
    then have "\<not> snd (last (map event_step rec))" using False by (simp add: last_map event_step_def)
    moreover have pcs: "map fst (map event_step rec) = map event_pc rec" by (simp add: event_step_def)
    ultimately show ?thesis
      using trace_lines_distinct [of "map event_step rec" None _ False] False distinct unfolding pcs by simp
  qed simp
  ultimately show ?thesis using run by auto
qed

theorem straight_line_logged_witness:
  "\<exists>t' im'. run_events demo_trace_env [demo_event 0x1004 False False 0x1008, demo_event 0x1008 False False 0x100c] (demo_tracer [])
       = Inr (CONTINUE, t')
     \<and> info_manager t' = Some im' \<and> log_pcs (im_logger im') = [0x1004, 0x1008]"
proof -
  let ?evs = "[demo_event 0x1004 False False 0x1008, demo_event 0x1008 False False 0x100c]"
  have log: "log_pcs (im_logger demo_info_manager) = []" by (simp add: log_pcs_def)
  have "lg_memory_manager (im_logger demo_info_manager) \<noteq> None"
    by (simp add: demo_info_manager_def InstructionInfoManager_new_def LoggerManager_new_def Let_def)
  moreover have "event_ok ev \<and> \<not> ev_svc ev \<and> (is_need_record (demo_tracer []) (event_pc ev) \<longrightarrow> \<not> event_call ev)"
    if "ev \<in> set ?evs" for ev using that by auto
  ultimately have "\<exists>t' im'. run_events demo_trace_env ?evs (demo_tracer []) = Inr (CONTINUE, t') \<and> info_manager t' = Some im'
      \<and> log_pcs (im_logger im') = log_pcs (im_logger demo_info_manager) @ map unat (trace_lines None (map event_step ?evs))
      \<and> (distinct_adj (map event_pc ?evs) \<longrightarrow> log_pcs (im_logger im')
          = log_pcs (im_logger demo_info_manager) @ map (unat \<circ> event_pc) ?evs)"
    by (intro straight_line_logged) simp_all
  then show ?thesis unfolding log by fastforce
qed

end
