(* ===== verification/Linker_List.thy ===== *)
theory Linker_List
  imports Trace_Common
begin

text \<open>
  The part of \<^verbatim>\<open>core/linker.cpp\<close> that finds a loaded library in the list of the Android linker:
  the constructor of \<open>Linker\<close>, which resolves the linker's functions by name, and
  \<open>get_so_info\<close>, which guesses where a list entry keeps the pointer to the next one and walks
  the list. The walk follows pointers in memory and need not end: its value is then \<open>None\<close>.
  The linker itself and the symbol lookup of xDL are arguments.
\<close>

section \<open>Results of walks\<close>

type_synonym 'a run = "'a result option"

definition bind_run :: "'a run \<Rightarrow> ('a \<Rightarrow> 'b run) \<Rightarrow> 'b run" where
  "bind_run m f = (case m of None \<Rightarrow> None | Some (Inl e) \<Rightarrow> Some (Inl e) | Some (Inr x) \<Rightarrow> f x)"

lemma bind_run_simps [simp, result_simps]:
  "bind_run None f = None"
  "bind_run (Some (Inl e)) f = Some (Inl e)"
  "bind_run (Some (Inr x)) f = f x"
  by (simp_all add: bind_run_def)

section \<open>The linker\<close>

text \<open>
  What is outside: the interface of xDL (a null answer is zero), the API level of the device,
  the functions of the Android linker at the addresses that xDL finds.
\<close>

record linker_env =
  xdl_open :: "string \<Rightarrow> addr"
  xdl_sym :: "addr \<Rightarrow> string \<Rightarrow> addr"
  xdl_dsym :: "addr \<Rightarrow> string \<Rightarrow> addr"
  xdl_addr :: "addr \<Rightarrow> string option \<times> string option"
  api_level :: int
  le_realpath :: "memory \<Rightarrow> addr \<Rightarrow> string option"
  le_head :: addr
  le_somain :: addr

text \<open>
  The static pointers of the file (zero for null), the handle of the linker, and the two static
  variables of \<open>get_so_info\<close>.
\<close>

record Linker =
  lk_handler :: addr
  p_get_realpath :: addr
  p_solist_get_head :: addr
  p_solist_get_somain :: addr
  p_soinfo_to_handle :: addr
  p_argc :: addr
  p_argv :: addr
  p_envp :: addr
  solist_head :: addr
  somain :: addr

text \<open>The static variables before the constructor runs.\<close>

definition no_linker :: Linker where
  "no_linker =
     \<lparr>lk_handler = 0, p_get_realpath = 0, p_solist_get_head = 0, p_solist_get_somain = 0, p_soinfo_to_handle = 0,
      p_argc = 0, p_argv = 0, p_envp = 0, solist_head = 0, somain = 0\<rparr>"

definition get_android_linker_path :: "linker_env \<Rightarrow> string" where
  "get_android_linker_path env =
     (if 29 \<le> api_level env then ''/apex/com.android.runtime/bin/linker64'' else ''/system/bin/linker64'')"

text \<open>The pattern of the constructor: a pointer that is null is looked up in both tables.\<close>

definition resolve :: "linker_env \<Rightarrow> addr \<Rightarrow> string \<Rightarrow> addr \<Rightarrow> addr" where
  "resolve env handler symbol ptr =
     (if ptr = 0
      then (let p = xdl_sym env handler symbol in if p = 0 then xdl_dsym env handler symbol else p)
      else ptr)"

definition Linker_new :: "linker_env \<Rightarrow> Linker \<Rightarrow> Linker" where
  "Linker_new env l =
     (let h = xdl_open env (get_android_linker_path env) in
      l\<lparr>lk_handler := h,
        p_get_realpath := resolve env h ''__dl__ZNK6soinfo12get_realpathEv'' (p_get_realpath l),
        p_solist_get_head := resolve env h ''__dl__Z15solist_get_headv'' (p_solist_get_head l),
        p_solist_get_somain := resolve env h ''__dl__Z17solist_get_somainv'' (p_solist_get_somain l),
        p_soinfo_to_handle := resolve env h ''__dl__ZN6soinfo9to_handleEv'' (p_soinfo_to_handle l),
        p_argc := resolve env h ''__dl_g_argc'' (p_argc l),
        p_argv := resolve env h ''__dl_g_argv'' (p_argv l),
        p_envp := resolve env h ''__dl_g_envp'' (p_envp l)\<rparr>)"

section \<open>The list of libraries\<close>

text \<open>\<^verbatim>\<open>strstr(s, d) != nullptr\<close> on C strings.\<close>

definition str_contains :: "string \<Rightarrow> string \<Rightarrow> bool" where
  "str_contains s d \<longleftrightarrow> find_sub d s \<noteq> None"

text \<open>
  The search for the offset of the next pointer: the first of the words at index \<open>i\<close> and the
  \<open>n - 1\<close> behind it that holds the address of the main program; zero when none does.
\<close>

fun next_offset :: "memory \<Rightarrow> addr \<Rightarrow> addr \<Rightarrow> nat \<Rightarrow> nat \<Rightarrow> nat result" where
  "next_offset mem head main i 0 = Inr 0"
| "next_offset mem head main i (Suc n) =
     bind_result (read_uintptr64 mem (head + of_nat (8 * i))) (\<lambda>w.
       if w = main then Inr (8 * i) else next_offset mem head main (Suc i) n)"

partial_function (option) solist_walk :: "memory \<Rightarrow> nat \<Rightarrow> addr \<Rightarrow> addr list \<Rightarrow> addr list run" where
  "solist_walk mem off sonext linker_solist =
     (if sonext = 0 then Some (Inr linker_solist)
      else (case read_uintptr64 mem (sonext + of_nat off) of
              Inl e \<Rightarrow> Some (Inl e)
            | Inr nxt \<Rightarrow> solist_walk mem off nxt (linker_solist @ [sonext])))"

definition path_matches :: "linker_env \<Rightarrow> memory \<Rightarrow> string \<Rightarrow> addr \<Rightarrow> bool" where
  "path_matches env mem library_name item =
     (case le_realpath env mem item of None \<Rightarrow> False | Some path \<Rightarrow> str_contains path library_name)"

definition Linker_get_so_info :: "linker_env \<Rightarrow> memory \<Rightarrow> string \<Rightarrow> Linker \<Rightarrow> (addr \<times> Linker) run" where
  "Linker_get_so_info env mem library_name l =
     (if p_solist_get_head l = 0 \<or> p_solist_get_somain l = 0 \<or> p_soinfo_to_handle l = 0 \<or> p_get_realpath l = 0
      then Some (Inr (0, l))
      else
        let l = (if solist_head l = 0 then l\<lparr>solist_head := le_head env\<rparr> else l);
            l = (if somain l = 0 then l\<lparr>somain := le_somain env\<rparr> else l);
            head = solist_head l
        in bind_run (Some (next_offset mem head (somain l) 0 128)) (\<lambda>off.
           bind_run (Some (read_uintptr64 mem (head + of_nat off))) (\<lambda>sonext.
           bind_run (solist_walk mem off sonext [head]) (\<lambda>linker_solist.
             Some (Inr (case find (path_matches env mem library_name) linker_solist of
                          Some item \<Rightarrow> item | None \<Rightarrow> 0, l))))))"

section \<open>Lemmas\<close>

text \<open>The entries \<open>xs\<close> are linked from the address \<open>a\<close> on, by the words at offset \<open>off\<close>, up to null.\<close>

fun linked :: "memory \<Rightarrow> nat \<Rightarrow> addr \<Rightarrow> addr list \<Rightarrow> bool" where
  "linked mem off a [] \<longleftrightarrow> a = 0"
| "linked mem off a (x # xs) \<longleftrightarrow> a = x \<and> x \<noteq> 0 \<and> (\<exists>nxt. read_uintptr64 mem (x + of_nat off) = Inr nxt \<and> linked mem off nxt xs)"

lemma solist_walk_linked: "linked mem off a xs \<Longrightarrow> solist_walk mem off a acc = Some (Inr (acc @ xs))"
proof (induction xs arbitrary: a acc)
  case Nil
  then show ?case by (subst solist_walk.simps) simp
next
  case (Cons x xs)
  then obtain nxt where "a = x" "x \<noteq> 0" "read_uintptr64 mem (x + of_nat off) = Inr nxt" "linked mem off nxt xs"
    by auto
  then show ?case using Cons.IH [of nxt "acc @ [x]"] by (subst solist_walk.simps) simp
qed

lemma next_offset_first:
  assumes "read_uintptr64 mem (head + of_nat (8 * (i + d))) = Inr main"
    and "\<And>k. k < d \<Longrightarrow> \<exists>w. read_uintptr64 mem (head + of_nat (8 * (i + k))) = Inr w \<and> w \<noteq> main"
    and "d < n"
  shows "next_offset mem head main i n = Inr (8 * (i + d))"
  using assms
proof (induction n arbitrary: i d)
  case (Suc n)
  show ?case
  proof (cases d)
    case 0
    then show ?thesis using Suc.prems(1) by simp
  next
    case (Suc d')
    obtain w where w: "read_uintptr64 mem (head + of_nat (8 * i)) = Inr w" "w \<noteq> main"
      using Suc.prems(2) [of 0] Suc by auto
    have "next_offset mem head main (Suc i) n = Inr (8 * (Suc i + d'))"
      using Suc.prems(1,3) Suc.prems(2) [of "Suc k" for k] Suc by (intro Suc.IH) auto
    then show ?thesis using w Suc by simp
  qed
qed simp

text \<open>
  The functions of the linker were found, and the two static variables hold nothing yet or
  what an earlier search put there.
\<close>

definition linker_ready :: "linker_env \<Rightarrow> Linker \<Rightarrow> bool" where
  "linker_ready env l \<longleftrightarrow> p_solist_get_head l \<noteq> 0 \<and> p_solist_get_somain l \<noteq> 0 \<and> p_soinfo_to_handle l \<noteq> 0
     \<and> p_get_realpath l \<noteq> 0 \<and> solist_head l \<in> {0, le_head env} \<and> somain l \<in> {0, le_somain env}"

lemma get_so_info_linked:
  assumes "linker_ready env l" and "d < 128"
    and "linked mem (8 * d) (le_head env) (le_head env # le_somain env # xs)"
    and "\<And>k. k < d \<Longrightarrow> \<exists>w. read_uintptr64 mem (le_head env + of_nat (8 * k)) = Inr w \<and> w \<noteq> le_somain env"
  shows "Linker_get_so_info env mem library_name l =
    Some (Inr (case find (path_matches env mem library_name) (le_head env # le_somain env # xs) of
        Some item \<Rightarrow> item | None \<Rightarrow> 0, l\<lparr>solist_head := le_head env, somain := le_somain env\<rparr>))"
proof -
  have link: "read_uintptr64 mem (le_head env + of_nat (8 * d)) = Inr (le_somain env)"
    "linked mem (8 * d) (le_somain env) (le_somain env # xs)" using assms(3) by auto
  have "next_offset mem (le_head env) (le_somain env) 0 128 = Inr (8 * d)"
    using next_offset_first [of mem "le_head env" 0 d "le_somain env" 128] link(1) assms(2,4) by simp
  moreover have "(if solist_head l = 0 then l\<lparr>solist_head := le_head env\<rparr> else l) = l\<lparr>solist_head := le_head env\<rparr>"
    using assms(1) by (cases l) (auto simp: linker_ready_def)
  moreover have "(if somain l = 0 then l\<lparr>solist_head := le_head env, somain := le_somain env\<rparr> else l\<lparr>solist_head := le_head env\<rparr>)
      = l\<lparr>solist_head := le_head env, somain := le_somain env\<rparr>"
    using assms(1) by (cases l) (auto simp: linker_ready_def)
  moreover note solist_walk_linked [OF link(2), of "[le_head env]"] link(1)
  ultimately show ?thesis
    using assms(1) by (simp add: Linker_get_so_info_def linker_ready_def Let_def)
qed

section \<open>Properties\<close>

text \<open>
  C39: a library is found, in the first search and in later ones. If the list of the linker starts
  at its head, which links to the main program first, no earlier word of the head has the address of the main program, and
  the list ends, then the search ends, and answers with the first entry of the whole list whose path
  contains the name, null when there is none. The next search uses the same head.
\<close>

theorem so_info_found:
  assumes "linker_ready env l" and "d < 128"
    and "linked mem (8 * d) (le_head env) (le_head env # le_somain env # xs)"
    and "\<And>k. k < d \<Longrightarrow> \<exists>w. read_uintptr64 mem (le_head env + of_nat (8 * k)) = Inr w \<and> w \<noteq> le_somain env"
  shows "Linker_get_so_info env mem library_name l =
    Some (Inr (case find (path_matches env mem library_name) (le_head env # le_somain env # xs) of
        Some item \<Rightarrow> item | None \<Rightarrow> 0, l\<lparr>solist_head := le_head env, somain := le_somain env\<rparr>))"
  by (rule get_so_info_linked [OF assms])

text \<open>Three entries, linked by their second words.\<close>

definition demo_memory :: memory where
  "demo_memory a =
     (if a = 0x1009 then Some 0x20 else if a = 0x2009 then Some 0x30 else Some 0)"

definition demo_list_env :: linker_env where
  "demo_list_env =
     \<lparr>xdl_open = (\<lambda>_. 1), xdl_sym = (\<lambda>_ _. 0), xdl_dsym = (\<lambda>_ _. 1), xdl_addr = (\<lambda>_. (None, None)), api_level = 33,
      le_realpath = (\<lambda>_ a. if a = 0x2000 then Some ''/bin/app'' else if a = 0x3000 then Some ''/lib/libc.so'' else None),
      le_head = 0x1000, le_somain = 0x2000\<rparr>"

theorem so_info_found_witness:
  "Linker_get_so_info demo_list_env demo_memory ''libc.so'' (Linker_new demo_list_env no_linker) =
    Some (Inr (0x3000, (Linker_new demo_list_env no_linker)\<lparr>solist_head := 0x1000, somain := 0x2000\<rparr>))"
proof -
  have words: "read_uintptr64 demo_memory 0x1008 = Inr 0x2000" "read_uintptr64 demo_memory 0x2008 = Inr 0x3000"
    "read_uintptr64 demo_memory 0x3008 = Inr 0" "read_uintptr64 demo_memory 0x1000 = Inr 0" by code_simp+
  have found: "find (path_matches demo_list_env demo_memory ''libc.so'') [0x1000, 0x2000, 0x3000] = Some 0x3000"
    by code_simp
  show ?thesis
    using so_info_found [of demo_list_env "Linker_new demo_list_env no_linker" 1 demo_memory "[0x3000]" "''libc.so''"] words found
    by (simp add: linker_ready_def Linker_new_def demo_list_env_def no_linker_def resolve_def Let_def)
qed

end
