(* ===== verification/So_Library.thy ===== *)
theory So_Library
  imports Linker_List Range_Set
begin

text \<open>
  \<^verbatim>\<open>core/library.cpp\<close> in the arm64 build: a loaded library, its symbols through xDL, and the
  fields of the linker's private \<^verbatim>\<open>soinfo\<close> that are read and written at fixed places. The
  structures of the source are lists of fields; the place of a field is computed from the
  sizes and alignments in front of it, and reads and writes go to the bytes in memory.
\<close>

section \<open>Structures\<close>

text \<open>A field of a structure: name, size and alignment on a machine with 64-bit words.\<close>

type_synonym c_field = "string \<times> nat \<times> nat"

definition word_field :: "string \<Rightarrow> c_field" where "word_field n = (n, 8, 8)"
definition uint32_field :: "string \<Rightarrow> c_field" where "uint32_field n = (n, 4, 4)"
definition uint16_field :: "string \<Rightarrow> c_field" where "uint16_field n = (n, 2, 2)"
definition bool_field :: "string \<Rightarrow> c_field" where "bool_field n = (n, 1, 1)"

text \<open>\<^verbatim>\<open>struct link_map\<close> of the system header: five words.\<close>

definition link_map_field :: "string \<Rightarrow> c_field" where "link_map_field n = (n, 40, 8)"

definition align_up :: "nat \<Rightarrow> nat \<Rightarrow> nat" where
  "align_up k al = (k + al - 1) div al * al"

fun offset_from :: "nat \<Rightarrow> c_field list \<Rightarrow> string \<Rightarrow> nat" where
  "offset_from k [] f = 0"
| "offset_from k ((n, sz, al) # fs) f =
     (if n = f then align_up k al else offset_from (align_up k al + sz) fs f)"

definition field_offset :: "c_field list \<Rightarrow> string \<Rightarrow> nat" where
  "field_offset s f = offset_from 0 s f"

text \<open>The object behind a handle of xDL; the two hash tables are structures of their own.\<close>

definition xdl_t :: "c_field list" where
  "xdl_t =
     [word_field ''pathname'', word_field ''load_bias'', word_field ''dlpi_phdr'', uint16_field ''dlpi_phnum'',
      word_field ''next'', word_field ''linker_handle'', bool_field ''dynsym_try_load'', word_field ''dynsym'',
      word_field ''dynstr'', (''sysv_hash'', 32, 8), (''gnu_hash'', 48, 8), bool_field ''symtab_try_load'',
      word_field ''base'', word_field ''symtab'', word_field ''symtab_cnt'', word_field ''strtab'',
      word_field ''strtab_sz'']"

definition soinfo_10 :: "c_field list" where
  "soinfo_10 =
     [word_field ''phdr'', word_field ''phnum'', word_field ''base'', word_field ''size'',
      word_field ''dynamic'', word_field ''next'', uint32_field ''flags_'', word_field ''strtab_'',
      word_field ''symtab_'', word_field ''nbucket_'', word_field ''nchain_'', word_field ''bucket_'',
      word_field ''chain_'', word_field ''plt_rel_'', word_field ''plt_rel_count_'',
      word_field ''rel_'', word_field ''rel_count_'', word_field ''preinit_array_'',
      word_field ''preinit_array_count_'', word_field ''init_array_'', word_field ''init_array_count_'',
      word_field ''fini_array_'', word_field ''fini_array_count_'', word_field ''init_func_'',
      word_field ''fini_func_'', word_field ''ref_count_'', link_map_field ''link_map_head'',
      bool_field ''constructors_called'', word_field ''load_bias'', bool_field ''has_DT_SYMBOLIC'']"

definition soinfo_11 :: "c_field list" where
  "soinfo_11 =
     [word_field ''phdr'', word_field ''phnum'', word_field ''base'', word_field ''size'',
      word_field ''dynamic'', word_field ''next'', uint32_field ''flags_'', word_field ''strtab_'',
      word_field ''symtab_'', word_field ''nbucket_'', word_field ''nchain_'', word_field ''bucket_'',
      word_field ''chain_'', word_field ''plt_rel_'', word_field ''plt_rel_count_'',
      word_field ''rel_'', word_field ''rel_count_'', word_field ''preinit_array_'',
      word_field ''preinit_array_count_'', word_field ''init_array_'', word_field ''init_array_count_'',
      word_field ''fini_array_'', word_field ''fini_array_count_'', word_field ''init_func_'',
      word_field ''fini_func_'', word_field ''ref_count_'', link_map_field ''link_map_head'',
      bool_field ''constructors_called'', word_field ''load_bias'', bool_field ''has_DT_SYMBOLIC'']"

definition soinfo_13 :: "c_field list" where
  "soinfo_13 =
     [word_field ''phdr'', word_field ''phnum'', word_field ''base'', word_field ''size'',
      word_field ''dynamic'', word_field ''next'', uint32_field ''flags_'', word_field ''strtab_'',
      word_field ''symtab_'', word_field ''nbucket_'', word_field ''nchain_'', word_field ''bucket_'',
      word_field ''chain_'', word_field ''plt_rel_'', word_field ''plt_rel_count_'',
      word_field ''rel_'', word_field ''rel_count_'', word_field ''preinit_array_'',
      word_field ''preinit_array_count_'', word_field ''init_array_'', word_field ''init_array_count_'',
      word_field ''fini_array_'', word_field ''fini_array_count_'', word_field ''init_func_'',
      word_field ''fini_func_'', word_field ''ref_count_'', link_map_field ''link_map_head'',
      bool_field ''constructors_called'', word_field ''load_bias'', bool_field ''has_DT_SYMBOLIC'']"

definition soinfo_15 :: "c_field list" where
  "soinfo_15 =
     [word_field ''phdr'', word_field ''phnum'', word_field ''base'', word_field ''size'',
      word_field ''dynamic'', word_field ''next'', uint32_field ''flags_'', word_field ''strtab_'',
      word_field ''symtab_'', word_field ''nbucket_'', word_field ''nchain_'', word_field ''bucket_'',
      word_field ''chain_'', word_field ''plt_rel_'', word_field ''plt_rel_count_'',
      word_field ''rel_'', word_field ''rel_count_'', word_field ''preinit_array_'',
      word_field ''preinit_array_count_'', word_field ''init_array_'', word_field ''init_array_count_'',
      word_field ''fini_array_'', word_field ''fini_array_count_'', word_field ''init_func_'',
      word_field ''fini_func_'', word_field ''ref_count_'', link_map_field ''link_map_head'',
      bool_field ''constructors_called'', word_field ''load_bias'', bool_field ''has_DT_SYMBOLIC'']"

definition soinfo_14 :: "c_field list" where
  "soinfo_14 =
     [word_field ''phdr'', word_field ''phnum'', word_field ''base'', word_field ''size'',
      word_field ''dynamic'', word_field ''next'', uint32_field ''flags_'', word_field ''strtab_'',
      word_field ''symtab_'', word_field ''nbucket_'', word_field ''nchain_'', word_field ''bucket_'',
      word_field ''chain_'', word_field ''plt_rel_'', word_field ''plt_rel_count_'',
      word_field ''rel_'', word_field ''rel_count_'', word_field ''preinit_array_'',
      word_field ''preinit_array_count_'', word_field ''init_array_'', word_field ''init_array_count_'',
      word_field ''fini_array_'', word_field ''fini_array_count_'', word_field ''init_func_'',
      word_field ''fini_func_'', word_field ''ref_count_'', link_map_field ''link_map_head'',
      bool_field ''constructors_called'', word_field ''load_bias'', bool_field ''has_DT_SYMBOLIC'']"

text \<open>
  The switch on the API level that every accessor has: the structure, none for a level below
  29 and in the default case.
\<close>

definition soinfo_struct :: "int \<Rightarrow> c_field list option" where
  "soinfo_struct sdk =
     (if sdk < 29 then None
      else if sdk = 29 then Some soinfo_10
      else if sdk = 31 \<or> sdk = 30 then Some soinfo_11
      else if sdk = 33 then Some soinfo_13
      else if sdk = 34 then Some soinfo_14
      else if sdk = 35 then Some soinfo_15
      else None)"

section \<open>Writing memory\<close>

fun write_le :: "nat \<Rightarrow> memory \<Rightarrow> addr \<Rightarrow> nat \<Rightarrow> memory result" where
  "write_le 0 mem a v = Inr mem"
| "write_le (Suc n) mem a v =
     (case mem a of
        None \<Rightarrow> Inl (SegFault (unat a))
      | Some _ \<Rightarrow> write_le n (mem(a := Some (of_nat v))) (a + 1) (v div 256))"

definition write_uintptr64 :: "memory \<Rightarrow> addr \<Rightarrow> addr \<Rightarrow> memory result" where
  "write_uintptr64 mem a v = write_le 8 mem a (unat v)"

section \<open>Libraries\<close>

record Library =
  lb_handler :: addr
  lb_so_info :: addr
  lb_library_name :: string

definition Library_new :: "linker_env \<Rightarrow> string \<Rightarrow> Library" where
  "Library_new env library_name =
     \<lparr>lb_handler = xdl_open env library_name, lb_so_info = 0, lb_library_name = library_name\<rparr>"

definition Library_of_so_info :: "string \<Rightarrow> addr \<Rightarrow> Library" where
  "Library_of_so_info library_name linker_handler =
     \<lparr>lb_handler = 0, lb_so_info = linker_handler, lb_library_name = library_name\<rparr>"

definition Library_find_symbol :: "linker_env \<Rightarrow> Library \<Rightarrow> string \<Rightarrow> addr" where
  "Library_find_symbol env lib symbol_name =
     (if symbol_name = [] \<or> lb_handler lib = 0 then 0
      else let a = xdl_sym env (lb_handler lib) symbol_name in
        if a = 0 then xdl_dsym env (lb_handler lib) symbol_name else a)"

definition Library_get_so_info ::
  "linker_env \<Rightarrow> memory \<Rightarrow> Library \<Rightarrow> Linker \<Rightarrow> (addr \<times> Library \<times> Linker) run" where
  "Library_get_so_info env mem lib l =
     (if lb_so_info lib = 0
      then bind_run (Linker_get_so_info env mem (lb_library_name lib) l) (\<lambda>(so, l).
             Some (Inr (so, lib\<lparr>lb_so_info := so\<rparr>, l)))
      else Some (Inr (lb_so_info lib, lib, l)))"

text \<open>A word of the structure: zero where the switch finds no structure.\<close>

definition read_soinfo ::
  "string \<Rightarrow> linker_env \<Rightarrow> memory \<Rightarrow> Library \<Rightarrow> Linker \<Rightarrow> (addr \<times> Library \<times> Linker) run" where
  "read_soinfo field env mem lib l =
     bind_run (Library_get_so_info env mem lib l) (\<lambda>(so, lib, l).
       case soinfo_struct (api_level env) of
         None \<Rightarrow> Some (Inr (0, lib, l))
       | Some s \<Rightarrow> Some (map_result (\<lambda>v. (v, lib, l)) (read_uintptr64 mem (so + of_nat (field_offset s field)))))"

definition write_soinfo ::
  "string \<Rightarrow> linker_env \<Rightarrow> memory \<Rightarrow> addr \<Rightarrow> Library \<Rightarrow> Linker \<Rightarrow> (memory \<times> Library \<times> Linker) run" where
  "write_soinfo field env mem v lib l =
     bind_run (Library_get_so_info env mem lib l) (\<lambda>(so, lib, l).
       case soinfo_struct (api_level env) of
         None \<Rightarrow> Some (Inr (mem, lib, l))
       | Some s \<Rightarrow>
           Some (map_result (\<lambda>mem. (mem, lib, l)) (write_uintptr64 mem (so + of_nat (field_offset s field)) v)))"

definition get_load_bias :: "linker_env \<Rightarrow> memory \<Rightarrow> Library \<Rightarrow> Linker \<Rightarrow> (addr \<times> Library \<times> Linker) run" where
  "get_load_bias env mem lib l =
     (if lb_handler lib \<noteq> 0
      then Some (map_result (\<lambda>v. (v, lib, l))
             (read_uintptr64 mem (lb_handler lib + of_nat (field_offset xdl_t ''load_bias''))))
      else bind_run (Library_get_so_info env mem lib l) (\<lambda>(so, lib, l).
             if lb_so_info lib = 0 then Some (Inr (0, lib, l)) else read_soinfo ''load_bias'' env mem lib l))"

definition get_init_proc :: "linker_env \<Rightarrow> memory \<Rightarrow> Library \<Rightarrow> Linker \<Rightarrow> (addr \<times> Library \<times> Linker) run" where
  "get_init_proc = read_soinfo ''init_func_''"

definition get_init_array_count :: "linker_env \<Rightarrow> memory \<Rightarrow> Library \<Rightarrow> Linker \<Rightarrow> (addr \<times> Library \<times> Linker) run" where
  "get_init_array_count = read_soinfo ''init_array_count_''"

definition get_init_array :: "linker_env \<Rightarrow> memory \<Rightarrow> Library \<Rightarrow> Linker \<Rightarrow> (addr \<times> Library \<times> Linker) run" where
  "get_init_array = read_soinfo ''init_array_''"

definition set_init_array_count ::
  "linker_env \<Rightarrow> memory \<Rightarrow> addr \<Rightarrow> Library \<Rightarrow> Linker \<Rightarrow> (memory \<times> Library \<times> Linker) run" where
  "set_init_array_count = write_soinfo ''init_array_count_''"

definition set_init_proc ::
  "linker_env \<Rightarrow> memory \<Rightarrow> addr \<Rightarrow> Library \<Rightarrow> Linker \<Rightarrow> (memory \<times> Library \<times> Linker) run" where
  "set_init_proc = write_soinfo ''init_func_''"

definition is_ctor_called :: "linker_env \<Rightarrow> memory \<Rightarrow> Library \<Rightarrow> Linker \<Rightarrow> (bool \<times> Library \<times> Linker) run" where
  "is_ctor_called env mem lib l =
     bind_run (Library_get_so_info env mem lib l) (\<lambda>(so, lib, l).
       case soinfo_struct (api_level env) of
         None \<Rightarrow> Some (Inr (False, lib, l))
       | Some s \<Rightarrow>
           Some (map_result (\<lambda>v. (v \<noteq> 0, lib, l))
             (read_le 1 mem (so + of_nat (field_offset s ''constructors_called'')))))"

definition get_library_size :: "linker_env \<Rightarrow> memory \<Rightarrow> Library \<Rightarrow> Linker \<Rightarrow> (addr \<times> Library \<times> Linker) run" where
  "get_library_size = read_soinfo ''size''"

definition get_library_range :: "linker_env \<Rightarrow> memory \<Rightarrow> Library \<Rightarrow> Linker \<Rightarrow> (addr Range \<times> Library \<times> Linker) run" where
  "get_library_range env mem lib l =
     bind_run (get_load_bias env mem lib l) (\<lambda>(s, lib, l).
     bind_run (get_load_bias env mem lib l) (\<lambda>(b, lib, l).
     bind_run (get_library_size env mem lib l) (\<lambda>(n, lib, l).
       Some (Inr (Range_new s (b + n), lib, l)))))"

text \<open>A library by name and by an address inside; \<open>None\<close> is the null pointer.\<close>

definition find_library :: "linker_env \<Rightarrow> string \<Rightarrow> Library option" where
  "find_library env library_name =
     (let ptr = Library_new env library_name in if lb_handler ptr = 0 then None else Some ptr)"

definition find_library_at :: "linker_env \<Rightarrow> addr \<Rightarrow> Library option" where
  "find_library_at env address =
     (case fst (xdl_addr env address) of Some fname \<Rightarrow> find_library env fname | None \<Rightarrow> None)"

text \<open>A symbol name without a file name makes a string from a null pointer.\<close>

definition get_symbol_by_address :: "linker_env \<Rightarrow> addr \<Rightarrow> string result" where
  "get_symbol_by_address env address =
     (case snd (xdl_addr env address) of
        Some sname \<Rightarrow> (case fst (xdl_addr env address) of Some _ \<Rightarrow> Inr sname | None \<Rightarrow> Inl NullDeref)
      | None \<Rightarrow> Inr [])"

section \<open>Lemmas\<close>

subsection \<open>Bytes of a word\<close>

lemma read_le_cong:
  "(\<And>k. k < n \<Longrightarrow> mem (a + of_nat k) = mem' (a + of_nat k)) \<Longrightarrow> read_le n mem a = read_le n mem' a"
proof (induction n arbitrary: a)
  case (Suc n)
  have "mem a = mem' a" using Suc.prems [of 0] by simp
  moreover have "read_le n mem (a + 1) = read_le n mem' (a + 1)"
  proof (rule Suc.IH)
    fix k assume "k < n"
    then show "mem (a + 1 + of_nat k) = mem' (a + 1 + of_nat k)" using Suc.prems [of "Suc k"] by (simp add: add.assoc)
  qed
  ultimately show ?case by (simp split: option.split)
qed simp

lemma read_le_bytes:
  "(\<And>k. k < n \<Longrightarrow> mem (a + of_nat k) = Some (of_nat (v div 256 ^ k))) \<Longrightarrow> read_le n mem a = Inr (v mod 256 ^ n)"
proof (induction n arbitrary: a v)
  case (Suc n)
  have "mem a = Some (of_nat v)" using Suc.prems [of 0] by simp
  moreover have "read_le n mem (a + 1) = Inr (v div 256 mod 256 ^ n)"
  proof (rule Suc.IH)
    fix k assume "k < n"
    then show "mem (a + 1 + of_nat k) = Some (of_nat (v div 256 div 256 ^ k))"
      using Suc.prems [of "Suc k"] by (simp add: add.assoc div_mult2_eq)
  qed
  moreover have "unat (of_nat v :: byte) = v mod 256" by (simp add: unat_of_nat take_bit_nat_def)
  ultimately show ?case by (simp add: mod_mult2_eq add.commute)
qed simp

text \<open>What a write leaves: the bytes of the value from the address on, the rest untouched.\<close>

lemma write_le_eq:
  assumes "\<And>k. k < n \<Longrightarrow> mem (a + of_nat k) \<noteq> None" and "n < 2 ^ 64"
  shows "write_le n mem a v =
    Inr (\<lambda>b. if unat (b - a) < n then Some (of_nat (v div 256 ^ unat (b - a))) else mem b)"
  using assms
proof (induction n arbitrary: mem a v)
  case (Suc n)
  let ?mem = "mem(a := Some (of_nat v))"
  have step: "unat (b - a) = Suc (unat (b - (a + 1)))" if "b \<noteq> a" for b
  proof -
    have "b - a = (b - (a + 1)) + 1" by simp
    moreover have "b - a \<noteq> 0" using that by simp
    ultimately show ?thesis using unatSuc [of "b - (a + 1)"] by (metis add.commute)
  qed
  have top: "unat (a - (a + 1)) = 2 ^ 64 - 1" by (simp add: unsigned_minus_1_eq_mask mask_eq_exp_minus_1)
  have "write_le n ?mem (a + 1) (v div 256) =
    Inr (\<lambda>b. if unat (b - (a + 1)) < n then Some (of_nat (v div 256 div 256 ^ unat (b - (a + 1)))) else ?mem b)"
  proof (rule Suc.IH)
    fix k assume "k < n"
    then show "?mem (a + 1 + of_nat k) \<noteq> None" using Suc.prems(1) [of "Suc k"] by (simp add: add.assoc)
  qed (use Suc.prems in simp)
  moreover have "mem a \<noteq> None" using Suc.prems(1) [of 0] by simp
  ultimately have "write_le (Suc n) mem a v =
    Inr (\<lambda>b. if unat (b - (a + 1)) < n then Some (of_nat (v div 256 div 256 ^ unat (b - (a + 1)))) else ?mem b)"
    by auto
  moreover have "(if unat (b - (a + 1)) < n then Some (of_nat (v div 256 div 256 ^ unat (b - (a + 1)))) else ?mem b)
    = (if unat (b - a) < Suc n then Some (of_nat (v div 256 ^ unat (b - a))) else mem b)" for b
  proof (cases "b = a")
    case True
    then show ?thesis using top Suc.prems(2) by simp
  next
    case False
    then show ?thesis using step [OF False] by (simp add: div_mult2_eq)
  qed
  ultimately show ?case by presburger
qed simp

text \<open>Bytes of one object, counted from its start.\<close>

lemma unat_slot_diff:
  assumes "i < 2 ^ 32" and "j < 2 ^ 32" and "0 < n" and "n \<le> 8"
  shows "unat (a + of_nat j - (a + of_nat i) :: addr) < n \<longleftrightarrow> i \<le> j \<and> j < i + n"
    and "i \<le> j \<Longrightarrow> unat (a + of_nat j - (a + of_nat i) :: addr) = j - i"
proof -
  have diff: "a + of_nat j - (a + of_nat i) = of_nat j - (of_nat i :: addr)" by simp
  show eq: "i \<le> j \<Longrightarrow> unat (a + of_nat j - (a + of_nat i) :: addr) = j - i"
  proof -
    assume "i \<le> j"
    then have "of_nat j - of_nat i = (of_nat (j - i) :: addr)" by (simp add: of_nat_diff)
    then show ?thesis unfolding diff using assms(2) by (simp add: unat_of_nat_small)
  qed
  have "\<not> unat (a + of_nat j - (a + of_nat i) :: addr) < n" if "j < i"
  proof -
    have "of_nat j - of_nat i = - (of_nat (i - j) :: addr)" using that by (simp add: of_nat_diff)
    also have "\<dots> = of_nat (2 ^ 64 - (i - j))"
      using that assms(1) by (simp add: of_nat_diff)
    finally have "unat (of_nat j - of_nat i :: addr) = 2 ^ 64 - (i - j)"
      using unat_of_nat_small [where 'a = 64, of "2 ^ 64 - (i - j)"] that by simp
    then show ?thesis using assms that unfolding diff by simp
  qed
  then show "unat (a + of_nat j - (a + of_nat i) :: addr) < n \<longleftrightarrow> i \<le> j \<and> j < i + n"
    using eq by (cases "i \<le> j") auto
qed

subsection \<open>Fields\<close>

text \<open>The five structures have the accessed fields at the same places.\<close>

lemma soinfo_offsets:
  assumes "soinfo_struct sdk = Some s"
  shows "field_offset s ''size'' = 24" "field_offset s ''init_array_'' = 152"
    "field_offset s ''init_array_count_'' = 160" "field_offset s ''init_func_'' = 184"
    "field_offset s ''constructors_called'' = 248" "field_offset s ''load_bias'' = 256"
proof -
  let ?fs = "[(''size'', 24), (''init_array_'', 152), (''init_array_count_'', 160), (''init_func_'', 184),
    (''constructors_called'', 248), (''load_bias'', 256)] :: (string \<times> nat) list"
  have "\<forall>s \<in> set [soinfo_10, soinfo_11, soinfo_13, soinfo_14, soinfo_15]. list_all (\<lambda>(f, k). field_offset s f = k) ?fs"
    by code_simp
  moreover have "s \<in> set [soinfo_10, soinfo_11, soinfo_13, soinfo_14, soinfo_15]"
    using assms by (auto simp: soinfo_struct_def split: if_splits)
  ultimately have "list_all (\<lambda>(f, k). field_offset s f = k) ?fs" by (rule bspec)
  then show "field_offset s ''size'' = 24" "field_offset s ''init_array_'' = 152"
    "field_offset s ''init_array_count_'' = 160" "field_offset s ''init_func_'' = 184"
    "field_offset s ''constructors_called'' = 248" "field_offset s ''load_bias'' = 256" by simp_all
qed

lemma xdl_load_bias: "field_offset xdl_t ''load_bias'' = 8"
  by code_simp

text \<open>The bytes of the structure up to its last accessed field are mapped.\<close>

definition soinfo_mapped :: "memory \<Rightarrow> addr \<Rightarrow> bool" where
  "soinfo_mapped mem so \<longleftrightarrow> (\<forall>k < 264. mem (so + of_nat k) \<noteq> None)"

lemma mapped_reads: "(\<And>k. k < n \<Longrightarrow> mem (a + of_nat k) \<noteq> None) \<Longrightarrow> \<exists>v. read_le n mem a = Inr v"
proof (induction n arbitrary: a)
  case (Suc n)
  have "\<exists>v. read_le n mem (a + 1) = Inr v"
  proof (rule Suc.IH)
    fix k assume "k < n"
    then show "mem (a + 1 + of_nat k) \<noteq> None" using Suc.prems [of "Suc k"] by (simp add: add.assoc)
  qed
  moreover have "mem a \<noteq> None" using Suc.prems [of 0] by simp
  ultimately show ?case by auto
qed simp

lemma soinfo_mapped_word: "soinfo_mapped mem so \<Longrightarrow> i + 8 \<le> 264 \<Longrightarrow> \<exists>v. read_uintptr64 mem (so + of_nat i) = Inr v"
  using mapped_reads [of 8 mem "so + of_nat i"] soinfo_mapped_def [of mem so]
  by (auto simp: read_uintptr64_def map_result_eq_Inr add.assoc simp flip: of_nat_add)

text \<open>A written word reads back; bytes of the structure in front of it and behind it stay.\<close>

definition differs_at :: "memory \<Rightarrow> memory \<Rightarrow> addr \<Rightarrow> bool" where
  "differs_at mem mem' a \<longleftrightarrow> (\<forall>b. \<not> unat (b - a) < 8 \<longrightarrow> mem' b = mem b)"

lemma read_le_mapped: "read_le n mem a = Inr v \<Longrightarrow> k < n \<Longrightarrow> mem (a + of_nat k) \<noteq> None"
proof (induction n arbitrary: a v k)
  case (Suc n)
  then obtain b w where "mem a = Some b" and w: "read_le n mem (a + 1) = Inr w"
    by (auto simp: map_result_eq_Inr split: option.splits)
  then show ?case using Suc.IH [OF w] Suc.prems(2) by (cases k) (auto simp: add.assoc)
qed simp

lemma read_word_bytes:
  "read_uintptr64 mem a = map_result of_nat (read_le (Suc (Suc (Suc (Suc (Suc (Suc (Suc (Suc 0)))))))) mem a)"
proof -
  have "(8 :: nat) = Suc (Suc (Suc (Suc (Suc (Suc (Suc (Suc 0)))))))" by simp
  then show ?thesis by (simp only: read_uintptr64_def)
qed

lemma write_word:
  assumes "read_uintptr64 mem a = Inr w"
  obtains mem' where "write_uintptr64 mem a v = Inr mem'" "differs_at mem mem' a" "read_uintptr64 mem' a = Inr v"
proof
  let ?mem = "\<lambda>b. if unat (b - a) < 8 then Some (of_nat (unat v div 256 ^ unat (b - a))) else mem b"
  from assms have "mem (a + of_nat k) \<noteq> None" if "k < 8" for k
    using that by (auto simp: read_uintptr64_def map_result_eq_Inr dest: read_le_mapped)
  then show "write_uintptr64 mem a v = Inr ?mem" unfolding write_uintptr64_def by (rule write_le_eq) simp_all
  show "differs_at mem ?mem a" by (simp add: differs_at_def)
  have "read_le 8 ?mem a = Inr (unat v mod 256 ^ 8)"
    by (rule read_le_bytes) (simp add: unat_of_nat_small)
  moreover have "unat v < 2 ^ LENGTH(64)" by (rule unsigned_less)
  ultimately show "read_uintptr64 ?mem a = Inr v" by (simp add: read_uintptr64_def)
qed

lemma read_le_other:
  assumes "differs_at mem mem' (so + of_nat i)" and "i < 512" and "j + n \<le> 512" and "j + n \<le> i \<or> i + 8 \<le> j"
  shows "read_le n mem' (so + of_nat j) = read_le n mem (so + of_nat j)"
proof (rule read_le_cong)
  fix k assume "k < n"
  then have "\<not> unat (so + of_nat (j + k) - (so + of_nat i)) < 8"
    using assms(2-4) by (subst unat_slot_diff) auto
  then show "mem' (so + of_nat j + of_nat k) = mem (so + of_nat j + of_nat k)"
    using assms(1) unfolding differs_at_def by (simp add: add.assoc flip: of_nat_add)
qed

subsection \<open>Words in memory\<close>

text \<open>
  What the users of the structures rely on: a word that can be read can be written, reads
  back as written, and leaves the words apart from it alone. From these laws: a write to
  one of several words that do not overlap changes that word and keeps the others.
\<close>

locale word_store =
  fixes rd :: "'m \<Rightarrow> 'a \<Rightarrow> 'w result"
    and wr :: "'m \<Rightarrow> 'a \<Rightarrow> 'w \<Rightarrow> 'm result"
    and apart :: "'a \<Rightarrow> 'a \<Rightarrow> bool"
  assumes wr_ok: "rd m a = Inr w \<Longrightarrow> \<exists>m'. wr m a v = Inr m'"
    and rd_wr: "rd m a = Inr w \<Longrightarrow> wr m a v = Inr m' \<Longrightarrow> rd m' a = Inr v"
    and rd_wr_apart: "rd m a = Inr w \<Longrightarrow> wr m a v = Inr m' \<Longrightarrow> apart a b \<Longrightarrow> rd m' b = rd m b"
begin

definition holds :: "('k \<Rightarrow> 'a) \<Rightarrow> 'k set \<Rightarrow> ('k \<Rightarrow> 'w) \<Rightarrow> 'm \<Rightarrow> bool" where
  "holds slot F val m \<longleftrightarrow> (\<forall>k \<in> F. rd m (slot k) = Inr (val k))"

lemma write_field:
  assumes "holds slot F val m" and "k \<in> F" and "\<And>j. j \<in> F \<Longrightarrow> j \<noteq> k \<Longrightarrow> apart (slot k) (slot j)"
  obtains m' where "wr m (slot k) v = Inr m'" "holds slot F (val(k := v)) m'"
proof -
  have k: "rd m (slot k) = Inr (val k)" using assms(1,2) by (simp add: holds_def)
  then obtain m' where m': "wr m (slot k) v = Inr m'" using wr_ok by blast
  have "holds slot F (val(k := v)) m'"
    using rd_wr [OF k m'] rd_wr_apart [OF k m' assms(3)] assms(1) by (simp add: holds_def)
  with m' show ?thesis by (rule that)
qed

end

definition words_apart :: "addr \<Rightarrow> addr \<Rightarrow> bool" where
  "words_apart a b \<longleftrightarrow> (\<forall>k < 8. \<not> unat (b + of_nat k - a) < 8)"

lemma written_word_differs: "read_uintptr64 mem a = Inr w \<Longrightarrow> write_uintptr64 mem a v = Inr mem' \<Longrightarrow> differs_at mem mem' a"
  using write_word [of mem a w v] by (metis sum.inject(2))

interpretation words: word_store read_uintptr64 write_uintptr64 words_apart
proof unfold_locales
  fix mem mem' :: memory and a b w v :: addr
  assume a: "read_uintptr64 mem a = Inr w"
  show "\<exists>mem'. write_uintptr64 mem a v = Inr mem'" using write_word [OF a] by blast
  assume mem': "write_uintptr64 mem a v = Inr mem'"
  show "read_uintptr64 mem' a = Inr v" using write_word [OF a, of v] mem' by (metis sum.inject(2))
  assume "words_apart a b"
  then have "read_le 8 mem' b = read_le 8 mem b"
    using written_word_differs [OF a mem'] by (intro read_le_cong) (simp add: words_apart_def differs_at_def)
  then show "read_uintptr64 mem' b = read_uintptr64 mem b" by (simp add: read_uintptr64_def)
qed

text \<open>The words of a structure at offsets that are eight bytes apart.\<close>

lemma slots_apart:
  assumes "i < 512" and "j + 8 \<le> 512" and "j + 8 \<le> i \<or> i + 8 \<le> j"
  shows "words_apart (so + of_nat i) (so + of_nat j)"
  unfolding words_apart_def
proof (intro allI impI)
  fix k :: nat assume k: "k < 8"
  then have "\<not> (i \<le> j + k \<and> j + k < i + 8)" using assms(3) by linarith
  with k show "\<not> unat (so + of_nat j + of_nat k - (so + of_nat i)) < 8"
    using assms(1,2) unat_slot_diff(1) [of i "j + k" 8 so] by (simp add: add.assoc)
qed

lemma Library_get_so_info_known: "lb_so_info lib \<noteq> 0 \<Longrightarrow> Library_get_so_info env mem lib l = Some (Inr (lb_so_info lib, lib, l))"
  by (simp add: Library_get_so_info_def)

lemmas accessor_defs = get_load_bias_def get_init_proc_def get_init_array_count_def get_init_array_def
  set_init_array_count_def set_init_proc_def is_ctor_called_def get_library_size_def read_soinfo_def write_soinfo_def

section \<open>Properties\<close>

text \<open>
  C40: on a supported level, the two setters write exactly what the getters read back, and
  nothing else: the other fields, whether the constructors ran, the size, the load address,
  and every byte outside the word that is written keep their values.
\<close>

theorem soinfo_set_get:
  assumes "soinfo_struct (api_level env) = Some s" and "lb_so_info lib \<noteq> 0" and "lb_handler lib = 0"
    and "soinfo_mapped mem (lb_so_info lib)"
  shows "(\<exists>mem'. set_init_array_count env mem c lib l = Some (Inr (mem', lib, l))
      \<and> get_init_array_count env mem' lib l = Some (Inr (c, lib, l))
      \<and> get_init_proc env mem' lib l = get_init_proc env mem lib l
      \<and> get_init_array env mem' lib l = get_init_array env mem lib l
      \<and> is_ctor_called env mem' lib l = is_ctor_called env mem lib l
      \<and> get_library_size env mem' lib l = get_library_size env mem lib l
      \<and> get_load_bias env mem' lib l = get_load_bias env mem lib l
      \<and> differs_at mem mem' (lb_so_info lib + 160))
    \<and> (\<exists>mem'. set_init_proc env mem p lib l = Some (Inr (mem', lib, l))
      \<and> get_init_proc env mem' lib l = Some (Inr (p, lib, l))
      \<and> get_init_array_count env mem' lib l = get_init_array_count env mem lib l
      \<and> get_init_array env mem' lib l = get_init_array env mem lib l
      \<and> is_ctor_called env mem' lib l = is_ctor_called env mem lib l
      \<and> get_library_size env mem' lib l = get_library_size env mem lib l
      \<and> get_load_bias env mem' lib l = get_load_bias env mem lib l
      \<and> differs_at mem mem' (lb_so_info lib + 184))"
proof -
  let ?so = "lb_so_info lib"
  note off = soinfo_offsets [OF assms(1)] Library_get_so_info_known [OF assms(2)] assms(1-3)
  obtain w1 w2 where w1: "read_uintptr64 mem (?so + of_nat 160) = Inr w1"
    and w2: "read_uintptr64 mem (?so + of_nat 184) = Inr w2"
    using soinfo_mapped_word [OF assms(4), of 160] soinfo_mapped_word [OF assms(4), of 184] by auto
  obtain m1 where m1: "write_uintptr64 mem (?so + of_nat 160) c = Inr m1" "differs_at mem m1 (?so + of_nat 160)"
    "read_uintptr64 m1 (?so + of_nat 160) = Inr c"
    using write_word [OF w1] .
  obtain m2 where m2: "write_uintptr64 mem (?so + of_nat 184) p = Inr m2" "differs_at mem m2 (?so + of_nat 184)"
    "read_uintptr64 m2 (?so + of_nat 184) = Inr p"
    using write_word [OF w2] .
  note keep1 = read_le_other [OF m1(2)] and keep2 = read_le_other [OF m2(2)]
  have k1: "read_le 8 m1 (?so + of_nat j) = read_le 8 mem (?so + of_nat j)" if "j \<in> {24, 152, 184, 256}" for j
    using that by (intro keep1) auto
  have k2: "read_le 8 m2 (?so + of_nat j) = read_le 8 mem (?so + of_nat j)" if "j \<in> {24, 152, 160, 256}" for j
    using that by (intro keep2) auto
  show ?thesis
    using m1 m2 k1 [of 24] k1 [of 152] k1 [of 184] k1 [of 256] keep1 [of 248 1]
      k2 [of 24] k2 [of 152] k2 [of 160] k2 [of 256] keep2 [of 248 1]
    by (intro conjI exI [of _ m1] exI [of _ m2]) (simp_all add: accessor_defs off read_uintptr64_def)
qed

definition demo_linker_env :: linker_env where
  "demo_linker_env =
     \<lparr>xdl_open = (\<lambda>_. 0), xdl_sym = (\<lambda>_ _. 0), xdl_dsym = (\<lambda>_ _. 0), xdl_addr = (\<lambda>_. (None, None)), api_level = 33,
      le_realpath = (\<lambda>_ _. None), le_head = 0, le_somain = 0\<rparr>"

theorem soinfo_set_get_witness:
  "\<exists>mem'. set_init_array_count demo_linker_env (\<lambda>_. Some 0) 7 (Library_of_so_info ''libdemo.so'' 0x5000) no_linker
      = Some (Inr (mem', Library_of_so_info ''libdemo.so'' 0x5000, no_linker))
    \<and> get_init_array_count demo_linker_env mem' (Library_of_so_info ''libdemo.so'' 0x5000) no_linker
      = Some (Inr (7, Library_of_so_info ''libdemo.so'' 0x5000, no_linker))"
  using soinfo_set_get [of demo_linker_env soinfo_13 "Library_of_so_info ''libdemo.so'' 0x5000" "\<lambda>_. Some 0" 7 no_linker 0]
  by (auto simp: demo_linker_env_def soinfo_struct_def Library_of_so_info_def soinfo_mapped_def)

text \<open>
  The range of a library. With a handle and a known \<^verbatim>\<open>soinfo\<close> it is the load address and
  the size behind it, on the levels 29 to 31 and 33 to 35. On every other level, 32 among
  them, the size is taken as zero and the range is empty, so that of all addresses only the
  load address itself can pass for one of the library.
\<close>

theorem library_range:
  assumes "lb_handler lib \<noteq> 0" and "lb_so_info lib \<noteq> 0"
    and "read_uintptr64 mem (lb_handler lib + 8) = Inr bias" and "read_uintptr64 mem (lb_so_info lib + 24) = Inr sz"
    and "unat bias + unat sz < 2 ^ 64"
  shows "\<exists>r. get_library_range env mem lib l = Some (Inr (r, lib, l)) \<and> r_start r = bias
    \<and> unat (r_end r) = (if api_level env \<in> {29, 30, 31, 33, 34, 35} then unat bias + unat sz else unat bias)
    \<and> (api_level env \<notin> {29, 30, 31, 33, 34, 35} \<longrightarrow> (\<forall>a. r_start r \<le> a \<and> a \<le> r_end r \<longleftrightarrow> a = bias))"
proof -
  have bias: "get_load_bias env mem lib l = Some (Inr (bias, lib, l))"
    using assms by (simp add: get_load_bias_def xdl_load_bias)
  have sum: "unat (bias + sz) = unat bias + unat sz"
    using assms(5) by (simp add: unat_word_ariths)
  show ?thesis
  proof (cases "soinfo_struct (api_level env)")
    case None
    then have "api_level env \<notin> {29, 30, 31, 33, 34, 35}" by (auto simp: soinfo_struct_def)
    moreover have "get_library_range env mem lib l = Some (Inr (Range_new bias bias, lib, l))"
      using None by (simp add: get_library_range_def bias get_library_size_def read_soinfo_def
          Library_get_so_info_known [OF assms(2)])
    ultimately show ?thesis by (auto simp: Range_new_def)
  next
    case (Some s)
    then have "api_level env \<in> {29, 30, 31, 33, 34, 35}" by (auto simp: soinfo_struct_def split: if_splits)
    moreover have "get_library_range env mem lib l = Some (Inr (Range_new bias (bias + sz), lib, l))"
      using Some assms(4) by (simp add: get_library_range_def bias get_library_size_def read_soinfo_def
          Library_get_so_info_known [OF assms(2)] soinfo_offsets [OF Some])
    moreover have "\<not> bias < bias + sz \<Longrightarrow> unat sz = 0" using sum by (auto simp: word_less_nat_alt)
    ultimately show ?thesis using sum by (auto simp: Range_new_def)
  qed
qed

theorem library_range_witness:
  "\<exists>r. get_library_range (demo_linker_env\<lparr>api_level := 32\<rparr>) (\<lambda>_. Some 1)
      \<lparr>lb_handler = 0x100, lb_so_info = 0x5000, lb_library_name = ''libc.so''\<rparr> no_linker
        = Some (Inr (r, \<lparr>lb_handler = 0x100, lb_so_info = 0x5000, lb_library_name = ''libc.so''\<rparr>, no_linker))
    \<and> r_end r = 0x0101010101010101"
proof -
  have "read_uintptr64 (\<lambda>_. Some 1) a = Inr 0x0101010101010101" for a
    unfolding read_word_bytes by simp
  then show ?thesis
    using library_range [of "\<lparr>lb_handler = 0x100, lb_so_info = 0x5000, lb_library_name = ''libc.so''\<rparr>"
        "\<lambda>_. Some 1" "0x0101010101010101" "0x0101010101010101" "demo_linker_env\<lparr>api_level := 32\<rparr>" no_linker]
    by (auto simp: demo_linker_env_def word_unat_eq_iff)
qed

end
