(* ===== verification/Linker_Hook.thy ===== *)
theory Linker_Hook
  imports So_Library
begin

text \<open>
  The hooks of \<^verbatim>\<open>core/linker.cpp\<close> with \<^verbatim>\<open>core/hook_manager.cpp\<close>: monitors for libraries, the
  replacement of the linker's \<^verbatim>\<open>call_constructors\<close>, which runs the constructors of a library
  itself between the callbacks of the monitors, and the replacement of \<^verbatim>\<open>do_dlopen\<close>. Code that
  is called through pointers (the original functions, constructors, callbacks) is an
  argument: its effect on memory. Every such call is logged with the memory that it finds.
  Callbacks do not register further monitors, which would invalidate the iterators.
\<close>

section \<open>Hooking\<close>

text \<open>The return codes of Dobby and xHook.\<close>

record hook_lib =
  DobbyHook :: "addr \<Rightarrow> int"
  DobbyInstrument :: "addr \<Rightarrow> int"
  DobbyDestroy :: "addr \<Rightarrow> int"
  xhook_refresh :: "string \<Rightarrow> string \<Rightarrow> int"

definition inline_hook :: "hook_lib \<Rightarrow> addr \<Rightarrow> bool" where
  "inline_hook h address \<longleftrightarrow> DobbyHook h address = 0"

definition instrument_at :: "hook_lib \<Rightarrow> addr \<Rightarrow> bool" where
  "instrument_at h address \<longleftrightarrow> DobbyInstrument h address = 0"

definition import_hook :: "hook_lib \<Rightarrow> string \<Rightarrow> string \<Rightarrow> bool" where
  "import_hook h image_name symbol_name \<longleftrightarrow> xhook_refresh h image_name symbol_name = 0"

text \<open>The code of the library is converted to a truth value without a comparison.\<close>

definition remove_hook :: "hook_lib \<Rightarrow> addr \<Rightarrow> bool" where
  "remove_hook h address \<longleftrightarrow> DobbyDestroy h address \<noteq> 0"

section \<open>Monitors\<close>

datatype linker_type = DLOPEN | DLOPEN_POST | INIT_PROC | INIT_PROC_POST | INIT_ARRAY | INIT_ARRAY_POST

text \<open>Name, type, callback (zero for null) and user data.\<close>

type_synonym monitor = "string \<times> linker_type \<times> addr \<times> addr"

record monitors =
  monitor_list :: "monitor list"
  dl_hooked :: bool
  linker_hooked :: bool

definition init_dlopen_hook :: "linker_env \<Rightarrow> Linker \<Rightarrow> monitors \<Rightarrow> monitors" where
  "init_dlopen_hook env l m =
     (if dl_hooked m then m
      else if api_level env < 29 then m
      else if xdl_dsym env (lk_handler l) ''__dl__Z9do_dlopenPKciPK17android_dlextinfoPKv'' = 0 then m
      else m\<lparr>dl_hooked := True\<rparr>)"

definition init_linker_hook :: "linker_env \<Rightarrow> Linker \<Rightarrow> monitors \<Rightarrow> monitors" where
  "init_linker_hook env l m =
     (if linker_hooked m then m
      else if api_level env < 29 then m
      else if xdl_dsym env (lk_handler l) ''__dl__ZN6soinfo17call_constructorsEv'' = 0 then m
      else m\<lparr>linker_hooked := True\<rparr>)"

definition add_library_monitor :: "linker_env \<Rightarrow> Linker \<Rightarrow> monitor \<Rightarrow> monitors \<Rightarrow> bool \<times> monitors" where
  "add_library_monitor env l x m =
     (let t = fst (snd x);
          m = (if t = DLOPEN \<or> t = DLOPEN_POST then init_dlopen_hook env l m
               else if t = INIT_ARRAY \<or> t = INIT_ARRAY_POST \<or> t = INIT_PROC \<or> t = INIT_PROC_POST
               then init_linker_hook env l m else m);
          m = m\<lparr>monitor_list := monitor_list m @ [x]\<rparr>
      in (dl_hooked m \<and> linker_hooked m, m))"

section \<open>Calls\<close>

text \<open>
  The calls through pointers: the original functions, a callback with its arguments (path, type,
  \<^verbatim>\<open>soinfo\<close>, data), the function of \<^verbatim>\<open>DT_INIT\<close> with the start arguments of the program, a function of
  \<^verbatim>\<open>DT_INIT_ARRAY\<close>.
\<close>

datatype linker_event =
    OrigConstructors addr
  | OrigDlopen "string option"
  | MonitorCallback addr string linker_type addr addr
  | CallInit addr "nat \<times> addr \<times> addr"
  | CallInitArray addr

type_synonym effect = "linker_event \<Rightarrow> memory \<Rightarrow> memory result"
type_synonym hook_state = "memory \<times> (linker_event \<times> memory) list"

definition run_call :: "effect \<Rightarrow> linker_event \<Rightarrow> hook_state \<Rightarrow> hook_state result" where
  "run_call eff ev st = map_result (\<lambda>mem. (mem, snd st @ [(ev, fst st)])) (eff ev (fst st))"

text \<open>A loop over the monitors: those of type \<open>t\<close> whose name is part of the path are told \<open>reported\<close>.\<close>

definition notify ::
  "effect \<Rightarrow> monitor list \<Rightarrow> linker_type \<Rightarrow> linker_type \<Rightarrow> string \<Rightarrow> addr \<Rightarrow> hook_state \<Rightarrow> hook_state result" where
  "notify eff ms t reported path so =
     fold_result (\<lambda>(name, type, callback, data) st.
       if type \<noteq> t \<or> name = [] then Inr st
       else if \<not> str_contains path name then Inr st
       else if callback \<noteq> 0 then run_call eff (MonitorCallback callback path reported so data) st
       else Inr st) ms"

text \<open>The start arguments, zero where the linker's variable was not found.\<close>

definition start_args :: "Linker \<Rightarrow> memory \<Rightarrow> (nat \<times> addr \<times> addr) result" where
  "start_args l mem =
     bind_result (if p_argc l = 0 then Inr 0 else read_le 4 mem (p_argc l)) (\<lambda>argc.
     bind_result (if p_argv l = 0 then Inr 0 else read_uintptr64 mem (p_argv l)) (\<lambda>argv.
     map_result (\<lambda>envp. (argc, argv, envp)) (if p_envp l = 0 then Inr 0 else read_uintptr64 mem (p_envp l))))"

definition call_functionT :: "effect \<Rightarrow> Linker \<Rightarrow> addr \<Rightarrow> hook_state \<Rightarrow> hook_state result" where
  "call_functionT eff l function st =
     (if function = 0 \<or> function = - 1 then Inr st
      else bind_result (start_args l (fst st)) (\<lambda>args. run_call eff (CallInit function args) st))"

definition call_function :: "effect \<Rightarrow> addr \<Rightarrow> hook_state \<Rightarrow> hook_state result" where
  "call_function eff function st =
     (if function = 0 \<or> function = - 1 then Inr st else run_call eff (CallInitArray function) st)"

text \<open>
  \<open>call_array\<close> forwards. The count is cut to an \<^verbatim>\<open>int\<close>; for a negative one the index would
  overflow before it reaches the end, which is an error value.
\<close>

fun call_array_from :: "effect \<Rightarrow> addr \<Rightarrow> nat \<Rightarrow> nat \<Rightarrow> hook_state \<Rightarrow> hook_state result" where
  "call_array_from eff functions i 0 st = Inr st"
| "call_array_from eff functions i (Suc n) st =
     bind_result (read_uintptr64 (fst st) (functions + of_nat (8 * i))) (\<lambda>f.
     bind_result (call_function eff f st) (call_array_from eff functions (Suc i) n))"

definition call_array :: "effect \<Rightarrow> addr \<Rightarrow> addr \<Rightarrow> hook_state \<Rightarrow> hook_state result" where
  "call_array eff functions count st =
     (if functions = 0 then Inr st
      else let n = unat count mod 2 ^ 32 in
        if n < 2 ^ 31 then call_array_from eff functions 0 n st else Inl OutOfRange)"

section \<open>The hooks\<close>

text \<open>The parts of the constructor hook behind the call of the original.\<close>

definition run_init_proc ::
  "linker_env \<Rightarrow> effect \<Rightarrow> monitor list \<Rightarrow> string \<Rightarrow> addr \<Rightarrow> addr \<Rightarrow> Library \<Rightarrow> Linker \<Rightarrow> hook_state \<Rightarrow> hook_state run" where
  "run_init_proc env eff ms path so orig_proc lib l st =
     bind_run
       (if orig_proc \<noteq> 0
        then bind_run (get_load_bias env (fst st) lib l) (\<lambda>_. Some (notify eff ms INIT_PROC INIT_PROC path so st))
        else Some (Inr st)) (\<lambda>st.
     bind_run (set_init_proc env (fst st) orig_proc lib l) (\<lambda>(mem, lib, l).
       let st = (mem, snd st) in
       if orig_proc \<noteq> 0
       then Some (bind_result (call_functionT eff l orig_proc st) (notify eff ms INIT_PROC_POST INIT_PROC_POST path so))
       else Some (Inr st)))"

definition run_init_array ::
  "linker_env \<Rightarrow> effect \<Rightarrow> monitor list \<Rightarrow> string \<Rightarrow> addr \<Rightarrow> addr \<Rightarrow> Library \<Rightarrow> Linker \<Rightarrow> hook_state \<Rightarrow> hook_state run" where
  "run_init_array env eff ms path so orig_count lib l st =
     (if orig_count > 0
      then bind_run (Some (notify eff ms INIT_ARRAY INIT_PROC_POST path so st)) (\<lambda>st.
           bind_run (get_init_array env (fst st) lib l) (\<lambda>(init_array_func, lib, l).
             Some (bind_result (call_array eff init_array_func orig_count st)
               (notify eff ms INIT_ARRAY_POST INIT_PROC_POST path so))))
      else Some (Inr st))"

definition call_constructors ::
  "linker_env \<Rightarrow> effect \<Rightarrow> monitor list \<Rightarrow> Linker \<Rightarrow> addr \<Rightarrow> hook_state \<Rightarrow> hook_state run" where
  "call_constructors env eff ms l so st =
     (if so = 0 then Some (run_call eff (OrigConstructors so) st)
      else if p_get_realpath l = 0 then Some (Inl NullDeref)
      else (case le_realpath env (fst st) so of
        None \<Rightarrow> Some (Inl NullDeref)
      | Some path \<Rightarrow>
          bind_run (is_ctor_called env (fst st) (Library_of_so_info path so) l) (\<lambda>(called, lib, l).
          if called then Some (run_call eff (OrigConstructors so) st)
          else
            bind_run (get_init_array_count env (fst st) lib l) (\<lambda>(orig_count, lib, l).
            bind_run (get_init_proc env (fst st) lib l) (\<lambda>(orig_proc, lib, l).
            bind_run (set_init_array_count env (fst st) 0 lib l) (\<lambda>(mem, lib, l).
            bind_run (set_init_proc env mem 0 lib l) (\<lambda>(mem, lib, l).
            bind_run (Some (run_call eff (OrigConstructors so) (mem, snd st))) (\<lambda>st.
            bind_run (run_init_proc env eff ms path so orig_proc lib l st) (\<lambda>st.
            bind_run (run_init_array env eff ms path so orig_count lib l st) (\<lambda>st.
            bind_run (set_init_array_count env (fst st) orig_count lib l) (\<lambda>(mem, lib, l).
              Some (Inr (mem, snd st)))))))))))))"

text \<open>\<open>do_dlopen\<close>: \<open>handle\<close> is what the original returns.\<close>

fun dlopen_post ::
  "linker_env \<Rightarrow> effect \<Rightarrow> string \<Rightarrow> monitor list \<Rightarrow> Linker \<times> hook_state \<Rightarrow> (Linker \<times> hook_state) run" where
  "dlopen_post env eff path [] s = Some (Inr s)"
| "dlopen_post env eff path ((name, type, callback, data) # ms) (l, st) =
     (if type \<noteq> DLOPEN_POST \<or> name = [] then dlopen_post env eff path ms (l, st)
      else if \<not> str_contains path name then dlopen_post env eff path ms (l, st)
      else bind_run (Linker_get_so_info env (fst st) path l) (\<lambda>(so, l).
           bind_run (if callback \<noteq> 0 then Some (run_call eff (MonitorCallback callback path DLOPEN_POST so data) st)
                     else Some (Inr st)) (\<lambda>st. dlopen_post env eff path ms (l, st))))"

definition do_dlopen ::
  "linker_env \<Rightarrow> effect \<Rightarrow> addr \<Rightarrow> monitor list \<Rightarrow> Linker \<Rightarrow> string option \<Rightarrow> hook_state
   \<Rightarrow> (addr \<times> Linker \<times> hook_state) run" where
  "do_dlopen env eff handle ms l path_o st =
     (case path_o of
        None \<Rightarrow> Some (map_result (\<lambda>st. (handle, l, st)) (run_call eff (OrigDlopen None) st))
      | Some path \<Rightarrow>
          bind_run (Some (notify eff ms DLOPEN DLOPEN path 0 st)) (\<lambda>st.
          bind_run (Some (run_call eff (OrigDlopen path_o) st)) (\<lambda>st.
          bind_run (dlopen_post env eff path ms (l, st)) (\<lambda>(l, st). Some (Inr (handle, l, st))))))"

section \<open>Lemmas\<close>

subsection \<open>Code that keeps a part of the memory\<close>

definition keeps :: "addr set \<Rightarrow> memory \<Rightarrow> memory \<Rightarrow> bool" where
  "keeps K mem mem' \<longleftrightarrow> (\<forall>a \<in> K. mem' a = mem a)"

definition tame :: "effect \<Rightarrow> addr set \<Rightarrow> bool" where
  "tame eff K \<longleftrightarrow> (\<forall>ev mem. \<exists>mem'. eff ev mem = Inr mem' \<and> keeps K mem mem')"

lemma keeps_trans: "keeps K mem mem' \<Longrightarrow> keeps K mem' mem'' \<Longrightarrow> keeps K mem mem''"
  by (simp add: keeps_def)

lemma keeps_subset: "keeps K mem mem' \<Longrightarrow> L \<subseteq> K \<Longrightarrow> keeps L mem mem'"
  by (auto simp: keeps_def)

text \<open>From one state to another the calls \<open>evs\<close> were made and the part \<open>K\<close> was kept.\<close>

definition ran :: "addr set \<Rightarrow> linker_event list \<Rightarrow> hook_state \<Rightarrow> hook_state \<Rightarrow> bool" where
  "ran K evs st st' \<longleftrightarrow> keeps K (fst st) (fst st') \<and> (\<exists>es. snd st' = snd st @ es \<and> map fst es = evs)"

lemma ran_refl: "ran K [] st st"
  by (simp add: ran_def keeps_def)

lemma ran_trans: "ran K es st st' \<Longrightarrow> ran K fs st' st'' \<Longrightarrow> ran K (es @ fs) st st''"
  by (fastforce simp: ran_def intro: keeps_trans)

lemma run_call_ran:
  assumes "tame eff K"
  obtains st' where "run_call eff ev st = Inr st'" "ran K [ev] st st'"
proof -
  obtain mem' where "eff ev (fst st) = Inr mem'" "keeps K (fst st) mem'"
    using assms by (auto simp: tame_def)
  then show ?thesis by (intro that [of "(mem', snd st @ [(ev, fst st)])"]) (simp_all add: run_call_def ran_def)
qed

definition callbacks :: "monitor list \<Rightarrow> linker_type \<Rightarrow> linker_type \<Rightarrow> string \<Rightarrow> addr \<Rightarrow> linker_event list" where
  "callbacks ms t reported path so =
     map (\<lambda>(name, type, callback, data). MonitorCallback callback path reported so data)
       (filter (\<lambda>(name, type, callback, data). type = t \<and> name \<noteq> [] \<and> str_contains path name \<and> callback \<noteq> 0) ms)"

lemma callbacks_Cons:
  "callbacks ((name, type, callback, data) # ms) t reported path so =
     (if type = t \<and> name \<noteq> [] \<and> str_contains path name \<and> callback \<noteq> 0
      then [MonitorCallback callback path reported so data] else []) @ callbacks ms t reported path so"
  by (simp add: callbacks_def)

lemma notify_Cons:
  "notify eff ((name, type, callback, data) # ms) t reported path so st =
     (if type = t \<and> name \<noteq> [] \<and> str_contains path name \<and> callback \<noteq> 0
      then bind_result (run_call eff (MonitorCallback callback path reported so data) st) (notify eff ms t reported path so)
      else notify eff ms t reported path so st)"
  by (simp add: notify_def)

lemma notify_ran:
  assumes "tame eff K"
  obtains st' where "notify eff ms t reported path so st = Inr st'" "ran K (callbacks ms t reported path so) st st'"
proof (induction ms arbitrary: st thesis)
  case Nil
  then show ?case by (simp add: notify_def callbacks_def ran_refl)
next
  case (Cons m ms)
  obtain name type callback data where m: "m = (name, type, callback, data)" by (cases m)
  show ?case
  proof (cases "type = t \<and> name \<noteq> [] \<and> str_contains path name \<and> callback \<noteq> 0")
    case True
    obtain st1 where st1: "run_call eff (MonitorCallback callback path reported so data) st = Inr st1"
      "ran K [MonitorCallback callback path reported so data] st st1" using run_call_ran [OF assms] .
    obtain st2 where "notify eff ms t reported path so st1 = Inr st2" "ran K (callbacks ms t reported path so) st1 st2"
      using Cons.IH .
    then show ?thesis using Cons.prems [of st2] st1 True ran_trans [OF st1(2)] by (simp add: m notify_Cons callbacks_Cons)
  next
    case False
    obtain st' where "notify eff ms t reported path so st = Inr st'" "ran K (callbacks ms t reported path so) st st'"
      using Cons.IH .
    then show ?thesis using Cons.prems [of st'] unfolding m notify_Cons callbacks_Cons if_not_P [OF False] by simp
  qed
qed

definition callable :: "addr \<Rightarrow> bool" where
  "callable f \<longleftrightarrow> f \<noteq> 0 \<and> f \<noteq> - 1"

lemma call_array_from_ran:
  assumes "tame eff K"
    and "\<And>k mem. k < length fs \<Longrightarrow> keeps K (fst st) mem \<Longrightarrow> read_uintptr64 mem (functions + of_nat (8 * (i + k))) = Inr (fs ! k)"
  obtains st' where "call_array_from eff functions i (length fs) st = Inr st'"
    "ran K (map CallInitArray (filter callable fs)) st st'"
  using assms(2)
proof (induction fs arbitrary: i st thesis)
  case Nil
  then show ?case by (simp add: ran_refl)
next
  case (Cons f fs)
  have f: "read_uintptr64 (fst st) (functions + of_nat (8 * i)) = Inr f"
    using Cons.prems(2) [of 0 "fst st"] by (simp add: keeps_def)
  obtain st1 where st1: "call_function eff f st = Inr st1" "ran K (if callable f then [CallInitArray f] else []) st st1"
  proof (cases "callable f")
    case True
    then show ?thesis using run_call_ran [OF assms(1), of "CallInitArray f" st] that by (auto simp: call_function_def callable_def)
  next
    case False
    then show ?thesis using that [of st] ran_refl [of K st] by (auto simp: call_function_def callable_def)
  qed
  obtain st2 where st2: "call_array_from eff functions (Suc i) (length fs) st1 = Inr st2"
    "ran K (map CallInitArray (filter callable fs)) st1 st2"
  proof (rule Cons.IH [of "Suc i" st1])
    fix k mem assume "k < length fs" "keeps K (fst st1) mem"
    then show "read_uintptr64 mem (functions + of_nat (8 * (Suc i + k))) = Inr (fs ! k)"
      using Cons.prems(2) [of "Suc k" mem] st1(2) by (auto simp: ran_def intro: keeps_trans)
  qed (rule that)
  show ?case
  proof (rule Cons.prems(1))
    show "call_array_from eff functions i (length (f # fs)) st = Inr st2" using f st1(1) st2(1) by simp
    show "ran K (map CallInitArray (filter callable (f # fs))) st st2"
      using ran_trans [OF st1(2) st2(2)] by (simp split: if_splits)
  qed
qed

subsection \<open>The structure of the library\<close>

text \<open>The bytes of the structure, and those that code keeps: all but the flag of the constructors.\<close>

definition soinfo_bytes :: "addr \<Rightarrow> addr set" where
  "soinfo_bytes so = {so + of_nat k | k. k < 264}"

definition soinfo_kept :: "addr \<Rightarrow> addr set" where
  "soinfo_kept so = {so + of_nat k | k. k < 264 \<and> k \<noteq> 248}"

definition soinfo_words :: "memory \<Rightarrow> addr \<Rightarrow> addr \<Rightarrow> addr \<Rightarrow> addr \<Rightarrow> addr \<Rightarrow> bool" where
  "soinfo_words mem so arr count proc bias \<longleftrightarrow>
     read_uintptr64 mem (so + of_nat 152) = Inr arr \<and> read_uintptr64 mem (so + of_nat 160) = Inr count
     \<and> read_uintptr64 mem (so + of_nat 184) = Inr proc \<and> read_uintptr64 mem (so + of_nat 256) = Inr bias"

lemma kept_word:
  assumes "keeps (J \<union> soinfo_kept so) mem mem'" and "i + 8 \<le> 248 \<or> i = 256"
  shows "read_uintptr64 mem' (so + of_nat i) = read_uintptr64 mem (so + of_nat i)"
proof -
  have "read_le 8 mem' (so + of_nat i) = read_le 8 mem (so + of_nat i)"
  proof (rule read_le_cong)
    fix k :: nat assume "k < 8"
    then have "so + of_nat (i + k) \<in> soinfo_kept so" using assms(2) unfolding soinfo_kept_def by fastforce
    then show "mem' (so + of_nat i + of_nat k) = mem (so + of_nat i + of_nat k)"
      using assms(1) by (simp add: keeps_def add.assoc)
  qed
  then show ?thesis by (simp add: read_uintptr64_def)
qed

lemma soinfo_words_kept:
  "keeps (J \<union> soinfo_kept so) mem mem' \<Longrightarrow> soinfo_words mem so arr count proc bias \<Longrightarrow> soinfo_words mem' so arr count proc bias"
  using kept_word [of J so mem mem' 152] kept_word [of J so mem mem' 160] kept_word [of J so mem mem' 184]
    kept_word [of J so mem mem' 256]
  by (simp add: soinfo_words_def)

lemma differs_keeps:
  assumes "differs_at mem mem' (so + of_nat i)" and "i + 8 \<le> 264" and "J \<inter> soinfo_bytes so = {}"
  shows "keeps J mem mem'"
  unfolding keeps_def
proof
  fix a assume "a \<in> J"
  have "\<not> unat (a - (so + of_nat i)) < 8"
  proof
    assume "unat (a - (so + of_nat i)) < 8"
    moreover have "a = so + of_nat (i + unat (a - (so + of_nat i)))" by simp
    ultimately have "a \<in> soinfo_bytes so" using assms(2) unfolding soinfo_bytes_def by fastforce
    with \<open>a \<in> J\<close> assms(3) show False by blast
  qed
  then show "mem' a = mem a" using assms(1) by (simp add: differs_at_def)
qed

text \<open>The two setters on the words of the structure, by the laws of words in memory.\<close>

lemma soinfo_words_holds:
  "soinfo_words mem so arr count proc bias \<longleftrightarrow>
   words.holds (\<lambda>k. so + of_nat k) {152, 160, 184, 256} ((\<lambda>_. bias)(152 := arr, 160 := count, 184 := proc)) mem"
  by (auto simp: soinfo_words_def words.holds_def)

lemma set_words:
  assumes "soinfo_struct (api_level env) = Some s" and "lb_so_info lib = so" and "so \<noteq> 0"
    and "soinfo_words mem so arr count proc bias" and "J \<inter> soinfo_bytes so = {}"
  obtains m1 m2 where "set_init_array_count env mem c lib l = Some (Inr (m1, lib, l))"
    "soinfo_words m1 so arr c proc bias" "keeps J mem m1"
    "set_init_proc env mem p lib l = Some (Inr (m2, lib, l))"
    "soinfo_words m2 so arr count p bias" "keeps J mem m2"
proof -
  let ?slot = "\<lambda>k. so + of_nat k :: addr" and ?F = "{152, 160, 184, 256} :: nat set"
  note known = soinfo_offsets [OF assms(1)] assms(1-3) Library_get_so_info_def
  note holds = assms(4) [unfolded soinfo_words_holds]
  have apart: "words_apart (?slot i) (?slot j)" if "i \<in> ?F" "j \<in> ?F" "j \<noteq> i" for i j
    using that by (intro slots_apart) auto
  have field: "\<exists>m'. write_uintptr64 mem (?slot k) v = Inr m' \<and> words.holds ?slot ?F
      (((\<lambda>_. bias)(152 := arr, 160 := count, 184 := proc))(k := v)) m'" if "k \<in> ?F" for k v
    using words.write_field [OF holds that apart [OF that], of v] by blast
  obtain m1 where m1: "write_uintptr64 mem (?slot 160) c = Inr m1" "soinfo_words m1 so arr c proc bias"
    using field [of 160 c] by (auto simp: soinfo_words_holds fun_upd_twist)
  obtain m2 where m2: "write_uintptr64 mem (?slot 184) p = Inr m2" "soinfo_words m2 so arr count p bias"
    using field [of 184 p] by (auto simp: soinfo_words_holds)
  have r: "read_uintptr64 mem (?slot 160) = Inr count" "read_uintptr64 mem (?slot 184) = Inr proc"
    using assms(4) by (simp_all add: soinfo_words_def)
  show ?thesis
  proof (rule that)
    show "set_init_array_count env mem c lib l = Some (Inr (m1, lib, l))"
      "set_init_proc env mem p lib l = Some (Inr (m2, lib, l))"
      using m1(1) m2(1) by (simp_all add: set_init_array_count_def set_init_proc_def write_soinfo_def known)
    show "keeps J mem m1" "keeps J mem m2"
      using differs_keeps [OF written_word_differs [OF r(1) m1(1)] _ assms(5)]
        differs_keeps [OF written_word_differs [OF r(2) m2(1)] _ assms(5)] by simp_all
  qed (fact m1(2) m2(2))+
qed

lemma get_words:
  assumes "soinfo_struct (api_level env) = Some s" and "lb_so_info lib = so" and "so \<noteq> 0"
    and "soinfo_words mem so arr count proc bias"
  shows "get_init_array_count env mem lib l = Some (Inr (count, lib, l))"
    "get_init_proc env mem lib l = Some (Inr (proc, lib, l))"
    "get_init_array env mem lib l = Some (Inr (arr, lib, l))"
    "lb_handler lib = 0 \<Longrightarrow> get_load_bias env mem lib l = Some (Inr (bias, lib, l))"
  using assms(4)
  by (simp_all add: accessor_defs soinfo_offsets [OF assms(1)] assms(1-3) Library_get_so_info_def soinfo_words_def)

subsection \<open>The two phases\<close>

lemma ran_subset: "ran K evs st st' \<Longrightarrow> L \<subseteq> K \<Longrightarrow> ran L evs st st'"
  by (auto simp: ran_def intro: keeps_subset)

lemma ran_write: "keeps J (fst st) mem \<Longrightarrow> ran J [] st (mem, snd st)"
  by (simp add: ran_def)

definition init_proc_events ::
  "monitor list \<Rightarrow> string \<Rightarrow> addr \<Rightarrow> addr \<Rightarrow> nat \<times> addr \<times> addr \<Rightarrow> linker_event list" where
  "init_proc_events ms path so proc sargs =
     (if proc = 0 then []
      else callbacks ms INIT_PROC INIT_PROC path so @ (if callable proc then [CallInit proc sargs] else [])
        @ callbacks ms INIT_PROC_POST INIT_PROC_POST path so)"

definition init_array_events :: "monitor list \<Rightarrow> string \<Rightarrow> addr \<Rightarrow> addr list \<Rightarrow> linker_event list" where
  "init_array_events ms path so fs =
     (if fs = [] then []
      else callbacks ms INIT_ARRAY INIT_PROC_POST path so @ map CallInitArray (filter callable fs)
        @ callbacks ms INIT_ARRAY_POST INIT_PROC_POST path so)"

lemma call_functionT_ran:
  assumes "tame eff K" and "start_args l (fst st) = Inr sargs"
  obtains st' where "call_functionT eff l f st = Inr st'" "ran K (if callable f then [CallInit f sargs] else []) st st'"
proof (cases "callable f")
  case True
  then show ?thesis
    using run_call_ran [OF assms(1), of "CallInit f sargs" st] that assms(2) by (auto simp: call_functionT_def callable_def)
next
  case False
  then show ?thesis using that [of st] ran_refl [of K st] by (auto simp: call_functionT_def callable_def)
qed

lemma run_init_proc_ran:
  assumes "tame eff (J \<union> soinfo_kept so)" and "soinfo_struct (api_level env) = Some s"
    and "lib = Library_of_so_info path so" and "so \<noteq> 0" and "J \<inter> soinfo_bytes so = {}"
    and words: "soinfo_words (fst st) so arr count w bias"
    and sargs: "\<And>mem. keeps J (fst st) mem \<Longrightarrow> start_args l mem = Inr sargs"
  obtains st' where "run_init_proc env eff ms path so proc lib l st = Some (Inr st')"
    "ran J (init_proc_events ms path so proc sargs) st st'" "soinfo_words (fst st') so arr count proc bias"
proof -
  let ?K = "J \<union> soinfo_kept so"
  have lib: "lb_so_info lib = so" "lb_handler lib = 0" by (simp_all add: assms(3) Library_of_so_info_def)
  obtain st1 where st1: "(if proc \<noteq> 0 then notify eff ms INIT_PROC INIT_PROC path so st else Inr st) = Inr st1"
    "ran ?K (if proc \<noteq> 0 then callbacks ms INIT_PROC INIT_PROC path so else []) st st1"
  proof (cases "proc = 0")
    case True
    then show ?thesis using that [of st] ran_refl [of ?K st] by simp
  next
    case False
    then show ?thesis using notify_ran [OF assms(1), of ms INIT_PROC INIT_PROC path so st] that by auto
  qed
  have words1: "soinfo_words (fst st1) so arr count w bias"
    using st1(2) soinfo_words_kept [OF _ words] by (auto simp: ran_def)
  obtain mem where mem: "set_init_proc env (fst st1) proc lib l = Some (Inr (mem, lib, l))"
    "soinfo_words mem so arr count proc bias" "keeps J (fst st1) mem"
    using set_words [OF assms(2) lib(1) assms(4) words1 assms(5)] by metis
  note ran1 = ran_trans [OF ran_subset [OF st1(2)] ran_write [OF mem(3)]]
  have run: "run_init_proc env eff ms path so proc lib l st =
    (if proc \<noteq> 0 then Some (bind_result (call_functionT eff l proc (mem, snd st1)) (notify eff ms INIT_PROC_POST INIT_PROC_POST path so))
     else Some (Inr (mem, snd st1)))"
    using st1(1) mem(1) get_words(4) [OF assms(2) lib(1) assms(4) words lib(2), of l]
    by (cases "proc = 0") (simp_all add: run_init_proc_def)
  show ?thesis
  proof (cases "proc = 0")
    case True
    then show ?thesis using that [of "(mem, snd st1)"] run mem(2) ran1 by (simp add: init_proc_events_def)
  next
    case False
    have "start_args l (fst (mem, snd st1)) = Inr sargs" using ran1 by (intro sargs) (simp add: ran_def)
    then obtain st2 where st2: "call_functionT eff l proc (mem, snd st1) = Inr st2"
      "ran ?K (if callable proc then [CallInit proc sargs] else []) (mem, snd st1) st2"
      using call_functionT_ran [OF assms(1)] by metis
    obtain st3 where st3: "notify eff ms INIT_PROC_POST INIT_PROC_POST path so st2 = Inr st3"
      "ran ?K (callbacks ms INIT_PROC_POST INIT_PROC_POST path so) st2 st3" using notify_ran [OF assms(1)] .
    note ran23 = ran_trans [OF st2(2) st3(2)]
    show ?thesis
    proof (rule that)
      show "run_init_proc env eff ms path so proc lib l st = Some (Inr st3)" using run False st2(1) st3(1) by simp
      show "ran J (init_proc_events ms path so proc sargs) st st3"
        using ran_trans [OF ran1 ran_subset [OF ran23]] False by (auto simp: init_proc_events_def split: if_splits)
      show "soinfo_words (fst st3) so arr count proc bias"
        using ran23 soinfo_words_kept [OF _ mem(2)] by (auto simp: ran_def)
    qed
  qed
qed

lemma run_init_array_ran:
  assumes "tame eff (J \<union> soinfo_kept so)" and "soinfo_struct (api_level env) = Some s"
    and "lib = Library_of_so_info path so" and "so \<noteq> 0"
    and words: "soinfo_words (fst st) so arr w proc bias"
    and "unat count = length fs" and "length fs < 2 ^ 31" and "fs \<noteq> [] \<longrightarrow> arr \<noteq> 0"
    and arr: "\<And>k mem. k < length fs \<Longrightarrow> keeps J (fst st) mem \<Longrightarrow> read_uintptr64 mem (arr + of_nat (8 * k)) = Inr (fs ! k)"
  obtains st' where "run_init_array env eff ms path so count lib l st = Some (Inr st')"
    "ran (J \<union> soinfo_kept so) (init_array_events ms path so fs) st st'"
proof (cases "fs = []")
  case True
  then have "count = 0" using assms(6) by (simp add: unat_eq_0)
  then show ?thesis using that [of st] ran_refl True by (simp add: run_init_array_def init_array_events_def)
next
  case False
  let ?K = "J \<union> soinfo_kept so"
  have lib: "lb_so_info lib = so" by (simp add: assms(3) Library_of_so_info_def)
  have count: "0 < count" using False assms(6) by (auto simp: word_gt_0)
  obtain st1 where st1: "notify eff ms INIT_ARRAY INIT_PROC_POST path so st = Inr st1"
    "ran ?K (callbacks ms INIT_ARRAY INIT_PROC_POST path so) st st1" using notify_ran [OF assms(1)] .
  have words1: "soinfo_words (fst st1) so arr w proc bias"
    using st1(2) soinfo_words_kept [OF _ words] by (auto simp: ran_def)
  have arr1: "read_uintptr64 mem (arr + of_nat (8 * (0 + k))) = Inr (fs ! k)" if "k < length fs" "keeps ?K (fst st1) mem" for k mem
    using arr [OF that(1), of mem] that(2) st1(2) by (auto simp: ran_def keeps_def)
  obtain st2 where st2: "call_array_from eff arr 0 (length fs) st1 = Inr st2"
    "ran ?K (map CallInitArray (filter callable fs)) st1 st2" using call_array_from_ran [OF assms(1) arr1] .
  have call: "call_array eff arr count st1 = Inr st2"
    using st2(1) False assms(6-8) by (simp add: call_array_def Let_def)
  obtain st3 where st3: "notify eff ms INIT_ARRAY_POST INIT_PROC_POST path so st2 = Inr st3"
    "ran ?K (callbacks ms INIT_ARRAY_POST INIT_PROC_POST path so) st2 st3" using notify_ran [OF assms(1)] .
  show ?thesis
  proof (rule that)
    show "run_init_array env eff ms path so count lib l st = Some (Inr st3)"
      using count st1(1) call st3(1) get_words(3) [OF assms(2) lib assms(4) words1, of l] by (simp add: run_init_array_def)
    show "ran ?K (init_array_events ms path so fs) st st3"
      using ran_trans [OF st1(2) ran_trans [OF st2(2) st3(2)]] False by (simp add: init_array_events_def)
  qed
qed

section \<open>Properties\<close>

text \<open>
  C9: the constructors of a library run once and in order under the hook. Let the code that
  is called keep the structure of the library (but for the flag that the constructors ran),
  its array and the start arguments. Then the original \<^verbatim>\<open>call_constructors\<close> finds no
  constructor in the structure; after it the function of \<^verbatim>\<open>DT_INIT\<close> runs between the callbacks
  for it, and then every function of \<^verbatim>\<open>DT_INIT_ARRAY\<close> that is neither null nor minus one, in
  order, between the callbacks for the array. In the end the structure has the constructors
  that it had. The callbacks for the array are told the type \<open>INIT_PROC_POST\<close>.
\<close>

theorem constructors_once:
  assumes "soinfo_struct (api_level env) = Some s" and "so \<noteq> 0" and "p_get_realpath l \<noteq> 0"
    and "le_realpath env mem so = Some path" and "read_le 1 mem (so + 248) = Inr 0"
    and "soinfo_words mem so arr count proc bias"
    and "unat count = length fs" and "length fs < 2 ^ 31" and "fs \<noteq> [] \<longrightarrow> arr \<noteq> 0"
    and "J \<inter> soinfo_bytes so = {}" and "tame eff (J \<union> soinfo_kept so)"
    and "\<And>k mem'. k < length fs \<Longrightarrow> keeps J mem mem' \<Longrightarrow> read_uintptr64 mem' (arr + of_nat (8 * k)) = Inr (fs ! k)"
    and "\<And>mem'. keeps J mem mem' \<Longrightarrow> start_args l mem' = Inr sargs"
  shows "\<exists>mem' log. call_constructors env eff ms l so (mem, []) = Some (Inr (mem', log))
    \<and> map fst log = OrigConstructors so # init_proc_events ms path so proc sargs @ init_array_events ms path so fs
    \<and> soinfo_words (snd (hd log)) so arr 0 0 bias \<and> soinfo_words mem' so arr count proc bias"
proof -
  let ?K = "J \<union> soinfo_kept so" and ?lib = "Library_of_so_info path so"
  have lib: "lb_so_info ?lib = so" by (simp add: Library_of_so_info_def)
  have ctor: "is_ctor_called env mem ?lib l = Some (Inr (False, ?lib, l))"
    using assms(1,2,5) by (simp add: is_ctor_called_def Library_get_so_info_def lib soinfo_offsets [OF assms(1)])
  obtain m1 where m1: "set_init_array_count env mem 0 ?lib l = Some (Inr (m1, ?lib, l))"
    "soinfo_words m1 so arr 0 proc bias" "keeps J mem m1"
    using set_words [OF assms(1) lib assms(2,6,10)] by metis
  obtain m2 where m2: "set_init_proc env m1 0 ?lib l = Some (Inr (m2, ?lib, l))"
    "soinfo_words m2 so arr 0 0 bias" "keeps J m1 m2"
    using set_words [OF assms(1) lib assms(2) m1(2) assms(10)] by metis
  obtain m3 where m3: "eff (OrigConstructors so) m2 = Inr m3" "keeps ?K m2 m3" using assms(11) by (auto simp: tame_def)
  let ?st3 = "(m3, [(OrigConstructors so, m2)])"
  have orig: "run_call eff (OrigConstructors so) (m2, []) = Inr ?st3" using m3(1) by (simp add: run_call_def)
  have J3: "keeps J mem m3" using m1(3) m2(3) m3(2) by (auto simp: keeps_def)
  have words3: "soinfo_words (fst ?st3) so arr 0 0 bias" using soinfo_words_kept [OF m3(2) m2(2)] by simp
  obtain st4 where st4: "run_init_proc env eff ms path so proc ?lib l ?st3 = Some (Inr st4)"
    "ran J (init_proc_events ms path so proc sargs) ?st3 st4" "soinfo_words (fst st4) so arr 0 proc bias"
    using run_init_proc_ran [where path = path and proc = proc and ms = ms and l = l and sargs = sargs,
      OF assms(11,1) refl assms(2,10) words3] assms(13) keeps_trans [OF J3] by auto
  have J4: "keeps J mem (fst st4)" using J3 st4(2) by (auto simp: ran_def intro: keeps_trans)
  obtain st5 where st5: "run_init_array env eff ms path so count ?lib l st4 = Some (Inr st5)"
    "ran ?K (init_array_events ms path so fs) st4 st5"
    using run_init_array_ran [where path = path and ms = ms and l = l, OF assms(11,1) refl assms(2) st4(3) assms(7-9)]
      assms(12) keeps_trans [OF J4] by metis
  have words5: "soinfo_words (fst st5) so arr 0 proc bias" using st5(2) soinfo_words_kept [OF _ st4(3)] by (auto simp: ran_def)
  obtain m6 where m6: "set_init_array_count env (fst st5) count ?lib l = Some (Inr (m6, ?lib, l))"
    "soinfo_words m6 so arr count proc bias"
    using set_words [OF assms(1) lib assms(2) words5 assms(10)] by metis
  have "call_constructors env eff ms l so (mem, []) = Some (Inr (m6, snd st5))"
    using assms(2-4) get_words(1,2) [OF assms(1) lib assms(2,6), of l] ctor m1(1) m2(1) orig st4(1) st5(1) m6(1)
    by (simp add: call_constructors_def)
  moreover obtain es where "snd st5 = (OrigConstructors so, m2) # es"
    "map fst es = init_proc_events ms path so proc sargs @ init_array_events ms path so fs"
    using ran_trans [OF st4(2) ran_subset [OF st5(2)]] by (auto simp: ran_def)
  ultimately show ?thesis using m2(2) m6(2) by auto
qed

text \<open>A library with one function in \<^verbatim>\<open>DT_INIT\<close>, and a function and a null pointer in the array.\<close>

definition demo_soinfo_memory :: memory where
  "demo_soinfo_memory a =
     (if a = 0x5099 then Some 0x80 else if a = 0x50a0 then Some 2 else if a = 0x50b9 then Some 0x70
      else if a = 0x8001 then Some 0x71 else Some 0)"

definition demo_hook_env :: linker_env where
  "demo_hook_env = demo_linker_env\<lparr>le_realpath := (\<lambda>_ _. Some ''/data/libdemo.so'')\<rparr>"

definition demo_monitors :: "monitor list" where
  "demo_monitors = [(''libdemo'', INIT_ARRAY, 0x900, 1), (''libc'', INIT_PROC, 0x901, 2), (''demo'', INIT_PROC, 0x902, 3)]"

lemma demo_array_kept:
  assumes "keeps {0x8000 ..< 0x8010} demo_soinfo_memory mem" and "k < 2"
  shows "read_uintptr64 mem (0x8000 + of_nat (8 * k)) = Inr ([0x7100, 0] ! k)"
proof -
  have "read_le 8 mem (0x8000 + of_nat (8 * k)) = read_le 8 demo_soinfo_memory (0x8000 + of_nat (8 * k))"
  proof (rule read_le_cong)
    fix j :: nat assume "j < 8"
    then have small: "8 * k + j < 16" using assms(2) by simp
    then have "unat (of_nat (8 * k + j) :: addr) = 8 * k + j" by (intro unat_of_nat_small) simp
    with small have "unat (of_nat (8 * k + j) :: addr) < 16" by simp
    then have "(of_nat (8 * k + j) :: addr) < 0x10" by (simp add: word_less_nat_alt)
    then have "(0x8000 + of_nat (8 * k + j) :: addr) \<in> {0x8000 ..< 0x8010}"
      by (auto simp: word_le_nat_alt word_less_nat_alt unat_word_ariths)
    then show "mem (0x8000 + of_nat (8 * k) + of_nat j) = demo_soinfo_memory (0x8000 + of_nat (8 * k) + of_nat j)"
      using assms(1) by (auto simp: keeps_def add.assoc)
  qed
  moreover have "read_uintptr64 demo_soinfo_memory 0x8000 = Inr 0x7100" "read_uintptr64 demo_soinfo_memory 0x8008 = Inr 0"
    unfolding read_word_bytes by (simp_all add: demo_soinfo_memory_def)
  ultimately show ?thesis using assms(2) by (cases k) (auto simp: read_uintptr64_def)
qed

lemma demo_array_apart: "{0x8000 ..< 0x8010} \<inter> soinfo_bytes 0x5000 = {}"
proof -
  have "\<not> 0x8000 \<le> (0x5000 + of_nat k :: addr)" if "k < 264" for k
    using that by (simp add: word_le_nat_alt unat_word_ariths unat_of_nat_small)
  then show ?thesis by (auto simp: soinfo_bytes_def)
qed

theorem constructors_once_witness:
  "\<exists>mem' log. call_constructors demo_hook_env (\<lambda>_. Inr) demo_monitors (no_linker\<lparr>p_get_realpath := 1\<rparr>) 0x5000
      (demo_soinfo_memory, []) = Some (Inr (mem', log))
    \<and> map fst log = [OrigConstructors 0x5000, MonitorCallback 0x902 ''/data/libdemo.so'' INIT_PROC 0x5000 3,
        CallInit 0x7000 (0, 0, 0), MonitorCallback 0x900 ''/data/libdemo.so'' INIT_PROC_POST 0x5000 1, CallInitArray 0x7100]
    \<and> soinfo_words (snd (hd log)) 0x5000 0x8000 0 0 0 \<and> soinfo_words mem' 0x5000 0x8000 2 0x7000 0"
proof -
  have "read_uintptr64 demo_soinfo_memory 0x5098 = Inr 0x8000" "read_uintptr64 demo_soinfo_memory 0x50a0 = Inr 2"
    "read_uintptr64 demo_soinfo_memory 0x50b8 = Inr 0x7000" "read_uintptr64 demo_soinfo_memory 0x5100 = Inr 0"
    unfolding read_word_bytes by (simp_all add: demo_soinfo_memory_def)
  then have words: "soinfo_words demo_soinfo_memory 0x5000 0x8000 2 0x7000 0"
    "read_le 1 demo_soinfo_memory (0x5000 + 248) = Inr 0"
    by (simp_all add: soinfo_words_def demo_soinfo_memory_def)
  have "init_proc_events demo_monitors ''/data/libdemo.so'' 0x5000 0x7000 (0, 0, 0) =
      [MonitorCallback 0x902 ''/data/libdemo.so'' INIT_PROC 0x5000 3, CallInit 0x7000 (0, 0, 0)]"
    "init_array_events demo_monitors ''/data/libdemo.so'' 0x5000 [0x7100, 0] =
      [MonitorCallback 0x900 ''/data/libdemo.so'' INIT_PROC_POST 0x5000 1, CallInitArray 0x7100]"
    by (simp_all add: init_proc_events_def init_array_events_def callbacks_def demo_monitors_def callable_def str_contains_def)
  moreover have "start_args (no_linker\<lparr>p_get_realpath := 1\<rparr>) mem = Inr (0, 0, 0)" for mem
    by (simp add: start_args_def no_linker_def)
  moreover have "tame (\<lambda>_. Inr) K" for K by (simp add: tame_def keeps_def)
  moreover have "soinfo_struct (api_level demo_hook_env) = Some soinfo_13"
    by (simp add: demo_hook_env_def demo_linker_env_def soinfo_struct_def)
  moreover have "le_realpath demo_hook_env demo_soinfo_memory 0x5000 = Some ''/data/libdemo.so''"
    by (simp add: demo_hook_env_def)
  ultimately show ?thesis
    using constructors_once [of demo_hook_env soinfo_13 "0x5000" "no_linker\<lparr>p_get_realpath := 1\<rparr>" demo_soinfo_memory
        "''/data/libdemo.so''" "0x8000" 2 "0x7000" 0 "[0x7100, 0]" "{0x8000 ..< 0x8010}" "\<lambda>_. Inr" "(0, 0, 0)" demo_monitors]
      words demo_array_apart demo_array_kept by simp
qed

text \<open>
  The hook is transparent where it does not know the library: for a null structure, for
  a library whose constructors ran, and on every level without a known structure, the
  original is called on the memory as it is and nothing else happens. So on such a level no
  monitor of constructors is ever told anything. A linker without the function for paths makes
  the hook call a null pointer.
\<close>

theorem constructors_transparent:
  assumes "so = 0 \<or> (p_get_realpath l \<noteq> 0 \<and> le_realpath env (fst st) so = Some path
      \<and> (soinfo_struct (api_level env) = None
         \<or> (\<exists>s v. soinfo_struct (api_level env) = Some s \<and> read_le 1 (fst st) (so + 248) = Inr v \<and> v \<noteq> 0)))"
  shows "call_constructors env eff ms l so st = Some (run_call eff (OrigConstructors so) st)
    \<and> (so' \<noteq> 0 \<longrightarrow> call_constructors env eff ms (l\<lparr>p_get_realpath := 0\<rparr>) so' st = Some (Inl NullDeref))"
proof (cases "so = 0")
  case True
  then show ?thesis by (simp add: call_constructors_def)
next
  case False
  have lib: "lb_so_info (Library_of_so_info path so) = so" by (simp add: Library_of_so_info_def)
  have "call_constructors env eff ms l so st = Some (run_call eff (OrigConstructors so) st)"
  proof (cases "soinfo_struct (api_level env)")
    case None
    then show ?thesis
      using False assms
      by (cases "run_call eff (OrigConstructors so) st")
        (simp_all add: call_constructors_def accessor_defs Library_get_so_info_def lib run_init_proc_def run_init_array_def)
  next
    case (Some s)
    then show ?thesis
      using False assms
      by (auto simp: call_constructors_def is_ctor_called_def Library_get_so_info_def lib soinfo_offsets [OF Some])
  qed
  then show ?thesis by (simp add: call_constructors_def)
qed

theorem constructors_transparent_witness:
  "call_constructors (demo_hook_env\<lparr>api_level := 32\<rparr>) (\<lambda>_. Inr) demo_monitors (no_linker\<lparr>p_get_realpath := 1\<rparr>) 0x5000
      (demo_soinfo_memory, []) = Some (Inr (demo_soinfo_memory, [(OrigConstructors 0x5000, demo_soinfo_memory)]))"
  using constructors_transparent [where so = "0x5000" and l = "no_linker\<lparr>p_get_realpath := 1\<rparr>"
      and env = "demo_hook_env\<lparr>api_level := 32\<rparr>" and st = "(demo_soinfo_memory, [])"
      and path = "''/data/libdemo.so''" and eff = "\<lambda>_. Inr" and ms = demo_monitors]
  by (simp add: demo_hook_env_def soinfo_struct_def run_call_def)

definition dlopen_type :: "linker_type \<Rightarrow> bool" where
  "dlopen_type t \<longleftrightarrow> t = DLOPEN \<or> t = DLOPEN_POST"

definition no_monitors :: monitors where
  "no_monitors = \<lparr>monitor_list = [], dl_hooked = False, linker_hooked = False\<rparr>"

lemma add_library_monitor_fields:
  "monitor_list (snd (add_library_monitor env l x m)) = monitor_list m @ [x]"
  "dl_hooked (snd (add_library_monitor env l x m)) \<longleftrightarrow> dl_hooked m \<or> (dlopen_type (fst (snd x)) \<and> 29 \<le> api_level env
     \<and> xdl_dsym env (lk_handler l) ''__dl__Z9do_dlopenPKciPK17android_dlextinfoPKv'' \<noteq> 0)"
  "linker_hooked (snd (add_library_monitor env l x m)) \<longleftrightarrow> linker_hooked m \<or> (\<not> dlopen_type (fst (snd x))
     \<and> 29 \<le> api_level env \<and> xdl_dsym env (lk_handler l) ''__dl__ZN6soinfo17call_constructorsEv'' \<noteq> 0)"
  by (cases "fst (snd x)"; auto simp: add_library_monitor_def Let_def init_dlopen_hook_def init_linker_hook_def dlopen_type_def)+

text \<open>
  A hook is installed once: a step sets its flag when it needs the hook and the hook is
  available, and no step clears it. Both hooks follow this contract.
\<close>

locale install_once =
  fixes step :: "'x \<Rightarrow> 'm \<Rightarrow> 'm"
    and installed :: "'m \<Rightarrow> bool"
    and needs :: "'x \<Rightarrow> bool"
    and available :: bool
  assumes step_installed: "installed (step x m) \<longleftrightarrow> installed m \<or> (needs x \<and> available)"
begin

lemma run_installed: "installed (fold step xs m) \<longleftrightarrow> installed m \<or> ((\<exists>x \<in> set xs. needs x) \<and> available)"
  by (induction xs arbitrary: m) (auto simp: step_installed)

end

interpretation dlopen_hook: install_once "\<lambda>x m. snd (add_library_monitor env l x m)" dl_hooked "\<lambda>x. dlopen_type (fst (snd x))"
  "29 \<le> api_level env \<and> xdl_dsym env (lk_handler l) ''__dl__Z9do_dlopenPKciPK17android_dlextinfoPKv'' \<noteq> 0"
  by unfold_locales (rule add_library_monitor_fields(2))

interpretation constructor_hook: install_once "\<lambda>x m. snd (add_library_monitor env l x m)" linker_hooked "\<lambda>x. \<not> dlopen_type (fst (snd x))"
  "29 \<le> api_level env \<and> xdl_dsym env (lk_handler l) ''__dl__ZN6soinfo17call_constructorsEv'' \<noteq> 0"
  by unfold_locales (rule add_library_monitor_fields(3))

lemma monitor_list_run: "monitor_list (fold (\<lambda>x m. snd (add_library_monitor env l x m)) xs m) = monitor_list m @ xs"
  by (induction xs arbitrary: m) (simp_all add: add_library_monitor_fields(1))

lemmas monitor_run = monitor_list_run dlopen_hook.run_installed constructor_hook.run_installed

lemma add_library_monitor_answer:
  "fst (add_library_monitor env l x m) \<longleftrightarrow>
   dl_hooked (snd (add_library_monitor env l x m)) \<and> linker_hooked (snd (add_library_monitor env l x m))"
  by (simp add: add_library_monitor_def Let_def)

text \<open>
  Monitors are kept in the order of their registration, each hook is installed by the
  first monitor that needs it, on level 29 or above and when its symbol is found, and the
  answer of a registration is whether both hooks are there. So a program that registers
  monitors of one kind only is always told false, whether its monitors work or not.
\<close>

theorem monitor_history:
  assumes "m' = fold (\<lambda>x m. snd (add_library_monitor env l x m)) xs no_monitors"
  shows "monitor_list m' = xs
    \<and> (dl_hooked m' \<longleftrightarrow> (\<exists>x \<in> set xs. dlopen_type (fst (snd x))) \<and> 29 \<le> api_level env
        \<and> xdl_dsym env (lk_handler l) ''__dl__Z9do_dlopenPKciPK17android_dlextinfoPKv'' \<noteq> 0)
    \<and> (linker_hooked m' \<longleftrightarrow> (\<exists>x \<in> set xs. \<not> dlopen_type (fst (snd x))) \<and> 29 \<le> api_level env
        \<and> xdl_dsym env (lk_handler l) ''__dl__ZN6soinfo17call_constructorsEv'' \<noteq> 0)
    \<and> (fst (add_library_monitor env l y m') \<longrightarrow>
        (\<exists>x \<in> set (xs @ [y]). dlopen_type (fst (snd x))) \<and> (\<exists>x \<in> set (xs @ [y]). \<not> dlopen_type (fst (snd x))))"
proof -
  let ?m = "snd (add_library_monitor env l y m')"
  note run = monitor_run [of env l xs no_monitors, folded assms] monitor_run [of env l "xs @ [y]" no_monitors]
  have after: "fold (\<lambda>x m. snd (add_library_monitor env l x m)) (xs @ [y]) no_monitors = ?m" by (simp add: assms)
  have none: "monitor_list no_monitors = []" "dl_hooked no_monitors = False" "linker_hooked no_monitors = False"
    by (simp_all add: no_monitors_def)
  show ?thesis
    using run unfolding after none add_library_monitor_answer append_Nil by blast
qed

theorem monitor_history_witness:
  "monitor_list (snd (add_library_monitor demo_list_env no_linker (''libapp'', DLOPEN, 0x900, 0) no_monitors))
     = [(''libapp'', DLOPEN, 0x900, 0)]
   \<and> dl_hooked (snd (add_library_monitor demo_list_env no_linker (''libapp'', DLOPEN, 0x900, 0) no_monitors))
   \<and> \<not> fst (add_library_monitor demo_list_env no_linker (''libapp'', DLOPEN_POST, 0x900, 0)
       (snd (add_library_monitor demo_list_env no_linker (''libapp'', DLOPEN, 0x900, 0) no_monitors)))"
  using monitor_history [where xs = "[(''libapp'', DLOPEN, 0x900, 0)]" and env = demo_list_env and l = no_linker
      and y = "(''libapp'', DLOPEN_POST, 0x900, 0)", OF refl]
  by (simp add: demo_list_env_def dlopen_type_def)

end
