(* ===== verification/Dlopen_Order.thy ===== *)
theory Dlopen_Order
  imports Linker_Hook
begin

text \<open>
  The hook of \<^verbatim>\<open>do_dlopen\<close> together with the search in the list of the linker: which callbacks
  it makes, in which order, and what the callbacks after the loading are told.
\<close>

section \<open>The list after the loading\<close>

text \<open>In this memory the list of the linker ends, and the first entry whose path contains \<open>path\<close> is \<open>so\<close>.\<close>

definition list_names :: "linker_env \<Rightarrow> nat \<Rightarrow> string \<Rightarrow> addr \<Rightarrow> memory \<Rightarrow> bool" where
  "list_names env d path so mem \<longleftrightarrow>
     (\<exists>xs. linked mem (8 * d) (le_head env) (le_head env # le_somain env # xs)
        \<and> (case find (path_matches env mem path) (le_head env # le_somain env # xs) of Some item \<Rightarrow> item | None \<Rightarrow> 0) = so)
     \<and> (\<forall>k < d. \<exists>w. read_uintptr64 mem (le_head env + of_nat (8 * k)) = Inr w \<and> w \<noteq> le_somain env)"

lemma get_so_info_lists:
  assumes "linker_ready env l" and "d < 128" and "list_names env d path so mem"
  shows "Linker_get_so_info env mem path l = Some (Inr (so, l\<lparr>solist_head := le_head env, somain := le_somain env\<rparr>))"
  using assms(3) get_so_info_linked [OF assms(1,2), of mem] by (auto simp: list_names_def)

lemma linker_ready_again: "linker_ready env l \<Longrightarrow> linker_ready env (l\<lparr>solist_head := le_head env, somain := le_somain env\<rparr>)"
  by (simp add: linker_ready_def)

section \<open>The loop behind the original\<close>

lemma dlopen_post_calls:
  assumes "d < 128" and "\<And>ev mem. \<exists>mem'. eff ev mem = Inr mem'"
    and "\<And>cb data mem mem'. list_names env d path so mem \<Longrightarrow>
      eff (MonitorCallback cb path DLOPEN_POST so data) mem = Inr mem' \<Longrightarrow> list_names env d path so mem'"
    and "linker_ready env l" and "list_names env d path so (fst st)"
  shows "\<exists>l' mem' es. dlopen_post env eff path ms (l, st) = Some (Inr (l', mem', snd st @ es))
    \<and> map fst es = callbacks ms DLOPEN_POST DLOPEN_POST path so"
  using assms(4,5)
proof (induction ms arbitrary: l st)
  case Nil
  then show ?case by (cases st) (simp add: callbacks_def)
next
  case (Cons m ms)
  obtain name type callback data where m: "m = (name, type, callback, data)" by (cases m)
  show ?case
  proof (cases "type = DLOPEN_POST \<and> name \<noteq> [] \<and> str_contains path name")
    case False
    then show ?thesis using Cons.IH [OF Cons.prems] by (auto simp: m callbacks_Cons)
  next
    case True
    let ?l = "l\<lparr>solist_head := le_head env, somain := le_somain env\<rparr>"
    note found = get_so_info_lists [OF Cons.prems(1) assms(1) Cons.prems(2)] and ready = linker_ready_again [OF Cons.prems(1)]
    show ?thesis
    proof (cases "callback = 0")
      case c: True
      then show ?thesis using Cons.IH [OF ready Cons.prems(2)] True found by (simp add: m callbacks_Cons)
    next
      case c: False
      let ?ev = "MonitorCallback callback path DLOPEN_POST so data"
      obtain mem1 where mem1: "eff ?ev (fst st) = Inr mem1" using assms(2) by blast
      have "list_names env d path so (fst (mem1, snd st @ [(?ev, fst st)]))"
        using assms(3) [OF Cons.prems(2) mem1] by simp
      from Cons.IH [OF ready this] True c found mem1 show ?thesis
        by (fastforce simp: m callbacks_Cons run_call_def)
    qed
  qed
qed

section \<open>Properties\<close>

text \<open>
  C10: loading a library under the hook. If the calls return, and the original and the
  callbacks behind it leave a list of the linker that ends, then the load returns what the
  original returns; first the monitors for the load are told, in the order of registration and without a
  library, then the original is called, once, then the monitors behind the load are told, each with the
  entry of the list that the path names. A load without a path is passed through.
\<close>

theorem dlopen_order:
  assumes "d < 128" and "linker_ready env l" and "\<And>ev mem. \<exists>mem'. eff ev mem = Inr mem'"
    and "\<And>mem mem'. eff (OrigDlopen (Some path)) mem = Inr mem' \<Longrightarrow> list_names env d path so mem'"
    and "\<And>cb data mem mem'. list_names env d path so mem \<Longrightarrow>
      eff (MonitorCallback cb path DLOPEN_POST so data) mem = Inr mem' \<Longrightarrow> list_names env d path so mem'"
  shows "(\<exists>l' mem' log. do_dlopen env eff handle ms l (Some path) (mem, []) = Some (Inr (handle, l', mem', log))
      \<and> map fst log = callbacks ms DLOPEN DLOPEN path 0 @ OrigDlopen (Some path) # callbacks ms DLOPEN_POST DLOPEN_POST path so)
    \<and> (\<exists>mem'. do_dlopen env eff handle ms l None (mem, []) = Some (Inr (handle, l, mem', [(OrigDlopen None, mem)])))"
proof
  have tame: "tame eff {}" using assms(3) by (auto simp: tame_def keeps_def)
  obtain st1 where st1: "notify eff ms DLOPEN DLOPEN path 0 (mem, []) = Inr st1"
    "ran {} (callbacks ms DLOPEN DLOPEN path 0) (mem, []) st1" using notify_ran [OF tame] .
  obtain mem2 where mem2: "eff (OrigDlopen (Some path)) (fst st1) = Inr mem2" using assms(3) by blast
  let ?st2 = "(mem2, snd st1 @ [(OrigDlopen (Some path), fst st1)])"
  have "list_names env d path so (fst ?st2)" using assms(4) [OF mem2] by simp
  have "\<exists>l' mem' es. dlopen_post env eff path ms (l, ?st2) = Some (Inr (l', mem', snd ?st2 @ es))
      \<and> map fst es = callbacks ms DLOPEN_POST DLOPEN_POST path so"
    by (rule dlopen_post_calls [OF assms(1,3) _ assms(2)]) (use assms(5) \<open>list_names env d path so (fst ?st2)\<close> in blast)+
  then obtain l' mem' es where post: "dlopen_post env eff path ms (l, ?st2) = Some (Inr (l', mem', snd ?st2 @ es))"
    and es: "map fst es = callbacks ms DLOPEN_POST DLOPEN_POST path so" by blast
  show "\<exists>l' mem' log. do_dlopen env eff handle ms l (Some path) (mem, []) = Some (Inr (handle, l', mem', log))
      \<and> map fst log = callbacks ms DLOPEN DLOPEN path 0 @ OrigDlopen (Some path) # callbacks ms DLOPEN_POST DLOPEN_POST path so"
    using st1 mem2 post es by (auto simp: do_dlopen_def run_call_def ran_def)
  show "\<exists>mem'. do_dlopen env eff handle ms l None (mem, []) = Some (Inr (handle, l, mem', [(OrigDlopen None, mem)]))"
    using assms(3) [of "OrigDlopen None" mem] by (auto simp: do_dlopen_def run_call_def)
qed

text \<open>The original puts a third entry into the list.\<close>

definition demo_dlopen_effect :: effect where
  "demo_dlopen_effect ev mem = (case ev of OrigDlopen _ \<Rightarrow> Inr demo_memory | _ \<Rightarrow> Inr mem)"

theorem dlopen_order_witness:
  "\<exists>l' mem' log. do_dlopen demo_list_env demo_dlopen_effect 0x77
      [(''libc'', DLOPEN_POST, 0x900, 1), (''lib'', DLOPEN, 0x901, 2)] (Linker_new demo_list_env no_linker) (Some ''libc.so'') (\<lambda>_. None, [])
      = Some (Inr (0x77, l', mem', log))
    \<and> map fst log = [MonitorCallback 0x901 ''libc.so'' DLOPEN 0 2, OrigDlopen (Some ''libc.so''),
        MonitorCallback 0x900 ''libc.so'' DLOPEN_POST 0x3000 1]"
proof -
  let ?ms = "[(''libc'', DLOPEN_POST, 0x900, 1), (''lib'', DLOPEN, 0x901, 2)] :: monitor list"
  have words: "read_uintptr64 demo_memory 0x1008 = Inr 0x2000" "read_uintptr64 demo_memory 0x2008 = Inr 0x3000"
    "read_uintptr64 demo_memory 0x3008 = Inr 0" "read_uintptr64 demo_memory 0x1000 = Inr 0"
    unfolding read_word_bytes by (simp_all add: demo_memory_def)
  have "find (path_matches demo_list_env demo_memory ''libc.so'') [0x1000, 0x2000, 0x3000] = Some 0x3000" by code_simp
  then have "list_names demo_list_env 1 ''libc.so'' 0x3000 demo_memory"
    using words by (auto simp: list_names_def demo_list_env_def intro: exI [of _ "[0x3000]"])
  moreover have "linker_ready demo_list_env (Linker_new demo_list_env no_linker)"
    by (simp add: linker_ready_def Linker_new_def demo_list_env_def no_linker_def resolve_def Let_def)
  moreover have "callbacks ?ms DLOPEN DLOPEN ''libc.so'' 0 = [MonitorCallback 0x901 ''libc.so'' DLOPEN 0 2]"
    "callbacks ?ms DLOPEN_POST DLOPEN_POST ''libc.so'' 0x3000 = [MonitorCallback 0x900 ''libc.so'' DLOPEN_POST 0x3000 1]"
    by (simp_all add: callbacks_def str_contains_def)
  ultimately show ?thesis
    using dlopen_order [of 1 demo_list_env "Linker_new demo_list_env no_linker" demo_dlopen_effect "''libc.so''" "0x3000" "0x77" ?ms "\<lambda>_. None"]
    by (auto simp: demo_dlopen_effect_def split: linker_event.splits)
qed

end
