(* ===== verification/Core_Helpers.thy ===== *)
theory Core_Helpers
  imports Linker_List
begin

text \<open>
  The two small helpers of \<^verbatim>\<open>core\<close>: \<^verbatim>\<open>java_helper.cpp\<close>, the private directory of the
  application, and \<^verbatim>\<open>back_trace_manager.cpp\<close>, the lines of a back trace. The text of the command
  line after \<^verbatim>\<open>trim\<close>, the frames that the unwinder collects for a depth, and its formatting of a
  frame are arguments.
\<close>

section \<open>The directory of the application\<close>

definition get_sandbox_root :: "string \<Rightarrow> string" where
  "get_sandbox_root line =
     (case find_sub '':'' line of
        Some k \<Rightarrow> ''/data/data/'' @ take k line @ ''/''
      | None \<Rightarrow> ''/data/data/'' @ line @ ''/'')"

text \<open>A process of an application is named after it with a suffix; all have one directory.\<close>

lemma find_sub_colon: "CHR '':'' \<notin> set s \<Longrightarrow> find_sub '':'' (s @ CHR '':'' # t) = Some (length s)"
  by (induction s) auto

lemma sandbox_of_process:
  assumes "CHR '':'' \<notin> set package"
  shows "get_sandbox_root (package @ CHR '':'' # suffix) = get_sandbox_root package"
  using assms by (simp add: get_sandbox_root_def find_sub_colon find_sub_none)

section \<open>Back traces\<close>

record frame =
  fr_pc :: addr
  fr_map_name :: string
  fr_func_name :: string

text \<open>
  \<open>update\<close>: the name of the library that xDL knows replaces that of the unwinder; the name of a
  function is only filled in.
\<close>

definition name_frame :: "linker_env \<Rightarrow> frame \<Rightarrow> frame" where
  "name_frame env f =
     (let (dli_fname, dli_sname) = xdl_addr env (fr_pc f);
          f = (case dli_fname of Some n \<Rightarrow> f\<lparr>fr_map_name := n\<rparr> | None \<Rightarrow> f)
      in (case dli_sname of
            Some n \<Rightarrow> if fr_func_name f = [] then f\<lparr>fr_func_name := n\<rparr> else f
          | None \<Rightarrow> f))"

definition CallStack_update :: "linker_env \<Rightarrow> (int \<Rightarrow> frame list) \<Rightarrow> (frame \<Rightarrow> string) \<Rightarrow> int \<Rightarrow> string list" where
  "CallStack_update env unwind FormatFrameData ignoreDepth =
     fold (\<lambda>f lines. lines @ [FormatFrameData (name_frame env f)]) (unwind ignoreDepth) []"

text \<open>The two constructors.\<close>

definition CallStack_new :: "linker_env \<Rightarrow> (int \<Rightarrow> frame list) \<Rightarrow> (frame \<Rightarrow> string) \<Rightarrow> string list" where
  "CallStack_new env unwind FormatFrameData = CallStack_update env unwind FormatFrameData 6"

definition CallStack_new_depth ::
  "linker_env \<Rightarrow> (int \<Rightarrow> frame list) \<Rightarrow> (frame \<Rightarrow> string) \<Rightarrow> int \<Rightarrow> string list" where
  "CallStack_new_depth env unwind FormatFrameData ignoreDepth =
     CallStack_update env unwind FormatFrameData (ignoreDepth + 1)"

definition get_backtrace_lines :: "linker_env \<Rightarrow> (int \<Rightarrow> frame list) \<Rightarrow> (frame \<Rightarrow> string) \<Rightarrow> string list" where
  "get_backtrace_lines env unwind FormatFrameData = CallStack_new env unwind FormatFrameData"

definition print_backtrace :: "linker_env \<Rightarrow> (int \<Rightarrow> frame list) \<Rightarrow> (frame \<Rightarrow> string) \<Rightarrow> string list" where
  "print_backtrace env unwind FormatFrameData =
     [''--------------------------------------------stack frame--------------------------------------------'']
     @ map (\<lambda>line. ''| '' @ line) (get_backtrace_lines env unwind FormatFrameData)
     @ [''---------------------------------------------------------------------------------------------------'']"

lemma CallStack_update_lines: "CallStack_update env unwind fmt d = map (fmt \<circ> name_frame env) (unwind d)"
proof -
  have "fold (\<lambda>f lines. lines @ [fmt (name_frame env f)]) fs acc = acc @ map (fmt \<circ> name_frame env) fs" for fs acc
    by (induction fs arbitrary: acc) simp_all
  then show ?thesis by (simp add: CallStack_update_def)
qed

lemma backtrace_lines:
  "get_backtrace_lines env unwind fmt = map (fmt \<circ> name_frame env) (unwind 6)"
  "CallStack_new_depth env unwind fmt 5 = get_backtrace_lines env unwind fmt"
  by (simp_all add: get_backtrace_lines_def CallStack_new_def CallStack_new_depth_def CallStack_update_lines)

lemma name_frame_keeps:
  "fr_pc (name_frame env f) = fr_pc f"
  "fr_func_name f \<noteq> [] \<Longrightarrow> fr_func_name (name_frame env f) = fr_func_name f"
  by (simp_all add: name_frame_def Let_def split: prod.split option.split)

end
