(* ===== verification/Traced_Libraries.thy ===== *)
theory Traced_Libraries
  imports So_Library Dispatch_Manager
begin

text \<open>
  Libraries and dispatchers together: the dispatchers take the ranges, symbols and exports of
  \<^verbatim>\<open>libc.so\<close>, \<^verbatim>\<open>libz.so\<close> and \<^verbatim>\<open>libart.so\<close> from \<open>Library\<close>, which takes the ranges from the structures
  of the Android linker.
\<close>

section \<open>Model\<close>

text \<open>
  What the constructors of the dispatchers ask of a library. \<open>exports\<close> is the enumeration of
  xDL for a handle; \<open>None\<close> is the null pointer that \<open>find_library\<close> returns.
\<close>

definition library_view ::
  "linker_env \<Rightarrow> (addr \<Rightarrow> (string option \<times> addr) list) \<Rightarrow> memory \<Rightarrow> string \<Rightarrow> Linker
   \<Rightarrow> (Library_view option \<times> Linker) run" where
  "library_view env exports mem name l =
     (case find_library env name of
        None \<Rightarrow> Some (Inr (None, l))
      | Some lib \<Rightarrow>
          bind_run (get_library_range env mem lib l) (\<lambda>(r, lib, l).
            Some (Inr (Some \<lparr>lib_start = r_start r, lib_end = r_end r, find_symbol = Library_find_symbol env lib,
                             lib_exports = exports (lb_handler lib)\<rparr>, l))))"

text \<open>The constructor of the dispatch manager makes the three dispatchers.\<close>

definition open_dispatchers ::
  "linker_env \<Rightarrow> (addr \<Rightarrow> (string option \<times> addr) list) \<Rightarrow> (string \<Rightarrow> addr) \<Rightarrow> memory \<Rightarrow> Linker
   \<Rightarrow> (InstructionDispatchManager \<times> Linker) run" where
  "open_dispatchers env exports fun_table mem l =
     bind_run (library_view env exports mem ''libc.so'' l) (\<lambda>(libc, l).
     bind_run (library_view env exports mem ''libz.so'' l) (\<lambda>(libz, l).
     bind_run (library_view env exports mem ''libart.so'' l) (\<lambda>(libart, l).
       Some (map_result (\<lambda>dm. (dm, l)) (InstructionDispatchManager_new libc libz fun_table libart)))))"

section \<open>Lemmas\<close>

lemma bind_run_eq: "bind_run m f = Some (Inr y) \<longleftrightarrow> (\<exists>x. m = Some (Inr x) \<and> f x = Some (Inr y))"
  by (auto simp: bind_run_def split: option.split sum.split)

lemma get_load_bias_handle:
  assumes "lb_handler lib \<noteq> 0" and "get_load_bias env mem lib l = Some (Inr (b, lib', l'))"
  shows "lib' = lib" "l' = l" "read_uintptr64 mem (lb_handler lib + 8) = Inr b"
  using assms by (auto simp: get_load_bias_def xdl_load_bias map_result_eq_Inr)

lemma find_library_handle: "find_library env name = Some lib \<Longrightarrow> lb_handler lib \<noteq> 0"
  by (auto simp: find_library_def Let_def split: if_splits)

text \<open>On a level without a known structure the range of a library has no length.\<close>

lemma view_unknown:
  assumes "soinfo_struct (api_level env) = None" and "library_view env exports mem name l = Some (Inr (Some m, l'))"
  shows "lib_end m = lib_start m"
proof -
  obtain lib r lib1 where lib: "find_library env name = Some lib"
    and r: "get_library_range env mem lib l = Some (Inr (r, lib1, l'))" "m = \<lparr>lib_start = r_start r, lib_end = r_end r,
      find_symbol = Library_find_symbol env lib1, lib_exports = exports (lb_handler lib1)\<rparr>"
    using assms(2) by (auto simp: library_view_def bind_run_eq split: option.splits)
  note handle = find_library_handle [OF lib]
  obtain b lib2 l2 where b: "get_load_bias env mem lib l = Some (Inr (b, lib2, l2))"
    using r(1) by (auto simp: get_library_range_def bind_run_eq)
  have b': "get_load_bias env mem lib l = Some (Inr (b, lib, l))" using get_load_bias_handle [OF handle b] b by simp
  have "get_library_size env mem lib l = Some (Inr (n, lib3, l3)) \<Longrightarrow> n = 0" for n lib3 l3
    using assms(1) by (auto simp: get_library_size_def read_soinfo_def bind_run_eq)
  then have "r = Range_new b b" using r(1) by (auto simp: get_library_range_def b' bind_run_eq)
  then show ?thesis by (simp add: r(2) Range_new_def)
qed

lemma InstructionDispatchManager_new_modules:
  assumes "InstructionDispatchManager_new libc libz fun_table libart = Inr dm"
  obtains mc mz ma where "libc = Some mc" "libz = Some mz" "libart = Some ma"
    "\<And>a. is_module_address (fst (dm_libc dm)) a \<longleftrightarrow> lib_start mc \<le> a \<and> a \<le> lib_end mc"
    "\<And>a. is_module_address (fst (dm_libz dm)) a \<longleftrightarrow> lib_start mz \<le> a \<and> a \<le> lib_end mz"
    "\<And>a. is_module_address (fst (dm_jni dm)) a \<longleftrightarrow> lib_start ma \<le> a \<and> a \<le> lib_end ma"
proof -
  obtain lc lz j where new: "DispatchLibc_new libc = Inr lc" "DispatchLibz_new libz = Inr lz"
    "DispatchJNIEnv_new fun_table libart = Inr j"
    and dm: "dm = \<lparr>dm_syscall = \<lparr>captured_frame = None\<rparr>, dm_libc = lc, dm_libz = lz, dm_jni = j\<rparr>"
    using assms by (auto simp: InstructionDispatchManager_new_def bind_result_eq_Inr map_result_eq_Inr)
  obtain mc where mc: "libc = Some mc" using new(1) by (cases libc) (auto simp: DispatchLibc_new_def)
  obtain mz where mz: "libz = Some mz" using new(2) by (cases libz) (auto simp: DispatchLibz_new_def)
  obtain ma where ma: "libart = Some ma" using new(3) by (cases libart) (auto simp: DispatchJNIEnv_new_def Let_def)
  show ?thesis
    using that [OF mc mz ma] DispatchLibc_new_tables(3) DispatchLibz_new_tables(2) DispatchJNIEnv_new_tables(2) new
    unfolding mc mz ma by (simp add: dm)
qed

text \<open>A call into none of the modules passes all dispatchers.\<close>

lemma dispatch_passes:
  assumes "fun_call info = Some c" and "\<not> is_svc c" and "\<not> is_module_address (fst (dm_libc dm)) (fun_address c)"
    and "\<not> is_module_address (fst (dm_libz dm)) (fun_address c)" and "\<not> is_module_address (fst (dm_jni dm)) (fun_address c)"
  shows "dispatch_manager_args env mem frame dm info = Inr (False, dm, info)"
    "dispatch_manager_ret env mem dm info ret = Inr (False, info)"
  using assms
  by (simp_all add: dispatch_manager_args_def dispatch_manager_ret_def is_svc_call_def
      libc.args_outside libz.args_outside jni.args_outside libc.ret_outside libz.ret_outside jni.ret_outside)

section \<open>Properties\<close>

text \<open>
  C11: on a level of Android without a known structure, which level 32 is, tracing goes on but
  no call into libc, libz or libart is reported any more: whatever the libraries are, every
  call whose target is not the very load address of one of them passes all dispatchers
  unchanged, at the call and at its return.
\<close>

theorem unknown_level_reports_nothing:
  assumes "api_level env \<notin> {29, 30, 31, 33, 34, 35}"
    and "open_dispatchers env exports fun_table mem l = Some (Inr (dm, l'))"
    and "fun_call info = Some c" and "\<not> is_svc c"
    and "fun_address c \<notin> {mr_base (d_module_range (fst (dm_libc dm))), mr_base (d_module_range (fst (dm_libz dm))),
      mr_base (d_module_range (fst (dm_jni dm)))}"
  shows "dispatch_manager_args denv mem' frame dm info = Inr (False, dm, info)
    \<and> dispatch_manager_ret denv mem' dm info ret = Inr (False, info)"
proof -
  have none: "soinfo_struct (api_level env) = None" using assms(1) by (simp add: soinfo_struct_def)
  obtain vc l1 vz l2 va where views: "library_view env exports mem ''libc.so'' l = Some (Inr (vc, l1))"
    "library_view env exports mem ''libz.so'' l1 = Some (Inr (vz, l2))"
    "library_view env exports mem ''libart.so'' l2 = Some (Inr (va, l'))"
    "InstructionDispatchManager_new vc vz fun_table va = Inr dm"
    using assms(2) by (auto simp: open_dispatchers_def bind_run_eq map_result_eq_Inr)
  obtain mc mz ma where m: "vc = Some mc" "vz = Some mz" "va = Some ma"
    "\<And>a. is_module_address (fst (dm_libc dm)) a \<longleftrightarrow> lib_start mc \<le> a \<and> a \<le> lib_end mc"
    "\<And>a. is_module_address (fst (dm_libz dm)) a \<longleftrightarrow> lib_start mz \<le> a \<and> a \<le> lib_end mz"
    "\<And>a. is_module_address (fst (dm_jni dm)) a \<longleftrightarrow> lib_start ma \<le> a \<and> a \<le> lib_end ma"
    by (rule InstructionDispatchManager_new_modules [OF views(4)]) blast
  have ends: "lib_end mc = lib_start mc" "lib_end mz = lib_start mz" "lib_end ma = lib_start ma"
    using view_unknown [OF none] views(1-3) m(1-3) by auto
  have point: "is_module_address d a \<Longrightarrow> a = mr_base (d_module_range d)"
    if "\<And>a. is_module_address d a \<longleftrightarrow> b \<le> a \<and> a \<le> b" for d a b
    using that [of a] that [of b] that [of "mr_base (d_module_range d)"]
    by (force simp: is_module_address_iff)
  have "\<not> is_module_address (fst (dm_libc dm)) (fun_address c)" "\<not> is_module_address (fst (dm_libz dm)) (fun_address c)"
    "\<not> is_module_address (fst (dm_jni dm)) (fun_address c)"
    using point [of "fst (dm_libc dm)" "lib_start mc"] point [of "fst (dm_libz dm)" "lib_start mz"]
      point [of "fst (dm_jni dm)" "lib_start ma"] m(4-6) ends assms(5) by auto
  then show ?thesis using dispatch_passes [OF assms(3,4)] by blast
qed

definition demo_level_env :: linker_env where
  "demo_level_env = demo_linker_env\<lparr>api_level := 32, xdl_open := (\<lambda>_. 0x100)\<rparr>"

theorem unknown_level_reports_nothing_witness:
  "\<exists>dm. open_dispatchers demo_level_env (\<lambda>_. []) demo_fun_table (\<lambda>_. Some 1) no_linker = Some (Inr (dm, no_linker))
    \<and> dispatch_manager_args \<lparr>env_NR = (\<lambda>_. 0), env_PR = (\<lambda>_. 0), env_jvm = demo_jvm\<rparr> (\<lambda>_. None) 0 dm (call_at 0x9000)
        = Inr (False, dm, call_at 0x9000)"
proof -
  let ?v = "\<lambda>name. \<lparr>lib_start = 0x0101010101010101, lib_end = 0x0101010101010101,
    find_symbol = Library_find_symbol demo_level_env \<lparr>lb_handler = 0x100, lb_so_info = 0, lb_library_name = name\<rparr>, lib_exports = []\<rparr>"
  have "read_uintptr64 (\<lambda>_. Some 1) a = Inr 0x0101010101010101" for a
    unfolding read_word_bytes by simp
  then have view: "library_view demo_level_env (\<lambda>_. []) (\<lambda>_. Some 1) name no_linker = Some (Inr (Some (?v name), no_linker))" for name
    by (simp add: library_view_def find_library_def Library_new_def demo_level_env_def demo_linker_env_def Let_def
        get_library_range_def get_load_bias_def get_library_size_def read_soinfo_def Library_get_so_info_def
        Linker_get_so_info_def no_linker_def soinfo_struct_def Range_new_def)
  obtain lc where lc: "DispatchLibc_new (Some (?v ''libc.so'')) = Inr lc" by (simp add: DispatchLibc_new_def Let_def)
  obtain lz where lz: "DispatchLibz_new (Some (?v ''libz.so'')) = Inr lz" by (simp add: DispatchLibz_new_def Let_def)
  obtain j where j: "DispatchJNIEnv_new demo_fun_table (Some (?v ''libart.so'')) = Inr j"
    by (simp add: DispatchJNIEnv_new_def Let_def)
  let ?dm = "\<lparr>dm_syscall = \<lparr>captured_frame = None\<rparr>, dm_libc = lc, dm_libz = lz, dm_jni = j\<rparr>"
  have op: "open_dispatchers demo_level_env (\<lambda>_. []) demo_fun_table (\<lambda>_. Some 1) no_linker = Some (Inr (?dm, no_linker))"
    by (simp add: open_dispatchers_def view InstructionDispatchManager_new_def lc lz j)
  have base: "mr_base (d_module_range (fst lc)) = 0x0101010101010101" "mr_base (d_module_range (fst lz)) = 0x0101010101010101"
    "mr_base (d_module_range (fst j)) = 0x0101010101010101"
    using lc lz j by (auto simp: DispatchLibc_new_def DispatchLibz_new_def DispatchJNIEnv_new_def Let_def export_range)
  show ?thesis
    using op unknown_level_reports_nothing [OF _ op, of "call_at 0x9000" "inst_fun_call_new\<lparr>fun_address := 0x9000\<rparr>"
        "\<lparr>env_NR = (\<lambda>_. 0), env_PR = (\<lambda>_. 0), env_jvm = demo_jvm\<rparr>" "\<lambda>_. None" 0] base
    by (auto simp: demo_level_env_def inst_fun_call_new_def)
qed

end
