(* ===== verification/Spec2Isabelle.thy ===== *)
theory Spec2Isabelle
  imports Range_Set Proc_Maps Scan_Spec Vector_Registers Handler_Types Tracer_States Dlopen_Order Core_Helpers Traced_Libraries
begin

text \<open>
  Verification of the QBDI instruction tracer for Android.

  The tracer runs a function of a native library inside the QBDI virtual machine. Before and
  after every instruction the machine calls back; the tracer records registers, memory
  accesses, function calls and system calls, and writes one line per recorded instruction to
  logcat and to a file. The arm64 build is modelled (for the system call table also arm).

  \<^bold>\<open>Parts and theories.\<close>
  \<^item> \<open>Tracer_Prelude\<close>: machine types, the error values, number formatting,
    \<^verbatim>\<open>std::lower_bound\<close>.
  \<^item> \<open>Range_Set\<close>: \<^verbatim>\<open>core/range.h\<close>, ranges and sorted range vectors. The contract of a set of
    points under add and remove is the locale \<open>interval_set\<close>; the vector implements it.
  \<^item> \<open>Trace_Common\<close>: \<^verbatim>\<open>trace/common.h\<close>, the record of an instruction and of a call, and reads
    of the traced memory.
  \<^item> \<open>Dispatch_Base\<close>, \<open>Handler_Facts\<close>: \<^verbatim>\<open>trace/dispatch/dispatch_base.cpp\<close> and the statements
    that the handlers consist of, with their interpreter.
  \<^item> \<open>Syscall_Table_Arm64\<close>, \<open>Syscall_Table_Arm\<close>, \<open>Dispatch_Syscall\<close>:
    \<^verbatim>\<open>trace/dispatch/dispatch_syscall.cpp\<close>. A row of the table is a value: number, name and
    the statements of its closure.
  \<^item> \<open>Libc_Table\<close>, \<open>Dispatch_Libc\<close>: \<^verbatim>\<open>dispatch_libc.cpp\<close>, \<^verbatim>\<open>dispatch_libz.cpp\<close>; the locale
    \<open>dispatcher\<close> states what the dispatch manager relies on.
  \<^item> \<open>Jni_Internal\<close>, \<open>Jni_Table\<close>, \<open>Dispatch_Jni\<close>: \<^verbatim>\<open>jni_internal.cpp\<close>,
    \<^verbatim>\<open>dispatch_jni_env.cpp\<close>.
  \<^item> \<open>Dispatch_Manager\<close>: \<^verbatim>\<open>trace/instruction_dispatch_manager.cpp\<close>, the routing.
  \<^item> \<open>Hex_Dump\<close>, \<open>Memory_Manager\<close>: \<^verbatim>\<open>hex_dump.cpp\<close> and \<^verbatim>\<open>memory_manager.cpp\<close>, the recorded heap
    blocks and their dump.
  \<^item> \<open>Handler_Types\<close>: the rows of the arm64 table against the interface of the kernel: which
    parameters are strings there, and which of them a row reads as a string.
  \<^item> \<open>Logger_Manager\<close>: \<^verbatim>\<open>logger_manager.cpp\<close>, sinks and the text of a line.
  \<^item> \<open>Vector_Registers\<close>: the views of the vector registers in \<^verbatim>\<open>trace/common.h\<close> and the
    enumeration of their places.
  \<^item> \<open>Info_Manager\<close>, \<open>Register_Utils\<close>, \<open>Tracer_Manager\<close>: \<^verbatim>\<open>instruction_info_manager.cpp\<close>,
    \<^verbatim>\<open>instruction_register_utils.cpp\<close>, \<^verbatim>\<open>instruction_tracer_manager.cpp\<close> and
    \<^verbatim>\<open>instruction_call_back.cpp\<close>: the pending records, the recorded ranges, the callbacks. The
    context that a hook gets is what the bridge of Dobby saves (\<^verbatim>\<open>closure_bridge_arm64.cc\<close>).
  \<^item> \<open>Trace_Run\<close>: sequences of callbacks as the virtual machine makes them, composed from the
    definitions above; the abstract view of a run.
  \<^item> \<open>Tracer_States\<close>: the tracer as a state machine, every operation and every callback a step of
    the inductive relation \<open>tracer_step\<close>; the invariant of its reachable states.
  \<^item> \<open>Memory_Scan\<close>: \<^verbatim>\<open>core/memory_scan.cpp\<close>, patterns and the search for them, in place and
    in a thread.
  \<^item> \<open>Scan_Spec\<close>: the remaining entry points of the scan, and what a scan tells its callback, as
    a list over the positions of the region.
  \<^item> \<open>Proc_Maps\<close>: \<^verbatim>\<open>core/memory.cpp\<close>, the memory map of a process, with the bit mask
    operators of \<^verbatim>\<open>core/common.h\<close>.
  \<^item> \<open>Linker_List\<close>, \<open>So_Library\<close>, \<open>Linker_Hook\<close>: \<^verbatim>\<open>core/linker.cpp\<close>, \<^verbatim>\<open>core/library.cpp\<close>,
    \<^verbatim>\<open>core/hook_manager.cpp\<close>: the list of the Android linker, its private structures as bytes in
    memory, the hooks that run constructors between the callbacks of monitors. The locale
    \<open>word_store\<close> states what the hooks rely on in memory, \<open>install_once\<close> the contract that
    both hooks of the linker keep.
  \<^item> \<open>Dlopen_Order\<close>: the sequence of calls when a library is loaded under the hook.
  \<^item> \<open>Traced_Libraries\<close>: the dispatchers over the libraries, from the structures of the
    linker to the routing of a call.
  \<^item> \<open>Core_Helpers\<close>: \<^verbatim>\<open>core/java_helper.cpp\<close>, \<^verbatim>\<open>core/back_trace_manager.cpp\<close>.

  \<^bold>\<open>Correspondence.\<close> A class is a record, a method a function from the record (and its
  arguments) to the result and the new record. Reads of the traced process go through a
  \<open>memory\<close>, which is partial: an address that is not mapped gives the error value \<open>SegFault\<close>.
  A null pointer that is used, an exception and \<^verbatim>\<open>at\<close> out of range are error values too, so
  that every path on which a function does not return is a value of the model. Addresses and
  registers are 64-bit words (32-bit for arm).

  \<^bold>\<open>What is shown.\<close> For a run: the log lists the recorded instructions, in order, up to the
  delay of calls (\<open>Trace_Run\<close>); on code without calls and system calls, with a block
  manager, it never faults, so that there the log is complete; what a system call outside of the
  recorded ranges does. For the tracer: an invariant of all states that its operations reach in any
  order, also with a null analysis, which only the record of a system call can hold; what they never take back, which addresses are recorded, the module
  ranges of the init functions, which registers reach the virtual machine from a hook. For the dispatchers: every
  row of the tables reports the registers in the order of the parameters, except rows that
  are named; a system call runs without a fault exactly on strings where the kernel has
  strings, except rows that are named; fallbacks; exactly which calls are recorded as allocations and
  releases; the routing of calls and of returns. For the heap
  blocks: unique indices, soundness of the lookup, a round trip of allocation and release. For the dump: the
  reused line buffer shows what a direct formatter shows. For the vector registers: a register of
  a name is the low part of the vector of its number, as the logger prints it. For range sets: the vector denotes
  the set that the history of operations defines, and the queries answer for it (an empty
  range counts as overlapping). For patterns:
  parsing what was printed, exactly which addresses a scan tells its callback (the occurrences of
  the needle, found from the left without overlaps, where the first and last tokens around it
  match; a match of the whole pattern is missed when its needle overlaps an earlier occurrence), and
  that a thread, once made, sees what a scan in place sees. For the memory map: reading what the kernel prints. For the linker: the search for a
  library ends and finds the first match, setters and getters of the structures are inverse
  and touch nothing else, constructors run once and in order under the hook, the monitors of a
  load are told before and behind the original, and what an
  unknown level of Android does to the dispatchers.

  \<^bold>\<open>Arguments of the model.\<close> The sources of the following are not in the repository, hence
  they are arguments: the virtual machine (\<open>vm_call\<close>, \<open>vm_state\<close>; of QBDI the repository has the
  archive \<^verbatim>\<open>prebuild/arm64/QBDI-0.11.1.arm64.zip\<close> with a binary and its headers), the Java virtual machine (\<open>jvm\<close>), the numbers of the system calls
  (\<open>env_NR\<close>), the exported symbols of libraries (\<open>Library_view\<close>), the iteration of the
  allocator over its blocks (\<open>heap_env\<close>), the file system (\<open>file_env\<close>), the address of the
  stack frame of a dispatch, xDL and the Android linker (\<open>linker_env\<close>), the effects of code that
  is called through pointers (\<open>effect\<close>), whether \<^verbatim>\<open>pthread_create\<close> makes a thread, the unwinder.
  Two assumptions about QBDI are built into the model. The analysis that a record keeps is a
  value: the code keeps a pointer into the analyses that QBDI caches, which the headers
  guarantee until the end of the callback only. And \<open>run_event\<close> runs the two callbacks before a
  system call, which have equal priorities, in the order of their registration. No fuel is used: all loops are structural
  or have a measure, except the walk over the list of the linker, which follows pointers: it
  is a partial function whose value is \<open>None\<close> when it does not end, and the theorem about it
  shows that it ends.

  \<^bold>\<open>Not modelled.\<close> The code under \<^verbatim>\<open>external\<close> (third-party code: Dobby but for the context its
  bridge saves, xHook, xDL, libcore but for the check of format specifications, smjni, the unwinder) and the examples: it is the code of other projects, and what
  the tracer uses of it is an argument or is modelled where it is used. Log output for the
  developer and time stamps are left out. The 32-bit build is modelled in the system call
  dispatcher only: the tables of the other dispatchers do not depend on it, and the callbacks
  copy registers of arm64. The structure \<^verbatim>\<open>serialize_file\<close> of \<^verbatim>\<open>trace/common.h\<close> is never used.
\<close>

end
